(* ===== verification/Go_Prelude.thy ===== *)
theory Go_Prelude
  imports Main "HOL-Library.Word" "HOL-Library.State_Monad"
begin

text \<open>
  The shared prelude. It fixes how effects of the Go sources are represented and holds the
  lemmas on the state monad that every component uses.

  \<^item> Fixed-width integers are words: \<open>int64\<close>, \<open>int32\<close>, \<open>byte\<close>. Signed comparisons
    are written on \<open>sint\<close>.
  \<^item> An error is a value of \<open>go_error\<close>: the class the Kubernetes error predicates read, and
    the text \<open>err.Error()\<close> returns. A fallible call returns \<open>go_error + 'a\<close>.
  \<^item> A component that talks to the outside (the Kubernetes API, the clock, the file system)
    runs in the state monad over a record of two fields: \<open>world\<close>, of an arbitrary type, which
    the outside owns, and \<open>trace\<close>, the list of the calls the component made so far. Only
    \<open>perform\<close> touches either field: it asks the outside for the reply and appends the call.
  \<^item> \<open>emits P m\<close> states that every call a program makes satisfies \<open>P\<close>, whatever the outside
    replies; \<open>wp m Q s\<close> is the weakest precondition of a run.
\<close>

named_theorems emits_intros \<open>introduction rules for the calls a program makes\<close>
named_theorems go_ops \<open>definitions of the one-call operations\<close>

type_synonym int64 = "64 word"
type_synonym int32 = "32 word"
type_synonym byte = "8 word"

subsection \<open>Errors\<close>

datatype error_reason = NotFound | AlreadyExists | OtherReason

datatype go_error = Err (reason_of: error_reason) (Error: string)

text \<open>\<open>errors.New\<close> and \<open>fmt.Errorf\<close> without a wrapped error; \<open>fmt.Errorf("...: %w", err)\<close>.
  A wrapped error keeps the class of the error inside, which \<open>errors.As\<close> finds.\<close>

definition errorsNew :: "string \<Rightarrow> go_error" where
  "errorsNew msg = Err OtherReason msg"

definition wrapError :: "string \<Rightarrow> go_error \<Rightarrow> go_error" where
  "wrapError prefix e = Err (reason_of e) (prefix @ Error e)"

definition IsNotFound :: "go_error \<Rightarrow> bool" where
  "IsNotFound e \<longleftrightarrow> reason_of e = NotFound"

definition IsAlreadyExists :: "go_error \<Rightarrow> bool" where
  "IsAlreadyExists e \<longleftrightarrow> reason_of e = AlreadyExists"

lemma reason_wrapError [simp]: "reason_of (wrapError p e) = reason_of e"
  by (simp add: wrapError_def)

lemma Is_excl [simp]: "IsNotFound e \<Longrightarrow> \<not> IsAlreadyExists e"
  by (simp add: IsNotFound_def IsAlreadyExists_def)

lemma IsNotFound_Err [simp]: "IsNotFound (Err r m) \<longleftrightarrow> r = NotFound"
  by (simp add: IsNotFound_def)

lemma IsAlreadyExists_Err [simp]: "IsAlreadyExists (Err r m) \<longleftrightarrow> r = AlreadyExists"
  by (simp add: IsAlreadyExists_def)

subsection \<open>Programs over an outside world\<close>

record ('w, 'c) sys =
  world :: 'w
  trace :: "'c list"

type_synonym ('w, 'c, 'a) prog = "(('w, 'c) sys, 'a) state"

definition perform :: "'c \<Rightarrow> ('w \<Rightarrow> 'a \<times> 'w) \<Rightarrow> ('w, 'c, 'a) prog" where
  "perform c f = State (\<lambda>s. case f (world s) of
     (a, w) \<Rightarrow> (a, \<lparr>world = w, trace = trace s @ [c]\<rparr>))"

text \<open>A fallible call of the outside.\<close>

type_synonym ('w, 'a) call = "'w \<Rightarrow> (go_error + 'a) \<times> 'w"

text \<open>Reading something of the world that is not a call (the clock, a random source).\<close>

definition observe :: "('w \<Rightarrow> 'a \<times> 'w) \<Rightarrow> ('w, 'c, 'a) prog" where
  "observe f = State (\<lambda>s. case f (world s) of (a, w) \<Rightarrow> (a, \<lparr>world = w, trace = trace s\<rparr>))"

lemma run_perform [simp]:
  "run_state (perform c f) s =
     (fst (f (world s)), \<lparr>world = snd (f (world s)), trace = trace s @ [c]\<rparr>)"
  by (simp add: perform_def split: prod.splits)

lemma run_observe [simp]:
  "run_state (observe f) s = (fst (f (world s)), \<lparr>world = snd (f (world s)), trace = trace s\<rparr>)"
  by (simp add: observe_def split: prod.splits)

subsection \<open>Weakest preconditions\<close>

definition wp :: "('s, 'a) state \<Rightarrow> ('a \<Rightarrow> 's \<Rightarrow> bool) \<Rightarrow> 's \<Rightarrow> bool" where
  "wp m Q s \<longleftrightarrow> (case run_state m s of (a, t) \<Rightarrow> Q a t)"

lemma wp_return [simp]: "wp (State_Monad.return a) Q s \<longleftrightarrow> Q a s"
  by (simp add: wp_def)

lemma wp_bind [simp]: "wp (State_Monad.bind m f) Q s \<longleftrightarrow> wp m (\<lambda>a. wp (f a) Q) s"
  by (simp add: wp_def split: prod.splits)

lemma wp_perform:
  "wp (perform c f) Q s \<longleftrightarrow>
     Q (fst (f (world s))) \<lparr>world = snd (f (world s)), trace = trace s @ [c]\<rparr>"
  by (simp add: wp_def)

lemma wp_observe:
  "wp (observe f) Q s \<longleftrightarrow>
     Q (fst (f (world s))) \<lparr>world = snd (f (world s)), trace = trace s\<rparr>"
  by (simp add: wp_def)

lemma wp_mono: "wp m Q s \<Longrightarrow> (\<And>a t. Q a t \<Longrightarrow> R a t) \<Longrightarrow> wp m R s"
  by (auto simp: wp_def split: prod.splits)

lemma wp_conj: "wp m Q s \<Longrightarrow> wp m R s \<Longrightarrow> wp m (\<lambda>a t. Q a t \<and> R a t) s"
  by (auto simp: wp_def split: prod.splits)

lemma wp_True [simp]: "wp m (\<lambda>_ _. True) s"
  by (simp add: wp_def split: prod.splits)

lemma wpD: "wp m Q s \<Longrightarrow> run_state m s = (a, t) \<Longrightarrow> Q a t"
  by (simp add: wp_def)

lemma wpI: "(\<And>a t. run_state m s = (a, t) \<Longrightarrow> Q a t) \<Longrightarrow> wp m Q s"
  by (simp add: wp_def split: prod.splits)

subsection \<open>The calls a program makes\<close>

definition emits :: "('c \<Rightarrow> bool) \<Rightarrow> ('w, 'c, 'a) prog \<Rightarrow> bool" where
  "emits P m \<longleftrightarrow> (\<forall>s. \<exists>l. trace (snd (run_state m s)) = trace s @ l \<and> list_all P l)"

lemma emitsI:
  "(\<And>s. \<exists>l. trace (snd (run_state m s)) = trace s @ l \<and> list_all P l) \<Longrightarrow> emits P m"
  by (simp add: emits_def)

lemma emits_run:
  assumes "emits P m" and "run_state m s = (a, t)"
  obtains l where "trace t = trace s @ l" and "list_all P l"
  using assms unfolding emits_def by (metis snd_conv)

lemma emits_from_empty:
  assumes "emits P m" and "run_state m \<lparr>world = w, trace = []\<rparr> = (a, t)"
  shows "list_all P (trace t)"
  using emits_run [OF assms] by simp

lemma emits_mono:
  assumes "emits P m" and "\<And>c. P c \<Longrightarrow> Q c"
  shows "emits Q m"
  using assms unfolding emits_def by (metis (mono_tags, lifting) list.pred_mono_strong)

lemma emits_return [emits_intros]: "emits P (State_Monad.return a)"
  by (simp add: emits_def)

lemma emits_perform [emits_intros]: "P c \<Longrightarrow> emits P (perform c f)"
  by (simp add: emits_def)

lemma emits_observe [emits_intros]: "emits P (observe f)"
  by (simp add: emits_def)

text \<open>\<open>pred_state Q m\<close> of the library: every result of \<open>m\<close> satisfies \<open>Q\<close>.\<close>

lemma pred_state_return: "P a \<Longrightarrow> pred_state P (State_Monad.return a)"
  by (auto intro!: pred_stateI)

lemma pred_state_True: "pred_state (\<lambda>_. True) m"
  by (auto intro!: pred_stateI)

lemma pred_state_perform: "(\<And>w. P (fst (f w))) \<Longrightarrow> pred_state P (perform c f)"
  by (auto intro!: pred_stateI)

lemma pred_state_weaken: "pred_state P m \<Longrightarrow> (\<And>a. P a \<Longrightarrow> Q a) \<Longrightarrow> pred_state Q m"
  by (auto intro!: pred_stateI dest: pred_stateD)

lemma pred_state_case_sum:
  "(\<And>e. r = Inl e \<Longrightarrow> pred_state Q (f e)) \<Longrightarrow> (\<And>x. r = Inr x \<Longrightarrow> pred_state Q (g x)) \<Longrightarrow>
   pred_state Q (case r of Inl e \<Rightarrow> f e | Inr x \<Rightarrow> g x)"
  by (cases r) auto

lemma pred_state_if:
  "(b \<Longrightarrow> pred_state Q m) \<Longrightarrow> (\<not> b \<Longrightarrow> pred_state Q n) \<Longrightarrow> pred_state Q (if b then m else n)"
  by simp

lemma pred_state_bind:
  assumes "pred_state Q m" and "\<And>a. Q a \<Longrightarrow> pred_state P (f a)"
  shows "pred_state P (State_Monad.bind m f)"
proof (rule pred_stateI)
  fix b s u
  assume "run_state (State_Monad.bind m f) s = (b, u)"
  then obtain a t where "run_state m s = (a, t)" "run_state (f a) t = (b, u)"
    by (auto split: prod.splits)
  with assms show "P b" by (metis pred_stateD)
qed

lemma emits_bind_pred:
  assumes "emits P m" and "pred_state Q m" and "\<And>a. Q a \<Longrightarrow> emits P (f a)"
  shows "emits P (State_Monad.bind m f)"
proof (rule emitsI)
  fix s
  obtain a t where m: "run_state m s = (a, t)" by fastforce
  with assms(2) have "Q a" by (rule pred_stateD)
  from assms(1) m obtain l where l: "trace t = trace s @ l" "list_all P l"
    by (rule emits_run)
  obtain b u where f: "run_state (f a) t = (b, u)" by fastforce
  with assms(3) [OF \<open>Q a\<close>] obtain k where "trace u = trace t @ k" "list_all P k"
    by (rule emits_run)
  with m l f show "\<exists>l. trace (snd (run_state (State_Monad.bind m f) s)) = trace s @ l \<and> list_all P l"
    by (intro exI [of _ "l @ k"]) simp
qed

lemma emits_bind [emits_intros]:
  "emits P m \<Longrightarrow> (\<And>a. emits P (f a)) \<Longrightarrow> emits P (State_Monad.bind m f)"
  by (rule emits_bind_pred [OF _ pred_state_True])

lemma emits_if [emits_intros]:
  "(b \<Longrightarrow> emits P m) \<Longrightarrow> (\<not> b \<Longrightarrow> emits P n) \<Longrightarrow> emits P (if b then m else n)"
  by simp

lemma emits_case_sum [emits_intros]:
  "(\<And>e. r = Inl e \<Longrightarrow> emits P (f e)) \<Longrightarrow> (\<And>x. r = Inr x \<Longrightarrow> emits P (g x)) \<Longrightarrow>
   emits P (case r of Inl e \<Rightarrow> f e | Inr x \<Rightarrow> g x)"
  by (cases r) auto

lemma emits_case_option [emits_intros]:
  "(r = None \<Longrightarrow> emits P n) \<Longrightarrow> (\<And>x. r = Some x \<Longrightarrow> emits P (g x)) \<Longrightarrow>
   emits P (case r of None \<Rightarrow> n | Some x \<Rightarrow> g x)"
  by (cases r) auto

lemma emits_case_prod [emits_intros]:
  "(\<And>a b. p = (a, b) \<Longrightarrow> emits P (f a b)) \<Longrightarrow> emits P (case p of (a, b) \<Rightarrow> f a b)"
  by (cases p) auto

lemma emits_Let [emits_intros]: "(\<And>x. x = v \<Longrightarrow> emits P (f x)) \<Longrightarrow> emits P (Let v f)"
  by (simp add: Let_def)

text \<open>A program that makes no call at all.\<close>

abbreviation silent :: "('w, 'c, 'a) prog \<Rightarrow> bool" where
  "silent m \<equiv> emits (\<lambda>_. False) m"

lemma silent_trace: "silent m \<Longrightarrow> run_state m s = (a, t) \<Longrightarrow> trace t = trace s"
  by (erule (1) emits_run) (auto simp: list.pred_set)

subsection \<open>Results together with calls\<close>

text \<open>\<open>yields Q m\<close>: in every run, the result of \<open>m\<close> and the list of the calls it made satisfy \<open>Q\<close>.\<close>

definition yields :: "('a \<Rightarrow> 'c list \<Rightarrow> bool) \<Rightarrow> ('w, 'c, 'a) prog \<Rightarrow> bool" where
  "yields Q m \<longleftrightarrow>
     (\<forall>s. \<exists>l. trace (snd (run_state m s)) = trace s @ l \<and> Q (fst (run_state m s)) l)"

lemma yieldsI:
  "(\<And>s. \<exists>l. trace (snd (run_state m s)) = trace s @ l \<and> Q (fst (run_state m s)) l) \<Longrightarrow> yields Q m"
  by (simp add: yields_def)

lemma yields_run:
  assumes "yields Q m" and "run_state m s = (a, t)"
  obtains l where "trace t = trace s @ l" and "Q a l"
  using assms unfolding yields_def by (metis fst_conv snd_conv)

lemma yields_wp: "yields Q m \<Longrightarrow> wp m (\<lambda>a t. \<exists>l. trace t = trace s @ l \<and> Q a l) s"
  by (auto intro!: wpI elim: yields_run)

lemma yields_mono: "yields Q m \<Longrightarrow> (\<And>a l. Q a l \<Longrightarrow> R a l) \<Longrightarrow> yields R m"
  unfolding yields_def by blast

lemma yields_return: "Q a [] \<Longrightarrow> yields Q (State_Monad.return a)"
  by (simp add: yields_def)

lemma yields_perform: "(\<And>w. Q (fst (f w)) [c]) \<Longrightarrow> yields Q (perform c f)"
  by (simp add: yields_def)

lemma yields_observe: "(\<And>w. Q (fst (f w)) []) \<Longrightarrow> yields Q (observe f)"
  by (simp add: yields_def)

lemma yields_bind:
  assumes "yields R m" and "\<And>a l. R a l \<Longrightarrow> yields (\<lambda>b l'. Q b (l @ l')) (f a)"
  shows "yields Q (State_Monad.bind m f)"
proof (rule yieldsI)
  fix s
  obtain a t where m: "run_state m s = (a, t)" by fastforce
  with assms(1) obtain l where l: "trace t = trace s @ l" "R a l" by (rule yields_run)
  obtain b u where f: "run_state (f a) t = (b, u)" by fastforce
  with assms(2) [OF l(2)] obtain l' where "trace u = trace t @ l'" "Q b (l @ l')"
    by (rule yields_run)
  with m l f show "\<exists>l. trace (snd (run_state (State_Monad.bind m f) s)) = trace s @ l \<and>
      Q (fst (run_state (State_Monad.bind m f) s)) l"
    by (intro exI [of _ "l @ l'"]) simp
qed

lemma yields_if:
  "(b \<Longrightarrow> yields Q m) \<Longrightarrow> (\<not> b \<Longrightarrow> yields Q n) \<Longrightarrow> yields Q (if b then m else n)"
  by simp

lemma yields_case_sum:
  "(\<And>e. r = Inl e \<Longrightarrow> yields Q (f e)) \<Longrightarrow> (\<And>x. r = Inr x \<Longrightarrow> yields Q (g x)) \<Longrightarrow>
   yields Q (case r of Inl e \<Rightarrow> f e | Inr x \<Rightarrow> g x)"
  by (cases r) auto

lemma emits_yields: "emits P m \<longleftrightarrow> yields (\<lambda>_. list_all P) m"
  by (simp add: emits_def yields_def)

subsection \<open>Early returns\<close>

text \<open>\<open>if err != nil { return err }\<close> after a call, the same with \<open>fmt.Errorf("...: %w", err)\<close>, and a
  deferred call.\<close>

definition tryE :: "('s, 'e + 'a) state \<Rightarrow> ('a \<Rightarrow> ('s, 'e + 'b) state) \<Rightarrow> ('s, 'e + 'b) state" where
  "tryE m f = State_Monad.bind m (\<lambda>r. case r of Inl e \<Rightarrow> State_Monad.return (Inl e) | Inr x \<Rightarrow> f x)"

definition wrapE :: "string \<Rightarrow> ('s, go_error + 'a) state \<Rightarrow> ('s, go_error + 'a) state" where
  "wrapE p m = State_Monad.bind m (\<lambda>r. State_Monad.return (map_sum (wrapError p) id r))"

definition deferring :: "('s, 'd) state \<Rightarrow> ('s, 'a) state \<Rightarrow> ('s, 'a) state" where
  "deferring d m = State_Monad.bind m (\<lambda>r. State_Monad.bind d (\<lambda>_. State_Monad.return r))"

lemma wp_tryE [simp]:
  "wp (tryE m f) Q s \<longleftrightarrow> wp m (\<lambda>r t. case r of Inl e \<Rightarrow> Q (Inl e) t | Inr x \<Rightarrow> wp (f x) Q t) s"
  by (auto simp: tryE_def wp_def split: prod.splits sum.splits)

lemma wp_wrapE [simp]: "wp (wrapE p m) Q s \<longleftrightarrow> wp m (\<lambda>r. Q (map_sum (wrapError p) id r)) s"
  by (auto simp: wrapE_def wp_def split: prod.splits)

lemma wp_deferring [simp]: "wp (deferring d m) Q s \<longleftrightarrow> wp m (\<lambda>r. wp d (\<lambda>_. Q r)) s"
  by (auto simp: deferring_def wp_def split: prod.splits)

lemma emits_tryE [emits_intros]: "emits P m \<Longrightarrow> (\<And>x. emits P (f x)) \<Longrightarrow> emits P (tryE m f)"
  unfolding tryE_def by (intro emits_intros)

lemma emits_wrapE [emits_intros]: "emits P m \<Longrightarrow> emits P (wrapE p m)"
  unfolding wrapE_def by (intro emits_intros)

lemma emits_deferring [emits_intros]: "emits P d \<Longrightarrow> emits P m \<Longrightarrow> emits P (deferring d m)"
  unfolding deferring_def by (intro emits_intros)

lemma yields_tryE:
  assumes "yields R m" and "\<And>e l. R (Inl e) l \<Longrightarrow> Q (Inl e) l"
    and "\<And>x l. R (Inr x) l \<Longrightarrow> yields (\<lambda>b l'. Q b (l @ l')) (f x)"
  shows "yields Q (tryE m f)"
  unfolding tryE_def using assms
  by (intro yields_bind [OF assms(1)] yields_case_sum yields_return) auto

lemma yields_wrapE: "yields (\<lambda>r. Q (map_sum (wrapError p) id r)) m \<Longrightarrow> yields Q (wrapE p m)"
  unfolding wrapE_def by (erule yields_bind) (intro yields_return, simp)

lemma yields_deferring:
  assumes "yields (\<lambda>r l. yields (\<lambda>_ l'. Q r (l @ l')) d) m"
  shows "yields Q (deferring d m)"
  unfolding deferring_def
  by (intro yields_bind [OF assms] yields_bind [of _ d] yields_return) (auto elim: yields_mono)

subsection \<open>Lists and options\<close>

lemma find_Some_append:
  "find P xs = Some x \<Longrightarrow> find P (xs @ ys) = Some x"
  by (induction xs) auto

lemma find_None_append:
  "find P xs = None \<Longrightarrow> find P (xs @ ys) = find P ys"
  by (induction xs) auto

lemma sint64_bounds: "- (2 ^ 63) \<le> sint (x :: int64) \<and> sint x < 2 ^ 63"
  using sint_range_size [of x] by (simp add: size_word_def)

lemma unat_byte: "unat (b :: byte) < 256"
  using unsigned_less [of b, where ?'a = nat] by simp

end
