(* ===== verification/Go_Strings.thy ===== *)
theory Go_Strings
  imports Go_Prelude
begin

text \<open>
  The functions of Go's standard library on strings, bytes and decimal numbers that the sources
  call. A Go string is a sequence of bytes, so it is a \<open>string\<close> of HOL, whose characters are
  bytes; \<open>len\<close> is \<open>length\<close>.

  \<^item> \<open>strings\<close>: \<open>HasPrefix\<close>, \<open>TrimPrefix\<close>, \<open>TrimSuffix\<close>, \<open>Contains\<close>, \<open>Join\<close>,
    \<open>ReplaceAll\<close> of a single byte by nothing.
  \<^item> \<open>fmt\<close> and \<open>strconv\<close>: \<open>%d\<close> on signed integers (\<open>show_int\<close>), \<open>ParseInt\<close> with its
    base prefixes, underscores and range check, and the round trip of the two.
  \<^item> \<open>encoding/hex\<close>: \<open>EncodeToString\<close>.
  \<^item> \<open>crypto/subtle\<close>: \<open>ConstantTimeCompare\<close> with its branch-free loop, and the lemma that it
    decides equality.
\<close>

unbundle bit_operations_syntax

subsection \<open>Package strings\<close>

definition HasPrefix :: "string \<Rightarrow> string \<Rightarrow> bool" where
  "HasPrefix s p \<longleftrightarrow> take (length p) s = p"

definition TrimPrefix :: "string \<Rightarrow> string \<Rightarrow> string" where
  "TrimPrefix s p = (if HasPrefix s p then drop (length p) s else s)"

definition HasSuffix :: "string \<Rightarrow> string \<Rightarrow> bool" where
  "HasSuffix s p \<longleftrightarrow> length p \<le> length s \<and> drop (length s - length p) s = p"

definition TrimSuffix :: "string \<Rightarrow> string \<Rightarrow> string" where
  "TrimSuffix s p = (if HasSuffix s p then take (length s - length p) s else s)"

fun Contains :: "string \<Rightarrow> string \<Rightarrow> bool" where
  "Contains [] p \<longleftrightarrow> p = []"
| "Contains (c # s) p \<longleftrightarrow> HasPrefix (c # s) p \<or> Contains s p"

fun Join :: "string list \<Rightarrow> string \<Rightarrow> string" where
  "Join [] sep = []"
| "Join [x] sep = x"
| "Join (x # y # xs) sep = x @ sep @ Join (y # xs) sep"

lemma TrimPrefix_append [simp]: "TrimPrefix (p @ s) p = s"
  by (simp add: TrimPrefix_def HasPrefix_def)

lemma TrimPrefix_no [simp]: "\<not> HasPrefix s p \<Longrightarrow> TrimPrefix s p = s"
  by (simp add: TrimPrefix_def)

lemma HasPrefix_append [simp]: "HasPrefix (p @ s) p"
  by (simp add: HasPrefix_def)

lemma HasPrefix_iff: "HasPrefix s p \<longleftrightarrow> (\<exists>r. s = p @ r)"
  by (metis HasPrefix_append HasPrefix_def append_take_drop_id)

lemma Contains_single [simp]: "Contains s [c] \<longleftrightarrow> c \<in> set s"
  by (induction s) (auto simp: HasPrefix_def)

subsection \<open>Decimal output\<close>

definition digit_char :: "nat \<Rightarrow> char" where
  "digit_char d = char_of (48 + d)"

fun show_nat :: "nat \<Rightarrow> string" where
  "show_nat n = (if n < 10 then [digit_char n] else show_nat (n div 10) @ [digit_char (n mod 10)])"

declare show_nat.simps [simp del]

definition show_int :: "int \<Rightarrow> string" where
  "show_int i = (if i < 0 then CHR ''-'' # show_nat (nat (- i)) else show_nat (nat i))"

definition is_digit :: "char \<Rightarrow> bool" where
  "is_digit c \<longleftrightarrow> 48 \<le> (of_char c :: nat) \<and> (of_char c :: nat) \<le> 57"

lemma of_digit_char [simp]: "d < 10 \<Longrightarrow> (of_char (digit_char d) :: nat) = 48 + d"
  by (simp add: digit_char_def)

lemma is_digit_char [simp]: "d < 10 \<Longrightarrow> is_digit (digit_char d)"
  by (simp add: is_digit_def)

lemma digit_char_inj: "d < 10 \<Longrightarrow> e < 10 \<Longrightarrow> digit_char d = digit_char e \<longleftrightarrow> d = e"
  by (metis add_left_cancel of_digit_char)

lemma show_nat_ne [simp]: "show_nat n \<noteq> []"
  by (subst show_nat.simps) simp

lemma show_nat_digits: "c \<in> set (show_nat n) \<Longrightarrow> is_digit c"
proof (induction n arbitrary: c rule: show_nat.induct)
  case (1 n)
  then show ?case
    by (subst (asm) (2) show_nat.simps) (auto split: if_splits)
qed

lemma hd_show_nat_zero: "hd (show_nat n) = digit_char 0 \<Longrightarrow> n = 0"
proof (induction n rule: show_nat.induct)
  case (1 n)
  show ?case
  proof (cases "n < 10")
    case True
    with 1 show ?thesis by (simp add: show_nat.simps [of n] digit_char_inj)
  next
    case False
    with 1 have "n div 10 = 0" by (simp add: show_nat.simps [of n])
    with False show ?thesis by simp
  qed
qed

lemma digit_char_0: "digit_char 0 = CHR ''0''"
  by code_simp

lemma show_int_ne [simp]: "show_int i \<noteq> []"
  by (simp add: show_int_def)

subsection \<open>strconv.ParseInt\<close>

definition lower :: "char \<Rightarrow> nat" where
  "lower c = (of_char c :: nat) OR 32"

definition digit_value :: "char \<Rightarrow> nat option" where
  "digit_value c = (let n = (of_char c :: nat) in
     if 48 \<le> n \<and> n \<le> 57 then Some (n - 48)
     else if 97 \<le> lower c \<and> lower c \<le> 122 then Some (lower c - 97 + 10)
     else None)"

text \<open>The loop of \<open>ParseUint\<close>. Its early exit on a value that does not fit in 64 bits is an
  error, as is every later one, so the loop runs on exact numbers and the range is checked at
  the end.\<close>

fun parse_digits :: "bool \<Rightarrow> nat \<Rightarrow> string \<Rightarrow> nat \<Rightarrow> nat option" where
  "parse_digits base0 base [] n = Some n"
| "parse_digits base0 base (c # s) n =
     (if c = CHR ''_'' \<and> base0 then parse_digits base0 base s n
      else case digit_value c of
        None \<Rightarrow> None
      | Some d \<Rightarrow> if base \<le> d then None else parse_digits base0 base s (n * base + d))"

fun underscore_scan :: "bool \<Rightarrow> char \<Rightarrow> string \<Rightarrow> bool" where
  "underscore_scan hex i [] \<longleftrightarrow> i \<noteq> CHR ''_''"
| "underscore_scan hex i (c # s) \<longleftrightarrow>
     (if is_digit c \<or> hex \<and> 97 \<le> lower c \<and> lower c \<le> 102 then underscore_scan hex (CHR ''0'') s
      else if c = CHR ''_'' then i = CHR ''0'' \<and> underscore_scan hex (CHR ''_'') s
      else i \<noteq> CHR ''_'' \<and> underscore_scan hex (CHR ''!'') s)"

definition strip_sign :: "string \<Rightarrow> string" where
  "strip_sign s = (case s of [] \<Rightarrow> [] | c # r \<Rightarrow> if c = CHR ''-'' \<or> c = CHR ''+'' then r else s)"

definition base_prefix :: "string \<Rightarrow> nat option" where
  "base_prefix s = (case s of
     c # d # _ \<Rightarrow>
       if c \<noteq> CHR ''0'' then None
       else if lower d = 98 then Some 2
       else if lower d = 111 then Some 8
       else if lower d = 120 then Some 16 else None
   | _ \<Rightarrow> None)"

definition underscoreOK :: "string \<Rightarrow> bool" where
  "underscoreOK s0 = (let s = strip_sign s0 in
     case base_prefix s of
       Some b \<Rightarrow> underscore_scan (b = 16) (CHR ''0'') (drop 2 s)
     | None \<Rightarrow> underscore_scan False (CHR ''^'') s)"

text \<open>\<open>ParseUint(s, 0, 64)\<close> up to its range check.\<close>

definition parse_uint0 :: "string \<Rightarrow> nat option" where
  "parse_uint0 s =
     (if s = [] then None
      else
        let (base, r) =
          (if hd s = CHR ''0'' then
             (case base_prefix s of
                Some b \<Rightarrow> if 3 \<le> length s then (b, drop 2 s) else (8, tl s)
              | None \<Rightarrow> (8, tl s))
           else (10, s))
        in case parse_digits True base r 0 of
             None \<Rightarrow> None
           | Some n \<Rightarrow> if CHR ''_'' \<in> set r \<and> \<not> underscoreOK s then None else Some n)"

text \<open>\<open>ParseInt(s, 0, 64)\<close>; \<open>None\<close> is a syntax or a range error.\<close>

definition ParseInt0 :: "string \<Rightarrow> int option" where
  "ParseInt0 s0 =
     (if s0 = [] then None
      else
        let neg = (hd s0 = CHR ''-'');
            s = (if hd s0 = CHR ''+'' \<or> neg then tl s0 else s0)
        in case parse_uint0 s of
             None \<Rightarrow> None
           | Some n \<Rightarrow>
               if \<not> neg \<and> 2 ^ 63 \<le> n then None
               else if neg \<and> 2 ^ 63 < n then None
               else Some (if neg then - int n else int n))"

subsection \<open>Decimal output is read back\<close>

lemma digit_value_digit [simp]: "d < 10 \<Longrightarrow> digit_value (digit_char d) = Some d"
  by (simp add: digit_value_def Let_def)

lemma is_digit_not_underscore: "is_digit c \<Longrightarrow> c \<noteq> CHR ''_''"
  by (auto simp: is_digit_def)

lemma parse_digits_append:
  "parse_digits b base (xs @ ys) n =
     (case parse_digits b base xs n of None \<Rightarrow> None | Some m \<Rightarrow> parse_digits b base ys m)"
  by (induction xs arbitrary: n) (auto split: option.splits)

lemma parse_digits_show_nat: "parse_digits b 10 (show_nat n) 0 = Some n"
proof (induction n rule: show_nat.induct)
  case (1 n)
  have one: "parse_digits b 10 [digit_char d] m = Some (m * 10 + d)" if "d < 10" for d m
    using that is_digit_not_underscore [OF is_digit_char [OF that]] by simp
  show ?case
  proof (cases "n < 10")
    case True
    then show ?thesis by (simp add: show_nat.simps [of n] one del: parse_digits.simps)
  next
    case False
    with 1 show ?thesis
      by (simp add: show_nat.simps [of n] parse_digits_append one del: parse_digits.simps)
  qed
qed

lemma show_nat_no_underscore: "CHR ''_'' \<notin> set (show_nat n)"
  using show_nat_digits is_digit_not_underscore by blast

lemma parse_uint0_show_nat: "parse_uint0 (show_nat n) = Some n"
proof (cases "n = 0")
  case True
  then show ?thesis
    by (simp add: parse_uint0_def show_nat.simps [of 0] digit_char_0 base_prefix_def)
next
  case False
  then have "hd (show_nat n) \<noteq> CHR ''0''"
    using hd_show_nat_zero digit_char_0 by auto
  then show ?thesis
    by (simp add: parse_uint0_def parse_digits_show_nat show_nat_no_underscore)
qed

lemma hd_show_nat_digit: "is_digit (hd (show_nat n))"
  by (rule show_nat_digits [where n = n]) simp

text \<open>What \<open>fmt.Sprintf("%d", v)\<close> prints for a 64-bit value, \<open>ParseInt\<close> reads back.\<close>

lemma ParseInt0_show_int:
  assumes "- (2 ^ 63) \<le> i" and "i < 2 ^ 63"
  shows "ParseInt0 (show_int i) = Some i"
proof (cases "i < 0")
  case True
  then have "nat (- i) \<le> 2 ^ 63" using assms(1) by simp
  with True show ?thesis
    by (simp add: ParseInt0_def show_int_def parse_uint0_show_nat Let_def)
next
  case False
  have "\<not> (2 ^ 63 \<le> nat i)" using assms(2) False by simp
  moreover have "hd (show_nat (nat i)) \<noteq> CHR ''-''" "hd (show_nat (nat i)) \<noteq> CHR ''+''"
    using hd_show_nat_digit [of "nat i"] by (auto simp: is_digit_def)
  ultimately show ?thesis using False
    by (simp add: ParseInt0_def show_int_def parse_uint0_show_nat Let_def)
qed

lemma ParseInt0_show_sint: "ParseInt0 (show_int (sint (x :: int64))) = Some (sint x)"
  using sint64_bounds [of x] by (intro ParseInt0_show_int) auto

lemma show_int_inj: "show_int i = show_int j \<Longrightarrow> i = j"
proof -
  assume eq: "show_int i = show_int j"
  have nat_inj: "m = n" if "show_nat m = show_nat n" for m n
    using parse_digits_show_nat [of False m] parse_digits_show_nat [of False n] unfolding that by simp
  have "\<not> is_digit (CHR ''-'')" by (simp add: is_digit_def)
  then have minus: "hd (show_nat n) \<noteq> CHR ''-''" for n
    using hd_show_nat_digit [of n] by metis
  consider "i < 0" "j < 0" | "0 \<le> i" "0 \<le> j" | "i < 0" "0 \<le> j" | "0 \<le> i" "j < 0" by linarith
  then show "i = j"
  proof cases
    case 1
    with eq have "show_nat (nat (- i)) = show_nat (nat (- j))" by (simp add: show_int_def)
    then have "nat (- i) = nat (- j)" by (rule nat_inj)
    with 1 show ?thesis by simp
  next
    case 2
    with eq have "show_nat (nat i) = show_nat (nat j)" by (simp add: show_int_def)
    then have "nat i = nat j" by (rule nat_inj)
    with 2 show ?thesis by simp
  next
    case 3
    with eq have "show_nat (nat j) = CHR ''-'' # show_nat (nat (- i))" by (simp add: show_int_def)
    with minus [of "nat j"] show ?thesis by simp
  next
    case 4
    with eq have "show_nat (nat i) = CHR ''-'' # show_nat (nat (- j))" by (simp add: show_int_def)
    with minus [of "nat i"] show ?thesis by simp
  qed
qed

lemma show_int_no_slash: "CHR ''/'' \<notin> set (show_int i)"
  by (auto simp: show_int_def is_digit_def dest: show_nat_digits)

lemma split_at:
  assumes "xs @ c # ys = xs' @ c # ys'" and "c \<notin> set xs" and "c \<notin> set xs'"
  shows "xs = xs' \<and> ys = ys'"
  using assms
proof (induction xs arbitrary: xs')
  case (Cons x xs)
  then show ?case by (cases xs') auto
next
  case Nil
  then show ?case by (cases xs') auto
qed

subsection \<open>encoding/hex\<close>

definition hex_char :: "nat \<Rightarrow> char" where
  "hex_char d = (if d < 10 then digit_char d else char_of (87 + d))"

definition hex_byte :: "byte \<Rightarrow> string" where
  "hex_byte b = [hex_char (unat (drop_bit 4 b)), hex_char (unat (b AND 15))]"

definition hex_EncodeToString :: "byte list \<Rightarrow> string" where
  "hex_EncodeToString bs = concat (map hex_byte bs)"

definition is_lower_hex :: "char \<Rightarrow> bool" where
  "is_lower_hex c \<longleftrightarrow> is_digit c \<or> 97 \<le> (of_char c :: nat) \<and> (of_char c :: nat) \<le> 102"

lemma hex_char_lower: "d < 16 \<Longrightarrow> is_lower_hex (hex_char d)"
  by (auto simp: is_lower_hex_def hex_char_def)

lemma length_hex [simp]: "length (hex_EncodeToString bs) = 2 * length bs"
  by (induction bs) (auto simp: hex_EncodeToString_def hex_byte_def)

lemma unat_high_nibble: "unat (drop_bit 4 (b :: byte)) < 16"
proof -
  have "unat b < 256" by (rule unat_byte)
  then show ?thesis by (simp add: drop_bit_eq_div unat_div)
qed

lemma unat_low_nibble: "unat ((b :: byte) AND 15) < 16"
proof -
  have "unat (b AND 15) \<le> unat (15 :: byte)"
    by (rule word_and_le1 [THEN word_le_nat_alt [THEN iffD1]])
  then show ?thesis by simp
qed

lemma hex_lower: "c \<in> set (hex_EncodeToString bs) \<Longrightarrow> is_lower_hex c"
  by (auto simp: hex_EncodeToString_def hex_byte_def
      intro: hex_char_lower unat_high_nibble unat_low_nibble)

subsection \<open>crypto/subtle\<close>

definition byte_of :: "char \<Rightarrow> byte" where
  "byte_of c = of_char c"

definition ConstantTimeByteEq :: "byte \<Rightarrow> byte \<Rightarrow> 32 word" where
  "ConstantTimeByteEq x y = drop_bit 31 ((ucast (x XOR y) :: 32 word) - 1)"

fun xor_acc :: "byte \<Rightarrow> string \<Rightarrow> string \<Rightarrow> byte" where
  "xor_acc v (x # xs) (y # ys) = xor_acc (v OR (byte_of x XOR byte_of y)) xs ys"
| "xor_acc v _ _ = v"

definition ConstantTimeCompare :: "string \<Rightarrow> string \<Rightarrow> 32 word" where
  "ConstantTimeCompare x y =
     (if length x \<noteq> length y then 0 else ConstantTimeByteEq (xor_acc 0 x y) 0)"

lemma byte_of_inj [simp]: "byte_of c = byte_of d \<longleftrightarrow> c = d"
proof
  assume "byte_of c = byte_of d"
  then have "unat (byte_of c) = unat (byte_of d)" by simp
  moreover have "unat (byte_of e) = of_char e" for e
  proof -
    have "byte_of e = word_of_nat (of_char e)"
      by (simp add: byte_of_def of_nat_of_char)
    moreover have "(of_char e :: nat) < 256" by simp
    ultimately show ?thesis by (simp add: unat_of_nat)
  qed
  ultimately show "c = d" by simp
qed simp

lemma or_eq_0: "(a :: byte) OR b = 0 \<longleftrightarrow> a = 0 \<and> b = 0"
  by (rule or_eq_0_iff)

lemma xor_eq_0: "(a :: byte) XOR b = 0 \<longleftrightarrow> a = b"
proof
  assume "a XOR b = 0"
  then have "(a XOR b) XOR b = b" by simp
  then show "a = b" by (simp add: xor.assoc)
qed simp

lemma xor_acc_0:
  "length x = length y \<Longrightarrow> xor_acc v x y = 0 \<longleftrightarrow> v = 0 \<and> x = y"
  by (induction v x y rule: xor_acc.induct) (auto simp: or_eq_0 xor_eq_0)

lemma ConstantTimeByteEq_0: "ConstantTimeByteEq v 0 = (if v = 0 then 1 else 0)"
proof (cases "v = 0")
  case True
  then show ?thesis by (simp add: ConstantTimeByteEq_def)
next
  case False
  let ?u = "ucast v :: 32 word"
  have pos: "0 < unat v" using False by (simp add: unat_gt_0)
  have u: "unat ?u = unat v"
    using unat_byte [of v] by (simp add: unsigned_ucast_eq take_bit_nat_eq_self)
  with pos have "?u \<noteq> 0" by auto
  then have "unat (?u - 1) = unat v - 1"
    using u by (simp only: unat_minus_one [OF \<open>?u \<noteq> 0\<close>])
  moreover have "unat v < 256" by (rule unat_byte)
  ultimately have "unat (?u - 1) < 2 ^ 31" by simp
  then have "unat (drop_bit 31 (?u - 1)) = 0"
    unfolding drop_bit_eq_div unat_div by simp
  then have "drop_bit 31 (?u - 1) = 0"
    using unat_eq_zero by blast
  with False show ?thesis by (simp add: ConstantTimeByteEq_def)
qed

text \<open>The constant-time comparison decides equality.\<close>

lemma ConstantTimeCompare_iff: "ConstantTimeCompare x y = 1 \<longleftrightarrow> x = y"
  by (auto simp: ConstantTimeCompare_def ConstantTimeByteEq_0 xor_acc_0)

end
