(* ===== verification/Sandbox_Api.thy ===== *)
theory Sandbox_Api
  imports Go_Strings
begin

text \<open>
  The resource model: the types of \<open>api/v1alpha1\<close> (\<open>podsandbox_types.go\<close>,
  \<open>podsandboxclass_types.go\<close>) and, as plain records, the fields of the Kubernetes objects
  (\<open>ObjectMeta\<close>, \<open>Condition\<close>, \<open>Secret\<close>, \<open>Pod\<close>) that the sources read or write. A field name
  carries a prefix for its type, because record fields share one name space. Go's zero values
  are the records named \<open>zero_...\<close>; a nil slice and an empty one are the same list, a nil map
  and an empty one the same map; a pointer that may be nil is an \<open>option\<close>.

  The \<open>kubebuilder:validation\<close> markers of the types are the predicates \<open>PodSandboxSpec_valid\<close>
  and \<open>PodSandboxClassSpec_valid\<close>.
\<close>

subsection \<open>Kubernetes metadata\<close>

type_synonym string_map = "string \<Rightarrow> string option"

text \<open>Indexing a Go map of strings: a missing key reads as the empty string.\<close>

definition map_get :: "string_map \<Rightarrow> string \<Rightarrow> string" where
  "map_get m k = (case m k of None \<Rightarrow> [] | Some v \<Rightarrow> v)"

record NamespacedName =
  nn_Namespace :: string
  nn_Name :: string

abbreviation NN :: "string \<Rightarrow> string \<Rightarrow> NamespacedName" where
  "NN ns n \<equiv> \<lparr>nn_Namespace = ns, nn_Name = n\<rparr>"

record OwnerReference =
  or_Kind :: string
  or_Name :: string
  or_UID :: string
  or_Controller :: bool

record ObjectMeta =
  om_Name :: string
  om_Namespace :: string
  om_UID :: string
  om_Generation :: int64
  om_DeletionTimestamp :: "int option"
  om_Labels :: string_map
  om_Annotations :: string_map
  om_OwnerReferences :: "OwnerReference list"

definition zero_ObjectMeta :: ObjectMeta where
  "zero_ObjectMeta = \<lparr>om_Name = [], om_Namespace = [], om_UID = [], om_Generation = 0,
     om_DeletionTimestamp = None, om_Labels = Map.empty, om_Annotations = Map.empty,
     om_OwnerReferences = []\<rparr>"

definition ObjectKeyFromMeta :: "ObjectMeta \<Rightarrow> NamespacedName" where
  "ObjectKeyFromMeta m = NN (om_Namespace m) (om_Name m)"

record LocalObjectReference =
  lor_Name :: string

text \<open>Condition statuses are strings in the API.\<close>

abbreviation ConditionTrue :: string where "ConditionTrue \<equiv> ''True''"
abbreviation ConditionFalse :: string where "ConditionFalse \<equiv> ''False''"
abbreviation ConditionUnknown :: string where "ConditionUnknown \<equiv> ''Unknown''"

record Condition =
  cond_Type :: string
  cond_Status :: string
  cond_ObservedGeneration :: int64
  cond_LastTransitionTime :: int
  cond_Reason :: string
  cond_Message :: string

subsection \<open>PodSandbox\<close>

abbreviation ConditionReady :: string where "ConditionReady \<equiv> ''Ready''"

record WorkloadReference =
  wr_Namespace :: string
  wr_Name :: string
  wr_UID :: string

record PodSandboxSpec =
  spec_WorkloadRef :: WorkloadReference
  spec_SandboxID :: string
  spec_UserDataSecretRef :: LocalObjectReference
  spec_ClassName :: string
  spec_VCPUs :: int64
  spec_MemoryMiB :: int64
  spec_Arch :: string

record PodSandboxStatus =
  status_ObservedGeneration :: int64
  status_RunnerRef :: "LocalObjectReference option"
  status_NodeName :: string
  status_IPs :: "string list"
  status_Conditions :: "Condition list"

definition zero_PodSandboxStatus :: PodSandboxStatus where
  "zero_PodSandboxStatus = \<lparr>status_ObservedGeneration = 0, status_RunnerRef = None,
     status_NodeName = [], status_IPs = [], status_Conditions = []\<rparr>"

record PodSandbox =
  psb_ObjectMeta :: ObjectMeta
  psb_Spec :: PodSandboxSpec
  psb_Status :: PodSandboxStatus

abbreviation psb_Name :: "PodSandbox \<Rightarrow> string" where
  "psb_Name s \<equiv> om_Name (psb_ObjectMeta s)"

abbreviation psb_Namespace :: "PodSandbox \<Rightarrow> string" where
  "psb_Namespace s \<equiv> om_Namespace (psb_ObjectMeta s)"

abbreviation psb_key :: "PodSandbox \<Rightarrow> NamespacedName" where
  "psb_key s \<equiv> ObjectKeyFromMeta (psb_ObjectMeta s)"

text \<open>The markers on \<open>WorkloadReference.Name\<close>, \<open>SandboxID\<close>, \<open>ClassName\<close>, \<open>VCPUs\<close> and
  \<open>MemoryMiB\<close>.\<close>

definition PodSandboxSpec_valid :: "PodSandboxSpec \<Rightarrow> bool" where
  "PodSandboxSpec_valid sp \<longleftrightarrow>
     1 \<le> length (wr_Name (spec_WorkloadRef sp)) \<and> 1 \<le> length (spec_SandboxID sp) \<and>
     1 \<le> length (spec_ClassName sp) \<and> 1 \<le> sint (spec_VCPUs sp) \<and> 128 \<le> sint (spec_MemoryMiB sp)"

text \<open>The CEL rule \<open>self == oldSelf\<close> on the specification.\<close>

definition PodSandboxSpec_update_valid :: "PodSandboxSpec \<Rightarrow> PodSandboxSpec \<Rightarrow> bool" where
  "PodSandboxSpec_update_valid oldSelf self \<longleftrightarrow> self = oldSelf"

subsection \<open>PodSandboxClass\<close>

record Toleration =
  tol_Key :: string
  tol_Operator :: string
  tol_Value :: string
  tol_Effect :: string
  tol_TolerationSeconds :: "int64 option"

record PodSandboxClassSpec =
  cls_RunnerImage :: string
  cls_PodVMImage :: string
  cls_NetworkMTU :: int32
  cls_Annotations :: string_map
  cls_Labels :: string_map
  cls_NodeSelector :: string_map
  cls_Tolerations :: "Toleration list"
  cls_RuntimeAssetsDir :: string
  cls_MemoryOverheadMiB :: int64

record PodSandboxClass =
  psc_ObjectMeta :: ObjectMeta
  psc_Spec :: PodSandboxClassSpec

text \<open>The markers on \<open>RunnerImage\<close>, \<open>PodVMImage\<close>, \<open>NetworkMTU\<close> and \<open>MemoryOverheadMiB\<close>. A field
  tagged \<open>omitempty\<close> is not sent when it is zero, so its bounds apply to non-zero values.\<close>

definition PodSandboxClassSpec_valid :: "PodSandboxClassSpec \<Rightarrow> bool" where
  "PodSandboxClassSpec_valid sp \<longleftrightarrow>
     1 \<le> length (cls_RunnerImage sp) \<and> 1 \<le> length (cls_PodVMImage sp) \<and>
     (cls_NetworkMTU sp = 0 \<or> 576 \<le> sint (cls_NetworkMTU sp) \<and> sint (cls_NetworkMTU sp) \<le> 9216) \<and>
     0 \<le> sint (cls_MemoryOverheadMiB sp)"

subsection \<open>Secrets\<close>

record Secret =
  sec_ObjectMeta :: ObjectMeta
  sec_Immutable :: "bool option"
  sec_Data :: string_map
  sec_Type :: string

abbreviation sec_Name :: "Secret \<Rightarrow> string" where
  "sec_Name s \<equiv> om_Name (sec_ObjectMeta s)"

abbreviation sec_key :: "Secret \<Rightarrow> NamespacedName" where
  "sec_key s \<equiv> ObjectKeyFromMeta (sec_ObjectMeta s)"

subsection \<open>Pods\<close>

text \<open>A \<open>resource.Quantity\<close> is kept as the call that builds it: \<open>NewQuantity(v, DecimalSI)\<close> or
  \<open>MustParse(s)\<close>.\<close>

datatype Quantity = NewQuantityDecimalSI int64 | MustParseQuantity string

record ResourceRequirements =
  rr_RequestsCPU :: Quantity
  rr_RequestsMemory :: Quantity
  rr_LimitsCPU :: Quantity
  rr_LimitsMemory :: Quantity

record VolumeMount =
  vm_Name :: string
  vm_MountPath :: string
  vm_ReadOnly :: bool

record SecurityContext =
  sc_Privileged :: "bool option"
  sc_AllowPrivilegeEscalation :: "bool option"
  sc_RunAsUser :: "int64 option"

record Probe =
  pr_ExecCommand :: "string list"
  pr_InitialDelaySeconds :: int32
  pr_PeriodSeconds :: int32
  pr_TimeoutSeconds :: int32

record Container =
  ctr_Name :: string
  ctr_Image :: string
  ctr_ImagePullPolicy :: string
  ctr_Args :: "string list"
  ctr_Resources :: "ResourceRequirements option"
  ctr_SecurityContext :: "SecurityContext option"
  ctr_VolumeMounts :: "VolumeMount list"
  ctr_ReadinessProbe :: "Probe option"

datatype HostPathType = HostPathDirectory | HostPathCharDev

datatype VolumeSource = EmptyDir | SecretVolume string | HostPath string HostPathType

record Volume =
  vol_Name :: string
  vol_Source :: VolumeSource

record PodSpec =
  ps_NodeName :: string
  ps_NodeSelector :: string_map
  ps_Tolerations :: "Toleration list"
  ps_InitContainers :: "Container list"
  ps_Containers :: "Container list"
  ps_Volumes :: "Volume list"
  ps_RestartPolicy :: string
  ps_TerminationGracePeriodSeconds :: "int64 option"

record PodCondition =
  pc_Type :: string
  pc_Status :: string

record ContainerStateTerminated =
  cst_Message :: string

record ContainerStatus =
  cs_Name :: string
  cs_Terminated :: "ContainerStateTerminated option"

abbreviation PodFailed :: string where "PodFailed \<equiv> ''Failed''"
abbreviation PodSucceeded :: string where "PodSucceeded \<equiv> ''Succeeded''"
abbreviation PodReadyCondition :: string where "PodReadyCondition \<equiv> ''Ready''"

record PodStatus =
  pst_Phase :: string
  pst_PodIP :: string
  pst_Conditions :: "PodCondition list"
  pst_ContainerStatuses :: "ContainerStatus list"

definition zero_PodStatus :: PodStatus where
  "zero_PodStatus = \<lparr>pst_Phase = [], pst_PodIP = [], pst_Conditions = [], pst_ContainerStatuses = []\<rparr>"

record Pod =
  pod_ObjectMeta :: ObjectMeta
  pod_Spec :: PodSpec
  pod_Status :: PodStatus

abbreviation pod_Name :: "Pod \<Rightarrow> string" where
  "pod_Name p \<equiv> om_Name (pod_ObjectMeta p)"

abbreviation pod_key :: "Pod \<Rightarrow> NamespacedName" where
  "pod_key p \<equiv> ObjectKeyFromMeta (pod_ObjectMeta p)"

lemma map_get_upd [simp]: "map_get (m(k \<mapsto> v)) k' = (if k' = k then v else map_get m k')"
  by (simp add: map_get_def)

lemma map_get_empty [simp]: "map_get Map.empty k = []"
  by (simp add: map_get_def)

lemma ObjectKeyFromMeta_sel [simp]:
  "nn_Name (ObjectKeyFromMeta m) = om_Name m" "nn_Namespace (ObjectKeyFromMeta m) = om_Namespace m"
  by (simp_all add: ObjectKeyFromMeta_def)

end
