(* ===== verification/Kube_Client.thy ===== *)
theory Kube_Client
  imports Sandbox_Api "HOL-Library.AList"
begin

text \<open>
  The interface to the cluster. The Kubernetes API and the controller libraries are not part of
  the repository, so they are a parameter of every definition that uses them: the record
  \<open>'w kube\<close>, over a world of arbitrary type. A field gets its arguments and the world and returns
  the reply and the world after the call; since the world is arbitrary, the reply may depend on
  anything, in particular on what other clients did in between.

  The operations \<open>getSandbox\<close>, \<open>createPod\<close>, ... perform one call each and record it in the trace
  as a \<open>kube_call\<close>.

  The behaviour of the libraries that a theorem relies on is a named predicate over the parameter:
  \<open>set_condition_law\<close> (\<open>meta.SetStatusCondition\<close>), \<open>pod_owner_law\<close> and \<open>secret_owner_law\<close>
  (\<open>controllerutil.SetControllerReference\<close>), \<open>sandbox_read_law\<close> and \<open>pod_read_law\<close> (an object read
  under a key has that key). Theory \<open>Mem_Cluster\<close>
  gives a cluster in memory that satisfies all of them.
\<close>

subsection \<open>Calls\<close>

text \<open>The context a call runs under: that of the request, or \<open>context.WithoutCancel\<close> of it.\<close>

datatype call_ctx = RequestCtx | WithoutCancel

datatype kube_call =
    GetSandbox NamespacedName
  | GetClass string
  | GetSecret NamespacedName
  | GetPod NamespacedName
  | ListSecrets string string string
  | ListSandboxes
  | CreateSecret Secret
  | CreateSandbox PodSandbox
  | CreatePod Pod
  | UpdateSecret Secret
  | DeleteSandbox call_ctx NamespacedName
  | DeleteSecret NamespacedName
  | DeletePod NamespacedName
  | PatchStatus PodSandbox PodSandbox

fun is_write :: "kube_call \<Rightarrow> bool" where
  "is_write (GetSandbox _) = False"
| "is_write (GetClass _) = False"
| "is_write (GetSecret _) = False"
| "is_write (GetPod _) = False"
| "is_write (ListSecrets _ _ _) = False"
| "is_write ListSandboxes = False"
| "is_write _ = True"

text \<open>The namespace a call is addressed to; classes are cluster-scoped.\<close>

fun call_namespace :: "kube_call \<Rightarrow> string option" where
  "call_namespace (GetSandbox k) = Some (nn_Namespace k)"
| "call_namespace (GetClass _) = None"
| "call_namespace (GetSecret k) = Some (nn_Namespace k)"
| "call_namespace (GetPod k) = Some (nn_Namespace k)"
| "call_namespace (ListSecrets ns _ _) = Some ns"
| "call_namespace ListSandboxes = None"
| "call_namespace (CreateSecret s) = Some (om_Namespace (sec_ObjectMeta s))"
| "call_namespace (CreateSandbox s) = Some (psb_Namespace s)"
| "call_namespace (CreatePod p) = Some (om_Namespace (pod_ObjectMeta p))"
| "call_namespace (UpdateSecret s) = Some (om_Namespace (sec_ObjectMeta s))"
| "call_namespace (DeleteSandbox _ k) = Some (nn_Namespace k)"
| "call_namespace (DeleteSecret k) = Some (nn_Namespace k)"
| "call_namespace (DeletePod k) = Some (nn_Namespace k)"
| "call_namespace (PatchStatus _ s) = Some (psb_Namespace s)"

subsection \<open>The parameter\<close>

text \<open>What the \<open>select\<close> of a request handler sees: the request's context is done, with its error
  text, or the ticker fired.\<close>

datatype wait_event = CtxDone string | Tick

record 'w kube =
  kc_GetSandbox :: "NamespacedName \<Rightarrow> ('w, PodSandbox) call"
  kc_GetClass :: "string \<Rightarrow> ('w, PodSandboxClass) call"
  kc_GetSecret :: "NamespacedName \<Rightarrow> ('w, Secret) call"
  kc_GetPod :: "NamespacedName \<Rightarrow> ('w, Pod) call"
  kc_ListSecrets :: "string \<Rightarrow> string \<Rightarrow> string \<Rightarrow> ('w, Secret list) call"
  kc_ListSandboxes :: "('w, PodSandbox list) call"
  kc_CreateSecret :: "Secret \<Rightarrow> ('w, Secret) call"
  kc_CreateSandbox :: "PodSandbox \<Rightarrow> ('w, PodSandbox) call"
  kc_CreatePod :: "Pod \<Rightarrow> ('w, Pod) call"
  kc_UpdateSecret :: "Secret \<Rightarrow> ('w, Secret) call"
  kc_DeleteSandbox :: "call_ctx \<Rightarrow> NamespacedName \<Rightarrow> ('w, unit) call"
  kc_DeleteSecret :: "NamespacedName \<Rightarrow> ('w, unit) call"
  kc_DeletePod :: "NamespacedName \<Rightarrow> ('w, unit) call"
  kc_PatchStatus :: "PodSandbox \<Rightarrow> PodSandbox \<Rightarrow> ('w, PodSandbox) call"
  kl_SetStatusCondition :: "Condition list \<Rightarrow> Condition \<Rightarrow> 'w \<Rightarrow> Condition list"
  kl_SetPodController :: "PodSandbox \<Rightarrow> Pod \<Rightarrow> go_error + Pod"
  kl_SetSecretController :: "PodSandbox \<Rightarrow> Secret \<Rightarrow> go_error + Secret"
  kl_RandRead :: "nat \<Rightarrow> ('w, byte list) call"
  kl_Select :: "'w \<Rightarrow> wait_event \<times> 'w"

type_synonym ('w, 'a) kprog = "('w, kube_call, 'a) prog"

subsection \<open>Operations\<close>

definition getSandbox :: "'w kube \<Rightarrow> NamespacedName \<Rightarrow> ('w, go_error + PodSandbox) kprog" where
  [go_ops]: "getSandbox k key = perform (GetSandbox key) (kc_GetSandbox k key)"

definition getClassObject :: "'w kube \<Rightarrow> string \<Rightarrow> ('w, go_error + PodSandboxClass) kprog" where
  [go_ops]: "getClassObject k n = perform (GetClass n) (kc_GetClass k n)"

definition getSecret :: "'w kube \<Rightarrow> NamespacedName \<Rightarrow> ('w, go_error + Secret) kprog" where
  [go_ops]: "getSecret k key = perform (GetSecret key) (kc_GetSecret k key)"

definition getPod :: "'w kube \<Rightarrow> NamespacedName \<Rightarrow> ('w, go_error + Pod) kprog" where
  [go_ops]: "getPod k key = perform (GetPod key) (kc_GetPod k key)"

definition listSecrets ::
    "'w kube \<Rightarrow> string \<Rightarrow> string \<Rightarrow> string \<Rightarrow> ('w, go_error + Secret list) kprog" where
  [go_ops]: "listSecrets k ns l v = perform (ListSecrets ns l v) (kc_ListSecrets k ns l v)"

definition listSandboxes :: "'w kube \<Rightarrow> ('w, go_error + PodSandbox list) kprog" where
  [go_ops]: "listSandboxes k = perform ListSandboxes (kc_ListSandboxes k)"

definition createSecret :: "'w kube \<Rightarrow> Secret \<Rightarrow> ('w, go_error + Secret) kprog" where
  [go_ops]: "createSecret k s = perform (CreateSecret s) (kc_CreateSecret k s)"

definition createSandboxObject :: "'w kube \<Rightarrow> PodSandbox \<Rightarrow> ('w, go_error + PodSandbox) kprog" where
  [go_ops]: "createSandboxObject k s = perform (CreateSandbox s) (kc_CreateSandbox k s)"

definition createPod :: "'w kube \<Rightarrow> Pod \<Rightarrow> ('w, go_error + Pod) kprog" where
  [go_ops]: "createPod k p = perform (CreatePod p) (kc_CreatePod k p)"

definition updateSecret :: "'w kube \<Rightarrow> Secret \<Rightarrow> ('w, go_error + Secret) kprog" where
  [go_ops]: "updateSecret k s = perform (UpdateSecret s) (kc_UpdateSecret k s)"

definition deleteSandboxObject ::
    "'w kube \<Rightarrow> call_ctx \<Rightarrow> PodSandbox \<Rightarrow> ('w, go_error + unit) kprog" where
  [go_ops]: "deleteSandboxObject k c s =
     perform (DeleteSandbox c (psb_key s)) (kc_DeleteSandbox k c (psb_key s))"

definition deleteSecret :: "'w kube \<Rightarrow> Secret \<Rightarrow> ('w, go_error + unit) kprog" where
  [go_ops]: "deleteSecret k s = perform (DeleteSecret (sec_key s)) (kc_DeleteSecret k (sec_key s))"

definition deletePod :: "'w kube \<Rightarrow> Pod \<Rightarrow> ('w, go_error + unit) kprog" where
  [go_ops]: "deletePod k p = perform (DeletePod (pod_key p)) (kc_DeletePod k (pod_key p))"

definition patchStatus ::
    "'w kube \<Rightarrow> PodSandbox \<Rightarrow> PodSandbox \<Rightarrow> ('w, go_error + PodSandbox) kprog" where
  [go_ops]: "patchStatus k base s = perform (PatchStatus base s) (kc_PatchStatus k base s)"

definition setStatusCondition ::
    "'w kube \<Rightarrow> Condition list \<Rightarrow> Condition \<Rightarrow> ('w, Condition list) kprog" where
  [go_ops]: "setStatusCondition k cs c = observe (\<lambda>w. (kl_SetStatusCondition k cs c w, w))"

definition randRead :: "'w kube \<Rightarrow> nat \<Rightarrow> ('w, go_error + byte list) kprog" where
  [go_ops]: "randRead k n = observe (kl_RandRead k n)"

definition selectEvent :: "'w kube \<Rightarrow> ('w, wait_event) kprog" where
  [go_ops]: "selectEvent k = observe (kl_Select k)"

lemma emits_kube [emits_intros]:
  "P (GetSandbox key) \<Longrightarrow> emits P (getSandbox k key)"
  "P (GetClass n) \<Longrightarrow> emits P (getClassObject k n)"
  "P (GetSecret key) \<Longrightarrow> emits P (getSecret k key)"
  "P (GetPod key) \<Longrightarrow> emits P (getPod k key)"
  "P (ListSecrets ns l v) \<Longrightarrow> emits P (listSecrets k ns l v)"
  "P ListSandboxes \<Longrightarrow> emits P (listSandboxes k)"
  "P (CreateSecret s) \<Longrightarrow> emits P (createSecret k s)"
  "P (CreateSandbox sb) \<Longrightarrow> emits P (createSandboxObject k sb)"
  "P (CreatePod p) \<Longrightarrow> emits P (createPod k p)"
  "P (UpdateSecret s) \<Longrightarrow> emits P (updateSecret k s)"
  "P (DeleteSandbox c (psb_key sb)) \<Longrightarrow> emits P (deleteSandboxObject k c sb)"
  "P (DeleteSecret (sec_key s)) \<Longrightarrow> emits P (deleteSecret k s)"
  "P (DeletePod (pod_key p)) \<Longrightarrow> emits P (deletePod k p)"
  "P (PatchStatus base sb) \<Longrightarrow> emits P (patchStatus k base sb)"
  "emits P (setStatusCondition k cs cd)"
  "emits P (randRead k m)"
  "emits P (selectEvent k)"
  by (simp_all add: go_ops emits_perform emits_observe)

lemma yields_kube:
  "yields (\<lambda>_ l. l = [GetSandbox key]) (getSandbox k key)"
  "yields (\<lambda>_ l. l = [GetClass n]) (getClassObject k n)"
  "yields (\<lambda>_ l. l = [GetSecret key]) (getSecret k key)"
  "yields (\<lambda>_ l. l = [GetPod key]) (getPod k key)"
  "yields (\<lambda>_ l. l = [CreateSecret s]) (createSecret k s)"
  "yields (\<lambda>_ l. l = [CreateSandbox sb]) (createSandboxObject k sb)"
  "yields (\<lambda>_ l. l = [CreatePod p]) (createPod k p)"
  "yields (\<lambda>_ l. l = [UpdateSecret s]) (updateSecret k s)"
  "yields (\<lambda>_ l. l = [DeleteSandbox c (psb_key sb)]) (deleteSandboxObject k c sb)"
  "yields (\<lambda>_ l. l = [DeleteSecret (sec_key s)]) (deleteSecret k s)"
  "yields (\<lambda>_ l. l = [DeletePod (pod_key p)]) (deletePod k p)"
  "yields (\<lambda>_ l. l = [PatchStatus base sb]) (patchStatus k base sb)"
  "yields (\<lambda>_ l. l = []) (setStatusCondition k cs cd)"
  "yields (\<lambda>_ l. l = []) (randRead k m)"
  "yields (\<lambda>_ l. l = []) (selectEvent k)"
  by (simp_all add: go_ops yields_perform yields_observe)

subsection \<open>What the libraries promise\<close>

text \<open>\<open>meta.SetStatusCondition\<close>: the condition of the new one's type gets its status, reason,
  message and generation; every other type keeps its condition.\<close>

definition condition_of :: "Condition list \<Rightarrow> string \<Rightarrow> Condition option" where
  "condition_of cs t = find (\<lambda>c. cond_Type c = t) cs"

definition same_condition :: "Condition \<Rightarrow> Condition \<Rightarrow> bool" where
  "same_condition a b \<longleftrightarrow> cond_Type a = cond_Type b \<and> cond_Status a = cond_Status b \<and>
     cond_ObservedGeneration a = cond_ObservedGeneration b \<and> cond_Reason a = cond_Reason b \<and>
     cond_Message a = cond_Message b"

definition set_condition_law :: "'w kube \<Rightarrow> bool" where
  "set_condition_law k \<longleftrightarrow> (\<forall>cs c w.
     (\<exists>c'. condition_of (kl_SetStatusCondition k cs c w) (cond_Type c) = Some c' \<and> same_condition c' c) \<and>
     (\<forall>t. t \<noteq> cond_Type c \<longrightarrow>
        condition_of (kl_SetStatusCondition k cs c w) t = condition_of cs t))"

text \<open>\<open>SetControllerReference\<close>: only the owner references of the controlled object change, and the
  owner is the controller afterwards.\<close>

definition owner_ref :: "string \<Rightarrow> ObjectMeta \<Rightarrow> OwnerReference" where
  "owner_ref kind m = \<lparr>or_Kind = kind, or_Name = om_Name m, or_UID = om_UID m, or_Controller = True\<rparr>"

definition owned_meta :: "PodSandbox \<Rightarrow> ObjectMeta \<Rightarrow> ObjectMeta \<Rightarrow> bool" where
  "owned_meta owner m m' \<longleftrightarrow>
     (\<exists>refs. m' = m\<lparr>om_OwnerReferences := refs\<rparr> \<and>
        owner_ref ''PodSandbox'' (psb_ObjectMeta owner) \<in> set refs)"

definition pod_owner_law :: "'w kube \<Rightarrow> bool" where
  "pod_owner_law k \<longleftrightarrow> (\<forall>ow p p'. kl_SetPodController k ow p = Inr p' \<longrightarrow>
     pod_Spec p' = pod_Spec p \<and> pod_Status p' = pod_Status p \<and>
     owned_meta ow (pod_ObjectMeta p) (pod_ObjectMeta p'))"

definition secret_owner_law :: "'w kube \<Rightarrow> bool" where
  "secret_owner_law k \<longleftrightarrow> (\<forall>ow s s'. kl_SetSecretController k ow s = Inr s' \<longrightarrow>
     sec_Data s' = sec_Data s \<and> sec_Immutable s' = sec_Immutable s \<and> sec_Type s' = sec_Type s \<and>
     owned_meta ow (sec_ObjectMeta s) (sec_ObjectMeta s'))"

text \<open>An object that a read or a create returns has the key it was asked for.\<close>

definition sandbox_read_law :: "'w kube \<Rightarrow> bool" where
  "sandbox_read_law k \<longleftrightarrow>
     (\<forall>key w sb w'. kc_GetSandbox k key w = (Inr sb, w') \<longrightarrow> psb_key sb = key) \<and>
     (\<forall>s w sb w'. kc_CreateSandbox k s w = (Inr sb, w') \<longrightarrow> psb_key sb = psb_key s)"

definition secret_create_law :: "'w kube \<Rightarrow> bool" where
  "secret_create_law k \<longleftrightarrow>
     (\<forall>s w s' w'. kc_CreateSecret k s w = (Inr s', w') \<longrightarrow> sec_key s' = sec_key s)"

definition pod_read_law :: "'w kube \<Rightarrow> bool" where
  "pod_read_law k \<longleftrightarrow>
     (\<forall>key w p w'. kc_GetPod k key w = (Inr p, w') \<longrightarrow> pod_key p = key)"

text \<open>The API server keeps the annotations that the client set on a Pod it creates; admission may add
  others.\<close>

definition pod_create_law :: "'w kube \<Rightarrow> bool" where
  "pod_create_law k \<longleftrightarrow>
     (\<forall>p w p' w' a v. kc_CreatePod k p w = (Inr p', w') \<and> om_Annotations (pod_ObjectMeta p) a = Some v \<longrightarrow>
        om_Annotations (pod_ObjectMeta p') a = Some v)"

text \<open>\<open>rand.Read\<close> fills the whole slice.\<close>

definition rand_law :: "'w kube \<Rightarrow> bool" where
  "rand_law k \<longleftrightarrow> (\<forall>n w bs w'. kl_RandRead k n w = (Inr bs, w') \<longrightarrow> length bs = n)"

lemma owned_meta_key [simp]:
  "owned_meta o1 m m' \<Longrightarrow> om_Name m' = om_Name m \<and> om_Namespace m' = om_Namespace m \<and>
     om_Annotations m' = om_Annotations m \<and> om_Labels m' = om_Labels m \<and>
     ObjectKeyFromMeta m' = ObjectKeyFromMeta m"
  by (auto simp: owned_meta_def ObjectKeyFromMeta_def)

end
