(* ===== verification/Go_Utf8.thy ===== *)
theory Go_Utf8
  imports Go_Strings
begin

text \<open>
  Package \<open>unicode/utf8\<close>: decoding and encoding of runes, and \<open>strings.TrimSpace\<close> and
  \<open>strings.Fields\<close>, which work on runes. A rune is a natural number. An invalid sequence decodes
  to the rune \<open>U+FFFD\<close> of width 1, as in Go.
\<close>

abbreviation cv :: "char \<Rightarrow> nat" where "cv c \<equiv> of_char c"

definition RuneError :: nat where "RuneError = 0xFFFD"

definition in_range :: "nat \<Rightarrow> nat \<Rightarrow> nat \<Rightarrow> bool" where
  "in_range lo hi n \<longleftrightarrow> lo \<le> n \<and> n \<le> hi"

text \<open>The range of the second byte, by the first (the table \<open>acceptRanges\<close>).\<close>

definition second_ok :: "nat \<Rightarrow> nat \<Rightarrow> bool" where
  "second_ok b0 b1 =
     (if b0 = 0xE0 then in_range 0xA0 0xBF b1
      else if b0 = 0xED then in_range 0x80 0x9F b1
      else if b0 = 0xF0 then in_range 0x90 0xBF b1
      else if b0 = 0xF4 then in_range 0x80 0x8F b1
      else in_range 0x80 0xBF b1)"

definition DecodeRune :: "string \<Rightarrow> nat \<times> nat" where
  "DecodeRune s = (case s of
     [] \<Rightarrow> (RuneError, 0)
   | c0 # s1 \<Rightarrow> let b0 = cv c0 in
       if b0 < 0x80 then (b0, 1)
       else case s1 of
         [] \<Rightarrow> (RuneError, 1)
       | c1 # s2 \<Rightarrow> let b1 = cv c1 in
           if \<not> second_ok b0 b1 then (RuneError, 1)
           else if in_range 0xC2 0xDF b0 then ((b0 - 0xC0) * 64 + (b1 - 0x80), 2)
           else case s2 of
             [] \<Rightarrow> (RuneError, 1)
           | c2 # s3 \<Rightarrow> let b2 = cv c2 in
               if \<not> in_range 0x80 0xBF b2 then (RuneError, 1)
               else if in_range 0xE0 0xEF b0 then
                 (((b0 - 0xE0) * 64 + (b1 - 0x80)) * 64 + (b2 - 0x80), 3)
               else case s3 of
                 [] \<Rightarrow> (RuneError, 1)
               | c3 # _ \<Rightarrow> let b3 = cv c3 in
                   if in_range 0xF0 0xF4 b0 \<and> in_range 0x80 0xBF b3 then
                     ((((b0 - 0xF0) * 64 + (b1 - 0x80)) * 64 + (b2 - 0x80)) * 64 + (b3 - 0x80), 4)
                   else (RuneError, 1))"

definition is_surrogate :: "nat \<Rightarrow> bool" where
  "is_surrogate r \<longleftrightarrow> in_range 0xD800 0xDFFF r"

text \<open>\<open>utf8.AppendRune\<close>; a surrogate or a value above \<open>U+10FFFF\<close> is encoded as \<open>U+FFFD\<close>.\<close>

definition EncodeRune :: "nat \<Rightarrow> string" where
  "EncodeRune r0 = (let r = (if is_surrogate r0 \<or> 0x10FFFF < r0 then RuneError else r0) in
     if r < 0x80 then [char_of r]
     else if r < 0x800 then [char_of (0xC0 + r div 64), char_of (0x80 + r mod 64)]
     else if r < 0x10000 then
       [char_of (0xE0 + r div 4096), char_of (0x80 + r div 64 mod 64), char_of (0x80 + r mod 64)]
     else
       [char_of (0xF0 + r div 262144), char_of (0x80 + r div 4096 mod 64),
        char_of (0x80 + r div 64 mod 64), char_of (0x80 + r mod 64)])"

lemma DecodeRune_size: "s \<noteq> [] \<Longrightarrow> 1 \<le> snd (DecodeRune s)"
  by (cases s) (auto simp: DecodeRune_def Let_def split: list.splits)

lemma DecodeRune_ascii [simp]: "cv c < 128 \<Longrightarrow> DecodeRune (c # s) = (cv c, 1)"
  by (simp add: DecodeRune_def)

subsection \<open>White space\<close>

text \<open>\<open>unicode.IsSpace\<close>.\<close>

definition IsSpace :: "nat \<Rightarrow> bool" where
  "IsSpace r \<longleftrightarrow> r \<in> {9, 10, 11, 12, 13, 32, 0x85, 0xA0, 0x1680, 0x2028, 0x2029, 0x202F, 0x205F, 0x3000}
     \<or> in_range 0x2000 0x200A r"

text \<open>The string as its runes, each with the bytes it was decoded from.\<close>

function runes :: "string \<Rightarrow> (nat \<times> string) list" where
  "runes s = (if s = [] then []
     else let (r, n) = DecodeRune s in (r, take n s) # runes (drop n s))"
  by pat_completeness auto
termination
proof (relation "measure length", simp)
  fix s :: string and x :: "nat \<times> nat" and r n
  assume "s \<noteq> []" and "x = DecodeRune s" and "(r, n) = x"
  then have "1 \<le> n" using DecodeRune_size [of s] by (metis snd_conv)
  with \<open>s \<noteq> []\<close> show "(drop n s, s) \<in> measure length" by simp
qed

declare runes.simps [simp del]

text \<open>\<open>strings.TrimSpace\<close>: the runes of white space at both ends are removed.\<close>

definition TrimSpace :: "string \<Rightarrow> string" where
  "TrimSpace s =
     concat (map snd (rev (dropWhile (\<lambda>p. IsSpace (fst p)) (rev (dropWhile (\<lambda>p. IsSpace (fst p)) (runes s))))))"

text \<open>\<open>strings.Fields\<close>: the maximal runs of runes that are not white space.\<close>

fun fields_aux :: "(nat \<times> string) list \<Rightarrow> string \<Rightarrow> string list" where
  "fields_aux [] acc = (if acc = [] then [] else [acc])"
| "fields_aux (p # ps) acc =
     (if IsSpace (fst p) then (if acc = [] then fields_aux ps [] else acc # fields_aux ps [])
      else fields_aux ps (acc @ snd p))"

definition Fields :: "string \<Rightarrow> string list" where
  "Fields s = fields_aux (runes s) []"

text \<open>\<open>strconv.Quote\<close>, the verb \<open>%q\<close>. A valid rune outside ASCII is taken to be printable.\<close>

definition quote_rune :: "nat \<times> string \<Rightarrow> string" where
  "quote_rune p = (case p of (r, bs) \<Rightarrow>
     if r = 0x22 \<or> r = 0x5C then CHR 0x5C # bs
     else if r = 7 then [CHR 0x5C, CHR ''a'']
     else if r = 8 then [CHR 0x5C, CHR ''b'']
     else if r = 12 then [CHR 0x5C, CHR ''f'']
     else if r = 10 then [CHR 0x5C, CHR ''n'']
     else if r = 13 then [CHR 0x5C, CHR ''r'']
     else if r = 9 then [CHR 0x5C, CHR ''t'']
     else if r = 11 then [CHR 0x5C, CHR ''v'']
     else if r < 32 \<or> r = 127 then [CHR 0x5C, CHR ''x'', hex_char (r div 16), hex_char (r mod 16)]
     else if r = RuneError \<and> length bs = 1
       then [CHR 0x5C, CHR ''x'', hex_char (cv (hd bs) div 16), hex_char (cv (hd bs) mod 16)]
     else bs)"

definition Quote :: "string \<Rightarrow> string" where
  "Quote s = CHR 0x22 # concat (map quote_rune (runes s)) @ [CHR 0x22]"

lemma runes_Nil [simp]: "runes [] = []"
  by (simp add: runes.simps)

lemma concat_runes: "concat (map snd (runes s)) = s"
proof (induction s rule: runes.induct)
  case (1 s)
  then show ?case
    by (cases "s = []") (auto simp: runes.simps [of s] split: prod.splits)
qed

lemma runes_ascii_Cons:
  "cv c < 128 \<Longrightarrow> runes (c # s) = (cv c, [c]) # runes s"
  by (simp add: runes.simps [of "c # s"])

lemma TrimSpace_Nil [simp]: "TrimSpace [] = []"
  by (simp add: TrimSpace_def)

lemma runes_ascii: "\<forall>c \<in> set s. cv c < 128 \<Longrightarrow> runes s = map (\<lambda>c. (cv c, [c])) s"
  by (induction s) (auto simp: runes_ascii_Cons)

text \<open>A string of ASCII characters that are not white space is its own trimming.\<close>

lemma TrimSpace_id:
  assumes "\<forall>c \<in> set s. cv c < 128 \<and> \<not> IsSpace (cv c)"
  shows "TrimSpace s = s"
proof -
  let ?f = "\<lambda>c. (cv c, [c])"
  have r: "runes s = map ?f s" using assms by (intro runes_ascii) auto
  have d: "dropWhile (\<lambda>p. IsSpace (fst p)) (map ?f t) = map ?f t" if "set t \<subseteq> set s" for t
    using that assms by (cases t) auto
  have "TrimSpace s = concat (map snd (rev (map ?f (rev s))))"
    using d [of s] d [of "rev s"] by (simp add: TrimSpace_def r rev_map)
  then show ?thesis by (simp add: rev_map comp_def)
qed

end
