(* ===== verification/Go_Json.thy ===== *)
theory Go_Json
  imports Go_Utf8
begin

text \<open>
  Package \<open>encoding/json\<close>, as far as the sources use it: the scanner, one state per step function
  of Go's \<open>scanner\<close>, run over the bytes of a document (\<open>json_scan\<close>); the unquoting of string
  literals; the encoder with its HTML escaping (\<open>json_encode\<close>); the storing of a value into a
  string or an \<open>int64\<close> field. A number is kept as its literal. Scanning is a fold over the input,
  so it is total and needs no fuel; once a value is complete the rest of the input is ignored, as
  by \<open>json.Decoder\<close>. The text of a syntax error is not modelled beyond its class.
\<close>

datatype json =
    JNull
  | JBool bool
  | JNum string
  | JStr string
  | JArr "json list"
  | JObj "(string \<times> json) list"

subsection \<open>String literals\<close>

definition is_hex_char :: "char \<Rightarrow> bool" where
  "is_hex_char c \<longleftrightarrow> is_digit c \<or> in_range 97 102 (cv c) \<or> in_range 65 70 (cv c)"

definition hex_val :: "char \<Rightarrow> nat" where
  "hex_val c = (if is_digit c then cv c - 48 else if 97 \<le> cv c then cv c - 87 else cv c - 55)"

definition hex4 :: "char \<Rightarrow> char \<Rightarrow> char \<Rightarrow> char \<Rightarrow> nat" where
  "hex4 a b c d = ((hex_val a * 16 + hex_val b) * 16 + hex_val c) * 16 + hex_val d"

text \<open>\<open>utf16.DecodeRune\<close>: the rune of a surrogate pair, or \<open>U+FFFD\<close>.\<close>

definition utf16_DecodeRune :: "nat \<Rightarrow> nat \<Rightarrow> nat" where
  "utf16_DecodeRune r1 r2 =
     (if in_range 0xD800 0xDBFF r1 \<and> in_range 0xDC00 0xDFFF r2
      then (r1 - 0xD800) * 1024 + (r2 - 0xDC00) + 0x10000 else RuneError)"

text \<open>The escaped rune at the start of a raw literal and the bytes it takes; the scanner has
  checked the syntax of every escape before.\<close>

definition unescape :: "char \<Rightarrow> string \<Rightarrow> string \<times> nat" where
  "unescape e s =
     (if e = CHR ''b'' then ([char_of (8 :: nat)], 2)
      else if e = CHR ''f'' then ([char_of (12 :: nat)], 2)
      else if e = CHR ''n'' then ([char_of (10 :: nat)], 2)
      else if e = CHR ''r'' then ([char_of (13 :: nat)], 2)
      else if e = CHR ''t'' then ([char_of (9 :: nat)], 2)
      else if e = CHR ''u'' then
        (case s of
           a # b # c # d # t \<Rightarrow>
             let r = hex4 a b c d in
             if is_surrogate r then
               (case t of
                  x # y # a' # b' # c' # d' # _ \<Rightarrow>
                    if x = CHR 0x5C \<and> y = CHR ''u'' \<and>
                       utf16_DecodeRune r (hex4 a' b' c' d') \<noteq> RuneError
                    then (EncodeRune (utf16_DecodeRune r (hex4 a' b' c' d')), 12)
                    else (EncodeRune RuneError, 6)
                | _ \<Rightarrow> (EncodeRune RuneError, 6))
             else (EncodeRune r, 6)
         | _ \<Rightarrow> (EncodeRune RuneError, 2))
      else ([e], 2))"

lemma unescape_size: "2 \<le> snd (unescape e s)"
  by (auto simp: unescape_def Let_def split: list.splits)

text \<open>\<open>unquote\<close> on the bytes between the quotes.\<close>

function unquote :: "string \<Rightarrow> string" where
  "unquote s = (case s of
     [] \<Rightarrow> []
   | c # s1 \<Rightarrow>
       if c = CHR 0x5C then
         (case s1 of
            [] \<Rightarrow> []
          | e # s2 \<Rightarrow> let (bs, n) = unescape e s2 in bs @ unquote (drop n s))
       else
         let (r, n) = DecodeRune s in
         (if r = RuneError \<and> n = 1 then EncodeRune RuneError else take n s) @ unquote (drop n s))"
  by pat_completeness auto
termination
proof (relation "measure length", simp, goal_cases)
  case (1 s c s1 e s2 x bs n)
  then have "2 \<le> n" using unescape_size [of e s2] by (metis snd_conv)
  with 1 show ?case by simp
next
  case (2 s c s1 x r n)
  then have "1 \<le> n" using DecodeRune_size [of s] by (metis list.distinct(1) snd_conv)
  with 2 show ?case by simp
qed

declare unquote.simps [simp del]

subsection \<open>The scanner\<close>

datatype num_state = NNeg | N0 | N1 | NDot | NDot0 | NE | NESign | NE0

datatype scan_mode =
    MBegin
  | MBeginOrEnd
  | MKeyOrEnd
  | MKey
  | MAfter
  | MStr bool string
  | MEsc bool string
  | MHex bool nat string
  | MNum num_state string
  | MLit string json
  | MDone json
  | MFail

datatype frame =
    FArr "json list"
  | FObj "(string \<times> json) list"
  | FKey "(string \<times> json) list" string
  | FVal "(string \<times> json) list" string

type_synonym scan_state = "scan_mode \<times> frame list"

definition is_json_space :: "char \<Rightarrow> bool" where
  "is_json_space c \<longleftrightarrow> cv c \<in> {32, 9, 13, 10}"

definition maxNestingDepth :: nat where "maxNestingDepth = 10000"

definition push_frame :: "scan_mode \<Rightarrow> frame \<Rightarrow> frame list \<Rightarrow> scan_state" where
  "push_frame m f st = (if maxNestingDepth \<le> length st then (MFail, []) else (m, f # st))"

text \<open>A complete value is placed in the container around it, or ends the scan.\<close>

fun finish_value :: "json \<Rightarrow> frame list \<Rightarrow> scan_state" where
  "finish_value v [] = (MDone v, [])"
| "finish_value v (FArr vs # st) = (MAfter, FArr (vs @ [v]) # st)"
| "finish_value v (FVal kvs k # st) = (MAfter, FObj (kvs @ [(k, v)]) # st)"
| "finish_value v _ = (MFail, [])"

definition step_begin :: "char \<Rightarrow> frame list \<Rightarrow> scan_state" where
  "step_begin c st =
     (if c = CHR ''{'' then push_frame MKeyOrEnd (FObj []) st
      else if c = CHR ''['' then push_frame MBeginOrEnd (FArr []) st
      else if c = CHR 0x22 then (MStr False [], st)
      else if c = CHR ''-'' then (MNum NNeg [c], st)
      else if c = CHR ''0'' then (MNum N0 [c], st)
      else if is_digit c then (MNum N1 [c], st)
      else if c = CHR ''t'' then (MLit ''rue'' (JBool True), st)
      else if c = CHR ''f'' then (MLit ''alse'' (JBool False), st)
      else if c = CHR ''n'' then (MLit ''ull'' JNull, st)
      else (MFail, []))"

fun step_after :: "char \<Rightarrow> frame list \<Rightarrow> scan_state" where
  "step_after c (FArr vs # st) =
     (if is_json_space c then (MAfter, FArr vs # st)
      else if c = CHR '','' then (MBegin, FArr vs # st)
      else if c = CHR '']'' then finish_value (JArr vs) st else (MFail, []))"
| "step_after c (FObj kvs # st) =
     (if is_json_space c then (MAfter, FObj kvs # st)
      else if c = CHR '','' then (MKey, FObj kvs # st)
      else if c = CHR ''}'' then finish_value (JObj kvs) st else (MFail, []))"
| "step_after c (FKey kvs k # st) =
     (if is_json_space c then (MAfter, FKey kvs k # st)
      else if c = CHR '':'' then (MBegin, FVal kvs k # st) else (MFail, []))"
| "step_after c _ = (MFail, [])"

fun num_next :: "num_state \<Rightarrow> char \<Rightarrow> num_state option" where
  "num_next NNeg c = (if c = CHR ''0'' then Some N0 else if is_digit c then Some N1 else None)"
| "num_next N1 c = (if is_digit c then Some N1 else if c = CHR ''.'' then Some NDot
     else if c = CHR ''e'' \<or> c = CHR ''E'' then Some NE else None)"
| "num_next N0 c = (if c = CHR ''.'' then Some NDot
     else if c = CHR ''e'' \<or> c = CHR ''E'' then Some NE else None)"
| "num_next NDot c = (if is_digit c then Some NDot0 else None)"
| "num_next NDot0 c = (if is_digit c then Some NDot0
     else if c = CHR ''e'' \<or> c = CHR ''E'' then Some NE else None)"
| "num_next NE c = (if c = CHR ''+'' \<or> c = CHR ''-'' then Some NESign
     else if is_digit c then Some NE0 else None)"
| "num_next NESign c = (if is_digit c then Some NE0 else None)"
| "num_next NE0 c = (if is_digit c then Some NE0 else None)"

definition num_final :: "num_state \<Rightarrow> bool" where
  "num_final n \<longleftrightarrow> n \<in> {N0, N1, NDot0, NE0}"

fun end_string :: "bool \<Rightarrow> string \<Rightarrow> frame list \<Rightarrow> scan_state" where
  "end_string True raw (FObj kvs # st) = (MAfter, FKey kvs (unquote raw) # st)"
| "end_string True raw _ = (MFail, [])"
| "end_string False raw st = finish_value (JStr (unquote raw)) st"

fun scan_step :: "scan_state \<Rightarrow> char \<Rightarrow> scan_state" where
  "scan_step (MBegin, st) c = (if is_json_space c then (MBegin, st) else step_begin c st)"
| "scan_step (MBeginOrEnd, st) c =
     (if is_json_space c then (MBeginOrEnd, st)
      else if c = CHR '']'' then step_after c st else step_begin c st)"
| "scan_step (MKeyOrEnd, st) c =
     (if is_json_space c then (MKeyOrEnd, st)
      else if c = CHR ''}'' then step_after c st
      else if c = CHR 0x22 then (MStr True [], st) else (MFail, []))"
| "scan_step (MKey, st) c =
     (if is_json_space c then (MKey, st)
      else if c = CHR 0x22 then (MStr True [], st) else (MFail, []))"
| "scan_step (MAfter, st) c = step_after c st"
| "scan_step (MStr k raw, st) c =
     (if c = CHR 0x22 then end_string k raw st
      else if c = CHR 0x5C then (MEsc k (raw @ [c]), st)
      else if cv c < 32 then (MFail, [])
      else (MStr k (raw @ [c]), st))"
| "scan_step (MEsc k raw, st) c =
     (if c = CHR ''u'' then (MHex k 3 (raw @ [c]), st)
      else if c \<in> {CHR ''b'', CHR ''f'', CHR ''n'', CHR ''r'', CHR ''t'', CHR 0x5C, CHR ''/'', CHR 0x22}
      then (MStr k (raw @ [c]), st) else (MFail, []))"
| "scan_step (MHex k n raw, st) c =
     (if is_hex_char c
      then (case n of 0 \<Rightarrow> (MStr k (raw @ [c]), st) | Suc m \<Rightarrow> (MHex k m (raw @ [c]), st))
      else (MFail, []))"
| "scan_step (MNum ns lit, st) c =
     (case num_next ns c of
        Some ns' \<Rightarrow> (MNum ns' (lit @ [c]), st)
      | None \<Rightarrow>
          if \<not> num_final ns then (MFail, [])
          else (case finish_value (JNum lit) st of
                  (MAfter, st') \<Rightarrow> step_after c st'
                | r \<Rightarrow> r))"
| "scan_step (MLit (x # xs) v, st) c =
     (if c = x then (if xs = [] then finish_value v st else (MLit xs v, st)) else (MFail, []))"
| "scan_step (MLit [] v, st) c = (MFail, [])"
| "scan_step (MDone v, st) c = (MDone v, st)"
| "scan_step (MFail, st) c = (MFail, st)"

definition scan_all :: "scan_state \<Rightarrow> string \<Rightarrow> scan_state" where
  "scan_all = foldl scan_step"

text \<open>The end of the input: a number on the top level is complete there.\<close>

definition json_scan :: "string \<Rightarrow> go_error + json" where
  "json_scan s = (case scan_all (MBegin, []) s of
     (MDone v, _) \<Rightarrow> Inr v
   | (MNum ns lit, []) \<Rightarrow> if num_final ns then Inr (JNum lit) else Inl (errorsNew ''unexpected EOF'')
   | (MFail, _) \<Rightarrow> Inl (errorsNew ''invalid character'')
   | _ \<Rightarrow> Inl (errorsNew ''unexpected EOF''))"

lemma scan_all_append [simp]: "scan_all st (xs @ ys) = scan_all (scan_all st xs) ys"
  by (simp add: scan_all_def)

lemma scan_all_Nil [simp]: "scan_all st [] = st"
  by (simp add: scan_all_def)

lemma scan_all_Cons [simp]: "scan_all st (c # s) = scan_all (scan_step st c) s"
  by (simp add: scan_all_def)

lemma scan_all_MDone [simp]: "scan_all (MDone v, st) s = (MDone v, st)"
  by (induction s) auto

subsection \<open>Storing into a field\<close>

text \<open>\<open>ParseInt(lit, 10, 64)\<close> on the literal of a JSON number.\<close>

definition ParseInt10 :: "string \<Rightarrow> int option" where
  "ParseInt10 s0 =
     (if s0 = [] then None
      else
        let neg = (hd s0 = CHR ''-'');
            s = (if hd s0 = CHR ''+'' \<or> neg then tl s0 else s0)
        in if s = [] then None else
           case parse_digits False 10 s 0 of
             None \<Rightarrow> None
           | Some n \<Rightarrow>
               if \<not> neg \<and> 2 ^ 63 \<le> n then None
               else if neg \<and> 2 ^ 63 < n then None
               else Some (if neg then - int n else int n))"

text \<open>A store returns the new field and whether the value had the wrong type. JSON \<open>null\<close> leaves
  the field alone.\<close>

definition store_string :: "json \<Rightarrow> string \<Rightarrow> string \<times> bool" where
  "store_string v old = (case v of JStr s \<Rightarrow> (s, False) | JNull \<Rightarrow> (old, False) | _ \<Rightarrow> (old, True))"

definition store_int64 :: "json \<Rightarrow> int64 \<Rightarrow> int64 \<times> bool" where
  "store_int64 v old = (case v of
     JNum lit \<Rightarrow> (case ParseInt10 lit of Some i \<Rightarrow> (word_of_int i, False) | None \<Rightarrow> (old, True))
   | JNull \<Rightarrow> (old, False)
   | _ \<Rightarrow> (old, True))"

text \<open>The folding of names (\<open>foldName\<close>) that decides which field a key belongs to when no field
  has exactly that name: letters without case, and the two runes outside ASCII that fold to
  letters.\<close>

definition fold_rune :: "nat \<Rightarrow> nat" where
  "fold_rune r = (if in_range 65 90 r then r + 32 else if r = 0x212A then 107
     else if r = 0x17F then 115 else r)"

definition fold_name :: "string \<Rightarrow> nat list" where
  "fold_name s = map (fold_rune \<circ> fst) (runes s)"

definition match_field :: "string list \<Rightarrow> string \<Rightarrow> string option" where
  "match_field names k =
     (if k \<in> set names then Some k else find (\<lambda>n. fold_name n = fold_name k) names)"

subsection \<open>The encoder\<close>

definition hex2 :: "nat \<Rightarrow> string" where
  "hex2 n = [hex_char (n div 16), hex_char (n mod 16)]"

definition esc :: "char \<Rightarrow> string" where
  "esc c = [CHR 0x5C, c]"

definition encode_rune :: "nat \<times> string \<Rightarrow> string" where
  "encode_rune p = (case p of (r, bs) \<Rightarrow>
     if r < 128 then
       (if r = 0x5C \<or> r = 0x22 then CHR 0x5C # bs
        else if r = 8 then esc (CHR ''b'')
        else if r = 12 then esc (CHR ''f'')
        else if r = 10 then esc (CHR ''n'')
        else if r = 13 then esc (CHR ''r'')
        else if r = 9 then esc (CHR ''t'')
        else if r < 32 \<or> r \<in> {0x3C, 0x3E, 0x26} then esc (CHR ''u'') @ ''00'' @ hex2 r
        else bs)
     else if r = RuneError \<and> length bs = 1 then esc (CHR ''u'') @ ''fffd''
     else if r = 0x2028 then esc (CHR ''u'') @ ''2028''
     else if r = 0x2029 then esc (CHR ''u'') @ ''2029''
     else bs)"

definition encode_string :: "string \<Rightarrow> string" where
  "encode_string s = CHR 0x22 # concat (map encode_rune (runes s)) @ [CHR 0x22]"

fun json_encode :: "json \<Rightarrow> string" where
  "json_encode JNull = ''null''"
| "json_encode (JBool b) = (if b then ''true'' else ''false'')"
| "json_encode (JNum lit) = lit"
| "json_encode (JStr s) = encode_string s"
| "json_encode (JArr vs) = ''['' @ Join (map json_encode vs) '','' @ '']''"
| "json_encode (JObj kvs) =
     ''{'' @ Join (map (\<lambda>(k, v). encode_string k @ '':'' @ json_encode v) kvs) '','' @ ''}''"

end
