(* ===== verification/Go_Sha256.thy ===== *)
theory Go_Sha256
  imports Go_Strings
begin

text \<open>
  Package \<open>crypto/sha256\<close>: \<open>Sum256\<close> as FIPS 180-4 defines it, executable. The server derives the
  names of its objects from the digest and PeerPodNode hashes the provider plugin. The theory
  shows the shape of a digest (32 bytes).
\<close>

unbundle bit_operations_syntax

definition rotr :: "nat \<Rightarrow> 32 word \<Rightarrow> 32 word" where
  "rotr n x = drop_bit n x OR push_bit (32 - n) x"

definition sha_Ch :: "32 word \<Rightarrow> 32 word \<Rightarrow> 32 word \<Rightarrow> 32 word" where
  "sha_Ch x y z = (x AND y) XOR (NOT x AND z)"

definition sha_Maj :: "32 word \<Rightarrow> 32 word \<Rightarrow> 32 word \<Rightarrow> 32 word" where
  "sha_Maj x y z = (x AND y) XOR (x AND z) XOR (y AND z)"

definition big_sigma0 :: "32 word \<Rightarrow> 32 word" where
  "big_sigma0 x = rotr 2 x XOR rotr 13 x XOR rotr 22 x"

definition big_sigma1 :: "32 word \<Rightarrow> 32 word" where
  "big_sigma1 x = rotr 6 x XOR rotr 11 x XOR rotr 25 x"

definition small_sigma0 :: "32 word \<Rightarrow> 32 word" where
  "small_sigma0 x = rotr 7 x XOR rotr 18 x XOR drop_bit 3 x"

definition small_sigma1 :: "32 word \<Rightarrow> 32 word" where
  "small_sigma1 x = rotr 17 x XOR rotr 19 x XOR drop_bit 10 x"

text \<open>The constants of the standard are the first 32 bits of the fractional parts of the cube roots
  (round constants) and the square roots (initial state) of the first primes. They are computed here,
  the root bit by bit from the highest; \<open>bit_root_spec\<close> shows that the result is the integer root.\<close>

fun bit_root :: "nat \<Rightarrow> int \<Rightarrow> nat \<Rightarrow> int \<Rightarrow> int" where
  "bit_root k n 0 r = r"
| "bit_root k n (Suc b) r = bit_root k n b (if (r + 2 ^ b) ^ k \<le> n then r + 2 ^ b else r)"

lemma bit_root_spec:
  assumes "r ^ k \<le> n" and "n < (r + 2 ^ b) ^ k"
  shows "bit_root k n b r ^ k \<le> n \<and> n < (bit_root k n b r + 1) ^ k"
  using assms
proof (induction b arbitrary: r)
  case (Suc b)
  have "r + 2 ^ Suc b = (r + 2 ^ b) + 2 ^ b"
    by simp
  with Suc show ?case
    by (cases "(r + 2 ^ b) ^ k \<le> n") (simp_all only: bit_root.simps if_True if_False not_le, auto)
qed simp

definition frac_root :: "nat \<Rightarrow> int \<Rightarrow> 32 word" where
  "frac_root k p = of_int (bit_root k (p * 2 ^ (32 * k)) 36 0)"

definition small_primes :: "int list" where
  "small_primes = filter (\<lambda>p. list_all (\<lambda>d. p mod d \<noteq> 0) [2..p - 1]) [2..311]"

definition sha_K :: "32 word list" where
  "sha_K = map (frac_root 3) small_primes"

datatype sha_state = SHA "32 word" "32 word" "32 word" "32 word" "32 word" "32 word" "32 word" "32 word"

definition sha_init :: sha_state where
  "sha_init = SHA (frac_root 2 2) (frac_root 2 3) (frac_root 2 5) (frac_root 2 7)
     (frac_root 2 11) (frac_root 2 13) (frac_root 2 17) (frac_root 2 19)"

definition be64 :: "int \<Rightarrow> byte list" where
  "be64 n = map (\<lambda>i. of_int (n div 256 ^ i)) [7, 6, 5, 4, 3, 2, 1, 0]"

definition sha_pad :: "byte list \<Rightarrow> byte list" where
  "sha_pad m = m @ [0x80] @ replicate ((119 - length m mod 64) mod 64) 0 @ be64 (8 * int (length m))"

fun be_words :: "byte list \<Rightarrow> 32 word list" where
  "be_words (a # b # c # d # bs) =
     (push_bit 24 (ucast a) OR push_bit 16 (ucast b) OR push_bit 8 (ucast c) OR ucast d) # be_words bs"
| "be_words _ = []"

text \<open>The message schedule, newest word first.\<close>

fun sha_extend :: "nat \<Rightarrow> 32 word list \<Rightarrow> 32 word list" where
  "sha_extend 0 ws = ws"
| "sha_extend (Suc n) ws =
     sha_extend n ((small_sigma1 (ws ! 1) + ws ! 6 + small_sigma0 (ws ! 14) + ws ! 15) # ws)"

definition sha_schedule :: "32 word list \<Rightarrow> 32 word list" where
  "sha_schedule block = rev (sha_extend 48 (rev block))"

fun sha_round :: "32 word \<times> 32 word \<Rightarrow> sha_state \<Rightarrow> sha_state" where
  "sha_round (k, w) (SHA a b c d e f g h) =
     (let t1 = h + big_sigma1 e + sha_Ch e f g + k + w;
          t2 = big_sigma0 a + sha_Maj a b c
      in SHA (t1 + t2) a b c (d + t1) e f g)"

fun sha_add :: "sha_state \<Rightarrow> sha_state \<Rightarrow> sha_state" where
  "sha_add (SHA a b c d e f g h) (SHA a' b' c' d' e' f' g' h') =
     SHA (a + a') (b + b') (c + c') (d + d') (e + e') (f + f') (g + g') (h + h')"

definition sha_block :: "sha_state \<Rightarrow> 32 word list \<Rightarrow> sha_state" where
  "sha_block st block = sha_add st (fold sha_round (zip sha_K (sha_schedule block)) st)"

fun sha_blocks :: "nat \<Rightarrow> 32 word list \<Rightarrow> sha_state \<Rightarrow> sha_state" where
  "sha_blocks 0 ws st = st"
| "sha_blocks (Suc n) ws st = sha_blocks n (drop 16 ws) (sha_block st (take 16 ws))"

definition be32 :: "32 word \<Rightarrow> byte list" where
  "be32 w = [ucast (drop_bit 24 w), ucast (drop_bit 16 w), ucast (drop_bit 8 w), ucast w]"

fun sha_bytes :: "sha_state \<Rightarrow> byte list" where
  "sha_bytes (SHA a b c d e f g h) = concat (map be32 [a, b, c, d, e, f, g, h])"

definition Sum256 :: "byte list \<Rightarrow> byte list" where
  "Sum256 m = (let ws = be_words (sha_pad m) in sha_bytes (sha_blocks (length ws div 16) ws sha_init))"

lemma length_sha_bytes [simp]: "length (sha_bytes st) = 32"
  by (cases st) (simp add: be32_def)

lemma length_Sum256 [simp]: "length (Sum256 m) = 32"
  by (simp add: Sum256_def Let_def)

end
