(* ===== verification/Sandbox_Server.thy ===== *)
theory Sandbox_Server
  imports Kube_Client Go_Json Go_Sha256
begin

text \<open>
  The Pod Sandbox API (\<open>internal/server/server.go\<close>), in the order of the file. A handler takes the
  cluster parameter, the server's configuration, the access the request was granted and the
  request, and returns the HTTP response. The handler of \<open>POST /v1/sandboxes\<close> polls until the
  sandbox is ready, failed or the request is cancelled, which may take forever; it takes the number
  of polls to observe and returns \<open>None\<close> when it is still waiting after them. Its trace is then the
  calls made so far, so what is shown of every call holds of runs that never end, too.
\<close>

subsection \<open>Types and constants\<close>

record Config =
  cfg_Address :: string
  cfg_Namespace :: string
  cfg_Token :: string
  cfg_TokenSecretName :: string
  cfg_ClassName :: string

abbreviation AccessSecretLabel :: string where
  "AccessSecretLabel \<equiv> ''sandbox.caa.mnicloud.jp/access''"
abbreviation AccessSecretLabelValue :: string where "AccessSecretLabelValue \<equiv> ''true''"
abbreviation AccessSecretTokenKey :: string where "AccessSecretTokenKey \<equiv> ''token''"
abbreviation AccessSecretClassKey :: string where "AccessSecretClassKey \<equiv> ''className''"
abbreviation AccessSecretNamespaceKey :: string where "AccessSecretNamespaceKey \<equiv> ''namespace''"
abbreviation userDataKey :: string where "userDataKey \<equiv> ''userdata''"

record authorizedAccess =
  aa_ClassName :: string
  aa_Namespace :: string

definition noAccess :: authorizedAccess where
  "noAccess = \<lparr>aa_ClassName = [], aa_Namespace = []\<rparr>"

record createSandboxRequest =
  csr_WorkloadRef :: WorkloadReference
  csr_SandboxID :: string
  csr_UserData :: string
  csr_VCPUs :: int64
  csr_MemoryMiB :: int64
  csr_Arch :: string

definition zero_WorkloadReference :: WorkloadReference where
  "zero_WorkloadReference = \<lparr>wr_Namespace = [], wr_Name = [], wr_UID = []\<rparr>"

definition zero_createSandboxRequest :: createSandboxRequest where
  "zero_createSandboxRequest = \<lparr>csr_WorkloadRef = zero_WorkloadReference, csr_SandboxID = [],
     csr_UserData = [], csr_VCPUs = 0, csr_MemoryMiB = 0, csr_Arch = []\<rparr>"

record sandboxResponse =
  sr_ID :: string
  sr_Name :: string
  sr_IPs :: "string list"

record providerConfigResponse =
  pcr_NetworkMTU :: int32

subsection \<open>HTTP\<close>

record http_request =
  req_Method :: string
  req_Path :: "string list"
  req_Authorization :: string
  req_Body :: string

record http_response =
  rsp_Status :: nat
  rsp_ContentType :: string
  rsp_Body :: string

abbreviation newline :: string where "newline \<equiv> [CHR 0x0A]"

definition httpError :: "string \<Rightarrow> nat \<Rightarrow> http_response" where
  "httpError msg code =
     \<lparr>rsp_Status = code, rsp_ContentType = ''text/plain; charset=utf-8'', rsp_Body = msg @ newline\<rparr>"

definition writeHeader :: "nat \<Rightarrow> http_response" where
  "writeHeader code = \<lparr>rsp_Status = code, rsp_ContentType = [], rsp_Body = []\<rparr>"

definition writeJSON :: "nat \<Rightarrow> json \<Rightarrow> http_response" where
  "writeJSON status v =
     \<lparr>rsp_Status = status, rsp_ContentType = ''application/json'', rsp_Body = json_encode v @ newline\<rparr>"

definition sandboxResponse_json :: "sandboxResponse \<Rightarrow> json" where
  "sandboxResponse_json r =
     JObj [(''id'', JStr (sr_ID r)), (''name'', JStr (sr_Name r)), (''ips'', JArr (map JStr (sr_IPs r)))]"

definition providerConfigResponse_json :: "providerConfigResponse \<Rightarrow> json" where
  "providerConfigResponse_json r = JObj [(''networkMTU'', JNum (show_int (sint (pcr_NetworkMTU r))))]"

text \<open>A handler gets the access from the request's context (\<open>accessFromContext\<close>), where \<open>authorize\<close>
  put it; here it is an argument. Its result is an option, \<open>None\<close> while it is still waiting.\<close>

type_synonym 'w handler = "authorizedAccess \<Rightarrow> http_request \<Rightarrow> ('w, http_response option) kprog"

subsection \<open>Decoding a create request\<close>

abbreviation WorkloadReference_fields :: "string list" where
  "WorkloadReference_fields \<equiv> [''namespace'', ''name'', ''uid'']"

abbreviation createSandboxRequest_fields :: "string list" where
  "createSandboxRequest_fields \<equiv>
     [''workloadRef'', ''sandboxID'', ''userData'', ''vcpus'', ''memoryMiB'', ''arch'']"

text \<open>Each member of the object is stored in turn; the flag collects whether some member had the
  wrong type, in which case \<open>Decode\<close> returns an error. Unknown members are skipped.\<close>

fun store_WorkloadReference ::
    "string \<times> json \<Rightarrow> WorkloadReference \<times> bool \<Rightarrow> WorkloadReference \<times> bool" where
  "store_WorkloadReference (key, v) (w, bad) =
     (case match_field WorkloadReference_fields key of
        None \<Rightarrow> (w, bad)
      | Some f \<Rightarrow>
          if f = ''namespace'' then
            (let (x, b) = store_string v (wr_Namespace w) in (w\<lparr>wr_Namespace := x\<rparr>, bad \<or> b))
          else if f = ''name'' then
            (let (x, b) = store_string v (wr_Name w) in (w\<lparr>wr_Name := x\<rparr>, bad \<or> b))
          else
            (let (x, b) = store_string v (wr_UID w) in (w\<lparr>wr_UID := x\<rparr>, bad \<or> b)))"

definition decode_WorkloadReference :: "json \<Rightarrow> WorkloadReference \<Rightarrow> WorkloadReference \<times> bool" where
  "decode_WorkloadReference v old = (case v of
     JObj kvs \<Rightarrow> fold store_WorkloadReference kvs (old, False)
   | JNull \<Rightarrow> (old, False)
   | _ \<Rightarrow> (old, True))"

fun store_createSandboxRequest ::
    "string \<times> json \<Rightarrow> createSandboxRequest \<times> bool \<Rightarrow> createSandboxRequest \<times> bool" where
  "store_createSandboxRequest (key, v) (r, bad) =
     (case match_field createSandboxRequest_fields key of
        None \<Rightarrow> (r, bad)
      | Some f \<Rightarrow>
          if f = ''workloadRef'' then
            (let (x, b) = decode_WorkloadReference v (csr_WorkloadRef r)
             in (r\<lparr>csr_WorkloadRef := x\<rparr>, bad \<or> b))
          else if f = ''sandboxID'' then
            (let (x, b) = store_string v (csr_SandboxID r) in (r\<lparr>csr_SandboxID := x\<rparr>, bad \<or> b))
          else if f = ''userData'' then
            (let (x, b) = store_string v (csr_UserData r) in (r\<lparr>csr_UserData := x\<rparr>, bad \<or> b))
          else if f = ''vcpus'' then
            (let (x, b) = store_int64 v (csr_VCPUs r) in (r\<lparr>csr_VCPUs := x\<rparr>, bad \<or> b))
          else if f = ''memoryMiB'' then
            (let (x, b) = store_int64 v (csr_MemoryMiB r) in (r\<lparr>csr_MemoryMiB := x\<rparr>, bad \<or> b))
          else
            (let (x, b) = store_string v (csr_Arch r) in (r\<lparr>csr_Arch := x\<rparr>, bad \<or> b)))"

definition decode_createSandboxRequest :: "json \<Rightarrow> go_error + createSandboxRequest" where
  "decode_createSandboxRequest v =
     (let (r, bad) = (case v of
        JObj kvs \<Rightarrow> fold store_createSandboxRequest kvs (zero_createSandboxRequest, False)
      | JNull \<Rightarrow> (zero_createSandboxRequest, False)
      | _ \<Rightarrow> (zero_createSandboxRequest, True))
      in if bad then Inl (errorsNew ''json: cannot unmarshal value into Go struct field'') else Inr r)"

definition maxRequestBytes :: nat where "maxRequestBytes = 1048576"

text \<open>\<open>json.NewDecoder(http.MaxBytesReader(w, r.Body, 1<<20)).Decode(&request)\<close>: the decoder reads
  no byte after the first value, and at most \<open>1<<20\<close> bytes.\<close>

definition decodeRequest :: "string \<Rightarrow> go_error + createSandboxRequest" where
  "decodeRequest body = (case json_scan (take maxRequestBytes body) of
     Inl e \<Rightarrow> Inl (if maxRequestBytes < length body then errorsNew ''http: request body too large'' else e)
   | Inr v \<Rightarrow> decode_createSandboxRequest v)"

subsection \<open>New\<close>

definition New :: "Config \<Rightarrow> go_error + Config" where
  "New config =
     (let config1 = (if cfg_Address config = [] then config\<lparr>cfg_Address := '':8080''\<rparr> else config);
          config2 = (if cfg_TokenSecretName config1 = []
                     then config1\<lparr>cfg_TokenSecretName := ''pod-sandbox-api''\<rparr> else config1)
      in if cfg_Namespace config2 = [] \<or> cfg_ClassName config2 = []
         then Inl (errorsNew ''namespace and class name are required'')
         else Inr config2)"

subsection \<open>getConfig and getClass\<close>

definition getClass :: "'w kube \<Rightarrow> string \<Rightarrow> ('w, go_error + PodSandboxClass) kprog" where
  "getClass k className = do {
     r \<leftarrow> getClassObject k className;
     State_Monad.return (case r of
       Inl e \<Rightarrow> Inl (wrapError (''get PodSandboxClass '' @ Quote className @ '': '') e)
     | Inr c \<Rightarrow> Inr c)
   }"

definition getConfig :: "'w kube \<Rightarrow> 'w handler" where
  "getConfig k access r0 = do {
     r \<leftarrow> getClass k (aa_ClassName access);
     State_Monad.return (Some (case r of
       Inl e \<Rightarrow> httpError (Error e) 503
     | Inr sandboxClass \<Rightarrow>
         let networkMTU = cls_NetworkMTU (psc_Spec sandboxClass);
             networkMTU = (if networkMTU = 0 then 1500 else networkMTU)
         in writeJSON 200 (providerConfigResponse_json \<lparr>pcr_NetworkMTU = networkMTU\<rparr>)))
   }"

subsection \<open>Authorization\<close>

definition tokenMatches :: "string \<Rightarrow> string \<Rightarrow> bool" where
  "tokenMatches got expected \<longleftrightarrow>
     got \<noteq> [] \<and> length got = length expected \<and> ConstantTimeCompare got expected = 1"

definition token :: "'w kube \<Rightarrow> Config \<Rightarrow> ('w, go_error + string) kprog" where
  "token k config =
     (if cfg_Token config \<noteq> [] then State_Monad.return (Inr (cfg_Token config))
      else do {
        r \<leftarrow> getSecret k (NN (cfg_Namespace config) (cfg_TokenSecretName config));
        State_Monad.return (case r of
          Inl e \<Rightarrow> Inl e
        | Inr secret \<Rightarrow>
            let tok = map_get (sec_Data secret) ''token'' in
            if tok = [] then Inl (errorsNew ''pod sandbox API token is empty'') else Inr tok)
      })"

text \<open>The loop over the access secrets.\<close>

fun matchAccess :: "string \<Rightarrow> Secret list \<Rightarrow> authorizedAccess \<Rightarrow> go_error + authorizedAccess" where
  "matchAccess got [] matched = Inr matched"
| "matchAccess got (item # items) matched =
     (if \<not> tokenMatches got (map_get (sec_Data item) AccessSecretTokenKey)
      then matchAccess got items matched
      else
        let className = map_get (sec_Data item) AccessSecretClassKey;
            namespace = map_get (sec_Data item) AccessSecretNamespaceKey;
            candidateAccess = \<lparr>aa_ClassName = className, aa_Namespace = namespace\<rparr>
        in if className = [] \<or> namespace = [] \<or>
              (aa_ClassName matched \<noteq> [] \<and> matched \<noteq> candidateAccess)
           then Inl (errorsNew ''pod sandbox API access secret is invalid'')
           else matchAccess got items candidateAccess)"

definition authorizedAccessFor ::
    "'w kube \<Rightarrow> Config \<Rightarrow> string \<Rightarrow> ('w, go_error + authorizedAccess) kprog" where
  "authorizedAccessFor k config got = do {
     e \<leftarrow> token k config;
     case e of
       Inl err \<Rightarrow> State_Monad.return (Inl err)
     | Inr expected \<Rightarrow>
         if tokenMatches got expected
         then State_Monad.return
           (Inr \<lparr>aa_ClassName = cfg_ClassName config, aa_Namespace = cfg_Namespace config\<rparr>)
         else do {
           r \<leftarrow> listSecrets k (cfg_Namespace config) AccessSecretLabel AccessSecretLabelValue;
           State_Monad.return (case r of
             Inl err \<Rightarrow> Inl (wrapError ''list Pod Sandbox API access secrets: '' err)
           | Inr accesses \<Rightarrow> matchAccess got accesses noAccess)
         }
   }"

definition bearer :: "http_request \<Rightarrow> string" where
  "bearer r = TrimPrefix (req_Authorization r) ''Bearer ''"

definition authorize :: "'w kube \<Rightarrow> Config \<Rightarrow> 'w handler \<Rightarrow> http_request \<Rightarrow> ('w, http_response option) kprog"
  where
  "authorize k config nxt r = do {
     a \<leftarrow> authorizedAccessFor k config (bearer r);
     case a of
       Inl err \<Rightarrow> State_Monad.return (Some (httpError ''authorization is unavailable'' 503))
     | Inr access \<Rightarrow>
         if aa_ClassName access = [] \<or> aa_Namespace access = []
         then State_Monad.return (Some (httpError ''unauthorized'' 401))
         else nxt access r
   }"

subsection \<open>ensureTokenSecret and Start\<close>

definition ensureTokenSecret :: "'w kube \<Rightarrow> Config \<Rightarrow> ('w, go_error + unit) kprog" where
  "ensureTokenSecret k config =
     (let key = NN (cfg_Namespace config) (cfg_TokenSecretName config) in do {
        existing \<leftarrow> getSecret k key;
        case existing of
          Inr s \<Rightarrow>
            State_Monad.return
              (if length (map_get (sec_Data s) ''token'') = 0
               then Inl (errorsNew (''secret '' @ nn_Namespace key @ ''/'' @ nn_Name key @ '' has no token key''))
               else Inr ())
        | Inl err \<Rightarrow>
            if \<not> IsNotFound err
            then State_Monad.return (Inl (wrapError ''get Pod Sandbox API token secret: '' err))
            else do {
              random \<leftarrow> randRead k 32;
              case random of
                Inl err \<Rightarrow> State_Monad.return (Inl (wrapError ''generate Pod Sandbox API token: '' err))
              | Inr bytes \<Rightarrow> do {
                  c \<leftarrow> createSecret k
                    \<lparr>sec_ObjectMeta = zero_ObjectMeta\<lparr>om_Name := nn_Name key, om_Namespace := nn_Namespace key\<rparr>,
                     sec_Immutable = None,
                     sec_Data = [''token'' \<mapsto> hex_EncodeToString bytes],
                     sec_Type = ''Opaque''\<rparr>;
                  State_Monad.return (case c of
                    Inr _ \<Rightarrow> Inr ()
                  | Inl err \<Rightarrow>
                      if IsAlreadyExists err then Inr ()
                      else Inl (wrapError ''create Pod Sandbox API token secret: '' err))
                }
            }
      })"

text \<open>\<open>Start\<close> before it listens: the token secret is ensured unless a token is configured.\<close>

definition startup :: "'w kube \<Rightarrow> Config \<Rightarrow> ('w, go_error + unit) kprog" where
  "startup k config =
     (if cfg_Token config = [] then ensureTokenSecret k config else State_Monad.return (Inr ()))"

text \<open>How \<open>Start\<close> ends: the manager's context is done and the server was shut down, with the
  result of \<open>Shutdown\<close>, or \<open>ListenAndServe\<close> returned, with its error.\<close>

datatype serve_end = ShutDown "go_error option" | ServeClosed | ServeError go_error

definition Start :: "'w kube \<Rightarrow> Config \<Rightarrow> serve_end \<Rightarrow> ('w, go_error option) kprog" where
  "Start k config ending = do {
     r \<leftarrow> startup k config;
     State_Monad.return (case r of
       Inl err \<Rightarrow> Some err
     | Inr _ \<Rightarrow> (case ending of ShutDown e \<Rightarrow> e | ServeClosed \<Rightarrow> None | ServeError e \<Rightarrow> Some e))
   }"

definition NeedLeaderElection :: bool where "NeedLeaderElection = True"

subsection \<open>Names and conditions\<close>

definition sandboxName :: "string \<Rightarrow> string" where
  "sandboxName sandboxID = ''psb-'' @ hex_EncodeToString (take 10 (Sum256 (map byte_of sandboxID)))"

fun conditionByType :: "Condition list \<Rightarrow> string \<Rightarrow> Condition option" where
  "conditionByType [] conditionType = None"
| "conditionByType (c # cs) conditionType =
     (if cond_Type c = conditionType then Some c else conditionByType cs conditionType)"

definition conditionTrue :: "Condition list \<Rightarrow> string \<Rightarrow> bool" where
  "conditionTrue cs conditionType = (case conditionByType cs conditionType of
     None \<Rightarrow> False | Some c \<Rightarrow> cond_Status c = ConditionTrue)"

subsection \<open>createSandbox\<close>

definition applyDefaults :: "createSandboxRequest \<Rightarrow> createSandboxRequest" where
  "applyDefaults request =
     (let request1 = (if sint (csr_VCPUs request) \<le> 0 then request\<lparr>csr_VCPUs := 2\<rparr> else request)
      in if sint (csr_MemoryMiB request1) \<le> 0 then request1\<lparr>csr_MemoryMiB := 2048\<rparr> else request1)"

definition userDataSecret :: "string \<Rightarrow> string \<Rightarrow> createSandboxRequest \<Rightarrow> Secret" where
  "userDataSecret namespace name request =
     \<lparr>sec_ObjectMeta = zero_ObjectMeta\<lparr>om_Name := name @ ''-userdata'', om_Namespace := namespace\<rparr>,
      sec_Immutable = Some True,
      sec_Data = [userDataKey \<mapsto> csr_UserData request],
      sec_Type = []\<rparr>"

definition newSandbox :: "string \<Rightarrow> string \<Rightarrow> string \<Rightarrow> string \<Rightarrow> createSandboxRequest \<Rightarrow> PodSandbox" where
  "newSandbox namespace name className secretName request =
     \<lparr>psb_ObjectMeta = zero_ObjectMeta\<lparr>om_Name := name, om_Namespace := namespace\<rparr>,
      psb_Spec = \<lparr>spec_WorkloadRef = csr_WorkloadRef request,
                  spec_SandboxID = csr_SandboxID request,
                  spec_UserDataSecretRef = \<lparr>lor_Name = secretName\<rparr>,
                  spec_ClassName = className,
                  spec_VCPUs = csr_VCPUs request,
                  spec_MemoryMiB = csr_MemoryMiB request,
                  spec_Arch = csr_Arch request\<rparr>,
      psb_Status = zero_PodSandboxStatus\<rparr>"

text \<open>The body of the polling loop after a successful read: the response that ends it and whether
  the sandbox was completed, or \<open>None\<close> to wait.\<close>

definition pollResult :: "string \<Rightarrow> PodSandbox \<Rightarrow> (http_response \<times> bool) option" where
  "pollResult workloadName sandbox =
     (let conditions = status_Conditions (psb_Status sandbox); ips = status_IPs (psb_Status sandbox) in
      if conditionTrue conditions ConditionReady \<and> length ips > 0
      then Some (writeJSON 201 (sandboxResponse_json
                   \<lparr>sr_ID = psb_Name sandbox, sr_Name = workloadName, sr_IPs = ips\<rparr>), True)
      else case conditionByType conditions ConditionReady of
             Some c \<Rightarrow>
               if cond_Status c = ConditionFalse \<and> cond_Reason c = ''RunnerFailed''
               then Some (httpError (cond_Message c) 500, False) else None
           | None \<Rightarrow> None)"

text \<open>The polling loop: the response, whether the sandbox was completed, and the sandbox variable
  as the loop left it.\<close>

fun pollSandbox ::
    "nat \<Rightarrow> 'w kube \<Rightarrow> NamespacedName \<Rightarrow> string \<Rightarrow> PodSandbox \<Rightarrow>
     ('w, (http_response \<times> bool \<times> PodSandbox) option) kprog" where
  "pollSandbox 0 k key workloadName sandbox = State_Monad.return None"
| "pollSandbox (Suc n) k key workloadName sandbox = do {
     r \<leftarrow> getSandbox k key;
     case r of
       Inl err \<Rightarrow> State_Monad.return (Some (httpError (Error err) 500, False, sandbox))
     | Inr got \<Rightarrow>
         (case pollResult workloadName got of
            Some (rsp, completed) \<Rightarrow> State_Monad.return (Some (rsp, completed, got))
          | None \<Rightarrow> do {
              ev \<leftarrow> selectEvent k;
              case ev of
                CtxDone err \<Rightarrow> State_Monad.return (Some (httpError err 504, False, got))
              | Tick \<Rightarrow> pollSandbox n k key workloadName got
            })
   }"

text \<open>The deferred cleanup, which runs when the handler returns.\<close>

definition finishCreate ::
    "'w kube \<Rightarrow> bool \<Rightarrow> (http_response \<times> bool \<times> PodSandbox) option \<Rightarrow> ('w, http_response option) kprog" where
  "finishCreate k createdHere p = (case p of
     None \<Rightarrow> State_Monad.return None
   | Some (rsp, completed, sandbox) \<Rightarrow>
       if createdHere \<and> \<not> completed
       then do {
         _ \<leftarrow> deleteSandboxObject k WithoutCancel sandbox;
         State_Monad.return (Some rsp)
       }
       else State_Monad.return (Some rsp))"

definition identityConflict :: "string \<Rightarrow> createSandboxRequest \<Rightarrow> PodSandbox \<Rightarrow> bool" where
  "identityConflict className request sandbox \<longleftrightarrow>
     spec_SandboxID (psb_Spec sandbox) \<noteq> csr_SandboxID request \<or>
     spec_ClassName (psb_Spec sandbox) \<noteq> className \<or>
     spec_WorkloadRef (psb_Spec sandbox) \<noteq> csr_WorkloadRef request"

text \<open>The branch for a sandbox that does not exist yet: the user data secret, the sandbox, and the
  owner reference of the secret.\<close>

definition createNew ::
    "'w kube \<Rightarrow> string \<Rightarrow> string \<Rightarrow> string \<Rightarrow> createSandboxRequest \<Rightarrow>
     ('w, http_response + PodSandbox) kprog" where
  "createNew k namespace name className request =
     (let secret0 = userDataSecret namespace name request in do {
        r \<leftarrow> createSecret k secret0;
        case (case r of Inl err \<Rightarrow> if IsAlreadyExists err then Inr secret0 else Inl err | Inr s \<Rightarrow> Inr s) of
          Inl err \<Rightarrow> State_Monad.return (Inl (httpError (Error err) 500))
        | Inr secret \<Rightarrow> do {
            c \<leftarrow> createSandboxObject k (newSandbox namespace name className (sec_Name secret) request);
            case c of
              Inl err \<Rightarrow> do {
                _ \<leftarrow> deleteSecret k secret;
                State_Monad.return (Inl (httpError (Error err) 500))
              }
            | Inr sandbox \<Rightarrow>
                (case kl_SetSecretController k sandbox secret of
                   Inl _ \<Rightarrow> State_Monad.return (Inr sandbox)
                 | Inr owned \<Rightarrow> do {
                     _ \<leftarrow> updateSecret k owned;
                     State_Monad.return (Inr sandbox)
                   })
          }
      })"

text \<open>The loop and the deferred cleanup after it.\<close>

definition awaitSandbox ::
    "nat \<Rightarrow> 'w kube \<Rightarrow> bool \<Rightarrow> NamespacedName \<Rightarrow> string \<Rightarrow> PodSandbox \<Rightarrow> ('w, http_response option) kprog" where
  "awaitSandbox polls k createdHere key workloadName sandbox = do {
     p \<leftarrow> pollSandbox polls k key workloadName sandbox;
     finishCreate k createdHere p
   }"

text \<open>The handler from the validated request on.\<close>

definition admitSandbox ::
    "nat \<Rightarrow> 'w kube \<Rightarrow> authorizedAccess \<Rightarrow> createSandboxRequest \<Rightarrow> ('w, http_response option) kprog" where
  "admitSandbox polls k access request =
     (let className = aa_ClassName access;
          namespace = aa_Namespace access;
          name = sandboxName (csr_SandboxID request);
          key = NN namespace name;
          workloadName = wr_Name (csr_WorkloadRef request)
      in do {
        got \<leftarrow> getSandbox k key;
        case got of
          Inl err \<Rightarrow>
            if \<not> IsNotFound err
            then State_Monad.return (Some (httpError (Error err) 500))
            else do {
              c \<leftarrow> createNew k namespace name className request;
              case c of
                Inl rsp \<Rightarrow> State_Monad.return (Some rsp)
              | Inr sandbox \<Rightarrow> awaitSandbox polls k True key workloadName sandbox
            }
        | Inr sandbox \<Rightarrow>
            if identityConflict className request sandbox
            then State_Monad.return (Some (httpError ''sandbox identity conflict'' 409))
            else awaitSandbox polls k False key workloadName sandbox
      })"

definition createSandbox :: "nat \<Rightarrow> 'w kube \<Rightarrow> 'w handler" where
  "createSandbox polls k access r = do {
     cls \<leftarrow> getClass k (aa_ClassName access);
     case cls of
       Inl err \<Rightarrow> State_Monad.return (Some (httpError (Error err) 503))
     | Inr _ \<Rightarrow>
         (case decodeRequest (req_Body r) of
            Inl err \<Rightarrow> State_Monad.return (Some (httpError (''invalid request: '' @ Error err) 400))
          | Inr request \<Rightarrow>
              if wr_Name (csr_WorkloadRef request) = [] \<or> csr_SandboxID request = [] \<or>
                 csr_UserData request = []
              then State_Monad.return
                (Some (httpError ''workloadRef.name, sandboxID, and userData are required'' 400))
              else admitSandbox polls k access (applyDefaults request))
   }"

subsection \<open>deleteSandbox\<close>

text \<open>\<open>url.PathUnescape\<close> of a path segment; a segment with a malformed escape is kept as it is.\<close>

fun unescape_path :: "string \<Rightarrow> string option" where
  "unescape_path [] = Some []"
| "unescape_path (c # s) =
     (if c = CHR ''%'' then
        (case s of
           a # b # t \<Rightarrow>
             if is_hex_char a \<and> is_hex_char b
             then map_option ((#) (char_of (hex_val a * 16 + hex_val b))) (unescape_path t)
             else None
         | _ \<Rightarrow> None)
      else map_option ((#) c) (unescape_path s))"

definition PathUnescape :: "string \<Rightarrow> string" where
  "PathUnescape s = (case unescape_path s of Some t \<Rightarrow> t | None \<Rightarrow> s)"

text \<open>\<open>r.PathValue("id")\<close> for the pattern \<open>/v1/sandboxes/{id}\<close>.\<close>

definition pathValueID :: "http_request \<Rightarrow> string" where
  "pathValueID r = (case req_Path r of [_, _, c] \<Rightarrow> PathUnescape c | _ \<Rightarrow> [])"

definition deleteSandbox :: "'w kube \<Rightarrow> 'w handler" where
  "deleteSandbox k access r =
     (let id0 = pathValueID r in
      if id0 = [] \<or> Contains id0 ''/''
      then State_Monad.return (Some (httpError ''invalid sandbox id'' 400))
      else do {
        g \<leftarrow> getSandbox k (NN (aa_Namespace access) id0);
        case g of
          Inl err \<Rightarrow>
            State_Monad.return
              (Some (if IsNotFound err then writeHeader 204 else httpError (Error err) 500))
        | Inr sandbox \<Rightarrow>
            if spec_ClassName (psb_Spec sandbox) \<noteq> aa_ClassName access
            then State_Monad.return (Some (httpError ''forbidden'' 403))
            else do {
              d \<leftarrow> deleteSandboxObject k RequestCtx sandbox;
              State_Monad.return (Some (case d of
                Inl err \<Rightarrow> if IsNotFound err then writeHeader 204 else httpError (Error err) 500
              | Inr _ \<Rightarrow> writeHeader 204))
            }
      })"

subsection \<open>The routes\<close>

text \<open>The multiplexer that \<open>New\<close> registers the handlers with. \<open>req_Path\<close> is the list of the segments
  of the escaped path. A path that \<open>path.Clean\<close> would change is redirected, except for \<open>CONNECT\<close>; a
  segment is matched after unescaping. A pattern for \<open>GET\<close> also serves \<open>HEAD\<close>; a path that is
  registered for other methods only is answered with 405.\<close>

datatype route = RConfig | RCreate | RDelete | RHealthz | RMethodNotAllowed | RNotFound | RRedirect

definition cleanSegments :: "string list \<Rightarrow> bool" where
  "cleanSegments p \<longleftrightarrow> [] \<notin> set (butlast p) \<and> ''.'' \<notin> set p \<and> ''..'' \<notin> set p"

definition matchPath :: "string \<Rightarrow> string list \<Rightarrow> route" where
  "matchPath m p =
     (let get = (m = ''GET'' \<or> m = ''HEAD'') in
      case p of
        [a] \<Rightarrow> if a = ''healthz'' then (if get then RHealthz else RMethodNotAllowed) else RNotFound
      | [a, b] \<Rightarrow>
          if a = ''v1'' \<and> b = ''config'' then (if get then RConfig else RMethodNotAllowed)
          else if a = ''v1'' \<and> b = ''sandboxes'' then (if m = ''POST'' then RCreate else RMethodNotAllowed)
          else RNotFound
      | [a, b, c] \<Rightarrow>
          if a = ''v1'' \<and> b = ''sandboxes'' \<and> c \<noteq> []
          then (if m = ''DELETE'' then RDelete else RMethodNotAllowed)
          else RNotFound
      | _ \<Rightarrow> RNotFound)"

definition routeOf :: "http_request \<Rightarrow> route" where
  "routeOf r =
     (if req_Method r \<noteq> ''CONNECT'' \<and> \<not> cleanSegments (req_Path r) then RRedirect
      else matchPath (req_Method r) (map PathUnescape (req_Path r)))"

definition ServeHTTP :: "nat \<Rightarrow> 'w kube \<Rightarrow> Config \<Rightarrow> http_request \<Rightarrow> ('w, http_response option) kprog" where
  "ServeHTTP polls k config r = (case routeOf r of
     RConfig \<Rightarrow> authorize k config (getConfig k) r
   | RCreate \<Rightarrow> authorize k config (createSandbox polls k) r
   | RDelete \<Rightarrow> authorize k config (deleteSandbox k) r
   | RHealthz \<Rightarrow> State_Monad.return (Some (writeHeader 200))
   | RMethodNotAllowed \<Rightarrow> State_Monad.return (Some (httpError ''Method Not Allowed'' 405))
   | RNotFound \<Rightarrow> State_Monad.return (Some (httpError ''404 page not found'' 404))
   | RRedirect \<Rightarrow> State_Monad.return (Some (writeHeader 307)))"

end
