(* ===== verification/Server_Contract.thy ===== *)
theory Server_Contract
  imports Sandbox_Server
begin

text \<open>
  What the API server promises of a request. \<open>grants\<close> is the specification of authorization: the
  accesses that the secrets carrying a token name, and \<open>matchAccess_grants_iff\<close> is the equivalence of
  the loop over the secrets with it. \<open>within\<close> says that a call stays in the namespace and the class of
  an access; the locale \<open>scoped_handler\<close> is the interface the multiplexer relies on (a handler makes
  only such calls), interpreted on the three handlers, and \<open>ServeHTTP_isolated\<close> rests on it.
\<close>

subsection \<open>Authorization\<close>

lemma tokenMatches_iff: "tokenMatches got expected \<longleftrightarrow> got \<noteq> [] \<and> got = expected"
  by (auto simp: tokenMatches_def ConstantTimeCompare_iff)

definition secretAccess :: "Secret \<Rightarrow> authorizedAccess" where
  "secretAccess s = \<lparr>aa_ClassName = map_get (sec_Data s) AccessSecretClassKey,
     aa_Namespace = map_get (sec_Data s) AccessSecretNamespaceKey\<rparr>"

definition validAccess :: "authorizedAccess \<Rightarrow> bool" where
  "validAccess a \<longleftrightarrow> aa_ClassName a \<noteq> [] \<and> aa_Namespace a \<noteq> []"

definition grants :: "string \<Rightarrow> Secret list \<Rightarrow> authorizedAccess list" where
  "grants got items =
     map secretAccess (filter (\<lambda>s. map_get (sec_Data s) AccessSecretTokenKey = got) items)"

lemma matchAccess_valid:
  assumes "got \<noteq> []" and "validAccess m"
  shows "matchAccess got items m =
     (if \<forall>a \<in> set (grants got items). a = m
      then Inr m else Inl (errorsNew ''pod sandbox API access secret is invalid''))"
  using assms
proof (induction items)
  case (Cons s items)
  then show ?case
    by (auto simp: tokenMatches_iff grants_def secretAccess_def validAccess_def Let_def)
qed (simp add: grants_def)

lemma matchAccess_spec:
  "matchAccess got items noAccess =
     (if got = [] \<or> grants got items = [] then Inr noAccess
      else if validAccess (hd (grants got items)) \<and>
              (\<forall>a \<in> set (grants got items). a = hd (grants got items))
      then Inr (hd (grants got items))
      else Inl (errorsNew ''pod sandbox API access secret is invalid''))"
proof (cases "got = []")
  case True
  then have "matchAccess got items m = Inr m" for m
    by (induction items) (auto simp: tokenMatches_iff)
  with True show ?thesis by simp
next
  case False
  show ?thesis
  proof (induction items)
    case (Cons s items)
    show ?case
    proof (cases "map_get (sec_Data s) AccessSecretTokenKey = got")
      case True
      show ?thesis
      proof (cases "validAccess (secretAccess s)")
        case v: True
        then have "matchAccess got (s # items) noAccess = matchAccess got items (secretAccess s)"
          using True False
          by (auto simp: tokenMatches_iff noAccess_def Let_def validAccess_def secretAccess_def)
        then show ?thesis using True False v matchAccess_valid [OF False v, of items]
          by (auto simp: grants_def)
      next
        case nv: False
        then show ?thesis using True False
          by (auto simp: tokenMatches_iff Let_def validAccess_def secretAccess_def grants_def)
      qed
    next
      case ne: False
      then have "grants got (s # items) = grants got items" by (simp add: grants_def)
      moreover have "matchAccess got (s # items) noAccess = matchAccess got items noAccess"
        using ne by (auto simp: tokenMatches_iff)
      ultimately show ?thesis using Cons.IH by simp
    qed
  qed (simp add: grants_def)
qed

definition within :: "authorizedAccess \<Rightarrow> kube_call \<Rightarrow> bool" where
  "within a c = (case c of
     GetClass n \<Rightarrow> n = aa_ClassName a
   | CreateSandbox s \<Rightarrow> psb_Namespace s = aa_Namespace a \<and> spec_ClassName (psb_Spec s) = aa_ClassName a
   | _ \<Rightarrow> call_namespace c = Some (aa_Namespace a))"

definition key_laws :: "'w kube \<Rightarrow> bool" where
  "key_laws k \<longleftrightarrow> sandbox_read_law k \<and> secret_create_law k \<and> secret_owner_law k"

lemma getSandbox_key:
  "sandbox_read_law k \<Longrightarrow> pred_state (\<lambda>r. \<forall>sb. r = Inr sb \<longrightarrow> psb_key sb = key) (getSandbox k key)"
  unfolding go_ops by (rule pred_state_perform) (metis sandbox_read_law_def prod.collapse)

lemma createSandboxObject_key:
  "sandbox_read_law k \<Longrightarrow> pred_state (\<lambda>r. \<forall>sb. r = Inr sb \<longrightarrow> psb_key sb = psb_key s) (createSandboxObject k s)"
  unfolding go_ops by (rule pred_state_perform) (metis sandbox_read_law_def prod.collapse)

lemma createSecret_key:
  "secret_create_law k \<Longrightarrow> pred_state (\<lambda>r. \<forall>x. r = Inr x \<longrightarrow> sec_key x = sec_key s) (createSecret k s)"
  unfolding go_ops by (rule pred_state_perform) (metis secret_create_law_def prod.collapse)

lemma emits_getClass [emits_intros]: "P (GetClass n) \<Longrightarrow> emits P (getClass k n)"
  unfolding getClass_def by (intro emits_intros)

lemma emits_pollSandbox [emits_intros]: "P (GetSandbox key) \<Longrightarrow> emits P (pollSandbox n k key wn sb)"
proof (induction n arbitrary: sb)
  case (Suc n)
  show ?case
    unfolding pollSandbox.simps
    by (intro emits_intros Suc.prems) (auto split: option.splits wait_event.splits intro!: emits_intros Suc)
qed (simp add: emits_return)

lemma pollSandbox_key:
  assumes "sandbox_read_law k" and "psb_key sb = key"
  shows "pred_state (\<lambda>r. \<forall>x. r = Some x \<longrightarrow> psb_key (snd (snd x)) = key)
    (pollSandbox n k key wn sb)"
  using assms(2)
proof (induction n arbitrary: sb)
  case 0
  then show ?case by (auto intro!: pred_state_return)
next
  case (Suc n)
  show ?case
    unfolding pollSandbox.simps
    apply (rule pred_state_bind [OF getSandbox_key [OF assms(1)]])
    using Suc
    by (auto split: sum.splits option.splits wait_event.splits
        intro!: pred_state_return pred_state_bind [OF pred_state_True])
qed


lemma createNew_key:
  assumes "sandbox_read_law k"
  shows "pred_state (\<lambda>r. \<forall>sb. r = Inr sb \<longrightarrow> psb_key sb = NN ns name) (createNew k ns name cls rq)"
proof -
  have key: "psb_key (newSandbox ns name cls sn rq) = NN ns name" for sn
    by (simp add: newSandbox_def ObjectKeyFromMeta_def)
  show ?thesis
    unfolding createNew_def Let_def
    apply (rule pred_state_bind [OF pred_state_True])
    apply (split sum.split, intro conjI allI impI)
     apply (simp add: pred_state_return)
    apply (rule pred_state_bind [OF createSandboxObject_key [OF assms]])
    by (auto simp: key split: sum.splits intro!: pred_state_return pred_state_bind [OF pred_state_True])
qed

lemma within_simps [simp]:
  "within a (GetSandbox key) \<longleftrightarrow> nn_Namespace key = aa_Namespace a"
  "within a (GetClass n) \<longleftrightarrow> n = aa_ClassName a"
  "within a (CreateSecret s) \<longleftrightarrow> om_Namespace (sec_ObjectMeta s) = aa_Namespace a"
  "within a (UpdateSecret s) \<longleftrightarrow> om_Namespace (sec_ObjectMeta s) = aa_Namespace a"
  "within a (DeleteSecret key) \<longleftrightarrow> nn_Namespace key = aa_Namespace a"
  "within a (DeleteSandbox c key) \<longleftrightarrow> nn_Namespace key = aa_Namespace a"
  "within a (CreateSandbox sb) \<longleftrightarrow>
     psb_Namespace sb = aa_Namespace a \<and> spec_ClassName (psb_Spec sb) = aa_ClassName a"
  by (simp_all add: within_def)

lemma userDataSecret_key: "sec_key (userDataSecret ns name rq) = NN ns (name @ ''-userdata'')"
  by (simp add: userDataSecret_def ObjectKeyFromMeta_def)

lemma ObjectKeyFromMeta_eq: "ObjectKeyFromMeta m = NN ns n \<longleftrightarrow> om_Namespace m = ns \<and> om_Name m = n"
  by (auto simp: ObjectKeyFromMeta_def)

lemma secret_owner_ns:
  "secret_owner_law k \<Longrightarrow> kl_SetSecretController k ow s = Inr s' \<Longrightarrow>
   om_Namespace (sec_ObjectMeta s') = om_Namespace (sec_ObjectMeta s)"
  unfolding secret_owner_law_def by (metis owned_meta_key)

text \<open>The secret that \<open>createNew\<close> goes on with has the key of the one it asked for.\<close>

lemma createNew_scoped:
  assumes "key_laws k"
  shows "emits (within a) (createNew k (aa_Namespace a) name (aa_ClassName a) rq)"
proof -
  let ?s = "userDataSecret (aa_Namespace a) name rq"
  have laws: "sandbox_read_law k" "secret_create_law k" "secret_owner_law k"
    using assms by (auto simp: key_laws_def)
  have rest: "emits (within a) (do {
      c \<leftarrow> createSandboxObject k (newSandbox (aa_Namespace a) name (aa_ClassName a) (sec_Name s) rq);
      case c of
        Inl err \<Rightarrow> do { _ \<leftarrow> deleteSecret k s; State_Monad.return (Inl (httpError (Error err) 500)) }
      | Inr sandbox \<Rightarrow> (case kl_SetSecretController k sandbox s of
          Inl _ \<Rightarrow> State_Monad.return (Inr sandbox)
        | Inr owned \<Rightarrow> do { _ \<leftarrow> updateSecret k owned; State_Monad.return (Inr sandbox) }) })"
    if "sec_key s = sec_key ?s" for s
    using that
    by (intro emits_intros)
      (auto simp: newSandbox_def userDataSecret_key ObjectKeyFromMeta_eq dest: secret_owner_ns [OF laws(3)])
  show ?thesis
    unfolding createNew_def Let_def
    apply (rule emits_bind_pred [OF _ createSecret_key [OF laws(2)]])
     apply (rule emits_intros, simp add: userDataSecret_def)
    apply (rule emits_case_sum, rule emits_return)
    apply (rule rest)
    apply (auto split: sum.splits if_splits)
    done
qed

lemma emits_finishCreate:
  assumes "\<And>rsp got. p = Some (rsp, False, got) \<Longrightarrow> createdHere \<Longrightarrow> P (DeleteSandbox WithoutCancel (psb_key got))"
  shows "emits P (finishCreate k createdHere p)"
  unfolding finishCreate_def using assms
  by (auto split: option.splits intro!: emits_intros)

lemma awaitSandbox_scoped:
  assumes "sandbox_read_law k" and "psb_key sb = key" and "nn_Namespace key = aa_Namespace a"
  shows "emits (within a) (awaitSandbox n k b key wn sb)"
proof -
  have "emits (within a) (finishCreate k b p)" if "\<forall>x. p = Some x \<longrightarrow> psb_key (snd (snd x)) = key" for p
    using that assms(3) by (intro emits_finishCreate) auto
  moreover have "emits (within a) (pollSandbox n k key wn sb)"
    using assms(3) by (intro emits_pollSandbox) simp
  ultimately show ?thesis
    unfolding awaitSandbox_def by (intro emits_bind_pred [OF _ pollSandbox_key [OF assms(1,2)]])
qed

lemma admitSandbox_scoped:
  assumes "key_laws k"
  shows "emits (within a) (admitSandbox n k a rq)"
proof -
  have law: "sandbox_read_law k" using assms by (simp add: key_laws_def)
  show ?thesis
    unfolding admitSandbox_def Let_def
    apply (rule emits_bind_pred [OF _ getSandbox_key [OF law]])
     apply (rule emits_intros, simp)
    apply (rule emits_case_sum)
     apply (rule emits_if, rule emits_return)
     apply (rule emits_bind_pred [OF createNew_scoped [OF assms] createNew_key [OF law]])
     apply (rule emits_case_sum, rule emits_return)
     apply (rule awaitSandbox_scoped [OF law]; simp)
    apply (rule emits_if, rule emits_return)
    apply (rule awaitSandbox_scoped [OF law]; simp)
    done
qed

lemma createSandbox_scoped: "key_laws k \<Longrightarrow> emits (within a) (createSandbox n k a r)"
  unfolding createSandbox_def by (intro emits_intros admitSandbox_scoped) simp_all

lemma deleteSandbox_scoped:
  assumes "key_laws k"
  shows "emits (within a) (deleteSandbox k a r)"
proof -
  have law: "sandbox_read_law k" using assms by (simp add: key_laws_def)
  show ?thesis
    unfolding deleteSandbox_def Let_def
    apply (rule emits_if)
     apply (rule emits_return)
    apply (rule emits_bind_pred [OF _ getSandbox_key [OF law]])
    by (auto split: sum.splits intro!: emits_intros)
qed

lemma getConfig_scoped: "emits (within a) (getConfig k a r)"
  unfolding getConfig_def by (intro emits_intros) simp

subsection \<open>Isolation\<close>

lemma set_eq_single_hd: "set xs = {a} \<longleftrightarrow> xs \<noteq> [] \<and> a = hd xs \<and> (\<forall>b \<in> set xs. b = hd xs)"
  by (cases xs) auto

lemma matchAccess_grants_iff:
  "matchAccess got items noAccess = Inr a \<and> validAccess a \<longleftrightarrow>
     got \<noteq> [] \<and> validAccess a \<and> set (grants got items) = {a}"
proof -
  have pick: "(if c then Inr noAccess else if validAccess x \<and> p then Inr x else Inl e) = Inr a \<and> validAccess a \<longleftrightarrow>
      \<not> c \<and> validAccess a \<and> a = x \<and> p" for c p x and e :: go_error
    by (auto simp: validAccess_def noAccess_def)
  show ?thesis
    unfolding matchAccess_spec set_eq_single_hd pick by blast
qed

definition auth_call :: "Config \<Rightarrow> kube_call \<Rightarrow> bool" where
  "auth_call config c \<longleftrightarrow>
     c = GetSecret (NN (cfg_Namespace config) (cfg_TokenSecretName config)) \<or>
     c = ListSecrets (cfg_Namespace config) AccessSecretLabel AccessSecretLabelValue"

lemma authorizedAccessFor_reads: "emits (auth_call config) (authorizedAccessFor k config got)"
  unfolding authorizedAccessFor_def token_def by (intro emits_intros) (simp_all add: auth_call_def)

definition isolated ::
    "'w kube \<Rightarrow> Config \<Rightarrow> http_request \<Rightarrow> ('w, kube_call) sys \<Rightarrow> ('w, kube_call) sys \<Rightarrow> bool" where
  "isolated k config r s t \<longleftrightarrow>
     (\<exists>auth rest. trace t = trace s @ auth @ rest \<and> list_all (auth_call config) auth \<and>
        (case fst (run_state (authorizedAccessFor k config (bearer r)) s) of
           Inl _ \<Rightarrow> rest = []
         | Inr access \<Rightarrow> if validAccess access then list_all (within access) rest else rest = []))"

locale scoped_handler =
  fixes h :: "'w kube \<Rightarrow> 'w handler"
  assumes scoped: "key_laws k \<Longrightarrow> emits (within a) (h k a r)"
begin

lemma authorize_isolated:
  assumes "key_laws k"
  shows "wp (authorize k config (h k) r) (\<lambda>_ t. isolated k config r s t) s"
proof -
  obtain a t where a: "run_state (authorizedAccessFor k config (bearer r)) s = (a, t)" by fastforce
  obtain auth where auth: "trace t = trace s @ auth" "list_all (auth_call config) auth"
    using emits_run [OF authorizedAccessFor_reads a] .
  show ?thesis
  proof (cases "\<exists>access. a = Inr access \<and> validAccess access")
    case True
    then obtain access where acc: "a = Inr access" "validAccess access" by blast
    obtain rsp u where u: "run_state (h k access r) t = (rsp, u)" by fastforce
    obtain rest where "trace u = trace t @ rest" "list_all (within access) rest"
      using emits_run [OF scoped [OF assms] u] .
    with a auth acc have "isolated k config r s u"
      unfolding isolated_def by (intro exI [of _ auth] exI [of _ rest]) simp
    with a acc u show ?thesis
      by (simp add: wp_def authorize_def validAccess_def)
  next
    case False
    with a auth have "isolated k config r s t"
      unfolding isolated_def by (intro exI [of _ auth] exI [of _ "[]"]) (auto split: sum.splits)
    with a False show ?thesis
      by (cases a) (auto simp: wp_def authorize_def validAccess_def)
  qed
qed

end

interpretation getConfig: scoped_handler getConfig
  by unfold_locales (rule getConfig_scoped)

interpretation createSandbox: scoped_handler "createSandbox n" for n
  by unfold_locales (rule createSandbox_scoped)

interpretation deleteSandbox: scoped_handler deleteSandbox
  by unfold_locales (rule deleteSandbox_scoped)

lemma isolated_refl: "isolated k config r s s"
  unfolding isolated_def by (intro exI [of _ "[]"]) (auto split: sum.splits)

lemma ServeHTTP_isolated:
  assumes "key_laws k"
  shows "wp (ServeHTTP polls k config r) (\<lambda>_ t. isolated k config r s t) s"
  using assms
  by (cases "routeOf r")
    (simp_all add: ServeHTTP_def isolated_refl
      getConfig.authorize_isolated createSandbox.authorize_isolated deleteSandbox.authorize_isolated)

end
