(* ===== verification/Create_Protocol.thy ===== *)
theory Create_Protocol
  imports Server_Contract
begin

text \<open>
  The abstract protocol of a create request and its refinement. \<open>create_history\<close> is the relation of the
  calls a request makes to its answer, as rules over the possible outcomes of each call;
  \<open>createSandbox_refines\<close> shows that the handler's calls and answer are one of its histories. The rest
  follows from it by rule induction (which calls write, what an answer 201 means) or is about the loop
  that waits for the sandbox: when it returns, and that polls beyond the decisive one change nothing.
\<close>

subsection \<open>The protocol of a create request\<close>

definition sandboxKey :: "authorizedAccess \<Rightarrow> createSandboxRequest \<Rightarrow> NamespacedName" where
  "sandboxKey a rq = NN (aa_Namespace a) (sandboxName (csr_SandboxID rq))"

definition requestedSecret :: "authorizedAccess \<Rightarrow> createSandboxRequest \<Rightarrow> Secret" where
  "requestedSecret a rq = userDataSecret (aa_Namespace a) (sandboxName (csr_SandboxID rq)) rq"

definition requestedSandbox :: "authorizedAccess \<Rightarrow> createSandboxRequest \<Rightarrow> PodSandbox" where
  "requestedSandbox a rq = newSandbox (aa_Namespace a) (sandboxName (csr_SandboxID rq)) (aa_ClassName a)
     (sandboxName (csr_SandboxID rq) @ ''-userdata'') rq"

text \<open>The call that ends the history of a sandbox created by the request: none while the handler
  waits or when it answered 201, otherwise the deletion of the sandbox.\<close>

definition cleanup :: "NamespacedName \<Rightarrow> http_response option \<Rightarrow> kube_call list" where
  "cleanup key r = (case r of
     None \<Rightarrow> []
   | Some rsp \<Rightarrow> if rsp_Status rsp = 201 then [] else [DeleteSandbox WithoutCancel key])"

text \<open>The polls of the loop and the answer after them: the handler still waits, or it answered after
  at least one poll.\<close>

definition polled :: "NamespacedName \<Rightarrow> http_response option \<Rightarrow> kube_call list \<Rightarrow> bool" where
  "polled key r ps \<longleftrightarrow> list_all (\<lambda>c. c = GetSandbox key) ps \<and>
     (case r of None \<Rightarrow> True | Some rsp \<Rightarrow> ps \<noteq> [] \<and> rsp_Status rsp \<in> {201, 500, 504})"

definition secretUpdates :: "NamespacedName \<Rightarrow> kube_call list \<Rightarrow> bool" where
  "secretUpdates key us \<longleftrightarrow> us = [] \<or> (\<exists>s. us = [UpdateSecret s] \<and> sec_key s = key)"

inductive create_history ::
    "authorizedAccess \<Rightarrow> createSandboxRequest \<Rightarrow> http_response option \<Rightarrow> kube_call list \<Rightarrow> bool"
  for a rq where
  refused: "rsp_Status rsp \<in> {409, 500} \<Longrightarrow>
     create_history a rq (Some rsp) [GetSandbox (sandboxKey a rq)]"
| retried: "polled (sandboxKey a rq) r ps \<Longrightarrow>
     create_history a rq r (GetSandbox (sandboxKey a rq) # ps)"
| secret_failed: "rsp_Status rsp = 500 \<Longrightarrow>
     create_history a rq (Some rsp) [GetSandbox (sandboxKey a rq), CreateSecret (requestedSecret a rq)]"
| create_failed: "rsp_Status rsp = 500 \<Longrightarrow>
     create_history a rq (Some rsp) [GetSandbox (sandboxKey a rq), CreateSecret (requestedSecret a rq),
       CreateSandbox (requestedSandbox a rq), DeleteSecret (sec_key (requestedSecret a rq))]"
| created: "secretUpdates (sec_key (requestedSecret a rq)) us \<Longrightarrow>
     polled (sandboxKey a rq) r ps \<Longrightarrow>
     create_history a rq r ([GetSandbox (sandboxKey a rq), CreateSecret (requestedSecret a rq),
       CreateSandbox (requestedSandbox a rq)] @ us @ ps @ cleanup (sandboxKey a rq) r)"

text \<open>The outcome of the loop: whether the sandbox was completed shows in the status.\<close>

definition poll_outcome ::
    "NamespacedName \<Rightarrow> (http_response \<times> bool \<times> PodSandbox) option \<Rightarrow> kube_call list \<Rightarrow> bool" where
  "poll_outcome key p l \<longleftrightarrow> list_all (\<lambda>c. c = GetSandbox key) l \<and>
     (case p of None \<Rightarrow> True
      | Some (rsp, completed, sb) \<Rightarrow> l \<noteq> [] \<and> rsp_Status rsp \<in> {201, 500, 504} \<and>
          (completed \<longleftrightarrow> rsp_Status rsp = 201) \<and> psb_key sb = key)"

lemma pollResult_status:
  "pollResult wn sb = Some (rsp, completed) \<Longrightarrow>
     (completed \<longleftrightarrow> rsp_Status rsp = 201) \<and> rsp_Status rsp \<in> {201, 500}"
  by (auto simp: pollResult_def Let_def writeJSON_def httpError_def split: if_splits option.splits)

lemma yields_getSandbox:
  "sandbox_read_law k \<Longrightarrow>
   yields (\<lambda>r l. l = [GetSandbox key] \<and> (\<forall>sb. r = Inr sb \<longrightarrow> psb_key sb = key)) (getSandbox k key)"
  unfolding go_ops by (rule yields_perform) (metis sandbox_read_law_def prod.collapse)

lemma yields_pollSandbox:
  assumes "sandbox_read_law k" and "psb_key sb = key"
  shows "yields (poll_outcome key) (pollSandbox n k key wn sb)"
  using assms(2)
proof (induction n arbitrary: sb)
  case 0
  show ?case by (simp add: yields_return poll_outcome_def)
next
  case (Suc n)
  have more: "yields (\<lambda>p l. poll_outcome key p ([GetSandbox key] @ l)) (do {
       ev \<leftarrow> selectEvent k;
       case ev of
         CtxDone err \<Rightarrow> State_Monad.return (Some (httpError err 504, False, got))
       | Tick \<Rightarrow> pollSandbox n k key wn got })" if "psb_key got = key" for got
    unfolding go_ops
    by (rule yields_bind [where R = "\<lambda>_ l. l = []"])
      (auto simp: poll_outcome_def httpError_def that split: wait_event.splits
        intro!: yields_observe yields_return yields_mono [OF Suc.IH [OF that]] split: option.splits)
  show ?case
    unfolding pollSandbox.simps
    apply (rule yields_bind [OF yields_getSandbox [OF assms(1)]])
    using Suc.prems more
    by (auto simp: poll_outcome_def httpError_def dest: pollResult_status
        split: sum.splits option.splits prod.splits intro!: yields_return)
qed

lemma yields_finishCreate:
  assumes "poll_outcome key p l"
  shows "yields (\<lambda>r l'. polled key r l \<and> l' = (if createdHere then cleanup key r else []))
    (finishCreate k createdHere p)"
proof (cases p)
  case None
  then show ?thesis using assms
    by (simp add: finishCreate_def poll_outcome_def polled_def cleanup_def yields_return)
next
  case (Some x)
  obtain rsp completed sb where x: "x = (rsp, completed, sb)" by (cases x)
  have p: "polled key (Some rsp) l" and c: "completed \<longleftrightarrow> rsp_Status rsp = 201" and sb: "psb_key sb = key"
    using assms Some x by (auto simp: poll_outcome_def polled_def)
  have "yields (\<lambda>r l'. polled key r l \<and> l' = cleanup key r)
      (do { _ \<leftarrow> deleteSandboxObject k WithoutCancel sb; State_Monad.return (Some rsp) })" if "\<not> completed"
    using that by (intro yields_bind [OF yields_kube(9)] yields_return) (simp add: p c cleanup_def sb)
  moreover have "yields (\<lambda>r l'. polled key r l \<and> l' = (if createdHere then cleanup key r else []))
      (State_Monad.return (Some rsp))" if "completed \<or> \<not> createdHere"
    using that by (intro yields_return) (auto simp: p c cleanup_def)
  ultimately show ?thesis
    unfolding finishCreate_def Some x by (cases createdHere; cases completed) auto
qed

lemma yields_awaitSandbox:
  assumes "sandbox_read_law k" and "psb_key sb = key"
  shows "yields (\<lambda>r l. \<exists>ps. polled key r ps \<and>
            l = ps @ (if createdHere then cleanup key r else []))
    (awaitSandbox n k createdHere key wn sb)"
  unfolding awaitSandbox_def
  apply (rule yields_bind [OF yields_pollSandbox [OF assms]])
  apply (rule yields_mono [OF yields_finishCreate])
   apply assumption
  apply auto
  done


definition createNew_outcome ::
    "authorizedAccess \<Rightarrow> createSandboxRequest \<Rightarrow> http_response + PodSandbox \<Rightarrow> kube_call list \<Rightarrow> bool" where
  "createNew_outcome a rq r l = (case r of
      Inl rsp \<Rightarrow> rsp_Status rsp = 500 \<and>
        (l = [CreateSecret (requestedSecret a rq)] \<or>
         l = [CreateSecret (requestedSecret a rq), CreateSandbox (requestedSandbox a rq),
              DeleteSecret (sec_key (requestedSecret a rq))])
    | Inr sb \<Rightarrow> psb_key sb = sandboxKey a rq \<and>
        (\<exists>us. secretUpdates (sec_key (requestedSecret a rq)) us \<and>
           l = [CreateSecret (requestedSecret a rq), CreateSandbox (requestedSandbox a rq)] @ us))"

lemma yields_createSecret:
  "secret_create_law k \<Longrightarrow>
   yields (\<lambda>r l. l = [CreateSecret s] \<and> (\<forall>x. r = Inr x \<longrightarrow> sec_key x = sec_key s)) (createSecret k s)"
  unfolding go_ops by (rule yields_perform) (metis secret_create_law_def prod.collapse)

lemma yields_createSandboxObject:
  "sandbox_read_law k \<Longrightarrow>
   yields (\<lambda>r l. l = [CreateSandbox s] \<and> (\<forall>x. r = Inr x \<longrightarrow> psb_key x = psb_key s)) (createSandboxObject k s)"
  unfolding go_ops by (rule yields_perform) (metis sandbox_read_law_def prod.collapse)

lemma psb_key_requestedSandbox: "psb_key (requestedSandbox a rq) = sandboxKey a rq"
  by (simp add: requestedSandbox_def newSandbox_def sandboxKey_def ObjectKeyFromMeta_def)

lemma newSandbox_requested:
  "sec_key s = sec_key (requestedSecret a rq) \<Longrightarrow>
   newSandbox (aa_Namespace a) (sandboxName (csr_SandboxID rq)) (aa_ClassName a) (sec_Name s) rq = requestedSandbox a rq"
  by (simp add: requestedSandbox_def requestedSecret_def userDataSecret_key ObjectKeyFromMeta_eq)

lemma secret_owner_key:
  "secret_owner_law k \<Longrightarrow> kl_SetSecretController k ow s = Inr s' \<Longrightarrow> sec_key s' = sec_key s"
  unfolding secret_owner_law_def by (metis owned_meta_key)

lemma yields_createNew:
  assumes "key_laws k"
  shows "yields (createNew_outcome a rq)
    (createNew k (aa_Namespace a) (sandboxName (csr_SandboxID rq)) (aa_ClassName a) rq)"
proof -
  have laws: "sandbox_read_law k" "secret_create_law k" "secret_owner_law k"
    using assms by (auto simp: key_laws_def)
  let ?u = "requestedSecret a rq" and ?sb = "requestedSandbox a rq"
  have own: "yields (\<lambda>r l. createNew_outcome a rq r ([CreateSecret ?u] @ [CreateSandbox ?sb] @ l))
      (case kl_SetSecretController k sandbox s of
         Inl _ \<Rightarrow> State_Monad.return (Inr sandbox)
       | Inr owned \<Rightarrow> do { _ \<leftarrow> updateSecret k owned; State_Monad.return (Inr sandbox) })"
    if "sec_key s = sec_key ?u" "psb_key sandbox = sandboxKey a rq" for s sandbox
    using that
    by (auto simp: createNew_outcome_def secretUpdates_def dest: secret_owner_key [OF laws(3)]
        split: sum.splits intro!: yields_return yields_bind [OF yields_kube(8)])
  have rest: "yields (\<lambda>r l. createNew_outcome a rq r ([CreateSecret ?u] @ l)) (do {
      c \<leftarrow> createSandboxObject k (newSandbox (aa_Namespace a) (sandboxName (csr_SandboxID rq)) (aa_ClassName a) (sec_Name s) rq);
      case c of
        Inl err \<Rightarrow> do { _ \<leftarrow> deleteSecret k s; State_Monad.return (Inl (httpError (Error err) 500)) }
      | Inr sandbox \<Rightarrow> (case kl_SetSecretController k sandbox s of
          Inl _ \<Rightarrow> State_Monad.return (Inr sandbox)
        | Inr owned \<Rightarrow> do { _ \<leftarrow> updateSecret k owned; State_Monad.return (Inr sandbox) }) })"
    if "sec_key s = sec_key ?u" for s
    unfolding newSandbox_requested [OF that]
    apply (rule yields_bind [OF yields_createSandboxObject [OF laws(1)]])
    subgoal for c l
      apply (cases c)
      using that own [OF that]
      by (auto simp: createNew_outcome_def httpError_def psb_key_requestedSandbox
          intro!: yields_return yields_bind [OF yields_kube(10)])
    done
  show ?thesis
    unfolding createNew_def Let_def
    apply (rule yields_bind [OF yields_createSecret [OF laws(2)]])
    subgoal for r l
      apply (rule yields_case_sum)
       apply (rule yields_return)
       apply (auto simp: requestedSecret_def [symmetric] createNew_outcome_def httpError_def)[1]
      using rest
      apply (auto simp: requestedSecret_def [symmetric] split: sum.splits if_splits)
      done
    done
qed

lemma admitSandbox_refines:
  assumes "key_laws k"
  shows "yields (create_history a rq) (admitSandbox n k a rq)"
proof -
  have law: "sandbox_read_law k" using assms by (simp add: key_laws_def)
  have await: "yields (\<lambda>r l. \<exists>ps. polled (sandboxKey a rq) r ps \<and>
        l = ps @ (if b then cleanup (sandboxKey a rq) r else [])) (awaitSandbox n k b (sandboxKey a rq) wn sb)"
    if "psb_key sb = sandboxKey a rq" for b wn sb
    by (rule yields_awaitSandbox [OF law that])
  have new: "yields (\<lambda>r l. create_history a rq r ([GetSandbox (sandboxKey a rq)] @ l)) (do {
      c \<leftarrow> createNew k (aa_Namespace a) (sandboxName (csr_SandboxID rq)) (aa_ClassName a) rq;
      case c of
        Inl rsp \<Rightarrow> State_Monad.return (Some rsp)
      | Inr sandbox \<Rightarrow> awaitSandbox n k True (sandboxKey a rq) wn sandbox })" for wn
    apply (rule yields_bind [OF yields_createNew [OF assms]])
    subgoal for c l
      apply (rule yields_case_sum)
       apply (rule yields_return)
       apply (auto simp: createNew_outcome_def intro: create_history.secret_failed create_history.create_failed)[1]
      apply (rule yields_mono [OF await])
       apply (auto simp: createNew_outcome_def dest: create_history.created)
      done
    done
  show ?thesis
    unfolding admitSandbox_def Let_def sandboxKey_def [symmetric]
    apply (rule yields_bind [OF yields_getSandbox [OF law]])
    subgoal for r l
      using new
      by (cases r) (auto simp: httpError_def intro!: yields_return yields_mono [OF await]
          intro: create_history.refused create_history.retried)
    done
qed


text \<open>The whole handler: the class is read first; then the request is refused, or its history is
  that of the admitted request with the defaults applied.\<close>

definition complete_request :: "createSandboxRequest \<Rightarrow> bool" where
  "complete_request rq \<longleftrightarrow>
     wr_Name (csr_WorkloadRef rq) \<noteq> [] \<and> csr_SandboxID rq \<noteq> [] \<and> csr_UserData rq \<noteq> []"

definition create_protocol ::
    "authorizedAccess \<Rightarrow> http_request \<Rightarrow> http_response option \<Rightarrow> kube_call list \<Rightarrow> bool" where
  "create_protocol a r rsp l \<longleftrightarrow>
     (\<exists>h. l = GetClass (aa_ClassName a) # h \<and>
        (h = [] \<and> (\<exists>x. rsp = Some x \<and> rsp_Status x \<in> {400, 503}) \<or>
         (\<exists>rq. decodeRequest (req_Body r) = Inr rq \<and> complete_request rq \<and>
            create_history a (applyDefaults rq) rsp h)))"

lemma yields_getClass: "yields (\<lambda>_ l. l = [GetClass n]) (getClass k n)"
  unfolding getClass_def by (rule yields_bind [OF yields_kube(2)]) (simp add: yields_return)

lemma createSandbox_refines:
  assumes "key_laws k"
  shows "yields (create_protocol a r) (createSandbox n k a r)"
  unfolding createSandbox_def
  apply (rule yields_bind [OF yields_getClass])
  apply (rule yields_case_sum)
   apply (rule yields_return, simp add: create_protocol_def httpError_def)
  apply (rule yields_case_sum)
   apply (rule yields_return, simp add: create_protocol_def httpError_def)
  apply (split if_split, intro conjI impI)
   apply (rule yields_return, simp add: create_protocol_def httpError_def)
  apply (rule yields_mono [OF admitSandbox_refines [OF assms]])
  apply (auto simp: create_protocol_def complete_request_def)
  done

subsection \<open>Consequences\<close>

inductive_cases create_historyE: "create_history a rq r l"

lemma polled_no_write: "polled key r ps \<Longrightarrow> filter is_write ps = []"
  by (auto simp: polled_def list_all_iff filter_empty_conv)

text \<open>A failed request leaves nothing behind.\<close>

lemma create_history_writes:
  assumes "create_history a rq (Some rsp) l" and "rsp_Status rsp \<noteq> 201"
    and "CreateSandbox sb \<in> set l"
  shows "last l \<in> {DeleteSandbox WithoutCancel (sandboxKey a rq), DeleteSecret (sec_key (requestedSecret a rq))}"
  using assms
  by (auto elim!: create_historyE simp: cleanup_def polled_def list_all_iff)

subsection \<open>What a 201 means\<close>

definition ready_reply :: "'w kube \<Rightarrow> NamespacedName \<Rightarrow> string \<Rightarrow> 'w \<Rightarrow> http_response \<Rightarrow> bool" where
  "ready_reply k key wn w rsp \<longleftrightarrow>
     (\<exists>w0 sb. kc_GetSandbox k key w0 = (Inr sb, w) \<and>
        conditionTrue (status_Conditions (psb_Status sb)) ConditionReady \<and> status_IPs (psb_Status sb) \<noteq> [] \<and>
        rsp = writeJSON 201 (sandboxResponse_json
          \<lparr>sr_ID = psb_Name sb, sr_Name = wn, sr_IPs = status_IPs (psb_Status sb)\<rparr>))"

definition completed_ready ::
    "'w kube \<Rightarrow> NamespacedName \<Rightarrow> string \<Rightarrow> (http_response \<times> bool \<times> PodSandbox) option \<Rightarrow> ('w, kube_call) sys \<Rightarrow> bool" where
  "completed_ready k key wn p t =
     (case p of None \<Rightarrow> True | Some (rsp, c, _) \<Rightarrow>
        if c then ready_reply k key wn (world t) rsp else 400 \<le> rsp_Status rsp)"

lemma pollResult_ready:
  assumes "kc_GetSandbox k key w0 = (Inr got, w)" and "pollResult wn got = Some (rsp, c)"
  shows "if c then ready_reply k key wn w rsp else 400 \<le> rsp_Status rsp"
  using assms unfolding pollResult_def ready_reply_def Let_def
  by (auto simp: httpError_def split: if_splits option.splits)

lemma pollSandbox_ready: "wp (pollSandbox n k key wn sb) (completed_ready k key wn) s"
proof (induction n arbitrary: sb s)
  case 0
  show ?case by (simp add: completed_ready_def)
next
  case (Suc n sb s)
  obtain r w where g: "kc_GetSandbox k key (world s) = (r, w)" by fastforce
  show ?case
  proof (cases r)
    case (Inl e)
    with g show ?thesis
      by (simp add: getSandbox_def wp_perform completed_ready_def httpError_def)
  next
    case (Inr got)
    show ?thesis
    proof (cases "pollResult wn got")
      case None
      with g Inr Suc show ?thesis
        by (auto simp: getSandbox_def selectEvent_def wp_perform wp_observe completed_ready_def httpError_def
            split: wait_event.splits)
    next
      case (Some x)
      obtain rsp c where "x = (rsp, c)" by (cases x)
      with g Inr Some pollResult_ready [of k key "world s" got w wn rsp c] show ?thesis
        by (simp add: getSandbox_def wp_perform completed_ready_def)
    qed
  qed
qed

lemma finishCreate_ready:
  assumes "completed_ready k key wn p s"
  shows "wp (finishCreate k b p) (\<lambda>r t. case r of None \<Rightarrow> True
     | Some rsp \<Rightarrow> rsp_Status rsp < 400 \<longrightarrow> ready_reply k key wn (world t) rsp) s"
  using assms unfolding finishCreate_def completed_ready_def
  by (auto simp: deleteSandboxObject_def wp_perform split: option.splits prod.splits if_splits)

definition created_ready :: "'w kube \<Rightarrow> NamespacedName \<Rightarrow> string \<Rightarrow> http_response option \<Rightarrow> ('w, kube_call) sys \<Rightarrow> bool" where
  "created_ready k key wn r t = (case r of None \<Rightarrow> True
     | Some rsp \<Rightarrow> if rsp_Status rsp < 400 then ready_reply k key wn (world t) rsp else True)"

lemma awaitSandbox_ready: "wp (awaitSandbox n k b key wn sb) (created_ready k key wn) s"
proof -
  have "wp (finishCreate k b p) (created_ready k key wn) t" if "completed_ready k key wn p t" for p t
    using finishCreate_ready [OF that, of b]
    by (rule wp_mono) (auto simp: created_ready_def split: option.splits)
  then show ?thesis
    unfolding awaitSandbox_def wp_bind by (rule wp_mono [OF pollSandbox_ready])
qed

lemma admitSandbox_ready:
  "wp (admitSandbox n k a rq) (created_ready k (sandboxKey a rq) (wr_Name (csr_WorkloadRef rq))) s"
proof -
  let ?Q = "created_ready k (sandboxKey a rq) (wr_Name (csr_WorkloadRef rq))"
  have err: "?Q (Some (httpError m c)) t" if "400 \<le> c" for m c t
    using that by (simp add: created_ready_def httpError_def)
  have new: "wp (createNew k ns nm cls rq) (\<lambda>r t. case r of Inl rsp \<Rightarrow> ?Q (Some rsp) t | Inr _ \<Rightarrow> True) t" for ns nm cls t
    unfolding createNew_def Let_def go_ops
    by (auto simp: wp_perform err split: sum.splits if_splits)
  have "wp (createNew k ns nm cls rq) (\<lambda>c. wp (case c of
       Inl rsp \<Rightarrow> State_Monad.return (Some rsp)
     | Inr sandbox \<Rightarrow> awaitSandbox n k True (sandboxKey a rq) (wr_Name (csr_WorkloadRef rq)) sandbox) ?Q) t" for ns nm cls t
    by (rule wp_mono [OF new]) (auto split: sum.splits simp: awaitSandbox_ready)
  then show ?thesis
    unfolding admitSandbox_def Let_def sandboxKey_def [symmetric] getSandbox_def
    by (auto simp: wp_perform err awaitSandbox_ready split: sum.splits)
qed

lemma applyDefaults_simps [simp]:
  "csr_SandboxID (applyDefaults rq) = csr_SandboxID rq"
  "csr_WorkloadRef (applyDefaults rq) = csr_WorkloadRef rq"
  "csr_UserData (applyDefaults rq) = csr_UserData rq"
  "csr_Arch (applyDefaults rq) = csr_Arch rq"
  by (simp_all add: applyDefaults_def Let_def)

lemma applyDefaults_positive:
  "0 < sint (csr_VCPUs (applyDefaults rq))" "0 < sint (csr_MemoryMiB (applyDefaults rq))"
  by (auto simp: applyDefaults_def Let_def)

lemma sandboxKey_applyDefaults [simp]: "sandboxKey a (applyDefaults rq) = sandboxKey a rq"
  by (simp add: sandboxKey_def)


definition ready_answer ::
    "'w kube \<Rightarrow> authorizedAccess \<Rightarrow> http_request \<Rightarrow> http_response option \<Rightarrow> ('w, kube_call) sys \<Rightarrow> bool" where
  "ready_answer k a r rsp t = (case rsp of None \<Rightarrow> True
     | Some x \<Rightarrow> if rsp_Status x < 400
         then \<exists>rq. decodeRequest (req_Body r) = Inr rq \<and>
                ready_reply k (sandboxKey a rq) (wr_Name (csr_WorkloadRef rq)) (world t) x
         else True)"

lemma createSandbox_ready: "wp (createSandbox n k a r) (ready_answer k a r) s"
proof -
  have err: "ready_answer k a r (Some (httpError m c)) t" if "400 \<le> c" for m c t
    using that by (simp add: ready_answer_def httpError_def)
  have adm: "wp (admitSandbox n k a (applyDefaults rq)) (ready_answer k a r) t"
    if "decodeRequest (req_Body r) = Inr rq" for rq t
    using that
    by (intro wp_mono [OF admitSandbox_ready]) (auto simp: created_ready_def ready_answer_def split: option.splits)
  show ?thesis
    unfolding createSandbox_def getClass_def getClassObject_def
    by (auto simp: wp_perform err adm split: sum.splits)
qed

subsection \<open>Termination of the loop\<close>

definition poll_world :: "'w kube \<Rightarrow> NamespacedName \<Rightarrow> 'w \<Rightarrow> 'w" where
  "poll_world k key w = snd (kl_Select k (snd (kc_GetSandbox k key w)))"

text \<open>A poll in world \<open>w\<close> ends the loop.\<close>

definition decides :: "'w kube \<Rightarrow> NamespacedName \<Rightarrow> 'w \<Rightarrow> bool" where
  "decides k key w \<longleftrightarrow> (case fst (kc_GetSandbox k key w) of
     Inl _ \<Rightarrow> True
   | Inr sb \<Rightarrow> pollResult [] sb \<noteq> None \<or> fst (kl_Select k (snd (kc_GetSandbox k key w))) \<noteq> Tick)"

lemma pollResult_None: "pollResult wn sb = None \<longleftrightarrow> pollResult [] sb = None"
  by (auto simp: pollResult_def Let_def split: option.splits)

lemma decides_iff:
  "decides k key w \<longleftrightarrow> (case fst (kc_GetSandbox k key w) of
     Inl _ \<Rightarrow> True
   | Inr sb \<Rightarrow> pollResult wn sb \<noteq> None \<or> fst (kl_Select k (snd (kc_GetSandbox k key w))) \<noteq> Tick)"
  unfolding decides_def using pollResult_None [of wn] by (simp split: sum.splits)

lemma pollSandbox_step:
  "run_state (pollSandbox (Suc n) k key wn sb) s = (r, t) \<Longrightarrow>
     if decides k key (world s) then r \<noteq> None
     else \<exists>got. run_state (pollSandbox n k key wn got)
            \<lparr>world = poll_world k key (world s), trace = trace s @ [GetSandbox key]\<rparr> = (r, t)"
  by (auto simp: decides_iff [where wn = wn] poll_world_def getSandbox_def selectEvent_def
      split: sum.splits option.splits wait_event.splits if_splits)

lemma ex_less_Suc: "(\<exists>i<Suc n. P i) \<longleftrightarrow> P 0 \<or> (\<exists>i<n. P (Suc i))"
  by (metis Ex_less_Suc2)

lemma pollSandbox_returns_iff:
  "fst (run_state (pollSandbox n k key wn sb) s) \<noteq> None \<longleftrightarrow>
     (\<exists>i<n. decides k key ((poll_world k key ^^ i) (world s)))"
proof (induction n arbitrary: sb s)
  case (Suc n sb s)
  obtain r t where rt: "run_state (pollSandbox (Suc n) k key wn sb) s = (r, t)" by fastforce
  note step = pollSandbox_step [OF rt]
  show ?case
  proof (cases "decides k key (world s)")
    case True
    with step rt show ?thesis by (auto simp: ex_less_Suc)
  next
    case False
    then obtain got where "run_state (pollSandbox n k key wn got)
            \<lparr>world = poll_world k key (world s), trace = trace s @ [GetSandbox key]\<rparr> = (r, t)"
      using step by auto
    with Suc.IH [of got "\<lparr>world = poll_world k key (world s), trace = trace s @ [GetSandbox key]\<rparr>"] False rt
    show ?thesis by (simp add: ex_less_Suc funpow_swap1)
  qed
qed simp

text \<open>More polls change nothing once the loop has ended.\<close>

lemma pollSandbox_fuel:
  "fst (run_state (pollSandbox n k key wn sb) s) = None \<or>
   run_state (pollSandbox (n + m) k key wn sb) s = run_state (pollSandbox n k key wn sb) s"
proof (induction n arbitrary: sb s)
  case (Suc n sb s)
  show ?case
    using Suc.IH
    by (auto simp: getSandbox_def selectEvent_def split: sum.splits option.splits wait_event.splits)
qed simp


lemma finishCreate_None: "fst (run_state (finishCreate k b p) s) = None \<longleftrightarrow> p = None"
  by (auto simp: finishCreate_def deleteSandboxObject_def split: option.splits)

lemma awaitSandbox_returns_iff:
  "fst (run_state (awaitSandbox n k b key wn sb) s) \<noteq> None \<longleftrightarrow>
     (\<exists>i<n. decides k key ((poll_world k key ^^ i) (world s)))"
  unfolding pollSandbox_returns_iff [of n k key wn sb s, symmetric] awaitSandbox_def
  by (simp add: finishCreate_None del: not_None_eq split: prod.splits)

lemma awaitSandbox_fuel:
  "fst (run_state (awaitSandbox n k b key wn sb) s) = None \<or>
   run_state (awaitSandbox (n + m) k b key wn sb) s = run_state (awaitSandbox n k b key wn sb) s"
  using pollSandbox_fuel [of n k key wn sb s m]
  by (auto simp: awaitSandbox_def finishCreate_def split: prod.splits)

lemma createSandbox_fuel:
  "fst (run_state (createSandbox n k a r) s) = None \<or>
   run_state (createSandbox (n + m) k a r) s = run_state (createSandbox n k a r) s"
proof -
  have adm: "fst (run_state (admitSandbox n k a rq) t) = None \<or>
     run_state (admitSandbox (n + m) k a rq) t = run_state (admitSandbox n k a rq) t" for rq t
    using awaitSandbox_fuel [of n k _ _ _ _ _ m]
    by (auto simp: admitSandbox_def Let_def getSandbox_def split: sum.splits prod.splits)
  then show ?thesis
    by (auto simp: createSandbox_def getClass_def getClassObject_def split: sum.splits)
qed

subsection \<open>A sandbox that exists already\<close>

lemma awaitSandbox_readonly: "yields (\<lambda>_. list_all (\<lambda>c. c = GetSandbox key)) (awaitSandbox n k False key wn sb)"
  unfolding emits_yields [symmetric] awaitSandbox_def
  by (intro emits_intros emits_finishCreate) simp_all

lemma admitSandbox_existing:
  assumes "fst (kc_GetSandbox k (sandboxKey a rq) (world s)) = Inr sb"
  shows "wp (admitSandbox n k a rq) (\<lambda>rsp t.
     \<exists>ps. trace t = trace s @ GetSandbox (sandboxKey a rq) # ps \<and>
       list_all (\<lambda>c. c = GetSandbox (sandboxKey a rq)) ps \<and>
       (if identityConflict (aa_ClassName a) rq sb
        then ps = [] \<and> rsp = Some (httpError ''sandbox identity conflict'' 409) else True)) s"
  using assms yields_wp [OF awaitSandbox_readonly]
  unfolding admitSandbox_def Let_def sandboxKey_def [symmetric] getSandbox_def
  apply (auto simp: wp_perform)
  apply (rule wp_mono, assumption)
  apply auto
  done

end
