(* ===== verification/Mem_Cluster.thy ===== *)
theory Mem_Cluster
  imports Kube_Client
begin

text \<open>
  A cluster in memory: an instance of the parameter \<open>'w kube\<close> whose world is the lists of the stored
  objects, the random bytes still to be read and the events still to be selected. It answers as an
  API server with one client does: \<open>NotFound\<close> and \<open>AlreadyExists\<close> by the key, a status patch changes
  the fields in which the patched object differs from its base, \<open>SetControllerReference\<close> refuses an
  object with another controller. It satisfies every law of \<open>Kube_Client\<close>, so the hypotheses of the
  development can hold, and the concrete scenarios run on it.
\<close>

record mem =
  m_Sandboxes :: "PodSandbox list"
  m_Classes :: "PodSandboxClass list"
  m_Secrets :: "Secret list"
  m_Pods :: "Pod list"
  m_Random :: "byte list"
  m_Events :: "wait_event list"

definition empty_mem :: mem where
  "empty_mem = \<lparr>m_Sandboxes = [], m_Classes = [], m_Secrets = [], m_Pods = [], m_Random = [], m_Events = []\<rparr>"

definition err_NotFound :: go_error where "err_NotFound = Err NotFound ''not found''"
definition err_AlreadyExists :: go_error where "err_AlreadyExists = Err AlreadyExists ''already exists''"

definition mem_get :: "('a \<Rightarrow> 'k) \<Rightarrow> 'k \<Rightarrow> 'a list \<Rightarrow> go_error + 'a" where
  "mem_get f key xs = (case find (\<lambda>x. f x = key) xs of None \<Rightarrow> Inl err_NotFound | Some x \<Rightarrow> Inr x)"

definition mem_remove :: "('a \<Rightarrow> 'k) \<Rightarrow> 'k \<Rightarrow> 'a list \<Rightarrow> 'a list" where
  "mem_remove f key xs = filter (\<lambda>x. f x \<noteq> key) xs"

definition mem_create :: "('a \<Rightarrow> 'k) \<Rightarrow> 'a \<Rightarrow> 'a list \<Rightarrow> (go_error + 'a) \<times> 'a list" where
  "mem_create f x xs = (case mem_get f (f x) xs of
     Inl _ \<Rightarrow> (Inr x, xs @ [x]) | Inr _ \<Rightarrow> (Inl err_AlreadyExists, xs))"

definition mem_update :: "('a \<Rightarrow> 'k) \<Rightarrow> 'a \<Rightarrow> 'a list \<Rightarrow> (go_error + 'a) \<times> 'a list" where
  "mem_update f x xs = (case mem_get f (f x) xs of
     Inl e \<Rightarrow> (Inl e, xs) | Inr _ \<Rightarrow> (Inr x, map (\<lambda>y. if f y = f x then x else y) xs))"

definition mem_delete :: "('a \<Rightarrow> 'k) \<Rightarrow> 'k \<Rightarrow> 'a list \<Rightarrow> (go_error + unit) \<times> 'a list" where
  "mem_delete f key xs = (case mem_get f key xs of
     Inl e \<Rightarrow> (Inl e, xs) | Inr _ \<Rightarrow> (Inr (), mem_remove f key xs))"

definition changed :: "'a \<Rightarrow> 'a \<Rightarrow> 'a \<Rightarrow> 'a" where
  "changed base new stored = (if new = base then stored else new)"

definition merge_status :: "PodSandboxStatus \<Rightarrow> PodSandboxStatus \<Rightarrow> PodSandboxStatus \<Rightarrow> PodSandboxStatus" where
  "merge_status b n s = \<lparr>
     status_ObservedGeneration = changed (status_ObservedGeneration b) (status_ObservedGeneration n) (status_ObservedGeneration s),
     status_RunnerRef = changed (status_RunnerRef b) (status_RunnerRef n) (status_RunnerRef s),
     status_NodeName = changed (status_NodeName b) (status_NodeName n) (status_NodeName s),
     status_IPs = changed (status_IPs b) (status_IPs n) (status_IPs s),
     status_Conditions = changed (status_Conditions b) (status_Conditions n) (status_Conditions s)\<rparr>"

definition mem_patch :: "PodSandbox \<Rightarrow> PodSandbox \<Rightarrow> PodSandbox list \<Rightarrow> (go_error + PodSandbox) \<times> PodSandbox list" where
  "mem_patch base new xs = (case mem_get psb_key (psb_key new) xs of
     Inl e \<Rightarrow> (Inl e, xs)
   | Inr stored \<Rightarrow>
       mem_update psb_key (stored\<lparr>psb_Status := merge_status (psb_Status base) (psb_Status new) (psb_Status stored)\<rparr>) xs)"

fun mem_set_condition :: "Condition list \<Rightarrow> Condition \<Rightarrow> Condition list" where
  "mem_set_condition [] c = [c]"
| "mem_set_condition (d # ds) c =
     (if cond_Type d = cond_Type c
      then c\<lparr>cond_LastTransitionTime := (if cond_Status d = cond_Status c then cond_LastTransitionTime d
                                      else cond_LastTransitionTime c)\<rparr> # ds
      else d # mem_set_condition ds c)"

definition mem_own :: "PodSandbox \<Rightarrow> ObjectMeta \<Rightarrow> go_error + ObjectMeta" where
  "mem_own ow m =
     (let ref = owner_ref ''PodSandbox'' (psb_ObjectMeta ow) in
      if om_Namespace m \<noteq> psb_Namespace ow then Inl (errorsNew ''cross-namespace owner references are disallowed'')
      else if ref \<in> set (om_OwnerReferences m) then Inr m
      else if list_ex or_Controller (om_OwnerReferences m) then Inl (errorsNew ''already owned by another controller'')
      else Inr (m\<lparr>om_OwnerReferences := om_OwnerReferences m @ [ref]\<rparr>))"

definition mem_kube :: "mem kube" where
  "mem_kube = \<lparr>
     kc_GetSandbox = (\<lambda>key w. (mem_get psb_key key (m_Sandboxes w), w)),
     kc_GetClass = (\<lambda>n w. (mem_get (\<lambda>c. om_Name (psc_ObjectMeta c)) n (m_Classes w), w)),
     kc_GetSecret = (\<lambda>key w. (mem_get sec_key key (m_Secrets w), w)),
     kc_GetPod = (\<lambda>key w. (mem_get pod_key key (m_Pods w), w)),
     kc_ListSecrets = (\<lambda>ns l v w. (Inr (filter (\<lambda>s. om_Namespace (sec_ObjectMeta s) = ns \<and>
        om_Labels (sec_ObjectMeta s) l = Some v) (m_Secrets w)), w)),
     kc_ListSandboxes = (\<lambda>w. (Inr (m_Sandboxes w), w)),
     kc_CreateSecret = (\<lambda>x w. (case mem_create sec_key x (m_Secrets w) of (r, xs) \<Rightarrow> (r, w\<lparr>m_Secrets := xs\<rparr>))),
     kc_CreateSandbox = (\<lambda>x w. (case mem_create psb_key x (m_Sandboxes w) of (r, xs) \<Rightarrow> (r, w\<lparr>m_Sandboxes := xs\<rparr>))),
     kc_CreatePod = (\<lambda>x w. (case mem_create pod_key x (m_Pods w) of (r, xs) \<Rightarrow> (r, w\<lparr>m_Pods := xs\<rparr>))),
     kc_UpdateSecret = (\<lambda>x w. (case mem_update sec_key x (m_Secrets w) of (r, xs) \<Rightarrow> (r, w\<lparr>m_Secrets := xs\<rparr>))),
     kc_DeleteSandbox = (\<lambda>_ key w. (case mem_delete psb_key key (m_Sandboxes w) of (r, xs) \<Rightarrow> (r, w\<lparr>m_Sandboxes := xs\<rparr>))),
     kc_DeleteSecret = (\<lambda>key w. (case mem_delete sec_key key (m_Secrets w) of (r, xs) \<Rightarrow> (r, w\<lparr>m_Secrets := xs\<rparr>))),
     kc_DeletePod = (\<lambda>key w. (case mem_delete pod_key key (m_Pods w) of (r, xs) \<Rightarrow> (r, w\<lparr>m_Pods := xs\<rparr>))),
     kc_PatchStatus = (\<lambda>b n w. (case mem_patch b n (m_Sandboxes w) of (r, xs) \<Rightarrow> (r, w\<lparr>m_Sandboxes := xs\<rparr>))),
     kl_SetStatusCondition = (\<lambda>cs c _. mem_set_condition cs c),
     kl_SetPodController = (\<lambda>ow p. case mem_own ow (pod_ObjectMeta p) of
        Inl e \<Rightarrow> Inl e | Inr m \<Rightarrow> Inr (p\<lparr>pod_ObjectMeta := m\<rparr>)),
     kl_SetSecretController = (\<lambda>ow s. case mem_own ow (sec_ObjectMeta s) of
        Inl e \<Rightarrow> Inl e | Inr m \<Rightarrow> Inr (s\<lparr>sec_ObjectMeta := m\<rparr>)),
     kl_RandRead = (\<lambda>n w. if n \<le> length (m_Random w)
        then (Inr (take n (m_Random w)), w\<lparr>m_Random := drop n (m_Random w)\<rparr>)
        else (Inl (errorsNew ''entropy source exhausted''), w)),
     kl_Select = (\<lambda>w. case m_Events w of
        [] \<Rightarrow> (CtxDone ''context canceled'', w) | e # es \<Rightarrow> (e, w\<lparr>m_Events := es\<rparr>))\<rparr>"

lemma mem_kube_simps:
  "kc_GetSandbox mem_kube = (\<lambda>key w. (mem_get psb_key key (m_Sandboxes w), w))"
  "kc_GetClass mem_kube = (\<lambda>n w. (mem_get (\<lambda>c. om_Name (psc_ObjectMeta c)) n (m_Classes w), w))"
  "kc_GetSecret mem_kube = (\<lambda>key w. (mem_get sec_key key (m_Secrets w), w))"
  "kc_GetPod mem_kube = (\<lambda>key w. (mem_get pod_key key (m_Pods w), w))"
  "kc_ListSecrets mem_kube = (\<lambda>ns l v w. (Inr (filter (\<lambda>s. om_Namespace (sec_ObjectMeta s) = ns \<and>
        om_Labels (sec_ObjectMeta s) l = Some v) (m_Secrets w)), w))"
  "kc_ListSandboxes mem_kube = (\<lambda>w. (Inr (m_Sandboxes w), w))"
  "kc_CreateSecret mem_kube = (\<lambda>x w. (case mem_create sec_key x (m_Secrets w) of (r, xs) \<Rightarrow> (r, w\<lparr>m_Secrets := xs\<rparr>)))"
  "kc_CreateSandbox mem_kube = (\<lambda>x w. (case mem_create psb_key x (m_Sandboxes w) of (r, xs) \<Rightarrow> (r, w\<lparr>m_Sandboxes := xs\<rparr>)))"
  "kc_CreatePod mem_kube = (\<lambda>x w. (case mem_create pod_key x (m_Pods w) of (r, xs) \<Rightarrow> (r, w\<lparr>m_Pods := xs\<rparr>)))"
  "kc_UpdateSecret mem_kube = (\<lambda>x w. (case mem_update sec_key x (m_Secrets w) of (r, xs) \<Rightarrow> (r, w\<lparr>m_Secrets := xs\<rparr>)))"
  "kc_DeleteSandbox mem_kube = (\<lambda>_ key w. (case mem_delete psb_key key (m_Sandboxes w) of (r, xs) \<Rightarrow> (r, w\<lparr>m_Sandboxes := xs\<rparr>)))"
  "kc_DeleteSecret mem_kube = (\<lambda>key w. (case mem_delete sec_key key (m_Secrets w) of (r, xs) \<Rightarrow> (r, w\<lparr>m_Secrets := xs\<rparr>)))"
  "kc_DeletePod mem_kube = (\<lambda>key w. (case mem_delete pod_key key (m_Pods w) of (r, xs) \<Rightarrow> (r, w\<lparr>m_Pods := xs\<rparr>)))"
  "kc_PatchStatus mem_kube = (\<lambda>b n w. (case mem_patch b n (m_Sandboxes w) of (r, xs) \<Rightarrow> (r, w\<lparr>m_Sandboxes := xs\<rparr>)))"
  "kl_SetStatusCondition mem_kube = (\<lambda>cs c _. mem_set_condition cs c)"
  "kl_SetPodController mem_kube = (\<lambda>ow p. case mem_own ow (pod_ObjectMeta p) of
        Inl e \<Rightarrow> Inl e | Inr m \<Rightarrow> Inr (p\<lparr>pod_ObjectMeta := m\<rparr>))"
  "kl_SetSecretController mem_kube = (\<lambda>ow s. case mem_own ow (sec_ObjectMeta s) of
        Inl e \<Rightarrow> Inl e | Inr m \<Rightarrow> Inr (s\<lparr>sec_ObjectMeta := m\<rparr>))"
  "kl_RandRead mem_kube = (\<lambda>n w. if n \<le> length (m_Random w)
        then (Inr (take n (m_Random w)), w\<lparr>m_Random := drop n (m_Random w)\<rparr>)
        else (Inl (errorsNew ''entropy source exhausted''), w))"
  "kl_Select mem_kube = (\<lambda>w. case m_Events w of
        [] \<Rightarrow> (CtxDone ''context canceled'', w) | e # es \<Rightarrow> (e, w\<lparr>m_Events := es\<rparr>))"
  by (simp_all only: mem_kube_def kube.select_convs)

lemma mem_get_key: "mem_get f key xs = Inr x \<Longrightarrow> f x = key"
  by (auto simp: mem_get_def find_Some_iff split: option.splits)

lemma mem_create_key: "mem_create f x xs = (Inr y, ys) \<Longrightarrow> y = x"
  by (auto simp: mem_create_def split: sum.splits)

lemma mem_own_owned:
  assumes "mem_own ow m = Inr m'"
  shows "owned_meta ow m m'"
proof -
  let ?ref = "owner_ref ''PodSandbox'' (psb_ObjectMeta ow)"
  have "m' = m \<and> ?ref \<in> set (om_OwnerReferences m) \<or>
      m' = m\<lparr>om_OwnerReferences := om_OwnerReferences m @ [?ref]\<rparr>"
    using assms unfolding mem_own_def Let_def by (metis Inl_Inr_False sum.inject(2))
  moreover have "m = m\<lparr>om_OwnerReferences := om_OwnerReferences m\<rparr>" by simp
  ultimately show ?thesis
    unfolding owned_meta_def by (metis in_set_conv_decomp)
qed

lemma mem_set_condition_same:
  "\<exists>c'. condition_of (mem_set_condition cs c) (cond_Type c) = Some c' \<and> same_condition c' c"
  by (induction cs) (auto simp: condition_of_def same_condition_def)

lemma mem_set_condition_other:
  "t \<noteq> cond_Type c \<Longrightarrow> condition_of (mem_set_condition cs c) t = condition_of cs t"
  by (induction cs) (auto simp: condition_of_def)

lemma mem_set_condition_law: "set_condition_law mem_kube"
  by (simp add: set_condition_law_def mem_kube_def mem_set_condition_same mem_set_condition_other)

lemma mem_pod_owner_law: "pod_owner_law mem_kube"
  by (auto simp: pod_owner_law_def mem_kube_def dest: mem_own_owned split: sum.splits)

lemma mem_secret_owner_law: "secret_owner_law mem_kube"
  by (auto simp: secret_owner_law_def mem_kube_def dest: mem_own_owned split: sum.splits)

lemma mem_sandbox_read_law: "sandbox_read_law mem_kube"
  by (auto simp: sandbox_read_law_def mem_kube_def dest: mem_get_key mem_create_key split: prod.splits)

lemma mem_secret_create_law: "secret_create_law mem_kube"
  by (auto simp: secret_create_law_def mem_kube_def dest: mem_create_key split: prod.splits)

lemma mem_pod_read_law: "pod_read_law mem_kube"
  by (auto simp: pod_read_law_def mem_kube_def dest: mem_get_key)

lemma mem_pod_create_law: "pod_create_law mem_kube"
  by (auto simp: pod_create_law_def mem_kube_def dest: mem_create_key split: prod.splits)

lemma mem_rand_law: "rand_law mem_kube"
  by (auto simp: rand_law_def mem_kube_def split: if_splits)

lemmas mem_kube_laws =
  mem_set_condition_law mem_pod_owner_law mem_secret_owner_law mem_sandbox_read_law
  mem_secret_create_law mem_pod_read_law mem_pod_create_law mem_rand_law

end
