(* ===== verification/Server_Properties.thy ===== *)
theory Server_Properties
  imports Create_Protocol Mem_Cluster
begin

text \<open>
  The properties of the Pod Sandbox API, with the witnesses that their hypotheses can hold, on the
  cluster in memory.
\<close>

subsection \<open>A concrete setting\<close>

definition demo_config :: Config where
  "demo_config = \<lparr>cfg_Address = '':8080'', cfg_Namespace = ''system'', cfg_Token = ''secret'',
     cfg_TokenSecretName = ''pod-sandbox-api'', cfg_ClassName = ''default''\<rparr>"

definition demo_access :: authorizedAccess where
  "demo_access = \<lparr>aa_ClassName = ''default'', aa_Namespace = ''system''\<rparr>"

definition demo_request :: createSandboxRequest where
  "demo_request = \<lparr>csr_WorkloadRef = \<lparr>wr_Namespace = ''ns'', wr_Name = ''web'', wr_UID = ''u1''\<rparr>,
     csr_SandboxID = ''sid'', csr_UserData = ''cloud-config'', csr_VCPUs = 0, csr_MemoryMiB = 4096, csr_Arch = []\<rparr>"

definition demo_delete :: http_request where
  "demo_delete = \<lparr>req_Method = ''DELETE'', req_Path = [''v1'', ''sandboxes'', ''psb-1''],
     req_Authorization = ''Bearer secret'', req_Body = []\<rparr>"

definition demo_sandbox :: PodSandbox where
  "demo_sandbox = (newSandbox ''system'' ''psb-1'' ''default'' ''psb-1-userdata'' demo_request)
     \<lparr>psb_Status := zero_PodSandboxStatus\<lparr>status_IPs := [''10.0.0.7''],
        status_Conditions := [\<lparr>cond_Type = ''Ready'', cond_Status = ''True'', cond_ObservedGeneration = 1,
          cond_LastTransitionTime = 0, cond_Reason = ''PodVMReady'', cond_Message = ''The PodVM is ready''\<rparr>]\<rparr>\<rparr>"

definition demo_world :: mem where
  "demo_world = empty_mem\<lparr>m_Sandboxes := [demo_sandbox], m_Secrets := [userDataSecret ''system'' ''psb-1'' demo_request]\<rparr>"

definition mem_start :: "mem \<Rightarrow> (mem, kube_call) sys" where
  "mem_start w = \<lparr>world = w, trace = []\<rparr>"

lemma mem_key_laws: "key_laws mem_kube"
  by (simp add: key_laws_def mem_kube_laws)

subsection \<open>Authorization\<close>

text \<open>C1: Tenancy. Whatever a client sends and whatever the cluster answers, every call of the server
  is a read of its own token secret or of the access secrets, or it is made on behalf of an access
  that the bearer token was granted: reads and writes then stay in the namespace of that access, and
  a created sandbox names its class. Without a valid access nothing else is called.\<close>

theorem ServeHTTP_tenancy:
  assumes "key_laws k"
  shows "wp (ServeHTTP polls k config r) (\<lambda>_ t. isolated k config r s t) s"
  using assms by (rule ServeHTTP_isolated)

lemmas demo_defs = demo_config_def demo_access_def demo_request_def demo_delete_def demo_sandbox_def
  demo_world_def mem_start_def empty_mem_def

lemmas mem_eval = mem_kube_simps mem_get_def mem_create_def mem_delete_def mem_remove_def mem_update_def
  err_NotFound_def err_AlreadyExists_def ObjectKeyFromMeta_def zero_ObjectMeta_def

lemma demo_delete_run:
  "trace (snd (run_state (ServeHTTP 3 mem_kube demo_config demo_delete) (mem_start demo_world))) =
     [GetSandbox (NN ''system'' ''psb-1''), DeleteSandbox RequestCtx (NN ''system'' ''psb-1'')]"
  by (simp add: demo_defs mem_eval ServeHTTP_def routeOf_def cleanSegments_def matchPath_def PathUnescape_def
      authorize_def authorizedAccessFor_def token_def bearer_def TrimPrefix_def HasPrefix_def
      tokenMatches_def ConstantTimeCompare_iff deleteSandbox_def pathValueID_def HasPrefix_def
      getSandbox_def deleteSandboxObject_def newSandbox_def Let_def)

theorem ServeHTTP_tenancy_witness:
  "wp (ServeHTTP 3 mem_kube demo_config demo_delete)
     (\<lambda>_ t. isolated mem_kube demo_config demo_delete (mem_start demo_world) t) (mem_start demo_world) \<and>
   trace (snd (run_state (ServeHTTP 3 mem_kube demo_config demo_delete) (mem_start demo_world))) =
     [GetSandbox (NN ''system'' ''psb-1''), DeleteSandbox RequestCtx (NN ''system'' ''psb-1'')]"
  using ServeHTTP_tenancy [OF mem_key_laws, of 3 demo_config demo_delete "mem_start demo_world"] demo_delete_run
  by simp


lemma matchAccess_empty: "matchAccess [] items noAccess = Inr noAccess"
  by (simp add: matchAccess_spec)

text \<open>C6: Who is granted an access. A valid access is granted exactly when the token sent is not empty
  and either equals the server's own token, which gives the configured class and namespace, or
  differs from it and all access secrets with this token, of which there is at least one, name this
  class and namespace. The order in which the secrets are listed does not matter.\<close>

theorem authorizedAccess_granted_iff:
  "fst (run_state (authorizedAccessFor k config got) s) = Inr a \<and> validAccess a \<longleftrightarrow>
     got \<noteq> [] \<and> validAccess a \<and>
     (\<exists>expected t. run_state (token k config) s = (Inr expected, t) \<and>
        (if got = expected then a = \<lparr>aa_ClassName = cfg_ClassName config, aa_Namespace = cfg_Namespace config\<rparr>
         else \<exists>items. fst (kc_ListSecrets k (cfg_Namespace config) AccessSecretLabel AccessSecretLabelValue (world t)) = Inr items \<and>
                set (grants got items) = {a}))"
proof -
  obtain e t where e: "run_state (token k config) s = (e, t)" by fastforce
  show ?thesis
  proof (cases e)
    case (Inl err)
    with e show ?thesis by (simp add: authorizedAccessFor_def)
  next
    case (Inr expected)
    obtain r w where l: "kc_ListSecrets k (cfg_Namespace config) AccessSecretLabel AccessSecretLabelValue (world t) = (r, w)"
      by fastforce
    have "fst (run_state (authorizedAccessFor k config got) s) =
        (if got \<noteq> [] \<and> got = expected
         then Inr \<lparr>aa_ClassName = cfg_ClassName config, aa_Namespace = cfg_Namespace config\<rparr>
         else case r of
           Inl err \<Rightarrow> Inl (wrapError ''list Pod Sandbox API access secrets: '' err)
         | Inr items \<Rightarrow> matchAccess got items noAccess)"
      using e l Inr by (simp add: authorizedAccessFor_def tokenMatches_iff listSecrets_def)
    with e l Inr matchAccess_grants_iff [of got _ a] matchAccess_empty show ?thesis
      by (cases r) (auto split: if_splits)
  qed
qed

text \<open>The comparison of tokens is equality. The length check and the constant-time comparison
  together decide whether the token sent is not empty and is the expected one.\<close>

theorem tokenMatches_correct: "tokenMatches got expected \<longleftrightarrow> got \<noteq> [] \<and> got = expected"
  by (rule tokenMatches_iff)

text \<open>C10: The API fails closed. A request whose token is granted no valid access is answered at once,
  with an error unless it is the health check, and the only calls it causes are reads of the token
  secret and of the access secrets. This holds for every cluster, one whose reads fail included.\<close>

theorem ServeHTTP_fails_closed:
  "wp (ServeHTTP polls k config r) (\<lambda>rsp t.
     (\<exists>a. fst (run_state (authorizedAccessFor k config (bearer r)) s) = Inr a \<and> validAccess a) \<or>
     (\<exists>x l. rsp = Some x \<and> trace t = trace s @ l \<and> list_all (auth_call config) l \<and>
        (routeOf r = RHealthz \<or> rsp_Status x \<in> {307, 401, 404, 405, 503}))) s"
proof -
  obtain a t where a: "run_state (authorizedAccessFor k config (bearer r)) s = (a, t)" by fastforce
  obtain l where l: "trace t = trace s @ l" "list_all (auth_call config) l"
    using emits_run [OF authorizedAccessFor_reads a] .
  have "wp (authorize k config h r) (\<lambda>rsp t.
     (\<exists>a. fst (run_state (authorizedAccessFor k config (bearer r)) s) = Inr a \<and> validAccess a) \<or>
     (\<exists>x l. rsp = Some x \<and> trace t = trace s @ l \<and> list_all (auth_call config) l \<and>
        (routeOf r = RHealthz \<or> rsp_Status x \<in> {307, 401, 404, 405, 503}))) s" for h
    using a l by (cases a) (auto simp: wp_def authorize_def validAccess_def httpError_def split: if_splits)
  then show ?thesis
    by (cases "routeOf r") (simp_all add: ServeHTTP_def httpError_def writeHeader_def)
qed

subsection \<open>Creating a sandbox\<close>







text \<open>C7: A 201 is earned. Whenever the handler answers with a status below 400, the status is 201 and its
  last read returned a sandbox, under the
  name derived from the request's sandbox ID in the namespace of the access, that is \<open>Ready\<close> and has
  addresses, and the body of the answer is the JSON of that sandbox's name and addresses and of the
  request's workload name. This holds for every cluster.\<close>

theorem createSandbox_201_ready: "wp (createSandbox polls k a r) (ready_answer k a r) s"
  by (rule createSandbox_ready)

text \<open>C11: The wait ends exactly when it should. The handler has answered after at most \<open>n\<close> polls if and
  only if one of the first \<open>n\<close> polls was decisive: the read failed, the sandbox was ready with
  addresses or had failed, or the request was cancelled.\<close>

theorem awaitSandbox_returns:
  "fst (run_state (awaitSandbox n k createdHere key workloadName sandbox) s) \<noteq> None \<longleftrightarrow>
     (\<exists>i<n. decides k key ((poll_world k key ^^ i) (world s)))"
  by (rule awaitSandbox_returns_iff)

text \<open>The number of observed polls does not influence the behaviour: once the handler has answered,
  observing more polls changes neither the answer nor the calls nor the world.\<close>

theorem createSandbox_polls_irrelevant:
  "fst (run_state (createSandbox n k a r) s) = None \<or>
   run_state (createSandbox (n + m) k a r) s = run_state (createSandbox n k a r) s"
  by (rule createSandbox_fuel)

text \<open>C12: A retry is harmless. When the sandbox of the request exists already, the handler only reads:
  it answers 409 at once when the stored sandbox belongs to another request (a different sandbox ID,
  class or workload), and polls it otherwise. It writes nothing and so never deletes what an earlier
  request created.\<close>

theorem admitSandbox_retry:
  assumes "fst (kc_GetSandbox k (sandboxKey a rq) (world s)) = Inr sb"
  shows "wp (admitSandbox polls k a rq) (\<lambda>rsp t.
     \<exists>ps. trace t = trace s @ GetSandbox (sandboxKey a rq) # ps \<and>
       list_all (\<lambda>c. c = GetSandbox (sandboxKey a rq)) ps \<and>
       (if identityConflict (aa_ClassName a) rq sb
        then ps = [] \<and> rsp = Some (httpError ''sandbox identity conflict'' 409) else True)) s"
  using assms by (rule admitSandbox_existing)

definition retry_world :: mem where
  "retry_world = empty_mem\<lparr>m_Sandboxes := [requestedSandbox demo_access demo_request]\<rparr>"

lemma retry_lookup:
  "fst (kc_GetSandbox mem_kube (sandboxKey demo_access demo_request) (world (mem_start retry_world))) =
     Inr (requestedSandbox demo_access demo_request)"
  by (simp add: mem_kube_simps mem_get_def mem_start_def retry_world_def psb_key_requestedSandbox)

theorem admitSandbox_retry_witness:
  "wp (admitSandbox 2 mem_kube demo_access demo_request) (\<lambda>rsp t.
     \<exists>ps. trace t = trace (mem_start retry_world) @ GetSandbox (sandboxKey demo_access demo_request) # ps \<and>
       list_all (\<lambda>c. c = GetSandbox (sandboxKey demo_access demo_request)) ps \<and>
       (if identityConflict (aa_ClassName demo_access) demo_request (requestedSandbox demo_access demo_request)
        then ps = [] \<and> rsp = Some (httpError ''sandbox identity conflict'' 409) else True))
     (mem_start retry_world)"
  by (rule admitSandbox_retry [OF retry_lookup])



subsection \<open>Deleting a sandbox\<close>

text \<open>C17: A client deletes only its own sandboxes. The handler reads the sandbox under the ID of the
  path in the namespace of the access and deletes exactly that object, and only when its class is
  the class of the access; another class gives 403 and a sandbox that is not there 204, both without
  a write. Deleting a sandbox that vanished in between gives 204 as well.\<close>

theorem deleteSandbox_only_own:
  "wp (deleteSandbox k a r) (\<lambda>rsp t. \<exists>l. trace t = trace s @ l \<and>
     (case l of
        [] \<Rightarrow> rsp = Some (httpError ''invalid sandbox id'' 400)
      | c # ds \<Rightarrow> c = GetSandbox (NN (aa_Namespace a) (pathValueID r)) \<and>
          (case kc_GetSandbox k (NN (aa_Namespace a) (pathValueID r)) (world s) of
             (Inl err, _) \<Rightarrow> ds = [] \<and> map_option rsp_Status rsp = Some (if IsNotFound err then 204 else 500)
           | (Inr sb, w) \<Rightarrow>
               if spec_ClassName (psb_Spec sb) \<noteq> aa_ClassName a
               then ds = [] \<and> map_option rsp_Status rsp = Some 403
               else ds = [DeleteSandbox RequestCtx (psb_key sb)] \<and>
                 map_option rsp_Status rsp = Some (case fst (kc_DeleteSandbox k RequestCtx (psb_key sb) w) of
                   Inl err \<Rightarrow> if IsNotFound err then 204 else 500 | Inr _ \<Rightarrow> 204)))) s"
  unfolding deleteSandbox_def Let_def getSandbox_def deleteSandboxObject_def
  by (auto simp: wp_perform httpError_def writeHeader_def split: sum.splits prod.splits)

subsection \<open>The token secret\<close>

definition token_secret :: "Config \<Rightarrow> string \<Rightarrow> Secret" where
  "token_secret config tok =
     \<lparr>sec_ObjectMeta = zero_ObjectMeta\<lparr>om_Name := cfg_TokenSecretName config, om_Namespace := cfg_Namespace config\<rparr>,
      sec_Immutable = None, sec_Data = [''token'' \<mapsto> tok], sec_Type = ''Opaque''\<rparr>"

definition token_calls :: "Config \<Rightarrow> kube_call list \<Rightarrow> bool" where
  "token_calls config l \<longleftrightarrow>
     (\<exists>ds. l = GetSecret (NN (cfg_Namespace config) (cfg_TokenSecretName config)) # ds \<and>
        (ds = [] \<or> (\<exists>tok. ds = [CreateSecret (token_secret config tok)] \<and> length tok = 64 \<and>
           list_all is_lower_hex tok)))"

lemma ensureTokenSecret_calls:
  assumes "rand_law k"
  shows "yields (\<lambda>_. token_calls config) (ensureTokenSecret k config)"
proof -
  have rand: "yields (\<lambda>r l. l = [] \<and> (\<forall>bs. r = Inr bs \<longrightarrow> length bs = n)) (randRead k n)" for n
    unfolding go_ops using assms by (intro yields_observe) (metis rand_law_def prod.collapse)
  show ?thesis
    unfolding ensureTokenSecret_def Let_def
    apply (rule yields_bind [OF yields_kube(3)])
    apply (rule yields_case_sum)
     apply (split if_split, intro conjI impI)
      apply (rule yields_return, simp add: token_calls_def)
     apply (rule yields_bind [OF rand])
     apply (rule yields_case_sum)
      apply (rule yields_return, simp add: token_calls_def)
     apply (rule yields_bind [OF yields_kube(5)])
     apply (rule yields_return)
     apply (auto simp: token_calls_def token_secret_def list_all_iff dest: hex_lower intro!: yields_return)
    done
qed


text \<open>C19: The token is never replaced. Starting the server reads the token secret and writes at most
  once, and then creates the secret with a token of 64 lower-case hexadecimal digits.\<close>

theorem ensureTokenSecret_creates_once:
  assumes "rand_law k"
  shows "wp (ensureTokenSecret k config) (\<lambda>r t. \<exists>l. trace t = trace s @ l \<and> token_calls config l) s"
  by (rule yields_wp [OF ensureTokenSecret_calls [OF assms]])

theorem ensureTokenSecret_creates_once_witness:
  "wp (ensureTokenSecret mem_kube demo_config)
     (\<lambda>r t. \<exists>l. trace t = trace (mem_start demo_world) @ l \<and> token_calls demo_config l) (mem_start demo_world)"
  by (rule ensureTokenSecret_creates_once [OF mem_rand_law])

text \<open>Starting with an existing token secret writes nothing and succeeds exactly when the secret has
  a token; when the secret cannot be read for another reason than its absence, starting fails and
  writes nothing.\<close>

theorem ensureTokenSecret_keeps_existing:
  "wp (ensureTokenSecret k config) (\<lambda>r t.
     case fst (kc_GetSecret k (NN (cfg_Namespace config) (cfg_TokenSecretName config)) (world s)) of
       Inr sec \<Rightarrow> trace t = trace s @ [GetSecret (NN (cfg_Namespace config) (cfg_TokenSecretName config))] \<and>
         (r = Inr () \<longleftrightarrow> map_get (sec_Data sec) ''token'' \<noteq> [])
     | Inl e \<Rightarrow> IsNotFound e \<or> (\<exists>e'. r = Inl e' \<and>
          trace t = trace s @ [GetSecret (NN (cfg_Namespace config) (cfg_TokenSecretName config))])) s"
  unfolding ensureTokenSecret_def Let_def getSecret_def
  by (auto simp: wp_perform split: sum.splits)

subsection \<open>Names\<close>

lemma sandboxName_shape:
  "length (sandboxName i) = 24" "HasPrefix (sandboxName i) ''psb-''"
  "list_all is_lower_hex (drop 4 (sandboxName i))"
  using hex_lower by (auto simp: sandboxName_def length_Sum256 HasPrefix_def list_all_iff)

lemma sandboxName_ends: "is_lower_hex (last (sandboxName i))"
proof -
  have "drop 4 (sandboxName i) \<noteq> []" using sandboxName_shape(1) [of i] by auto
  then have "last (sandboxName i) \<in> set (drop 4 (sandboxName i))"
    by (metis last_drop last_in_set drop_eq_Nil not_le)
  with sandboxName_shape(3) show ?thesis by (auto simp: list_all_iff)
qed


text \<open>The name of a sandbox and of its secret are valid names of Kubernetes objects whatever the
  sandbox ID contains: 24 characters, the prefix \<open>psb-\<close> and 20 lower-case hexadecimal digits, and
  with the suffix of the secret still within the limit of 63 characters.\<close>

theorem sandboxName_valid:
  "length (sandboxName i) = 24 \<and> HasPrefix (sandboxName i) ''psb-'' \<and>
   list_all is_lower_hex (drop 4 (sandboxName i)) \<and> length (sandboxName i @ ''-userdata'') \<le> 63"
  using sandboxName_shape [of i] by simp

end
