(* ===== verification/Sandbox_Controller.thy ===== *)
theory Sandbox_Controller
  imports Kube_Client
begin

text \<open>
  The controller (\<open>internal/controller/podsandbox_controller.go\<close>), in the order of the file:
  \<open>Reconcile\<close>, which brings one sandbox one step further, the runner Pod it wants
  (\<open>desiredRunner\<close>), the readers of Pod status, the three ways to report a sandbox that is not
  ready (\<open>progressing\<close>, \<open>fail\<close>, \<open>stopped\<close>) and the mapping from a class to its sandboxes.

  \<open>Reconcile\<close> makes its calls in the state monad. It is split where the code has an early return:
  \<open>Reconcile\<close> reads the sandbox, the class and the secret; \<open>applyRunner\<close> creates the runner Pod;
  \<open>checkRunner\<close> reads it back and decides between update, stop and status; \<open>reportRunner\<close> writes the
  status of a live runner.
\<close>

subsection \<open>Constants and results\<close>

abbreviation runnerContainerName :: string where "runnerContainerName \<equiv> ''runner''"
abbreviation runnerStateDirArg :: string where "runnerStateDirArg \<equiv> ''--state-dir=/run/pod-sandbox''"
abbreviation defaultRuntimeAssetsDir :: string where "defaultRuntimeAssetsDir \<equiv> ''/opt/kata''"
abbreviation defaultNetworkMTU :: int32 where "defaultNetworkMTU \<equiv> 1500"
abbreviation defaultOverheadMiB :: int64 where "defaultOverheadMiB \<equiv> 256"
abbreviation volumeImage :: string where "volumeImage \<equiv> ''image''"
abbreviation volumeConfig :: string where "volumeConfig \<equiv> ''config''"
abbreviation volumeState :: string where "volumeState \<equiv> ''state''"
abbreviation volumeRuntimeAssets :: string where "volumeRuntimeAssets \<equiv> ''runtime-assets''"
abbreviation volumeKVM :: string where "volumeKVM \<equiv> ''kvm''"
abbreviation volumeTUN :: string where "volumeTUN \<equiv> ''tun''"

abbreviation labelName :: string where "labelName \<equiv> ''app.kubernetes.io/name''"
abbreviation labelSandbox :: string where "labelSandbox \<equiv> ''sandbox.caa.mnicloud.jp/sandbox''"
abbreviation annotationClass :: string where "annotationClass \<equiv> ''sandbox.caa.mnicloud.jp/class''"
abbreviation annotationGeneration :: string where
  "annotationGeneration \<equiv> ''sandbox.caa.mnicloud.jp/template-generation''"
abbreviation annotationWorkloadName :: string where
  "annotationWorkloadName \<equiv> ''sandbox.caa.mnicloud.jp/workload-name''"
abbreviation annotationWorkloadNamespace :: string where
  "annotationWorkloadNamespace \<equiv> ''sandbox.caa.mnicloud.jp/workload-namespace''"
abbreviation annotationWorkloadUID :: string where
  "annotationWorkloadUID \<equiv> ''sandbox.caa.mnicloud.jp/workload-uid''"

text \<open>\<open>(ctrl.Result, error)\<close>: the seconds of \<open>RequeueAfter\<close> and the error.\<close>

record reconcile_result =
  rr_RequeueAfter :: nat
  rr_Error :: "go_error option"

definition finished :: reconcile_result where
  "finished = \<lparr>rr_RequeueAfter = 0, rr_Error = None\<rparr>"

definition requeue2s :: reconcile_result where
  "requeue2s = \<lparr>rr_RequeueAfter = 2, rr_Error = None\<rparr>"

definition failed :: "go_error \<Rightarrow> reconcile_result" where
  "failed e = \<lparr>rr_RequeueAfter = 0, rr_Error = Some e\<rparr>"

text \<open>\<open>ctrl.Result{}, client.IgnoreNotFound(err)\<close>.\<close>

definition IgnoreNotFound :: "go_error \<Rightarrow> reconcile_result" where
  "IgnoreNotFound err = (if IsNotFound err then finished else failed err)"

subsection \<open>The runner Pod\<close>

definition copyMap :: "string_map \<Rightarrow> string_map" where
  "copyMap source = Map.empty ++ source"

definition formatMi :: "int64 \<Rightarrow> string" where
  "formatMi n = show_int (sint n) @ ''Mi''"

definition runnerResources :: "PodSandbox \<Rightarrow> int64 \<Rightarrow> ResourceRequirements" where
  "runnerResources sandbox overheadMiB =
     \<lparr>rr_RequestsCPU = NewQuantityDecimalSI (spec_VCPUs (psb_Spec sandbox)),
      rr_RequestsMemory = MustParseQuantity (formatMi overheadMiB),
      rr_LimitsCPU = NewQuantityDecimalSI (spec_VCPUs (psb_Spec sandbox)),
      rr_LimitsMemory = MustParseQuantity (formatMi overheadMiB)\<rparr>"

definition runnerLabels :: "PodSandbox \<Rightarrow> PodSandboxClass \<Rightarrow> string_map" where
  "runnerLabels sandbox sandboxClass =
     (copyMap (cls_Labels (psc_Spec sandboxClass)))
       (labelName \<mapsto> ''pod-sandbox-runner'', labelSandbox \<mapsto> psb_Name sandbox)"

definition templateGeneration :: "PodSandbox \<Rightarrow> PodSandboxClass \<Rightarrow> string" where
  "templateGeneration sandbox sandboxClass =
     show_int (sint (om_Generation (psb_ObjectMeta sandbox))) @ ''/'' @
     show_int (sint (om_Generation (psc_ObjectMeta sandboxClass)))"

definition runnerAnnotations :: "PodSandbox \<Rightarrow> PodSandboxClass \<Rightarrow> string_map" where
  "runnerAnnotations sandbox sandboxClass =
     (let workload = spec_WorkloadRef (psb_Spec sandbox);
          a1 = (copyMap (cls_Annotations (psc_Spec sandboxClass)))
                 (annotationClass \<mapsto> om_Name (psc_ObjectMeta sandboxClass),
                  annotationGeneration \<mapsto> templateGeneration sandbox sandboxClass,
                  annotationWorkloadName \<mapsto> wr_Name workload);
          a2 = (if wr_Namespace workload \<noteq> []
                then a1(annotationWorkloadNamespace \<mapsto> wr_Namespace workload) else a1)
      in if wr_UID workload \<noteq> [] then a2(annotationWorkloadUID \<mapsto> wr_UID workload) else a2)"

definition runnerArgs :: "PodSandbox \<Rightarrow> int32 \<Rightarrow> string list" where
  "runnerArgs sandbox networkMTU =
     [''run'',
      ''--cpus='' @ show_int (sint (spec_VCPUs (psb_Spec sandbox))),
      ''--memory-mib='' @ show_int (sint (spec_MemoryMiB (psb_Spec sandbox))),
      ''--network-mtu='' @ show_int (sint networkMTU),
      ''--image-dir=/var/lib/podvm/image'',
      ''--config-dir=/var/lib/podvm/config'',
      runnerStateDirArg,
      ''--runtime-assets-dir=/opt/podvm-runtime'',
      ''--kernel=/var/lib/podvm/image/vmlinux'',
      ''--rootfs=/var/lib/podvm/image/rootfs.img'']"

definition desiredRunner :: "PodSandbox \<Rightarrow> PodSandboxClass \<Rightarrow> Pod" where
  "desiredRunner sandbox sandboxClass =
     (let networkMTU = (if cls_NetworkMTU (psc_Spec sandboxClass) = 0 then defaultNetworkMTU
                        else cls_NetworkMTU (psc_Spec sandboxClass));
          runtimeAssetsDir = (if cls_RuntimeAssetsDir (psc_Spec sandboxClass) = [] then defaultRuntimeAssetsDir
                              else cls_RuntimeAssetsDir (psc_Spec sandboxClass));
          overhead = (if cls_MemoryOverheadMiB (psc_Spec sandboxClass) = 0 then defaultOverheadMiB
                      else cls_MemoryOverheadMiB (psc_Spec sandboxClass));
          overheadMiB = spec_MemoryMiB (psb_Spec sandbox) + overhead
      in \<lparr>pod_ObjectMeta = zero_ObjectMeta\<lparr>
            om_Name := psb_Name sandbox,
            om_Namespace := psb_Namespace sandbox,
            om_Labels := runnerLabels sandbox sandboxClass,
            om_Annotations := runnerAnnotations sandbox sandboxClass\<rparr>,
          pod_Spec = \<lparr>
            ps_NodeName = [],
            ps_NodeSelector = copyMap (cls_NodeSelector (psc_Spec sandboxClass)),
            ps_Tolerations = [] @ cls_Tolerations (psc_Spec sandboxClass),
            ps_InitContainers = [\<lparr>
              ctr_Name = ''podvm-image'',
              ctr_Image = cls_PodVMImage (psc_Spec sandboxClass),
              ctr_ImagePullPolicy = ''Always'',
              ctr_Args = [],
              ctr_Resources = None,
              ctr_SecurityContext = None,
              ctr_VolumeMounts = [\<lparr>vm_Name = volumeImage, vm_MountPath = ''/output'', vm_ReadOnly = False\<rparr>],
              ctr_ReadinessProbe = None\<rparr>],
            ps_Containers = [\<lparr>
              ctr_Name = runnerContainerName,
              ctr_Image = cls_RunnerImage (psc_Spec sandboxClass),
              ctr_ImagePullPolicy = ''Always'',
              ctr_Args = runnerArgs sandbox networkMTU,
              ctr_Resources = Some (runnerResources sandbox overheadMiB),
              ctr_SecurityContext = Some \<lparr>sc_Privileged = Some True, sc_AllowPrivilegeEscalation = Some True,
                                          sc_RunAsUser = Some 0\<rparr>,
              ctr_VolumeMounts = [
                \<lparr>vm_Name = volumeImage, vm_MountPath = ''/var/lib/podvm/image'', vm_ReadOnly = False\<rparr>,
                \<lparr>vm_Name = volumeConfig, vm_MountPath = ''/var/lib/podvm/config'', vm_ReadOnly = True\<rparr>,
                \<lparr>vm_Name = volumeState, vm_MountPath = ''/run/pod-sandbox'', vm_ReadOnly = False\<rparr>,
                \<lparr>vm_Name = volumeRuntimeAssets, vm_MountPath = ''/opt/podvm-runtime'', vm_ReadOnly = True\<rparr>,
                \<lparr>vm_Name = volumeKVM, vm_MountPath = ''/dev/kvm'', vm_ReadOnly = False\<rparr>,
                \<lparr>vm_Name = volumeTUN, vm_MountPath = ''/dev/net/tun'', vm_ReadOnly = False\<rparr>],
              ctr_ReadinessProbe = Some \<lparr>
                pr_ExecCommand = [''/runner'', ''ready'', runnerStateDirArg],
                pr_InitialDelaySeconds = 2, pr_PeriodSeconds = 2, pr_TimeoutSeconds = 1\<rparr>\<rparr>],
            ps_Volumes = [
              \<lparr>vol_Name = volumeImage, vol_Source = EmptyDir\<rparr>,
              \<lparr>vol_Name = volumeConfig,
                vol_Source = SecretVolume (lor_Name (spec_UserDataSecretRef (psb_Spec sandbox)))\<rparr>,
              \<lparr>vol_Name = volumeState, vol_Source = EmptyDir\<rparr>,
              \<lparr>vol_Name = volumeRuntimeAssets, vol_Source = HostPath runtimeAssetsDir HostPathDirectory\<rparr>,
              \<lparr>vol_Name = volumeKVM, vol_Source = HostPath ''/dev/kvm'' HostPathCharDev\<rparr>,
              \<lparr>vol_Name = volumeTUN, vol_Source = HostPath ''/dev/net/tun'' HostPathCharDev\<rparr>],
            ps_RestartPolicy = ''Never'',
            ps_TerminationGracePeriodSeconds = Some 30\<rparr>,
          pod_Status = zero_PodStatus\<rparr>)"

subsection \<open>Reading a Pod\<close>

fun readyIn :: "PodCondition list \<Rightarrow> bool" where
  "readyIn [] = False"
| "readyIn (c # cs) = (if pc_Type c = PodReadyCondition then pc_Status c = ConditionTrue else readyIn cs)"

definition podReady :: "Pod \<Rightarrow> bool" where
  "podReady pod = readyIn (pst_Conditions (pod_Status pod))"

fun terminationIn :: "ContainerStatus list \<Rightarrow> ContainerStateTerminated option" where
  "terminationIn [] = None"
| "terminationIn (c # cs) = (if cs_Name c = runnerContainerName then cs_Terminated c else terminationIn cs)"

definition runnerTermination :: "Pod \<Rightarrow> ContainerStateTerminated option" where
  "runnerTermination pod = terminationIn (pst_ContainerStatuses (pod_Status pod))"

definition boolCondition :: "bool \<Rightarrow> string" where
  "boolCondition value = (if value then ConditionTrue else ConditionFalse)"

subsection \<open>Reporting\<close>

text \<open>The status update that the three report functions share: the observed generation and the
  \<open>Ready\<close> condition, then the patch against the copy taken before.\<close>

definition readyCondition :: "PodSandbox \<Rightarrow> string \<Rightarrow> string \<Rightarrow> string \<Rightarrow> Condition" where
  "readyCondition sandbox status reason message =
     \<lparr>cond_Type = ConditionReady, cond_Status = status,
      cond_ObservedGeneration = om_Generation (psb_ObjectMeta sandbox),
      cond_LastTransitionTime = 0, cond_Reason = reason, cond_Message = message\<rparr>"

definition progressing :: "'w kube \<Rightarrow> PodSandbox \<Rightarrow> string \<Rightarrow> string \<Rightarrow> ('w, reconcile_result) kprog" where
  "progressing k sandbox reason message =
     (let base = sandbox;
          st = (psb_Status sandbox)\<lparr>status_ObservedGeneration := om_Generation (psb_ObjectMeta sandbox)\<rparr>
      in do {
        conditions \<leftarrow> setStatusCondition k (status_Conditions st)
          (readyCondition sandbox ConditionFalse reason message);
        p \<leftarrow> patchStatus k base (sandbox\<lparr>psb_Status := st\<lparr>status_Conditions := conditions\<rparr>\<rparr>);
        State_Monad.return (case p of Inl err \<Rightarrow> IgnoreNotFound err | Inr _ \<Rightarrow> requeue2s)
      })"

definition fail :: "'w kube \<Rightarrow> PodSandbox \<Rightarrow> string \<Rightarrow> go_error \<Rightarrow> ('w, reconcile_result) kprog" where
  "fail k sandbox reason reconcileErr =
     (let base = sandbox;
          st = (psb_Status sandbox)\<lparr>status_ObservedGeneration := om_Generation (psb_ObjectMeta sandbox)\<rparr>
      in do {
        conditions \<leftarrow> setStatusCondition k (status_Conditions st)
          (readyCondition sandbox ConditionFalse reason (Error reconcileErr));
        p \<leftarrow> patchStatus k base (sandbox\<lparr>psb_Status := st\<lparr>status_Conditions := conditions\<rparr>\<rparr>);
        State_Monad.return (case p of Inl err \<Rightarrow> IgnoreNotFound err | Inr _ \<Rightarrow> failed reconcileErr)
      })"

definition stopped :: "'w kube \<Rightarrow> PodSandbox \<Rightarrow> string \<Rightarrow> string \<Rightarrow> ('w, reconcile_result) kprog" where
  "stopped k sandbox reason message =
     (let base = sandbox;
          st = (psb_Status sandbox)\<lparr>status_ObservedGeneration := om_Generation (psb_ObjectMeta sandbox)\<rparr>
      in do {
        conditions \<leftarrow> setStatusCondition k (status_Conditions st)
          (readyCondition sandbox ConditionFalse reason message);
        p \<leftarrow> patchStatus k base (sandbox\<lparr>psb_Status := st\<lparr>status_Conditions := conditions\<rparr>\<rparr>);
        State_Monad.return (case p of Inl err \<Rightarrow> IgnoreNotFound err | Inr _ \<Rightarrow> finished)
      })"

subsection \<open>Reconcile\<close>

text \<open>The status of a live runner.\<close>

definition reportRunner :: "'w kube \<Rightarrow> PodSandbox \<Rightarrow> Pod \<Rightarrow> ('w, reconcile_result) kprog" where
  "reportRunner k sandbox runner =
     (let podIP = pst_PodIP (pod_Status runner);
          ready = (podReady runner \<and> podIP \<noteq> []);
          base = sandbox;
          st = (psb_Status sandbox)\<lparr>
            status_ObservedGeneration := om_Generation (psb_ObjectMeta sandbox),
            status_RunnerRef := Some \<lparr>lor_Name = pod_Name runner\<rparr>,
            status_NodeName := ps_NodeName (pod_Spec runner),
            status_IPs := (if podIP = [] then [] else [podIP])\<rparr>
      in do {
        conditions \<leftarrow> setStatusCondition k (status_Conditions st)
          (readyCondition sandbox (boolCondition ready)
            (if ready then ''PodVMReady'' else ''PodVMStarting'')
            (if ready then ''The PodVM is ready'' else ''Waiting for the PodVM runtime''));
        p \<leftarrow> patchStatus k base (sandbox\<lparr>psb_Status := st\<lparr>status_Conditions := conditions\<rparr>\<rparr>);
        State_Monad.return (case p of
          Inl err \<Rightarrow> IgnoreNotFound err
        | Inr _ \<Rightarrow> if \<not> ready then requeue2s else finished)
      })"

definition stopMessage :: "Pod \<Rightarrow> string" where
  "stopMessage runner = (case runnerTermination runner of
     Some terminated \<Rightarrow>
       if cst_Message terminated \<noteq> [] then cst_Message terminated
       else ''The Pod Sandbox runner stopped before the PodVM became ready''
   | None \<Rightarrow> ''The Pod Sandbox runner stopped before the PodVM became ready'')"

text \<open>From the read of the runner on.\<close>

definition checkRunner ::
    "'w kube \<Rightarrow> NamespacedName \<Rightarrow> PodSandbox \<Rightarrow> Pod \<Rightarrow> ('w, reconcile_result) kprog" where
  "checkRunner k key sandbox desired = do {
     g \<leftarrow> getPod k key;
     case g of
       Inl err \<Rightarrow>
         if IsNotFound err
         then progressing k sandbox ''WaitingForRunner'' ''The Pod Sandbox runner is being scheduled''
         else State_Monad.return (failed err)
     | Inr runner \<Rightarrow>
         if map_get (om_Annotations (pod_ObjectMeta runner)) annotationGeneration \<noteq>
            map_get (om_Annotations (pod_ObjectMeta desired)) annotationGeneration
         then do {
           d \<leftarrow> deletePod k runner;
           case d of
             Inl err \<Rightarrow>
               if \<not> IsNotFound err then fail k sandbox ''RunnerDeleteFailed'' err
               else progressing k sandbox ''UpdatingRunner'' ''The Pod Sandbox runner is being updated''
           | Inr _ \<Rightarrow> progressing k sandbox ''UpdatingRunner'' ''The Pod Sandbox runner is being updated''
         }
         else if pst_Phase (pod_Status runner) = PodFailed \<or> pst_Phase (pod_Status runner) = PodSucceeded
         then stopped k sandbox ''RunnerFailed'' (stopMessage runner)
         else reportRunner k sandbox runner
   }"

text \<open>From the desired Pod on. A successful \<open>Create\<close> stores the reply in \<open>desired\<close>.\<close>

definition applyRunner ::
    "'w kube \<Rightarrow> NamespacedName \<Rightarrow> PodSandbox \<Rightarrow> PodSandboxClass \<Rightarrow> ('w, reconcile_result) kprog" where
  "applyRunner k key sandbox sandboxClass =
     (case kl_SetPodController k sandbox (desiredRunner sandbox sandboxClass) of
        Inl err \<Rightarrow> State_Monad.return (failed err)
      | Inr desired \<Rightarrow> do {
          c \<leftarrow> createPod k desired;
          case c of
            Inl err \<Rightarrow>
              if \<not> IsAlreadyExists err then fail k sandbox ''RunnerCreateFailed'' err
              else checkRunner k key sandbox desired
          | Inr stored \<Rightarrow> checkRunner k key sandbox stored
        })"

definition Reconcile :: "'w kube \<Rightarrow> NamespacedName \<Rightarrow> ('w, reconcile_result) kprog" where
  "Reconcile k req = do {
     g \<leftarrow> getSandbox k req;
     case g of
       Inl err \<Rightarrow> State_Monad.return (IgnoreNotFound err)
     | Inr sandbox \<Rightarrow>
         if om_DeletionTimestamp (psb_ObjectMeta sandbox) \<noteq> None then State_Monad.return finished
         else do {
           cls \<leftarrow> getClassObject k (spec_ClassName (psb_Spec sandbox));
           case cls of
             Inl err \<Rightarrow> fail k sandbox ''ClassUnavailable'' err
           | Inr sandboxClass \<Rightarrow> do {
               sec \<leftarrow> getSecret k (NN (psb_Namespace sandbox)
                 (lor_Name (spec_UserDataSecretRef (psb_Spec sandbox))));
               case sec of
                 Inl err \<Rightarrow> fail k sandbox ''UserDataUnavailable'' err
               | Inr secret \<Rightarrow>
                   if sec_Data secret ''userdata'' = None
                   then fail k sandbox ''UserDataUnavailable''
                     (errorsNew (''secret '' @ sec_Name secret @ '' has no userdata key''))
                   else applyRunner k req sandbox sandboxClass
             }
         }
   }"

subsection \<open>Watches\<close>

text \<open>The sandboxes to reconcile when a class changes.\<close>

definition sandboxesForClass :: "'w kube \<Rightarrow> string \<Rightarrow> ('w, NamespacedName list) kprog" where
  "sandboxesForClass k name = do {
     r \<leftarrow> listSandboxes k;
     State_Monad.return (case r of
       Inl _ \<Rightarrow> []
     | Inr items \<Rightarrow>
         foldl (\<lambda>requests sandbox.
           if spec_ClassName (psb_Spec sandbox) = name then requests @ [psb_key sandbox] else requests) [] items)
   }"

end
