(* ===== verification/Controller_Contract.thy ===== *)
theory Controller_Contract
  imports Sandbox_Controller
begin

text \<open>
  What one run of \<open>Reconcile\<close> promises. The locale \<open>status_report\<close> is the contract shared by the three
  functions that report a sandbox as not ready, and is interpreted on each of them. The predicates
  \<open>reconcile_scope\<close>, \<open>ready_justified\<close>, \<open>runner_for\<close>, \<open>settled\<close> and \<open>deletes_outdated\<close> specify which calls
  a run makes, what a report of readiness rests on, which Pod is created, when a run may end without
  another one being scheduled, and which Pod may be deleted.
\<close>

subsection \<open>Reports\<close>

text \<open>The object a report patches: only the status differs, the observed generation is the current
  one, the condition \<open>Ready\<close> is false with the given reason and message, and every other condition
  and field is the old one.\<close>

definition not_ready :: "PodSandbox \<Rightarrow> string \<Rightarrow> string \<Rightarrow> PodSandbox \<Rightarrow> bool" where
  "not_ready sb reason message s \<longleftrightarrow>
     (\<exists>cs c. s = sb\<lparr>psb_Status := (psb_Status sb)\<lparr>
          status_ObservedGeneration := om_Generation (psb_ObjectMeta sb), status_Conditions := cs\<rparr>\<rparr> \<and>
        condition_of cs ConditionReady = Some c \<and> cond_Status c = ConditionFalse \<and>
        cond_Reason c = reason \<and> cond_Message c = message \<and>
        cond_ObservedGeneration c = om_Generation (psb_ObjectMeta sb) \<and>
        (\<forall>t. t \<noteq> ConditionReady \<longrightarrow> condition_of cs t = condition_of (status_Conditions (psb_Status sb)) t))"

definition ready_set :: "Condition list \<Rightarrow> Condition \<Rightarrow> Condition list \<Rightarrow> bool" where
  "ready_set old new cs \<longleftrightarrow>
     (\<exists>c. condition_of cs (cond_Type new) = Some c \<and> same_condition c new) \<and>
     (\<forall>t. t \<noteq> cond_Type new \<longrightarrow> condition_of cs t = condition_of old t)"

lemma yields_setStatusCondition:
  "set_condition_law k \<Longrightarrow> yields (\<lambda>cs l. l = [] \<and> ready_set old new cs) (setStatusCondition k old new)"
  unfolding go_ops by (rule yields_observe) (simp add: set_condition_law_def ready_set_def)

lemma not_ready_set:
  assumes "ready_set (status_Conditions (psb_Status sb)) (readyCondition sb ConditionFalse reason message) cs"
  shows "not_ready sb reason message (sb\<lparr>psb_Status := (psb_Status sb)\<lparr>
          status_ObservedGeneration := om_Generation (psb_ObjectMeta sb), status_Conditions := cs\<rparr>\<rparr>)"
proof -
  obtain c where "condition_of cs ConditionReady = Some c"
      "same_condition c (readyCondition sb ConditionFalse reason message)"
    using assms by (auto simp: ready_set_def readyCondition_def)
  moreover have "\<forall>t. t \<noteq> ConditionReady \<longrightarrow> condition_of cs t = condition_of (status_Conditions (psb_Status sb)) t"
    using assms by (simp add: ready_set_def readyCondition_def)
  ultimately show ?thesis
    unfolding not_ready_def by (intro exI [of _ cs] exI [of _ c]) (simp add: same_condition_def readyCondition_def)
qed

locale status_report =
  fixes report :: "'w kube \<Rightarrow> PodSandbox \<Rightarrow> string \<Rightarrow> 'm \<Rightarrow> ('w, reconcile_result) kprog"
    and message_of :: "'m \<Rightarrow> string"
    and outcome :: "'m \<Rightarrow> reconcile_result"
  assumes reports: "set_condition_law k \<Longrightarrow>
      yields (\<lambda>r l. \<exists>s. l = [PatchStatus sb s] \<and> not_ready sb reason (message_of m) s) (report k sb reason m)"
    and outcomes: "pred_state (\<lambda>r. r = outcome m \<or>
      (\<exists>w s w' err. kc_PatchStatus k sb s w = (Inl err, w') \<and> r = IgnoreNotFound err)) (report k sb reason m)"
begin

lemma emits_report:
  assumes "set_condition_law k"
    and "\<And>s. not_ready sb reason (message_of m) s \<Longrightarrow> P (PatchStatus sb s)"
  shows "emits P (report k sb reason m)"
  unfolding emits_yields using assms(2) by (intro yields_mono [OF reports [OF assms(1)]]) auto

end

lemma patch_outcomes:
  "pred_state (\<lambda>r. r = x \<or> (\<exists>w s w' err. kc_PatchStatus k sb s w = (Inl err, w') \<and> r = IgnoreNotFound err))
    (do { cs \<leftarrow> m; p \<leftarrow> patchStatus k sb (f cs);
          State_Monad.return (case p of Inl err \<Rightarrow> IgnoreNotFound err | Inr _ \<Rightarrow> x) })"
proof -
  have p: "pred_state (\<lambda>p. \<forall>err. p = Inl err \<longrightarrow> (\<exists>w s w'. kc_PatchStatus k sb s w = (Inl err, w')))
      (patchStatus k sb s)" for s
    unfolding go_ops by (rule pred_state_perform) (metis prod.collapse)
  show ?thesis
    apply (rule pred_state_bind [OF pred_state_True])
    apply (rule pred_state_bind [OF p])
    apply (rule pred_state_return)
    apply (simp split: sum.splits, blast)
    done
qed

lemma patch_reports:
  assumes "set_condition_law k"
  shows "yields (\<lambda>r l. \<exists>s. l = [PatchStatus sb s] \<and> not_ready sb reason message s)
    (do { cs \<leftarrow> setStatusCondition k (status_Conditions (psb_Status sb))
            (readyCondition sb ConditionFalse reason message);
          p \<leftarrow> patchStatus k sb (sb\<lparr>psb_Status := (psb_Status sb)\<lparr>status_ObservedGeneration := om_Generation (psb_ObjectMeta sb), status_Conditions := cs\<rparr>\<rparr>);
          State_Monad.return (g p) })"
  apply (rule yields_bind [OF yields_setStatusCondition [OF assms]])
  apply (rule yields_bind [OF yields_kube(12)])
  apply (rule yields_return)
  apply (auto dest: not_ready_set)
  done

interpretation progressing: status_report progressing id "\<lambda>_. requeue2s"
  by unfold_locales (simp_all add: progressing_def Let_def patch_reports patch_outcomes)

interpretation stopped: status_report stopped id "\<lambda>_. finished"
  by unfold_locales (simp_all add: stopped_def Let_def patch_reports patch_outcomes)

interpretation fail: status_report fail Error failed
  by unfold_locales (simp_all add: fail_def Let_def patch_reports patch_outcomes)


lemmas emits_reports = progressing.emits_report stopped.emits_report fail.emits_report

lemma not_ready_frame:
  "not_ready sb reason message s \<Longrightarrow> psb_ObjectMeta s = psb_ObjectMeta sb \<and> psb_Spec s = psb_Spec sb"
  by (auto simp: not_ready_def)

lemma not_ready_condition:
  "not_ready sb reason message s \<Longrightarrow>
   \<exists>c. condition_of (status_Conditions (psb_Status s)) ConditionReady = Some c \<and> cond_Status c = ConditionFalse"
  by (auto simp: not_ready_def)

subsection \<open>The scope of Reconcile\<close>

definition reconcile_scope :: "NamespacedName \<Rightarrow> kube_call \<Rightarrow> bool" where
  "reconcile_scope key c = (case c of
     GetSandbox x \<Rightarrow> x = key
   | GetClass _ \<Rightarrow> True
   | GetSecret x \<Rightarrow> nn_Namespace x = nn_Namespace key
   | GetPod x \<Rightarrow> x = key
   | CreatePod p \<Rightarrow> pod_key p = key
   | DeletePod x \<Rightarrow> x = key
   | PatchStatus b s \<Rightarrow> psb_key s = key \<and> psb_ObjectMeta s = psb_ObjectMeta b \<and> psb_Spec s = psb_Spec b
   | _ \<Rightarrow> False)"

lemma reconcile_scope_simps [simp]:
  "reconcile_scope key (GetSandbox x) \<longleftrightarrow> x = key"
  "reconcile_scope key (GetClass n)"
  "reconcile_scope key (GetSecret x) \<longleftrightarrow> nn_Namespace x = nn_Namespace key"
  "reconcile_scope key (GetPod x) \<longleftrightarrow> x = key"
  "reconcile_scope key (CreatePod p) \<longleftrightarrow> pod_key p = key"
  "reconcile_scope key (DeletePod x) \<longleftrightarrow> x = key"
  "reconcile_scope key (PatchStatus b s) \<longleftrightarrow>
     psb_key s = key \<and> psb_ObjectMeta s = psb_ObjectMeta b \<and> psb_Spec s = psb_Spec b"
  by (simp_all add: reconcile_scope_def)

definition controller_laws :: "'w kube \<Rightarrow> bool" where
  "controller_laws k \<longleftrightarrow>
     set_condition_law k \<and> sandbox_read_law k \<and> pod_read_law k \<and> pod_owner_law k \<and> pod_create_law k"

lemma controller_lawsD:
  assumes "controller_laws k"
  shows "set_condition_law k" "sandbox_read_law k" "pod_read_law k" "pod_owner_law k" "pod_create_law k"
  using assms by (auto simp: controller_laws_def)

text \<open>What a read returned, as a fact about some world.\<close>

definition read_sandbox :: "'w kube \<Rightarrow> NamespacedName \<Rightarrow> PodSandbox \<Rightarrow> bool" where
  "read_sandbox k key sb \<longleftrightarrow> (\<exists>w w'. kc_GetSandbox k key w = (Inr sb, w'))"

definition read_pod :: "'w kube \<Rightarrow> NamespacedName \<Rightarrow> Pod \<Rightarrow> bool" where
  "read_pod k key p \<longleftrightarrow> (\<exists>w w'. kc_GetPod k key w = (Inr p, w'))"

definition read_class :: "'w kube \<Rightarrow> PodSandbox \<Rightarrow> PodSandboxClass \<Rightarrow> bool" where
  "read_class k sb cls \<longleftrightarrow> (\<exists>w w'. kc_GetClass k (spec_ClassName (psb_Spec sb)) w = (Inr cls, w'))"

text \<open>The secret of the sandbox was read and has user data.\<close>

definition user_data_read :: "'w kube \<Rightarrow> PodSandbox \<Rightarrow> bool" where
  "user_data_read k sb \<longleftrightarrow>
     (\<exists>w w' sec. kc_GetSecret k (NN (psb_Namespace sb) (lor_Name (spec_UserDataSecretRef (psb_Spec sb)))) w = (Inr sec, w') \<and>
        sec_Data sec ''userdata'' \<noteq> None)"

definition generation_of :: "Pod \<Rightarrow> string" where
  "generation_of p = map_get (om_Annotations (pod_ObjectMeta p)) annotationGeneration"

text \<open>The runner may be created for the sandbox and the class.\<close>

definition admitted :: "'w kube \<Rightarrow> NamespacedName \<Rightarrow> PodSandbox \<Rightarrow> PodSandboxClass \<Rightarrow> bool" where
  "admitted k key sb cls \<longleftrightarrow> read_sandbox k key sb \<and> om_DeletionTimestamp (psb_ObjectMeta sb) = None \<and>
     read_class k sb cls \<and> user_data_read k sb"

lemma getClass_read:
  "pred_state (\<lambda>r. \<forall>cls. r = Inr cls \<longrightarrow> read_class k sb cls) (getClassObject k (spec_ClassName (psb_Spec sb)))"
  unfolding go_ops read_class_def by (rule pred_state_perform) (metis prod.collapse)

lemma getSecret_read:
  "pred_state (\<lambda>r. \<forall>sec. r = Inr sec \<longrightarrow> (\<exists>w w'. kc_GetSecret k key w = (Inr sec, w'))) (getSecret k key)"
  unfolding go_ops by (rule pred_state_perform) (metis prod.collapse)

lemma getSandbox_read: "pred_state (\<lambda>r. \<forall>sb. r = Inr sb \<longrightarrow> read_sandbox k key sb) (getSandbox k key)"
  unfolding go_ops read_sandbox_def by (rule pred_state_perform) (metis prod.collapse)

lemma getPod_read: "pred_state (\<lambda>r. \<forall>p. r = Inr p \<longrightarrow> read_pod k key p) (getPod k key)"
  unfolding go_ops read_pod_def by (rule pred_state_perform) (metis prod.collapse)

lemma read_sandbox_key: "sandbox_read_law k \<Longrightarrow> read_sandbox k key sb \<Longrightarrow> psb_key sb = key"
  unfolding sandbox_read_law_def read_sandbox_def by blast

lemma read_pod_key: "pod_read_law k \<Longrightarrow> read_pod k key p \<Longrightarrow> pod_key p = key"
  unfolding pod_read_law_def read_pod_def by blast

lemma desiredRunner_key: "pod_key (desiredRunner sb cls) = psb_key sb"
  by (simp add: desiredRunner_def Let_def ObjectKeyFromMeta_def)

lemma pod_owner_key:
  "pod_owner_law k \<Longrightarrow> kl_SetPodController k ow p = Inr p' \<Longrightarrow> pod_key p' = pod_key p"
  unfolding pod_owner_law_def by (metis owned_meta_key)

text \<open>The object that reports a live runner: the sandbox is ready exactly when the Pod is ready and
  has an address, which is then the address of the sandbox.\<close>

definition runner_up :: "Pod \<Rightarrow> bool" where
  "runner_up p \<longleftrightarrow> podReady p \<and> pst_PodIP (pod_Status p) \<noteq> []"

definition live_status :: "PodSandbox \<Rightarrow> Pod \<Rightarrow> PodSandbox \<Rightarrow> bool" where
  "live_status sb p s \<longleftrightarrow>
     (\<exists>cs. s = sb\<lparr>psb_Status := (psb_Status sb)\<lparr>
            status_ObservedGeneration := om_Generation (psb_ObjectMeta sb),
            status_RunnerRef := Some \<lparr>lor_Name = pod_Name p\<rparr>,
            status_NodeName := ps_NodeName (pod_Spec p),
            status_IPs := (if pst_PodIP (pod_Status p) = [] then [] else [pst_PodIP (pod_Status p)]),
            status_Conditions := cs\<rparr>\<rparr> \<and>
        ready_set (status_Conditions (psb_Status sb))
          (readyCondition sb (boolCondition (runner_up p))
            (if runner_up p then ''PodVMReady'' else ''PodVMStarting'')
            (if runner_up p then ''The PodVM is ready'' else ''Waiting for the PodVM runtime'')) cs)"

lemma emits_reportRunner:
  assumes "set_condition_law k" and "\<And>s. live_status sb p s \<Longrightarrow> P (PatchStatus sb s)"
  shows "emits P (reportRunner k sb p)"
  unfolding reportRunner_def Let_def emits_yields
  apply (rule yields_bind [OF yields_setStatusCondition [OF assms(1)]])
  apply (rule yields_bind [OF yields_kube(12)])
  apply (rule yields_return)
  apply (auto simp: live_status_def runner_up_def intro!: assms(2) split del: if_split)
  done

text \<open>The calls of \<open>Reconcile\<close>: a property of calls holds of all of them when it holds of the reads,
  of the Pod created for a sandbox that was read, of the deletion of a runner that was read, and of
  the two kinds of patches.\<close>

definition covers :: "'w kube \<Rightarrow> NamespacedName \<Rightarrow> (kube_call \<Rightarrow> bool) \<Rightarrow> bool" where
  "covers k key P \<longleftrightarrow>
     P (GetSandbox key) \<and> P (GetPod key) \<and> (\<forall>n. P (GetClass n)) \<and>
     (\<forall>sb n. read_sandbox k key sb \<longrightarrow> P (GetSecret (NN (psb_Namespace sb) n))) \<and>
     (\<forall>sb cls p. admitted k key sb cls \<and>
        kl_SetPodController k sb (desiredRunner sb cls) = Inr p \<longrightarrow> P (CreatePod p)) \<and>
     (\<forall>sb cls p. admitted k key sb cls \<and> read_pod k key p \<and>
        generation_of p \<noteq> templateGeneration sb cls \<longrightarrow> P (DeletePod (pod_key p))) \<and>
     (\<forall>sb reason m s. read_sandbox k key sb \<and> not_ready sb reason m s \<longrightarrow> P (PatchStatus sb s)) \<and>
     (\<forall>sb p s. read_sandbox k key sb \<and> read_pod k key p \<and> live_status sb p s \<longrightarrow> P (PatchStatus sb s))"

lemma coversD:
  assumes "covers k key P"
  shows "P (GetSandbox key)" "P (GetPod key)" "P (GetClass n)"
    "read_sandbox k key sb \<Longrightarrow> P (GetSecret (NN (psb_Namespace sb) n))"
    "read_sandbox k key sb \<Longrightarrow> not_ready sb reason m s \<Longrightarrow> P (PatchStatus sb s)"
  using assms unfolding covers_def by blast+

lemma emits_checkRunner:
  assumes laws: "controller_laws k" and cov: "covers k key P" and adm: "admitted k key sb cls"
    and gen: "generation_of desired = templateGeneration sb cls"
  shows "emits P (checkRunner k key sb desired)"
proof -
  have sb: "read_sandbox k key sb" using adm by (simp add: admitted_def)
  have law: "set_condition_law k" by (rule controller_lawsD [OF laws])
  have del: "P (DeletePod (pod_key p))" if "read_pod k key p" "generation_of p \<noteq> generation_of desired" for p
    using cov adm that unfolding covers_def gen by blast
  have live: "P (PatchStatus sb s)" if "read_pod k key p" "live_status sb p s" for p s
    using cov sb that unfolding covers_def by blast
  show ?thesis
    unfolding checkRunner_def generation_of_def [symmetric]
    apply (rule emits_bind_pred [OF _ getPod_read])
     apply (intro emits_intros coversD [OF cov])
    apply (intro emits_intros emits_reports law emits_reportRunner)
    using del live by (auto intro: coversD(5) [OF cov sb])
qed

lemma desiredRunner_generation: "generation_of (desiredRunner sb cls) = templateGeneration sb cls"
  by (simp add: generation_of_def desiredRunner_def Let_def runnerAnnotations_def)

lemma desiredRunner_annotated:
  "om_Annotations (pod_ObjectMeta (desiredRunner sb cls)) annotationGeneration = Some (templateGeneration sb cls)"
  by (simp add: desiredRunner_def Let_def runnerAnnotations_def)

lemma owned_generation:
  assumes "controller_laws k" and "kl_SetPodController k sb (desiredRunner sb cls) = Inr p"
  shows "om_Annotations (pod_ObjectMeta p) annotationGeneration = Some (templateGeneration sb cls)"
proof -
  have "owned_meta sb (pod_ObjectMeta (desiredRunner sb cls)) (pod_ObjectMeta p)"
    using controller_lawsD(4) [OF assms(1)] assms(2) unfolding pod_owner_law_def by blast
  then have "om_Annotations (pod_ObjectMeta p) = om_Annotations (pod_ObjectMeta (desiredRunner sb cls))"
    by (rule owned_meta_key [THEN conjunct2, THEN conjunct2, THEN conjunct1])
  then show ?thesis by (simp add: desiredRunner_annotated)
qed

lemma createPod_generation:
  assumes "pod_create_law k" and "om_Annotations (pod_ObjectMeta p) annotationGeneration = Some g"
  shows "pred_state (\<lambda>r. \<forall>p'. r = Inr p' \<longrightarrow> generation_of p' = g) (createPod k p)"
proof -
  have "generation_of p' = g" if "kc_CreatePod k p w = (Inr p', w')" for w p' w'
  proof -
    have "om_Annotations (pod_ObjectMeta p') annotationGeneration = Some g"
      using assms that unfolding pod_create_law_def by blast
    then show ?thesis by (simp add: generation_of_def map_get_def)
  qed
  then show ?thesis
    unfolding go_ops by (intro pred_state_perform) (metis prod.collapse)
qed

lemma emits_applyRunner:
  assumes laws: "controller_laws k" and cov: "covers k key P" and adm: "admitted k key sb cls"
  shows "emits P (applyRunner k key sb cls)"
proof -
  have sb: "read_sandbox k key sb" using adm by (simp add: admitted_def)
  have law: "set_condition_law k" by (rule controller_lawsD [OF laws])
  have "emits P (do {
        c \<leftarrow> createPod k desired;
        case c of
          Inl err \<Rightarrow>
            if \<not> IsAlreadyExists err then fail k sb ''RunnerCreateFailed'' err
            else checkRunner k key sb desired
        | Inr stored \<Rightarrow> checkRunner k key sb stored })"
    if d: "kl_SetPodController k sb (desiredRunner sb cls) = Inr desired" for desired
  proof -
    have g: "om_Annotations (pod_ObjectMeta desired) annotationGeneration = Some (templateGeneration sb cls)"
      by (rule owned_generation [OF laws d])
    have "P (CreatePod desired)" using cov adm d unfolding covers_def by blast
    with g show ?thesis
      apply (intro emits_bind_pred [OF _ createPod_generation [OF controller_lawsD(5) [OF laws] g]])
       apply (rule emits_intros, assumption)
      apply (intro emits_case_sum emits_if emits_reports law emits_checkRunner [OF laws cov adm])
        apply (auto simp: generation_of_def map_get_def intro: coversD(5) [OF cov sb])
      done
  qed
  then show ?thesis
    unfolding applyRunner_def by (intro emits_case_sum emits_return) auto
qed

lemma emits_Reconcile:
  assumes "controller_laws k" and "covers k key P"
  shows "emits P (Reconcile k key)"
  unfolding Reconcile_def
  apply (rule emits_bind_pred [OF _ getSandbox_read])
   apply (intro emits_intros coversD [OF assms(2)])
  apply (rule emits_case_sum, rule emits_return)
  apply (rule emits_if, rule emits_return)
  apply (rule emits_bind_pred [OF _ getClass_read])
   apply (intro emits_intros coversD [OF assms(2)])
  apply (rule emits_case_sum, rule fail.emits_report [OF controller_lawsD(1) [OF assms(1)]], erule coversD(5) [OF assms(2), rotated], simp)
  apply (rule emits_bind_pred [OF _ getSecret_read])
   apply (intro emits_intros coversD [OF assms(2)], simp)
  apply (rule emits_case_sum, rule fail.emits_report [OF controller_lawsD(1) [OF assms(1)]], erule coversD(5) [OF assms(2), rotated], simp)
  apply (rule emits_if, rule fail.emits_report [OF controller_lawsD(1) [OF assms(1)]], erule coversD(5) [OF assms(2), rotated], simp)
  apply (rule emits_applyRunner [OF assms])
  apply (auto simp: admitted_def user_data_read_def)
  done

lemma live_status_frame:
  "live_status sb p s \<Longrightarrow> psb_ObjectMeta s = psb_ObjectMeta sb \<and> psb_Spec s = psb_Spec sb"
  by (auto simp: live_status_def)

lemma Reconcile_scoped:
  assumes "controller_laws k"
  shows "emits (reconcile_scope key) (Reconcile k key)"
proof -
  have laws: "set_condition_law k" "sandbox_read_law k" "pod_read_law k" "pod_owner_law k"
    using assms by (auto simp: controller_laws_def)
  have sb: "psb_key sb = key \<and> psb_Namespace sb = nn_Namespace key" if "read_sandbox k key sb" for sb
    using read_sandbox_key [OF laws(2) that] by (auto simp: ObjectKeyFromMeta_def)
  have "covers k key (reconcile_scope key)"
    unfolding covers_def
    using sb read_pod_key [OF laws(3)] pod_owner_key [OF laws(4)]
    by (auto simp: desiredRunner_key admitted_def dest: not_ready_frame live_status_frame)
  with assms show ?thesis by (rule emits_Reconcile)
qed

subsection \<open>Ready only when the runner is\<close>

definition ready_condition :: "PodSandbox \<Rightarrow> Condition \<Rightarrow> bool" where
  "ready_condition s c \<longleftrightarrow> condition_of (status_Conditions (psb_Status s)) ConditionReady = Some c"

lemma live_status_ready:
  assumes "live_status sb p s"
  shows "\<exists>c. ready_condition s c \<and> cond_Status c = boolCondition (runner_up p) \<and>
     cond_ObservedGeneration c = om_Generation (psb_ObjectMeta sb)"
  using assms unfolding live_status_def ready_set_def ready_condition_def
  by (auto simp: readyCondition_def same_condition_def)

text \<open>A patch that sets \<open>Ready\<close> to true follows a read of a ready runner Pod, and reports it.\<close>

definition ready_justified :: "'w kube \<Rightarrow> NamespacedName \<Rightarrow> kube_call \<Rightarrow> bool" where
  "ready_justified k key c = (case c of
     PatchStatus b s \<Rightarrow> (\<exists>rc. ready_condition s rc \<and>
       (cond_Status rc = ConditionFalse \<or>
        (\<exists>p. read_pod k key p \<and> runner_up p \<and> cond_Status rc = ConditionTrue \<and>
           status_IPs (psb_Status s) = [pst_PodIP (pod_Status p)] \<and>
           status_RunnerRef (psb_Status s) = Some \<lparr>lor_Name = pod_Name p\<rparr> \<and>
           status_NodeName (psb_Status s) = ps_NodeName (pod_Spec p) \<and>
           status_ObservedGeneration (psb_Status s) = om_Generation (psb_ObjectMeta b))))
   | _ \<Rightarrow> True)"

lemma live_status_justified:
  assumes "live_status sb p s" and "read_pod k key p"
  shows "ready_justified k key (PatchStatus sb s)"
proof -
  obtain c where c: "ready_condition s c" "cond_Status c = boolCondition (runner_up p)"
    using live_status_ready [OF assms(1)] by blast
  show ?thesis
  proof (cases "runner_up p")
    case True
    with c assms show ?thesis
      unfolding ready_justified_def live_status_def
      by (auto simp: boolCondition_def runner_up_def intro!: exI [of _ c])
  next
    case False
    with c show ?thesis unfolding ready_justified_def by (auto simp: boolCondition_def)
  qed
qed

lemma Reconcile_ready_justified:
  assumes "controller_laws k"
  shows "emits (ready_justified k key) (Reconcile k key)"
proof (rule emits_Reconcile [OF assms])
  have "ready_justified k key (PatchStatus sb s)" if "not_ready sb reason m s" for sb reason m s
    using not_ready_condition [OF that] by (auto simp: ready_justified_def ready_condition_def)
  then show "covers k key (ready_justified k key)"
    unfolding covers_def by (auto simp: live_status_justified) (auto simp: ready_justified_def)
qed

subsection \<open>The runner Pod that is created\<close>

definition runner_for :: "'w kube \<Rightarrow> NamespacedName \<Rightarrow> kube_call \<Rightarrow> bool" where
  "runner_for k key c = (case c of
     CreatePod p \<Rightarrow> (\<exists>sb cls refs. admitted k key sb cls \<and>
        p = (desiredRunner sb cls)\<lparr>pod_ObjectMeta :=
              (pod_ObjectMeta (desiredRunner sb cls))\<lparr>om_OwnerReferences := refs\<rparr>\<rparr> \<and>
        owner_ref ''PodSandbox'' (psb_ObjectMeta sb) \<in> set refs)
   | _ \<Rightarrow> True)"

lemma pod_ownerD:
  assumes "pod_owner_law k" and "kl_SetPodController k sb p = Inr p'"
  obtains refs where "p' = p\<lparr>pod_ObjectMeta := (pod_ObjectMeta p)\<lparr>om_OwnerReferences := refs\<rparr>\<rparr>"
    and "owner_ref ''PodSandbox'' (psb_ObjectMeta sb) \<in> set refs"
proof -
  have "pod_Spec p' = pod_Spec p" "pod_Status p' = pod_Status p" "owned_meta sb (pod_ObjectMeta p) (pod_ObjectMeta p')"
    using assms unfolding pod_owner_law_def by blast+
  then obtain refs where "pod_ObjectMeta p' = (pod_ObjectMeta p)\<lparr>om_OwnerReferences := refs\<rparr>"
      "owner_ref ''PodSandbox'' (psb_ObjectMeta sb) \<in> set refs"
    unfolding owned_meta_def by blast
  with \<open>pod_Spec p' = pod_Spec p\<close> \<open>pod_Status p' = pod_Status p\<close> show thesis
    by (intro that [of refs] Pod.equality) simp_all
qed

lemma Reconcile_creates_desired:
  assumes "controller_laws k"
  shows "emits (runner_for k key) (Reconcile k key)"
proof (rule emits_Reconcile [OF assms])
  have "runner_for k key (CreatePod p)"
    if adm: "admitted k key sb cls" and p: "kl_SetPodController k sb (desiredRunner sb cls) = Inr p" for sb cls p
  proof -
    obtain refs where "p = (desiredRunner sb cls)\<lparr>pod_ObjectMeta :=
          (pod_ObjectMeta (desiredRunner sb cls))\<lparr>om_OwnerReferences := refs\<rparr>\<rparr>"
        "owner_ref ''PodSandbox'' (psb_ObjectMeta sb) \<in> set refs"
      using p by (rule pod_ownerD [OF controller_lawsD(4) [OF assms]])
    with adm show ?thesis unfolding runner_for_def kube_call.case by blast
  qed
  moreover have "runner_for k key c" if "\<forall>p. c \<noteq> CreatePod p" for c
    using that by (cases c) (simp_all add: runner_for_def)
  ultimately show "covers k key (runner_for k key)"
    unfolding covers_def by blast
qed


subsection \<open>Reconcile gives up only on a settled sandbox\<close>

definition terminal :: "Pod \<Rightarrow> bool" where
  "terminal p \<longleftrightarrow> pst_Phase (pod_Status p) = PodFailed \<or> pst_Phase (pod_Status p) = PodSucceeded"

definition settled :: "'w kube \<Rightarrow> NamespacedName \<Rightarrow> bool" where
  "settled k key \<longleftrightarrow>
     (\<exists>w w' e. kc_GetSandbox k key w = (Inl e, w') \<and> IsNotFound e) \<or>
     (\<exists>sb. read_sandbox k key sb \<and> om_DeletionTimestamp (psb_ObjectMeta sb) \<noteq> None) \<or>
     (\<exists>b s w w' e. kc_PatchStatus k b s w = (Inl e, w') \<and> IsNotFound e) \<or>
     (\<exists>p. read_pod k key p \<and> (runner_up p \<or> terminal p))"

definition retried :: "reconcile_result \<Rightarrow> bool" where
  "retried r \<longleftrightarrow> rr_RequeueAfter r \<noteq> 0 \<or> rr_Error r \<noteq> None"

definition retried_or_settled :: "'w kube \<Rightarrow> NamespacedName \<Rightarrow> reconcile_result \<Rightarrow> bool" where
  "retried_or_settled k key r \<longleftrightarrow> retried r \<or> settled k key"

lemma retried_simps [simp]: "retried requeue2s" "retried (failed e)" "\<not> retried finished"
  by (simp_all add: retried_def requeue2s_def failed_def finished_def)

lemma IgnoreNotFound_retried: "retried (IgnoreNotFound e) \<longleftrightarrow> \<not> IsNotFound e"
  by (simp add: IgnoreNotFound_def)

lemma patch_settled:
  assumes "\<exists>w s w' err. kc_PatchStatus k sb s w = (Inl err, w') \<and> r = IgnoreNotFound err"
  shows "retried_or_settled k key r"
  using assms unfolding retried_or_settled_def settled_def by (metis IgnoreNotFound_retried)

lemma outcome_settled:
  assumes "pred_state (\<lambda>r. r = x \<or>
      (\<exists>w s w' err. kc_PatchStatus k sb s w = (Inl err, w') \<and> r = IgnoreNotFound err)) m"
    and "retried_or_settled k key x"
  shows "pred_state (retried_or_settled k key) m"
  using assms(1)
  apply (rule pred_state_weaken)
  apply (erule disjE)
   apply (simp add: assms(2))
  apply (erule patch_settled)
  done

lemma progressing_settled: "pred_state (retried_or_settled k key) (progressing k sb reason m)"
  by (rule outcome_settled [OF progressing.outcomes]) (simp add: retried_or_settled_def)

lemma fail_settled: "pred_state (retried_or_settled k key) (fail k sb reason m)"
  by (rule outcome_settled [OF fail.outcomes]) (simp add: retried_or_settled_def)

lemma stopped_settled:
  "read_pod k key p \<Longrightarrow> terminal p \<Longrightarrow> pred_state (retried_or_settled k key) (stopped k sb reason m)"
  by (rule outcome_settled [OF stopped.outcomes]) (auto simp: retried_or_settled_def settled_def)

lemma reportRunner_settled:
  assumes "read_pod k key p"
  shows "pred_state (retried_or_settled k key) (reportRunner k sb p)"
proof (rule outcome_settled)
  show "pred_state (\<lambda>r. r = (if \<not> runner_up p then requeue2s else finished) \<or>
      (\<exists>w s w' err. kc_PatchStatus k sb s w = (Inl err, w') \<and> r = IgnoreNotFound err)) (reportRunner k sb p)"
    unfolding reportRunner_def Let_def runner_up_def by (rule patch_outcomes)
  show "retried_or_settled k key (if \<not> runner_up p then requeue2s else finished)"
    using assms by (auto simp: retried_or_settled_def settled_def)
qed

lemma checkRunner_settled: "pred_state (retried_or_settled k key) (checkRunner k key sb desired)"
  unfolding checkRunner_def
  apply (rule pred_state_bind [OF getPod_read])
  apply (rule pred_state_case_sum)
   apply (rule pred_state_if, rule progressing_settled)
   apply (rule pred_state_return, simp add: retried_or_settled_def)
  apply (rule pred_state_if)
   apply (rule pred_state_bind [OF pred_state_True])
   apply (rule pred_state_case_sum)
    apply (rule pred_state_if, rule fail_settled, rule progressing_settled)
   apply (rule progressing_settled)
  apply (rule pred_state_if)
   apply (rule stopped_settled, simp, simp add: terminal_def)
  apply (rule reportRunner_settled, simp)
  done

lemma Reconcile_settled: "pred_state (retried_or_settled k key) (Reconcile k key)"
proof -
  have apply_ok: "pred_state (retried_or_settled k key) (applyRunner k key sb cls)" for sb cls
    unfolding applyRunner_def
    by (intro pred_state_case_sum pred_state_if pred_state_bind [OF pred_state_True] fail_settled
        checkRunner_settled pred_state_return) (simp add: retried_or_settled_def)
  have read: "pred_state (\<lambda>r. (\<forall>e. r = Inl e \<longrightarrow> (\<exists>w w'. kc_GetSandbox k key w = (Inl e, w'))) \<and>
      (\<forall>sb. r = Inr sb \<longrightarrow> read_sandbox k key sb)) (getSandbox k key)"
    unfolding go_ops read_sandbox_def by (rule pred_state_perform) (metis prod.collapse)
  show ?thesis
    unfolding Reconcile_def
    apply (rule pred_state_bind [OF read])
    apply (rule pred_state_case_sum)
     apply (rule pred_state_return)
     apply (auto simp: retried_or_settled_def IgnoreNotFound_retried settled_def)[1]
    apply (rule pred_state_if)
     apply (rule pred_state_return)
     apply (auto simp: retried_or_settled_def settled_def)[1]
    apply (intro pred_state_case_sum pred_state_if pred_state_bind [OF pred_state_True] fail_settled apply_ok)
    done
qed


subsection \<open>A current runner is left alone\<close>

text \<open>A runner is deleted only when its template generation is not the current one.\<close>

definition deletes_outdated :: "'w kube \<Rightarrow> NamespacedName \<Rightarrow> kube_call \<Rightarrow> bool" where
  "deletes_outdated k key c = (case c of
     DeletePod x \<Rightarrow> (\<exists>sb cls p. x = key \<and> admitted k key sb cls \<and> read_pod k key p \<and>
        generation_of p \<noteq> templateGeneration sb cls)
   | _ \<Rightarrow> True)"

lemma Reconcile_deletes_outdated:
  assumes "controller_laws k"
  shows "emits (deletes_outdated k key) (Reconcile k key)"
proof (rule emits_Reconcile [OF assms])
  have "deletes_outdated k key (DeletePod (pod_key p))"
    if "admitted k key sb cls" "read_pod k key p" "generation_of p \<noteq> templateGeneration sb cls" for sb cls p
    using that read_pod_key [OF controller_lawsD(3) [OF assms] that(2)]
    unfolding deletes_outdated_def kube_call.case by blast
  moreover have "deletes_outdated k key c" if "\<forall>x. c \<noteq> DeletePod x" for c
    using that by (cases c) (simp_all add: deletes_outdated_def)
  ultimately show "covers k key (deletes_outdated k key)"
    unfolding covers_def by blast
qed

end
