(* ===== verification/Controller_Properties.thy ===== *)
theory Controller_Properties
  imports Controller_Contract Mem_Cluster
begin

text \<open>
  The properties of the controller, with the witnesses that their hypotheses can hold, on the cluster
  in memory.
\<close>

subsection \<open>A concrete setting\<close>

definition demo_class :: PodSandboxClass where
  "demo_class = \<lparr>psc_ObjectMeta = zero_ObjectMeta\<lparr>om_Name := ''default'', om_Generation := 3\<rparr>,
     psc_Spec = \<lparr>cls_RunnerImage = ''runner:1'', cls_PodVMImage = ''podvm:1'', cls_NetworkMTU = 0,
       cls_Annotations = Map.empty, cls_Labels = [labelName \<mapsto> ''mine'', ''team'' \<mapsto> ''blue''],
       cls_NodeSelector = Map.empty, cls_Tolerations = [], cls_RuntimeAssetsDir = [], cls_MemoryOverheadMiB = 0\<rparr>\<rparr>"

definition demo_psb :: PodSandbox where
  "demo_psb = \<lparr>psb_ObjectMeta = zero_ObjectMeta\<lparr>om_Name := ''psb-1'', om_Namespace := ''ns'', om_UID := ''u'',
       om_Generation := 1\<rparr>,
     psb_Spec = \<lparr>spec_WorkloadRef = \<lparr>wr_Namespace = [], wr_Name = ''web'', wr_UID = []\<rparr>, spec_SandboxID = ''sid'',
       spec_UserDataSecretRef = \<lparr>lor_Name = ''psb-1-userdata''\<rparr>, spec_ClassName = ''default'',
       spec_VCPUs = 2, spec_MemoryMiB = 2048, spec_Arch = []\<rparr>,
     psb_Status = zero_PodSandboxStatus\<rparr>"

definition demo_secret :: Secret where
  "demo_secret = \<lparr>sec_ObjectMeta = zero_ObjectMeta\<lparr>om_Name := ''psb-1-userdata'', om_Namespace := ''ns''\<rparr>,
     sec_Immutable = Some True, sec_Data = [''userdata'' \<mapsto> ''cc''], sec_Type = []\<rparr>"

definition demo_cluster :: mem where
  "demo_cluster = empty_mem\<lparr>m_Sandboxes := [demo_psb], m_Classes := [demo_class], m_Secrets := [demo_secret]\<rparr>"

abbreviation demo_key :: NamespacedName where "demo_key \<equiv> NN ''ns'' ''psb-1''"

definition at_start :: "mem \<Rightarrow> (mem, kube_call) sys" where
  "at_start w = \<lparr>world = w, trace = []\<rparr>"

lemma mem_controller_laws: "controller_laws mem_kube"
  by (simp add: controller_laws_def mem_kube_laws)

lemma emits_wp: "emits P m \<Longrightarrow> wp m (\<lambda>_ t. \<exists>l. trace t = trace s @ l \<and> list_all P l) s"
  by (auto intro!: wpI elim: emits_run)

definition deleting_psb :: PodSandbox where
  "deleting_psb = demo_psb\<lparr>psb_ObjectMeta := (psb_ObjectMeta demo_psb)\<lparr>om_DeletionTimestamp := Some 7\<rparr>\<rparr>"

lemmas runner_demo_defs = demo_class_def demo_psb_def demo_secret_def demo_cluster_def deleting_psb_def
  at_start_def empty_mem_def zero_ObjectMeta_def zero_PodSandboxStatus_def

lemmas runner_mem_eval = mem_kube_simps mem_get_def mem_create_def mem_delete_def mem_remove_def mem_update_def
  mem_own_def err_NotFound_def err_AlreadyExists_def ObjectKeyFromMeta_def

lemma demo_reconcile_run:
  "map is_write (trace (snd (run_state (Reconcile mem_kube demo_key) (at_start demo_cluster)))) =
     [False, False, False, True, False, True]"
  by (simp add: Reconcile_def applyRunner_def checkRunner_def reportRunner_def go_ops runner_demo_defs runner_mem_eval Let_def
      desiredRunner_def zero_PodStatus_def podReady_def mem_patch_def)

subsection \<open>What Reconcile touches\<close>

text \<open>C9: Reconciling a sandbox touches only that sandbox and its runner. Every Pod that is created or
  deleted has the name and namespace of the sandbox, a status patch is for that sandbox and leaves
  its metadata and specification alone, and nothing else is written.\<close>

theorem Reconcile_frame:
  assumes "controller_laws k"
  shows "wp (Reconcile k key) (\<lambda>_ t. \<exists>l. trace t = trace s @ l \<and> list_all (reconcile_scope key) l) s"
  by (rule emits_wp [OF Reconcile_scoped [OF assms]])

theorem Reconcile_frame_witness:
  "wp (Reconcile mem_kube demo_key)
     (\<lambda>_ t. \<exists>l. trace t = trace (at_start demo_cluster) @ l \<and> list_all (reconcile_scope demo_key) l)
     (at_start demo_cluster) \<and>
   map is_write (trace (snd (run_state (Reconcile mem_kube demo_key) (at_start demo_cluster)))) =
     [False, False, False, True, False, True]"
  by (rule conjI [OF _ demo_reconcile_run]) (rule Reconcile_frame [OF mem_controller_laws])

text \<open>C3: A sandbox is reported \<open>Ready\<close> only when its runner is. Each status patch leaves the sandbox with
  a \<open>Ready\<close> condition; when that is true, a runner Pod of the sandbox's name was read that is ready
  and has an address, and the patch reports this address, the Pod's name and its node, for the
  generation that was reconciled.\<close>

theorem Reconcile_ready_honest:
  assumes "controller_laws k"
  shows "wp (Reconcile k key) (\<lambda>_ t. \<exists>l. trace t = trace s @ l \<and> list_all (ready_justified k key) l) s"
  by (rule emits_wp [OF Reconcile_ready_justified [OF assms]])

theorem Reconcile_ready_honest_witness:
  "wp (Reconcile mem_kube demo_key)
     (\<lambda>_ t. \<exists>l. trace t = trace (at_start demo_cluster) @ l \<and> list_all (ready_justified mem_kube demo_key) l)
     (at_start demo_cluster) \<and>
   map is_write (trace (snd (run_state (Reconcile mem_kube demo_key) (at_start demo_cluster)))) =
     [False, False, False, True, False, True]"
  by (rule conjI [OF _ demo_reconcile_run]) (rule Reconcile_ready_honest [OF mem_controller_laws])

text \<open>C13: The runner that is created is the desired one. A Pod is created only for a sandbox that was
  read and is not being deleted, whose class and user data were read; it is the Pod \<open>desiredRunner\<close>
  of the two with nothing changed but its owner references, which name the sandbox as controller.\<close>

theorem Reconcile_creates_runner:
  assumes "controller_laws k"
  shows "wp (Reconcile k key) (\<lambda>_ t. \<exists>l. trace t = trace s @ l \<and> list_all (runner_for k key) l) s"
  by (rule emits_wp [OF Reconcile_creates_desired [OF assms]])

theorem Reconcile_creates_runner_witness:
  "wp (Reconcile mem_kube demo_key)
     (\<lambda>_ t. \<exists>l. trace t = trace (at_start demo_cluster) @ l \<and> list_all (runner_for mem_kube demo_key) l)
     (at_start demo_cluster) \<and>
   map is_write (trace (snd (run_state (Reconcile mem_kube demo_key) (at_start demo_cluster)))) =
     [False, False, False, True, False, True]"
  by (rule conjI [OF _ demo_reconcile_run]) (rule Reconcile_creates_runner [OF mem_controller_laws])

text \<open>C14: A current runner is never deleted. A Pod is deleted only when its template generation differs
  from that of the sandbox and the class as read.\<close>

theorem Reconcile_keeps_current:
  assumes "controller_laws k"
  shows "wp (Reconcile k key) (\<lambda>_ t. \<exists>l. trace t = trace s @ l \<and> list_all (deletes_outdated k key) l) s"
  by (rule emits_wp [OF Reconcile_deletes_outdated [OF assms]])

theorem Reconcile_keeps_current_witness:
  "wp (Reconcile mem_kube demo_key)
     (\<lambda>_ t. \<exists>l. trace t = trace (at_start demo_cluster) @ l \<and> list_all (deletes_outdated mem_kube demo_key) l)
     (at_start demo_cluster) \<and>
   map is_write (trace (snd (run_state (Reconcile mem_kube demo_key) (at_start demo_cluster)))) =
     [False, False, False, True, False, True]"
  by (rule conjI [OF _ demo_reconcile_run]) (rule Reconcile_keeps_current [OF mem_controller_laws])

text \<open>C15: No sandbox is forgotten. When \<open>Reconcile\<close> asks neither for a requeue nor returns an error, the
  sandbox is settled: it is gone or being deleted, or its runner is ready with an address or has
  terminated.\<close>

theorem Reconcile_retries_until_settled:
  "wp (Reconcile k key) (\<lambda>r _. retried_or_settled k key r) s"
  using pred_stateD [OF Reconcile_settled] by (auto intro!: wpI)

subsection \<open>Reconcile on special sandboxes\<close>

text \<open>A sandbox that is being deleted is left alone: the only call is the read, and there is no
  requeue and no error. In particular its runner is not created again.\<close>

theorem Reconcile_deleting:
  assumes "fst (kc_GetSandbox k key (world s)) = Inr sb"
    and "om_DeletionTimestamp (psb_ObjectMeta sb) = Some d"
  shows "wp (Reconcile k key) (\<lambda>r t. r = finished \<and> trace t = trace s @ [GetSandbox key]) s"
  using assms by (simp add: Reconcile_def getSandbox_def wp_perform)

theorem Reconcile_deleting_witness:
  "wp (Reconcile mem_kube demo_key) (\<lambda>r t. r = finished \<and> trace t = [GetSandbox demo_key])
     (at_start (demo_cluster\<lparr>m_Sandboxes := [deleting_psb]\<rparr>))"
  using Reconcile_deleting [of mem_kube demo_key "at_start (demo_cluster\<lparr>m_Sandboxes := [deleting_psb]\<rparr>)" deleting_psb 7]
  by (simp add: runner_demo_defs runner_mem_eval)


subsection \<open>The desired runner\<close>

text \<open>C22: The template generation identifies what a runner was made from: two Pods carry the same
  annotation exactly when the generations of their sandboxes and of their classes agree. So a change
  of either is always noticed, and never confused with another.\<close>

theorem templateGeneration_identifies:
  "templateGeneration sb cls = templateGeneration sb' cls' \<longleftrightarrow>
     om_Generation (psb_ObjectMeta sb) = om_Generation (psb_ObjectMeta sb') \<and>
     om_Generation (psc_ObjectMeta cls) = om_Generation (psc_ObjectMeta cls')"
proof
  assume "templateGeneration sb cls = templateGeneration sb' cls'"
  then have "show_int (sint (om_Generation (psb_ObjectMeta sb))) = show_int (sint (om_Generation (psb_ObjectMeta sb'))) \<and>
      show_int (sint (om_Generation (psc_ObjectMeta cls))) = show_int (sint (om_Generation (psc_ObjectMeta cls')))"
    unfolding templateGeneration_def using show_int_no_slash by (intro split_at) auto
  then show "om_Generation (psb_ObjectMeta sb) = om_Generation (psb_ObjectMeta sb') \<and>
     om_Generation (psc_ObjectMeta cls) = om_Generation (psc_ObjectMeta cls')"
    by (auto dest!: show_int_inj simp: signed_word_eqI)
qed (simp add: templateGeneration_def)

text \<open>The controller's own labels and annotations take precedence over those of the class, and every
  other label and annotation of the class is copied.\<close>

theorem runner_metadata_precedence:
  "om_Labels (pod_ObjectMeta (desiredRunner sb cls)) =
     (\<lambda>l. if l = labelSandbox then Some (psb_Name sb)
          else if l = labelName then Some ''pod-sandbox-runner''
          else cls_Labels (psc_Spec cls) l) \<and>
   om_Annotations (pod_ObjectMeta (desiredRunner sb cls)) =
     (\<lambda>a. if a = annotationClass then Some (om_Name (psc_ObjectMeta cls))
          else if a = annotationGeneration then Some (templateGeneration sb cls)
          else if a = annotationWorkloadName then Some (wr_Name (spec_WorkloadRef (psb_Spec sb)))
          else if a = annotationWorkloadNamespace \<and> wr_Namespace (spec_WorkloadRef (psb_Spec sb)) \<noteq> []
          then Some (wr_Namespace (spec_WorkloadRef (psb_Spec sb)))
          else if a = annotationWorkloadUID \<and> wr_UID (spec_WorkloadRef (psb_Spec sb)) \<noteq> []
          then Some (wr_UID (spec_WorkloadRef (psb_Spec sb)))
          else cls_Annotations (psc_Spec cls) a)"
  by (auto simp: desiredRunner_def Let_def runnerLabels_def runnerAnnotations_def copyMap_def fun_eq_iff)

definition overheadOf :: "PodSandboxClass \<Rightarrow> int64" where
  "overheadOf cls = (if cls_MemoryOverheadMiB (psc_Spec cls) = 0 then 256 else cls_MemoryOverheadMiB (psc_Spec cls))"

text \<open>C23: The Pod gets the memory of the guest and the overhead on top, 256 MiB when the class names
  none, for both the request and the limit, as long as the sum fits into an \<open>int64\<close>.\<close>

theorem runner_memory:
  assumes "0 \<le> sint (overheadOf cls)" and "0 \<le> sint (spec_MemoryMiB (psb_Spec sb))"
    and "sint (spec_MemoryMiB (psb_Spec sb)) + sint (overheadOf cls) < 2 ^ 63"
  shows "\<exists>c r. ps_Containers (pod_Spec (desiredRunner sb cls)) = [c] \<and> ctr_Resources c = Some r \<and>
     rr_LimitsMemory r = MustParseQuantity
       (show_int (sint (spec_MemoryMiB (psb_Spec sb)) + sint (overheadOf cls)) @ ''Mi'') \<and>
     rr_RequestsMemory r = rr_LimitsMemory r \<and> rr_RequestsCPU r = rr_LimitsCPU r"
proof -
  have "sint (spec_MemoryMiB (psb_Spec sb) + overheadOf cls) =
      sint (spec_MemoryMiB (psb_Spec sb)) + sint (overheadOf cls)"
    using assms by (simp add: sint_word_ariths(1) signed_take_bit_int_eq_self)
  then show ?thesis
    by (simp add: desiredRunner_def Let_def runnerResources_def formatMi_def overheadOf_def [symmetric])
qed

theorem runner_memory_witness:
  "\<exists>c r. ps_Containers (pod_Spec (desiredRunner demo_psb demo_class)) = [c] \<and> ctr_Resources c = Some r \<and>
     rr_LimitsMemory r = MustParseQuantity (show_int (2048 + 256) @ ''Mi'') \<and>
     rr_RequestsMemory r = rr_LimitsMemory r \<and> rr_RequestsCPU r = rr_LimitsCPU r"
proof -
  have "sint (overheadOf demo_class) = 256" "sint (spec_MemoryMiB (psb_Spec demo_psb)) = 2048"
    by (simp_all add: overheadOf_def demo_class_def demo_psb_def)
  then show ?thesis using runner_memory [of demo_class demo_psb] by simp
qed

subsection \<open>Watches\<close>

text \<open>A change of a class causes every sandbox of that class, and no other, to be reconciled, in the
  order of the list; when the list fails none is.\<close>

theorem sandboxesForClass_exact:
  "wp (sandboxesForClass k name) (\<lambda>requests t. trace t = trace s @ [ListSandboxes] \<and>
     requests = (case fst (kc_ListSandboxes k (world s)) of
        Inl _ \<Rightarrow> []
      | Inr items \<Rightarrow> map psb_key (filter (\<lambda>sb. spec_ClassName (psb_Spec sb) = name) items))) s"
proof -
  have "foldl (\<lambda>requests sandbox. if spec_ClassName (psb_Spec sandbox) = name then requests @ [psb_key sandbox] else requests) acc items =
      acc @ map psb_key (filter (\<lambda>sb. spec_ClassName (psb_Spec sb) = name) items)" for acc items
    by (induction items arbitrary: acc) auto
  then show ?thesis
    by (simp add: sandboxesForClass_def listSandboxes_def wp_perform split: sum.splits)
qed

end
