(* ===== verification/Host_Os.thy ===== *)
theory Host_Os
  imports Go_Utf8
begin

text \<open>
  The operating system as the runner uses it. Files, processes, sockets and the hypervisor's API are
  outside the repository, so they are the parameter \<open>'w host\<close> over a world of arbitrary type, in the
  same way as \<open>'w kube\<close> is the cluster: a field gets its arguments and the world and returns the reply
  and the world after the call. The operations perform one call each and record it as an \<open>os_call\<close>.
  A file mode is the number the source writes in octal.
\<close>

text \<open>An HTTP message as the proxy sees it. The header is the list of its keys with their values, in the
  order in which a loop over the map visits them.\<close>

type_synonym header = "(string \<times> string list) list"

record http_message =
  hm_Method :: string
  hm_Host :: string
  hm_Header :: header

record http_reply =
  hr_Status :: nat
  hr_Header :: header
  hr_Body :: string

datatype os_call =
    MkdirAll string nat
  | ReadFile string
  | WriteFile string string nat
  | Remove string
  | Exec string "string list"
  | StartProcess string "string list"
  | KillProcess
  | Listen string
  | CloseListener string
  | Dial string nat
  | CloseConn string
  | UnixRequest string string string
  | RoundTrip http_message
  | Hijack
  | WriteConn string
  | Stderr string

text \<open>What the \<open>select\<close> statements of the runner receive: a signal, or the result of \<open>cmd.Wait\<close>; the
  result of \<open>cmd.Wait\<close>, or the timer.\<close>

datatype run_event = Signalled string | Exited "go_error + unit"

datatype stop_event = StopExited "go_error + unit" | StopTimeout

record 'w host =
  h_MkdirAll :: "string \<Rightarrow> nat \<Rightarrow> ('w, unit) call"
  h_ReadFile :: "string \<Rightarrow> ('w, string) call"
  h_WriteFile :: "string \<Rightarrow> string \<Rightarrow> nat \<Rightarrow> ('w, unit) call"
  h_Remove :: "string \<Rightarrow> ('w, unit) call"
  h_Exec :: "string \<Rightarrow> string list \<Rightarrow> 'w \<Rightarrow> (go_error option \<times> string) \<times> 'w"
  h_StartProcess :: "string \<Rightarrow> string list \<Rightarrow> ('w, unit) call"
  h_KillProcess :: "('w, unit) call"
  h_Listen :: "string \<Rightarrow> ('w, unit) call"
  h_CloseListener :: "string \<Rightarrow> ('w, unit) call"
  h_Dial :: "string \<Rightarrow> nat \<Rightarrow> ('w, unit) call"
  h_CloseConn :: "string \<Rightarrow> ('w, unit) call"
  h_UnixRequest :: "string \<Rightarrow> string \<Rightarrow> string \<Rightarrow> ('w, nat \<times> string) call"
  h_RoundTrip :: "http_message \<Rightarrow> ('w, http_reply) call"
  h_Hijack :: "('w, unit) call"
  h_WriteConn :: "string \<Rightarrow> ('w, unit) call"
  h_RandRead :: "nat \<Rightarrow> ('w, byte list) call"
  h_WaitRun :: "'w \<Rightarrow> run_event \<times> 'w"
  h_WaitStop :: "'w \<Rightarrow> stop_event \<times> 'w"

type_synonym ('w, 'a) hprog = "('w, os_call, 'a) prog"

named_theorems host_ops \<open>definitions of the one-call operations of the host\<close>

definition os_MkdirAll :: "'w host \<Rightarrow> string \<Rightarrow> nat \<Rightarrow> ('w, go_error + unit) hprog" where
  [host_ops]: "os_MkdirAll h p m = perform (MkdirAll p m) (h_MkdirAll h p m)"

definition os_ReadFile :: "'w host \<Rightarrow> string \<Rightarrow> ('w, go_error + string) hprog" where
  [host_ops]: "os_ReadFile h p = perform (ReadFile p) (h_ReadFile h p)"

definition os_WriteFile :: "'w host \<Rightarrow> string \<Rightarrow> string \<Rightarrow> nat \<Rightarrow> ('w, go_error + unit) hprog" where
  [host_ops]: "os_WriteFile h p d m = perform (WriteFile p d m) (h_WriteFile h p d m)"

definition os_Remove :: "'w host \<Rightarrow> string \<Rightarrow> ('w, go_error + unit) hprog" where
  [host_ops]: "os_Remove h p = perform (Remove p) (h_Remove h p)"

definition cmd_Run :: "'w host \<Rightarrow> string \<Rightarrow> string list \<Rightarrow> ('w, go_error option \<times> string) hprog" where
  [host_ops]: "cmd_Run h name args = perform (Exec name args) (h_Exec h name args)"

definition cmd_Start :: "'w host \<Rightarrow> string \<Rightarrow> string list \<Rightarrow> ('w, go_error + unit) hprog" where
  [host_ops]: "cmd_Start h name args = perform (StartProcess name args) (h_StartProcess h name args)"

definition cmd_Kill :: "'w host \<Rightarrow> ('w, go_error + unit) hprog" where
  [host_ops]: "cmd_Kill h = perform KillProcess (h_KillProcess h)"

definition net_Listen :: "'w host \<Rightarrow> string \<Rightarrow> ('w, go_error + unit) hprog" where
  [host_ops]: "net_Listen h a = perform (Listen a) (h_Listen h a)"

definition listener_Close :: "'w host \<Rightarrow> string \<Rightarrow> ('w, go_error + unit) hprog" where
  [host_ops]: "listener_Close h a = perform (CloseListener a) (h_CloseListener h a)"

definition net_DialTimeout :: "'w host \<Rightarrow> string \<Rightarrow> nat \<Rightarrow> ('w, go_error + unit) hprog" where
  [host_ops]: "net_DialTimeout h a t = perform (Dial a t) (h_Dial h a t)"

definition conn_Close :: "'w host \<Rightarrow> string \<Rightarrow> ('w, go_error + unit) hprog" where
  [host_ops]: "conn_Close h a = perform (CloseConn a) (h_CloseConn h a)"

definition unix_Do :: "'w host \<Rightarrow> string \<Rightarrow> string \<Rightarrow> string \<Rightarrow> ('w, go_error + nat \<times> string) hprog" where
  [host_ops]: "unix_Do h s m p = perform (UnixRequest s m p) (h_UnixRequest h s m p)"

definition transport_RoundTrip :: "'w host \<Rightarrow> http_message \<Rightarrow> ('w, go_error + http_reply) hprog" where
  [host_ops]: "transport_RoundTrip h r = perform (RoundTrip r) (h_RoundTrip h r)"

definition hijacker_Hijack :: "'w host \<Rightarrow> ('w, go_error + unit) hprog" where
  [host_ops]: "hijacker_Hijack h = perform Hijack (h_Hijack h)"

definition io_WriteString :: "'w host \<Rightarrow> string \<Rightarrow> ('w, go_error + unit) hprog" where
  [host_ops]: "io_WriteString h t = perform (WriteConn t) (h_WriteConn h t)"

definition write_stderr :: "string \<Rightarrow> ('w, unit) hprog" where
  [host_ops]: "write_stderr t = perform (Stderr t) (\<lambda>w. ((), w))"

definition rand_Read :: "'w host \<Rightarrow> nat \<Rightarrow> ('w, go_error + byte list) hprog" where
  [host_ops]: "rand_Read h n = observe (h_RandRead h n)"

definition wait_run :: "'w host \<Rightarrow> ('w, run_event) hprog" where
  [host_ops]: "wait_run h = observe (h_WaitRun h)"

definition wait_stop :: "'w host \<Rightarrow> ('w, stop_event) hprog" where
  [host_ops]: "wait_stop h = observe (h_WaitStop h)"

lemma yields_host:
  "yields (\<lambda>_ l. l = [MkdirAll p m]) (os_MkdirAll h p m)"
  "yields (\<lambda>_ l. l = [ReadFile p]) (os_ReadFile h p)"
  "yields (\<lambda>_ l. l = [WriteFile p d m]) (os_WriteFile h p d m)"
  "yields (\<lambda>_ l. l = [Remove p]) (os_Remove h p)"
  "yields (\<lambda>_ l. l = [Exec name args]) (cmd_Run h name args)"
  "yields (\<lambda>_ l. l = [StartProcess name args]) (cmd_Start h name args)"
  "yields (\<lambda>_ l. l = [KillProcess]) (cmd_Kill h)"
  "yields (\<lambda>_ l. l = [Listen a]) (net_Listen h a)"
  "yields (\<lambda>_ l. l = [CloseListener a]) (listener_Close h a)"
  "yields (\<lambda>_ l. l = [Dial a t]) (net_DialTimeout h a t)"
  "yields (\<lambda>_ l. l = [CloseConn a]) (conn_Close h a)"
  "yields (\<lambda>_ l. l = [UnixRequest so me pa]) (unix_Do h so me pa)"
  "yields (\<lambda>_ l. l = [RoundTrip rq]) (transport_RoundTrip h rq)"
  "yields (\<lambda>_ l. l = [Hijack]) (hijacker_Hijack h)"
  "yields (\<lambda>_ l. l = [WriteConn tx]) (io_WriteString h tx)"
  "yields (\<lambda>_ l. l = [Stderr tx]) (write_stderr tx)"
  "yields (\<lambda>_ l. l = []) (rand_Read h n)"
  "yields (\<lambda>_ l. l = []) (wait_run h)"
  "yields (\<lambda>_ l. l = []) (wait_stop h)"
  by (simp_all add: host_ops yields_perform yields_observe)

end
