(* ===== verification/Go_Flag.thy ===== *)
theory Go_Flag
  imports Go_Strings
begin

text \<open>
  Package \<open>flag\<close>: \<open>FlagSet.Parse\<close> with \<open>flag.ExitOnError\<close>. A flag set is the list of its flags, each
  with its setter over the options \<open>'o\<close> that the variables of the flags form. The setter of an
  integer flag is \<open>strconv.ParseInt(s, 0, strconv.IntSize)\<close> on a 64-bit platform. \<open>Parse\<close> returns the
  options and the arguments left over, or the exit code of the process (0 for a request for help,
  2 for an error). The lemmas give the result of parsing arguments of the form \<open>--name=value\<close>.
\<close>

datatype 'o flag =
    ValueFlag "string \<Rightarrow> 'o \<Rightarrow> 'o option"
  | BoolFlag "string \<Rightarrow> 'o \<Rightarrow> 'o option"

type_synonym 'o flagset = "(string \<times> 'o flag) list"

definition StringVar :: "(string \<Rightarrow> 'o \<Rightarrow> 'o) \<Rightarrow> 'o flag" where
  "StringVar put = ValueFlag (\<lambda>s o'. Some (put s o'))"

definition IntVar :: "(int64 \<Rightarrow> 'o \<Rightarrow> 'o) \<Rightarrow> 'o flag" where
  "IntVar put = ValueFlag (\<lambda>s o'. case ParseInt0 s of None \<Rightarrow> None | Some i \<Rightarrow> Some (put (word_of_int i) o'))"

text \<open>\<open>strconv.ParseBool\<close>.\<close>

definition ParseBool :: "string \<Rightarrow> bool option" where
  "ParseBool s =
     (if s \<in> set [''1'', ''t'', ''T'', ''true'', ''TRUE'', ''True''] then Some True
      else if s \<in> set [''0'', ''f'', ''F'', ''false'', ''FALSE'', ''False''] then Some False
      else None)"

definition BoolVar :: "(bool \<Rightarrow> 'o \<Rightarrow> 'o) \<Rightarrow> 'o flag" where
  "BoolVar put = BoolFlag (\<lambda>s o'. case ParseBool s of None \<Rightarrow> None | Some b \<Rightarrow> Some (put b o'))"

text \<open>How \<open>parseOne\<close> reads one argument: not a flag, the terminator \<open>--\<close>, a syntax error, or a name
  with the value after the first \<open>=\<close> that is not at the start of the name.\<close>

datatype flag_arg = NoFlag | Terminator | BadSyntax | NamedFlag string "string option"

fun split_value :: "string \<Rightarrow> string \<times> string option" where
  "split_value [] = ([], None)"
| "split_value (c # s) =
     (if c = CHR ''='' then ([], Some s) else case split_value s of (n, v) \<Rightarrow> (c # n, v))"

definition flag_name :: "string \<Rightarrow> flag_arg" where
  "flag_name name = (case name of
     [] \<Rightarrow> BadSyntax
   | c # r \<Rightarrow>
       if c = CHR ''-'' \<or> c = CHR ''='' then BadSyntax
       else case split_value r of (n, v) \<Rightarrow> NamedFlag (c # n) v)"

definition flag_arg_of :: "string \<Rightarrow> flag_arg" where
  "flag_arg_of s = (case s of
     c # d # r \<Rightarrow>
       if c \<noteq> CHR ''-'' then NoFlag
       else if d = CHR ''-'' then (if r = [] then Terminator else flag_name r)
       else flag_name (d # r)
   | _ \<Rightarrow> NoFlag)"

fun FlagParse :: "'o flagset \<Rightarrow> string list \<Rightarrow> 'o \<Rightarrow> nat + ('o \<times> string list)" where
  "FlagParse fs [] o' = Inr (o', [])"
| "FlagParse fs (s # args) o' = (case flag_arg_of s of
     NoFlag \<Rightarrow> Inr (o', s # args)
   | Terminator \<Rightarrow> Inr (o', args)
   | BadSyntax \<Rightarrow> Inl 2
   | NamedFlag name v \<Rightarrow> (case map_of fs name of
       None \<Rightarrow> if name = ''help'' \<or> name = ''h'' then Inl 0 else Inl 2
     | Some (BoolFlag put) \<Rightarrow>
         (case put (case v of Some x \<Rightarrow> x | None \<Rightarrow> ''true'') o' of
            None \<Rightarrow> Inl 2 | Some o2 \<Rightarrow> FlagParse fs args o2)
     | Some (ValueFlag put) \<Rightarrow> (case v of
         Some x \<Rightarrow> (case put x o' of None \<Rightarrow> Inl 2 | Some o2 \<Rightarrow> FlagParse fs args o2)
       | None \<Rightarrow> (case args of
           [] \<Rightarrow> Inl 2
         | x # rest \<Rightarrow> (case put x o' of None \<Rightarrow> Inl 2 | Some o2 \<Rightarrow> FlagParse fs rest o2)))))"

subsection \<open>Arguments of the form --name=value\<close>

definition plain_name :: "string \<Rightarrow> bool" where
  "plain_name n \<longleftrightarrow> n \<noteq> [] \<and> hd n \<noteq> CHR ''-'' \<and> CHR ''='' \<notin> set n"

lemma split_value_eq: "CHR ''='' \<notin> set n \<Longrightarrow> split_value (n @ CHR ''='' # v) = (n, Some v)"
  by (induction n) auto

lemma flag_arg_eq: "plain_name n \<Longrightarrow> flag_arg_of (''--'' @ n @ ''='' @ v) = NamedFlag n (Some v)"
  by (cases n) (auto simp: plain_name_def flag_arg_of_def flag_name_def split_value_eq)

text \<open>Such an argument sets its flag and parsing goes on, whatever follows.\<close>

lemma FlagParse_value:
  assumes "plain_name n" and "map_of fs n = Some (ValueFlag put)"
  shows "FlagParse fs ((''--'' @ n @ ''='' @ v) # args) o' =
     (case put v o' of None \<Rightarrow> Inl 2 | Some o2 \<Rightarrow> FlagParse fs args o2)"
  using assms flag_arg_eq [OF assms(1), of v] by (cases args; hypsubst; simp)

lemma FlagParse_int:
  assumes "plain_name n" and "map_of fs n = Some (IntVar put)" and "- (2 ^ 63) \<le> i" and "i < 2 ^ 63"
  shows "FlagParse fs ((''--'' @ n @ ''='' @ show_int i) # args) o' = FlagParse fs args (put (word_of_int i) o')"
  using assms by (simp only: IntVar_def FlagParse_value ParseInt0_show_int option.case)

lemma FlagParse_string:
  assumes "plain_name n" and "map_of fs n = Some (StringVar put)"
  shows "FlagParse fs ((''--'' @ n @ ''='' @ v) # args) o' = FlagParse fs args (put v o')"
  using assms by (simp only: StringVar_def FlagParse_value option.case)

end
