(* ===== verification/Go_Net.thy ===== *)
theory Go_Net
  imports Go_Utf8
begin

text \<open>
  The functions of \<open>net\<close>, \<open>net/netip\<close> and \<open>path/filepath\<close> that the sources call: \<open>JoinHostPort\<close>,
  \<open>ParseIP\<close> (as the predicate that its result is not nil), \<open>HardwareAddr.String\<close>, \<open>Clean\<close> and \<open>Join\<close>.
  The lemmas show that a valid address has only the characters of an address, and how a path is
  joined to a clean directory.
\<close>

unbundle bit_operations_syntax

subsection \<open>Splitting\<close>

text \<open>\<open>strings.Split\<close> at a single byte.\<close>

fun Split :: "char \<Rightarrow> string \<Rightarrow> string list" where
  "Split d [] = [[]]"
| "Split d (c # s) =
     (if c = d then [] # Split d s
      else case Split d s of [] \<Rightarrow> [[c]] | p # ps \<Rightarrow> (c # p) # ps)"

text \<open>\<open>strings.ReplaceAll(s, string(d), "")\<close>.\<close>

definition RemoveAll :: "char \<Rightarrow> string \<Rightarrow> string" where
  "RemoveAll d s = filter (\<lambda>c. c \<noteq> d) s"

lemma Split_ne [simp]: "Split d s \<noteq> []"
  by (cases s) (auto split: list.splits)

lemma Split_append: "d \<notin> set a \<Longrightarrow> Split d (a @ d # s) = a # Split d s"
  by (induction a) auto

lemma Split_no: "d \<notin> set a \<Longrightarrow> Split d a = [a]"
  by (induction a) auto

subsection \<open>Package net\<close>

definition JoinHostPort :: "string \<Rightarrow> string \<Rightarrow> string" where
  "JoinHostPort host port =
     (if CHR '':'' \<in> set host then ''['' @ host @ '']:'' @ port else host @ '':'' @ port)"

text \<open>\<open>HardwareAddr.String\<close>.\<close>

definition MACString :: "byte list \<Rightarrow> string" where
  "MACString bs = Join (map hex_byte bs) '':''"

text \<open>\<open>parseIPv4Fields\<close>: whether the bytes are four decimal octets. \<open>prev\<close> is the byte before, \<open>digLen\<close>
  the digits of the current octet, \<open>pos\<close> the octets before it.\<close>

fun ipv4_fields :: "char option \<Rightarrow> nat \<Rightarrow> nat \<Rightarrow> nat \<Rightarrow> string \<Rightarrow> bool" where
  "ipv4_fields prev val digLen pos [] \<longleftrightarrow> 3 \<le> pos"
| "ipv4_fields prev val digLen pos (c # s) \<longleftrightarrow>
     (if is_digit c then
        \<not> (digLen = 1 \<and> val = 0) \<and> val * 10 + (cv c - 48) \<le> 255 \<and>
        ipv4_fields (Some c) (val * 10 + (cv c - 48)) (digLen + 1) pos s
      else if c = CHR ''.'' then
        prev \<noteq> None \<and> s \<noteq> [] \<and> prev \<noteq> Some (CHR ''.'') \<and> pos \<noteq> 3 \<and>
        ipv4_fields (Some c) 0 0 (pos + 1) s
      else False)"

definition hex_digit_value :: "char \<Rightarrow> nat option" where
  "hex_digit_value c =
     (if is_digit c then Some (cv c - 48)
      else if 97 \<le> cv c \<and> cv c \<le> 102 then Some (cv c - 97 + 10)
      else if 65 \<le> cv c \<and> cv c \<le> 70 then Some (cv c - 65 + 10)
      else None)"

text \<open>The hexadecimal digits of a group and what follows them. The code refuses a fifth digit, which
  is the test \<open>length g \<le> 4\<close> below; four digits never exceed 16 bits.\<close>

fun hex_group :: "string \<Rightarrow> string \<times> string" where
  "hex_group [] = ([], [])"
| "hex_group (c # s) =
     (if hex_digit_value c = None then ([], c # s) else case hex_group s of (g, r) \<Rightarrow> (c # g, r))"

text \<open>The loop of \<open>parseIPv6\<close> and the checks after it: \<open>i\<close> is the number of bytes parsed,
  \<open>ellipsis\<close> whether a \<open>::\<close> was seen. It runs at most eight times, which is the fuel \<open>groups\<close>.\<close>

definition ipv6_end :: "nat \<Rightarrow> bool \<Rightarrow> string \<Rightarrow> bool" where
  "ipv6_end i ellipsis s \<longleftrightarrow> s = [] \<and> (if i < 16 then ellipsis else \<not> ellipsis)"

fun ipv6_groups :: "nat \<Rightarrow> nat \<Rightarrow> bool \<Rightarrow> string \<Rightarrow> bool" where
  "ipv6_groups 0 i ellipsis s = ipv6_end i ellipsis s"
| "ipv6_groups (Suc groups) i ellipsis s = (case hex_group s of (g, r) \<Rightarrow>
     if g = [] \<or> 4 < length g then False
     else case r of
       [] \<Rightarrow> ipv6_end (i + 2) ellipsis []
     | c # r1 \<Rightarrow>
         if c = CHR ''.'' then
           (ellipsis \<or> i = 12) \<and> i + 4 \<le> 16 \<and> ipv4_fields None 0 0 0 s \<and> ipv6_end (i + 4) ellipsis []
         else if c \<noteq> CHR '':'' then False
         else case r1 of
           [] \<Rightarrow> False
         | c2 # r2 \<Rightarrow>
             if c2 = CHR '':'' then
               \<not> ellipsis \<and> (if r2 = [] then ipv6_end (i + 2) True [] else ipv6_groups groups (i + 2) True r2)
             else ipv6_groups groups (i + 2) ellipsis r1)"

definition parse_ipv6 :: "string \<Rightarrow> bool" where
  "parse_ipv6 s =
     (if take 2 s = ''::'' then (if drop 2 s = [] then True else ipv6_groups 8 0 True (drop 2 s))
      else ipv6_groups 8 0 False s)"

text \<open>\<open>net.ParseIP(s) != nil\<close>: the first of the bytes \<open>.\<close>, \<open>:\<close> and \<open>%\<close> decides the syntax. An address with
  a zone is parsed by \<open>netip.ParseAddr\<close> and then refused by \<open>ParseIP\<close>, so the byte \<open>%\<close> is never accepted.\<close>

fun ip_kind :: "string \<Rightarrow> char option" where
  "ip_kind [] = None"
| "ip_kind (c # s) = (if c = CHR ''.'' \<or> c = CHR '':'' \<or> c = CHR ''%'' then Some c else ip_kind s)"

definition ParseIP_ok :: "string \<Rightarrow> bool" where
  "ParseIP_ok s = (case ip_kind s of
     None \<Rightarrow> False
   | Some c \<Rightarrow>
       if c = CHR ''.'' then ipv4_fields None 0 0 0 s
       else if c = CHR '':'' then CHR ''%'' \<notin> set s \<and> parse_ipv6 s
       else False)"

text \<open>\<open>netip.ParseAddr\<close> succeeds: the same, with an optional zone after an IPv6 address.\<close>

definition ParseAddr_ok :: "string \<Rightarrow> bool" where
  "ParseAddr_ok s = (case ip_kind s of
     None \<Rightarrow> False
   | Some c \<Rightarrow>
       if c = CHR ''.'' then ipv4_fields None 0 0 0 s
       else if c = CHR '':'' then
         (if CHR ''%'' \<in> set s
          then tl (dropWhile (\<lambda>c. c \<noteq> CHR ''%'') s) \<noteq> [] \<and> parse_ipv6 (takeWhile (\<lambda>c. c \<noteq> CHR ''%'') s)
          else parse_ipv6 s)
       else False)"

lemma ParseIP_ParseAddr: "ParseIP_ok s \<Longrightarrow> ParseAddr_ok s"
  by (auto simp: ParseIP_ok_def ParseAddr_ok_def split: option.splits if_splits)

definition ip_char :: "char \<Rightarrow> bool" where
  "ip_char c \<longleftrightarrow> hex_digit_value c \<noteq> None \<or> c = CHR ''.'' \<or> c = CHR '':''"

lemma ipv4_fields_chars: "ipv4_fields prev v d p s \<Longrightarrow> list_all ip_char s"
  by (induction prev v d p s rule: ipv4_fields.induct)
     (auto simp: ip_char_def hex_digit_value_def split: if_splits)

lemma hex_group_split: "hex_group s = (g, r) \<Longrightarrow> s = g @ r \<and> list_all ip_char g"
  by (induction s arbitrary: g r) (auto simp: ip_char_def split: if_splits prod.splits)

lemma ipv6_groups_chars: "ipv6_groups n i e s \<Longrightarrow> list_all ip_char s"
proof (induction n arbitrary: i e s)
  case 0
  then show ?case by (simp add: ipv6_end_def)
next
  case (Suc n)
  obtain g r where g: "hex_group s = (g, r)" by fastforce
  note s = hex_group_split [OF g]
  have colon: "ip_char (CHR '':'')" by (simp add: ip_char_def)
  show ?case
  proof (cases r)
    case Nil
    with s show ?thesis by simp
  next
    case (Cons c r1)
    show ?thesis
    proof (cases "c = CHR ''.''")
      case True
      with Suc.prems g Cons have "ipv4_fields None 0 0 0 s" by (simp split: if_splits)
      then show ?thesis by (rule ipv4_fields_chars)
    next
      case False
      with Suc.prems g Cons have c: "c = CHR '':''" by (simp split: if_splits)
      with Suc.prems g Cons obtain c2 r2 where r1: "r1 = c2 # r2"
        by (cases r1) (simp_all split: if_splits)
      have "list_all ip_char r1"
      proof (cases "c2 = CHR '':''")
        case True
        with Suc g Cons c r1 have "list_all ip_char r2"
          by (cases "r2 = []") (auto split: if_splits)
        with True r1 colon show ?thesis by simp
      next
        case False
        with Suc.prems g Cons c r1 have "ipv6_groups n (i + 2) e r1" by (simp split: if_splits)
        then show ?thesis by (rule Suc.IH)
      qed
      with s Cons c colon show ?thesis by simp
    qed
  qed
qed

text \<open>A valid address consists of hexadecimal digits, dots and colons.\<close>

lemma ParseIP_ok_chars:
  assumes "ParseIP_ok s"
  shows "list_all ip_char s"
proof -
  have "list_all ip_char s" if p: "parse_ipv6 s"
  proof (cases "take 2 s = ''::''")
    case True
    with p have "list_all ip_char (drop 2 s)"
      by (auto simp: parse_ipv6_def split: if_splits dest: ipv6_groups_chars)
    moreover have "s = ''::'' @ drop 2 s" using True append_take_drop_id [of 2 s] by metis
    moreover have "list_all ip_char ''::''" by (simp add: ip_char_def)
    ultimately show ?thesis by (metis list_all_append)
  next
    case False
    with p show ?thesis by (auto simp: parse_ipv6_def dest: ipv6_groups_chars)
  qed
  with assms show ?thesis
    by (auto simp: ParseIP_ok_def split: option.splits if_splits dest: ipv4_fields_chars)
qed

subsection \<open>Package path/filepath\<close>

text \<open>\<open>Clean\<close>: the elements are processed from left to right; the ones kept so far are reversed.\<close>

fun clean_elems :: "bool \<Rightarrow> string list \<Rightarrow> string list \<Rightarrow> string list" where
  "clean_elems rooted [] kept = rev kept"
| "clean_elems rooted (e # es) kept =
     (if e = [] \<or> e = ''.'' then clean_elems rooted es kept
      else if e = ''..'' then
        (case kept of
           [] \<Rightarrow> clean_elems rooted es (if rooted then [] else [''..''])
         | k # ks \<Rightarrow> if k = ''..'' then clean_elems rooted es (''..'' # kept) else clean_elems rooted es ks)
      else clean_elems rooted es (e # kept))"

definition Clean :: "string \<Rightarrow> string" where
  "Clean p =
     (let rooted = (p \<noteq> [] \<and> hd p = CHR ''/'');
          s = (if rooted then ''/'' else []) @ Join (clean_elems rooted (Split (CHR ''/'') p) []) ''/''
      in if s = [] then ''.'' else s)"

definition filepath_Join :: "string list \<Rightarrow> string" where
  "filepath_Join elems =
     (case dropWhile (\<lambda>e. e = []) elems of [] \<Rightarrow> [] | es \<Rightarrow> Clean (Join es ''/''))"

text \<open>Package \<open>path/filepath\<close> drops the empty elements at the start and joins the rest with the
  separator, so an empty element in the middle only doubles the separator, which \<open>Clean\<close> removes.\<close>

definition plain_elem :: "string \<Rightarrow> bool" where
  "plain_elem e \<longleftrightarrow> e \<noteq> [] \<and> e \<noteq> ''.'' \<and> e \<noteq> ''..'' \<and> CHR ''/'' \<notin> set e"

text \<open>A clean rooted path other than the root.\<close>

definition rooted_path :: "string list \<Rightarrow> string" where
  "rooted_path es = ''/'' @ Join es ''/''"

lemma Join_ne: "list_all plain_elem es \<Longrightarrow> es \<noteq> [] \<Longrightarrow> Join es ''/'' \<noteq> []"
  by (induction es "''/''" rule: Join.induct) (auto simp: plain_elem_def)

lemma Join_snoc: "es \<noteq> [] \<Longrightarrow> Join (es @ [e]) sep = Join es sep @ sep @ e"
  by (induction es sep rule: Join.induct) auto

lemma Split_Join:
  "list_all plain_elem es \<Longrightarrow> es \<noteq> [] \<Longrightarrow> Split (CHR ''/'') (Join es ''/'') = es"
  by (induction es "''/''" rule: Join.induct) (auto simp: plain_elem_def Split_no Split_append)

lemma clean_elems_plain:
  "list_all plain_elem es \<Longrightarrow> clean_elems rooted es kept = rev kept @ es"
  by (induction es arbitrary: kept) (auto simp: plain_elem_def)

lemma filepath_Join_rooted:
  assumes "list_all plain_elem es" and "es \<noteq> []" and "plain_elem e"
  shows "filepath_Join [rooted_path es, e] = rooted_path (es @ [e])"
proof -
  have "Split (CHR ''/'') (Join (es @ [e]) ''/'') = es @ [e]"
    using assms by (intro Split_Join) auto
  then show ?thesis using assms
    by (simp add: filepath_Join_def rooted_path_def Clean_def Let_def Join_snoc clean_elems_plain)
qed

end
