(* ===== verification/PodVM_Runner.thy ===== *)
theory PodVM_Runner
  imports Host_Os Go_Flag Go_Net
begin

text \<open>
  The runner (\<open>cmd/runner/main.go\<close>), in the order of the file: the command line, \<open>readyCheck\<close>, \<open>run\<close>,
  the command line of Cloud Hypervisor, the disks, the network, the agent proxy and the HTTP proxy,
  the MAC address, and the requests to the hypervisor's API. \<open>run\<close> is split where the listeners are
  deferred: \<open>launch\<close> starts the hypervisor and waits for it. The goroutines of the proxies handle one
  connection each; they are in theory \<open>Runner_Proxy\<close>.
\<close>

unbundle bit_operations_syntax

subsection \<open>Constants\<close>

abbreviation defaultStateDir :: string where "defaultStateDir \<equiv> ''/run/pod-sandbox''"
abbreviation primaryLink :: string where "primaryLink \<equiv> ''eth0''"
abbreviation bridgeName :: string where "bridgeName \<equiv> ''podvm-br0''"
abbreviation tapName :: string where "tapName \<equiv> ''podvm-tap0''"
abbreviation managementCIDR :: string where "managementCIDR \<equiv> ''192.0.2.0/30''"
abbreviation hostAddress :: string where "hostAddress \<equiv> ''192.0.2.1/30''"
abbreviation guestAddress :: string where "guestAddress \<equiv> ''192.0.2.2/30''"
abbreviation guestIP :: string where "guestIP \<equiv> ''192.0.2.2''"
abbreviation forwarderPort :: string where "forwarderPort \<equiv> ''15150''"
abbreviation proxyPort :: string where "proxyPort \<equiv> ''3128''"
abbreviation vxlanPort :: string where "vxlanPort \<equiv> ''4789''"

definition directKernelParams :: string where
  "directKernelParams =
     ''reboot=k panic=1 systemd.unit=podvm.target quiet '' @
     ''root=/dev/vda1 rootflags=data=ordered,errors=remount-ro rw rootfstype=ext4 '' @
     ''no_timer_check noreplace-smp console=ttyS0 systemd.log_target=console '' @
     ''cgroup_no_v1=all systemd.unified_cgroup_hierarchy=1''"

subsection \<open>The command line\<close>

record options =
  o_cpus :: int64
  o_memoryMiB :: int64
  o_networkMTU :: int64
  o_imageDir :: string
  o_configDir :: string
  o_stateDir :: string
  o_runtimeAssetsDir :: string
  o_firmware :: string
  o_kernelPath :: string
  o_initramfsPath :: string
  o_rootfsPath :: string
  o_kernelParams :: string

record readyOptions =
  ro_stateDir :: string

record networkState =
  ns_Address :: string
  ns_Gateway :: string
  ns_DNS :: "string list"
  ns_MAC :: string

definition runDefaults :: options where
  "runDefaults = \<lparr>o_cpus = 1, o_memoryMiB = 512, o_networkMTU = 1400, o_imageDir = [], o_configDir = [],
     o_stateDir = defaultStateDir, o_runtimeAssetsDir = ''/opt/podvm-runtime'',
     o_firmware = ''/usr/share/cloud-hypervisor/CLOUDHV.fd'', o_kernelPath = [], o_initramfsPath = [],
     o_rootfsPath = [], o_kernelParams = []\<rparr>"

definition runFlags :: "options flagset" where
  "runFlags =
     [(''cpus'', IntVar (\<lambda>v. o_cpus_update (\<lambda>_. v))),
      (''memory-mib'', IntVar (\<lambda>v. o_memoryMiB_update (\<lambda>_. v))),
      (''network-mtu'', IntVar (\<lambda>v. o_networkMTU_update (\<lambda>_. v))),
      (''image-dir'', StringVar (\<lambda>v. o_imageDir_update (\<lambda>_. v))),
      (''config-dir'', StringVar (\<lambda>v. o_configDir_update (\<lambda>_. v))),
      (''state-dir'', StringVar (\<lambda>v. o_stateDir_update (\<lambda>_. v))),
      (''runtime-assets-dir'', StringVar (\<lambda>v. o_runtimeAssetsDir_update (\<lambda>_. v))),
      (''firmware'', StringVar (\<lambda>v. o_firmware_update (\<lambda>_. v))),
      (''kernel'', StringVar (\<lambda>v. o_kernelPath_update (\<lambda>_. v))),
      (''initramfs'', StringVar (\<lambda>v. o_initramfsPath_update (\<lambda>_. v))),
      (''rootfs'', StringVar (\<lambda>v. o_rootfsPath_update (\<lambda>_. v))),
      (''kernel-params'', StringVar (\<lambda>v. o_kernelParams_update (\<lambda>_. v)))]"

definition parseRunOptions :: "string list \<Rightarrow> nat + options" where
  "parseRunOptions args = map_sum id fst (FlagParse runFlags args runDefaults)"

definition parseStateDir :: "string \<Rightarrow> string list \<Rightarrow> nat + string" where
  "parseStateDir name args =
     map_sum id fst (FlagParse [(''state-dir'', StringVar (\<lambda>v _. v))] args defaultStateDir)"

definition parseReadyOptions :: "string list \<Rightarrow> nat + readyOptions" where
  "parseReadyOptions args =
     map_sum id fst (FlagParse [(''state-dir'', StringVar (\<lambda>v. ro_stateDir_update (\<lambda>_. v)))] args
       \<lparr>ro_stateDir = defaultStateDir\<rparr>)"

subsection \<open>The hypervisor's API\<close>

definition apiRequest :: "'w host \<Rightarrow> string \<Rightarrow> string \<Rightarrow> string \<Rightarrow> ('w, go_error + nat \<times> string) hprog" where
  "apiRequest h socket method path = unix_Do h socket method path"

definition vmInfo :: "'w host \<Rightarrow> string \<Rightarrow> ('w, go_error + unit) hprog" where
  "vmInfo h socket = tryE (apiRequest h socket ''GET'' ''/api/v1/vm.info'') (\<lambda>(code, status).
     if code \<noteq> 200 then State_Monad.return (Inl (errorsNew (''cloud-hypervisor returned '' @ status)))
     else State_Monad.return (Inr ()))"

definition shutdown :: "'w host \<Rightarrow> string \<Rightarrow> ('w, go_error + unit) hprog" where
  "shutdown h socket = tryE (apiRequest h socket ''PUT'' ''/api/v1/vm.shutdown'') (\<lambda>(code, status).
     if code < 200 \<or> 300 \<le> code
     then State_Monad.return (Inl (errorsNew (''cloud-hypervisor returned '' @ status)))
     else State_Monad.return (Inr ()))"

definition agentReady :: "'w host \<Rightarrow> string \<Rightarrow> ('w, go_error + unit) hprog" where
  "agentReady h target = tryE (net_DialTimeout h target 1) (\<lambda>_. conn_Close h target)"

definition readyCheck :: "'w host \<Rightarrow> string \<Rightarrow> string \<Rightarrow> ('w, go_error + unit) hprog" where
  "readyCheck h socket agentTarget = tryE (vmInfo h socket) (\<lambda>_. agentReady h agentTarget)"

subsection \<open>Commands\<close>

definition runCommand :: "'w host \<Rightarrow> string \<Rightarrow> string list \<Rightarrow> ('w, go_error + unit) hprog" where
  "runCommand h name args = State_Monad.bind (cmd_Run h name args) (\<lambda>(err, stderr).
     State_Monad.return (case err of
       Some e \<Rightarrow> Inl (Err (reason_of e) (Error e @ '': '' @ TrimSpace stderr))
     | None \<Rightarrow> Inr ()))"

text \<open>\<open>rand.Read\<close> fills the slice of six bytes in place, so its length does not change.\<close>

definition randomMAC :: "'w host \<Rightarrow> ('w, go_error + string) hprog" where
  "randomMAC h = tryE (rand_Read h 6) (\<lambda>bytes.
     let mac = take 6 (bytes @ replicate 6 0)
     in State_Monad.return (Inr (MACString (mac[0 := (mac ! 0 OR 2) AND 0xfe]))))"

subsection \<open>The hypervisor's command line\<close>

definition cloudHypervisorArgs :: "options \<Rightarrow> string \<Rightarrow> string \<Rightarrow> string \<Rightarrow> string \<Rightarrow> string list" where
  "cloudHypervisorArgs opts socket rootDisk seedDisk guestMAC =
     (let args =
        [''--api-socket'', socket,
         ''--cpus'', ''boot='' @ show_int (sint (o_cpus opts)),
         ''--memory'', ''size='' @ show_int (sint (o_memoryMiB opts)) @ ''M''];
          args =
        (if o_kernelPath opts = [] then
           args @ [''--firmware'', o_firmware opts,
             ''--disk'',
             ''path='' @ rootDisk @ '',image_type=qcow2,backing_files=on'',
             ''path='' @ seedDisk @ '',readonly=on,image_type=raw'']
         else
           (let args = args @ [''--kernel'', o_kernelPath opts];
                args = (if o_initramfsPath opts \<noteq> [] then args @ [''--initramfs'', o_initramfsPath opts] else args);
                params = TrimSpace (o_kernelParams opts);
                params = (if params = [] then directKernelParams else params);
                args = args @ [''--cmdline'', params];
                args = args @ [''--disk''];
                args = (if o_rootfsPath opts \<noteq> []
                        then args @ [''path='' @ o_rootfsPath opts @ '',image_type=raw''] else args)
            in args @ [''path='' @ seedDisk @ '',readonly=on,image_type=raw'']))
      in args @ [''--net'', ''tap='' @ tapName @ '',mac='' @ guestMAC,
          ''--serial'', ''tty'',
          ''--console'', ''off''])"

subsection \<open>The disks\<close>

definition renderNetworkConfig :: "networkState \<Rightarrow> int64 \<Rightarrow> string" where
  "renderNetworkConfig network mtu =
     (let nl = [CHR 0x0A];
          dns = (if ns_DNS network \<noteq> []
                 then ''    nameservers:'' @ nl @ ''      addresses: ['' @ Join (ns_DNS network) '', '' @ '']'' @ nl
                 else [])
      in ''version: 2'' @ nl @ ''ethernets:'' @ nl @ ''  primary:'' @ nl @ ''    match:'' @ nl @
         ''      macaddress: '' @ Quote (ns_MAC network) @ nl @
         ''    set-name: eth0'' @ nl @
         ''    addresses: ['' @ ns_Address network @ '']'' @ nl @
         ''    routes:'' @ nl @ ''      - to: 0.0.0.0/0'' @ nl @
         ''        via: '' @ ns_Gateway network @ nl @
         dns @ ''    mtu: '' @ show_int (sint mtu) @ nl)"

definition metaData :: "string \<Rightarrow> string" where
  "metaData guestMAC = ''instance-id: pod-sandbox-'' @ RemoveAll (CHR '':'') guestMAC @ [CHR 0x0A] @
     ''local-hostname: peerpod'' @ [CHR 0x0A]"

definition prepareDisks :: "'w host \<Rightarrow> options \<Rightarrow> networkState \<Rightarrow> string \<Rightarrow> ('w, go_error + unit) hprog" where
  "prepareDisks h opts network guestMAC =
     (let rootDisk = filepath_Join [o_stateDir opts, ''root.qcow2''];
          image = filepath_Join [o_imageDir opts, ''disk.qcow2''];
          seedDir = filepath_Join [o_stateDir opts, ''cidata''];
          seedDisk = filepath_Join [o_stateDir opts, ''cidata.img'']
      in tryE (if o_kernelPath opts = []
               then wrapE ''create root overlay: '' (runCommand h ''qemu-img''
                 [''create'', ''-f'', ''qcow2'', ''-F'', ''qcow2'', ''-b'', image, rootDisk])
               else State_Monad.return (Inr ())) (\<lambda>_.
         tryE (os_MkdirAll h seedDir 448) (\<lambda>_.
         tryE (os_ReadFile h (filepath_Join [o_configDir opts, ''userdata''])) (\<lambda>userData.
         tryE (os_WriteFile h (filepath_Join [seedDir, ''user-data'']) userData 384) (\<lambda>_.
         tryE (os_WriteFile h (filepath_Join [seedDir, ''meta-data'']) (metaData guestMAC) 384) (\<lambda>_.
         tryE (os_WriteFile h (filepath_Join [seedDir, ''network-config''])
                 (renderNetworkConfig network (o_networkMTU opts)) 384) (\<lambda>_.
         if o_kernelPath opts \<noteq> []
         then wrapE ''create direct-kernel config disk: '' (runCommand h ''mke2fs''
                [''-q'', ''-t'', ''ext4'', ''-L'', ''cidata'', ''-d'', seedDir, seedDisk, ''4M''])
         else wrapE ''create NoCloud seed: '' (runCommand h ''genisoimage''
                [''-quiet'', ''-output'', seedDisk, ''-volid'', ''cidata'', ''-joliet'', ''-rock'', seedDir]))))))))"

fun nameserverLines :: "string list \<Rightarrow> string list" where
  "nameserverLines [] = []"
| "nameserverLines (line # lines) =
     (let fields = Fields line in
      if length fields = 2 \<and> fields ! 0 = ''nameserver'' \<and> ParseIP_ok (fields ! 1)
      then fields ! 1 # nameserverLines lines else nameserverLines lines)"

definition nameservers :: "'w host \<Rightarrow> ('w, string list) hprog" where
  "nameservers h = State_Monad.bind (os_ReadFile h ''/etc/resolv.conf'') (\<lambda>r. State_Monad.return (case r of
     Inl _ \<Rightarrow> []
   | Inr content \<Rightarrow> nameserverLines (Split (CHR 0x0A) content)))"

subsection \<open>The network\<close>

definition networkCommands :: "string \<Rightarrow> string \<Rightarrow> string \<Rightarrow> int64 \<Rightarrow> string list list" where
  "networkCommands linkName bridge tap mtu =
     [[''ip'', ''link'', ''add'', bridge, ''type'', ''bridge''],
      [''ip'', ''tuntap'', ''add'', ''dev'', tap, ''mode'', ''tap''],
      [''ip'', ''link'', ''set'', ''dev'', bridge, ''mtu'', show_int (sint mtu)],
      [''ip'', ''link'', ''set'', ''dev'', tap, ''mtu'', show_int (sint mtu)],
      [''ip'', ''link'', ''set'', ''dev'', tap, ''master'', bridge],
      [''ip'', ''address'', ''add'', hostAddress, ''dev'', bridge],
      [''ip'', ''link'', ''set'', ''dev'', tap, ''up''],
      [''ip'', ''link'', ''set'', ''dev'', bridge, ''up''],
      [''sysctl'', ''-w'', ''net.ipv4.ip_forward=1''],
      [''iptables'', ''-t'', ''nat'', ''-A'', ''POSTROUTING'', ''-s'', managementCIDR,
       ''-o'', linkName, ''-j'', ''MASQUERADE''],
      [''iptables'', ''-t'', ''nat'', ''-A'', ''PREROUTING'', ''-i'', linkName, ''-p'', ''udp'',
       ''--dport'', vxlanPort, ''-j'', ''DNAT'', ''--to-destination'', JoinHostPort guestIP vxlanPort],
      [''iptables'', ''-A'', ''FORWARD'', ''-i'', linkName, ''-o'', bridge, ''-p'', ''udp'',
       ''-d'', guestIP, ''--dport'', vxlanPort, ''-j'', ''ACCEPT''],
      [''iptables'', ''-A'', ''FORWARD'', ''-i'', bridge, ''-o'', linkName, ''-j'', ''ACCEPT''],
      [''iptables'', ''-A'', ''FORWARD'', ''-i'', linkName, ''-o'', bridge, ''-m'', ''conntrack'',
       ''--ctstate'', ''ESTABLISHED,RELATED'', ''-j'', ''ACCEPT'']]"

fun runCommands :: "'w host \<Rightarrow> string list list \<Rightarrow> ('w, go_error + unit) hprog" where
  "runCommands h [] = State_Monad.return (Inr ())"
| "runCommands h (args # rest) =
     tryE (wrapE (''configure PodVM network ('' @ Join args '' '' @ ''): '') (runCommand h (hd args) (tl args)))
       (\<lambda>_. runCommands h rest)"

definition prepareNetwork :: "'w host \<Rightarrow> string \<Rightarrow> string \<Rightarrow> string \<Rightarrow> int64 \<Rightarrow> ('w, go_error + unit) hprog" where
  "prepareNetwork h linkName bridge tap mtu = runCommands h (networkCommands linkName bridge tap mtu)"

definition startAgentProxy :: "'w host \<Rightarrow> string \<Rightarrow> string \<Rightarrow> ('w, go_error + unit) hprog" where
  "startAgentProxy h port target = wrapE ''listen for agent proxy: '' (net_Listen h (JoinHostPort [] port))"

definition startHTTPProxy :: "'w host \<Rightarrow> string \<Rightarrow> ('w, go_error + unit) hprog" where
  "startHTTPProxy h address = wrapE ''listen for HTTP proxy: '' (net_Listen h address)"

subsection \<open>run\<close>

definition launch :: "'w host \<Rightarrow> options \<Rightarrow> string \<Rightarrow> ('w, go_error + unit) hprog" where
  "launch h opts guestMAC =
     (let socket = filepath_Join [o_stateDir opts, ''cloud-hypervisor.sock''];
          cloudHypervisor = filepath_Join [o_runtimeAssetsDir opts, ''bin'', ''cloud-hypervisor''];
          rootDisk = filepath_Join [o_stateDir opts, ''root.qcow2''];
          seedDisk = filepath_Join [o_stateDir opts, ''cidata.img'']
      in State_Monad.bind (os_Remove h socket) (\<lambda>_.
         tryE (cmd_Start h cloudHypervisor (cloudHypervisorArgs opts socket rootDisk seedDisk guestMAC)) (\<lambda>_.
         State_Monad.bind (wait_run h) (\<lambda>e. case e of
           Exited r \<Rightarrow> State_Monad.return r
         | Signalled sig \<Rightarrow>
             State_Monad.bind (write_stderr (''received '' @ sig @ '', shutting down PodVM'' @ [CHR 0x0A])) (\<lambda>_.
             State_Monad.bind (shutdown h socket) (\<lambda>_.
             State_Monad.bind (wait_stop h) (\<lambda>e2. case e2 of
               StopExited r \<Rightarrow> State_Monad.return r
             | StopTimeout \<Rightarrow> cmd_Kill h)))))))"

definition gateway :: string where
  "gateway = hd (Split (CHR ''/'') hostAddress)"

definition run :: "'w host \<Rightarrow> options \<Rightarrow> ('w, go_error + unit) hprog" where
  "run h opts =
     (if sint (o_cpus opts) < 1 \<or> sint (o_memoryMiB opts) < 128
      then State_Monad.return (Inl (errorsNew (''invalid capacity: cpus='' @ show_int (sint (o_cpus opts)) @
             '' memoryMiB='' @ show_int (sint (o_memoryMiB opts)))))
      else if o_imageDir opts = [] \<or> o_configDir opts = []
      then State_Monad.return (Inl (errorsNew ''--image-dir and --config-dir are required''))
      else
        tryE (os_MkdirAll h (o_stateDir opts) 448) (\<lambda>_.
        tryE (randomMAC h) (\<lambda>guestMAC.
        State_Monad.bind (nameservers h) (\<lambda>dns.
        let network = \<lparr>ns_Address = guestAddress, ns_Gateway = gateway, ns_DNS = dns, ns_MAC = guestMAC\<rparr> in
        tryE (prepareDisks h opts network guestMAC) (\<lambda>_.
        tryE (prepareNetwork h primaryLink bridgeName tapName (o_networkMTU opts)) (\<lambda>_.
        tryE (startAgentProxy h forwarderPort (JoinHostPort guestIP forwarderPort)) (\<lambda>_.
        deferring (listener_Close h (JoinHostPort [] forwarderPort)) (
        tryE (startHTTPProxy h (JoinHostPort (ns_Gateway network) proxyPort)) (\<lambda>_.
        deferring (listener_Close h (JoinHostPort (ns_Gateway network) proxyPort))
          (launch h opts guestMAC))))))))))"

subsection \<open>main\<close>

text \<open>The exit code of the process; \<open>os.Args\<close> starts with the name of the program.\<close>

definition fatalf :: "string \<Rightarrow> ('w, nat) hprog" where
  "fatalf msg = State_Monad.bind (write_stderr (msg @ [CHR 0x0A])) (\<lambda>_. State_Monad.return 1)"

definition main :: "'w host \<Rightarrow> string list \<Rightarrow> ('w, nat) hprog" where
  "main h args = (case args of
     _ # cmd # rest \<Rightarrow>
       if cmd = ''run'' then
         (case parseRunOptions rest of
            Inl code \<Rightarrow> State_Monad.return code
          | Inr opts \<Rightarrow> State_Monad.bind (run h opts) (\<lambda>r. case r of
              Inl err \<Rightarrow> fatalf (''run PodVM: '' @ Error err) | Inr _ \<Rightarrow> State_Monad.return 0))
       else if cmd = ''ready'' then
         (case parseReadyOptions rest of
            Inl code \<Rightarrow> State_Monad.return code
          | Inr opts \<Rightarrow>
              State_Monad.bind (readyCheck h (filepath_Join [ro_stateDir opts, ''cloud-hypervisor.sock''])
                                 (JoinHostPort guestIP forwarderPort)) (\<lambda>r. case r of
              Inl err \<Rightarrow> State_Monad.return 1 | Inr _ \<Rightarrow> State_Monad.return 0))
       else if cmd = ''stop'' then
         (case parseStateDir ''stop'' rest of
            Inl code \<Rightarrow> State_Monad.return code
          | Inr stateDir \<Rightarrow> State_Monad.bind (shutdown h (filepath_Join [stateDir, ''cloud-hypervisor.sock'']))
              (\<lambda>r. case r of
                Inl err \<Rightarrow> fatalf (''stop PodVM: '' @ Error err) | Inr _ \<Rightarrow> State_Monad.return 0))
       else fatalf (''unknown command '' @ Quote cmd)
   | _ \<Rightarrow> fatalf ''usage: runner <run|ready|stop>'')"

end
