(* ===== verification/Runner_Contract.thy ===== *)
theory Runner_Contract
  imports PodVM_Runner Sandbox_Controller
begin

text \<open>
  What the runner promises. \<open>succeeds P C m\<close> is the contract of a sequence with early returns: every call
  satisfies \<open>P\<close>, and when the program succeeds its result and its calls satisfy \<open>C\<close>. With it the calls
  of \<open>run\<close> up to the start of the hypervisor are shown to be \<open>bootCalls\<close>. The theory also relates the
  arguments the controller gives to the runner Pod with the options the runner reads from them.
\<close>

subsection \<open>Sequences with early returns\<close>

definition succeeds :: "('c \<Rightarrow> bool) \<Rightarrow> ('a \<Rightarrow> 'c list \<Rightarrow> bool) \<Rightarrow> ('w, 'c, 'e + 'a) prog \<Rightarrow> bool" where
  "succeeds P C m \<longleftrightarrow> yields (\<lambda>r l. list_all P l \<and> (case r of Inl _ \<Rightarrow> True | Inr x \<Rightarrow> C x l)) m"

lemma succeeds_mono: "succeeds P C m \<Longrightarrow> (\<And>x l. C x l \<Longrightarrow> D x l) \<Longrightarrow> succeeds P D m"
  unfolding succeeds_def by (erule yields_mono) (auto split: sum.splits)

lemma succeeds_return: "C x [] \<Longrightarrow> succeeds P C (State_Monad.return (Inr x))"
  by (simp add: succeeds_def yields_return)

lemma succeeds_call: "yields (\<lambda>_ l. l = [c]) m \<Longrightarrow> P c \<Longrightarrow> succeeds P (\<lambda>_ l. l = [c]) m"
  unfolding succeeds_def by (erule yields_mono) (auto split: sum.splits)

lemma succeeds_tryE:
  assumes "succeeds P C m" and "\<And>x. succeeds P (D x) (f x)"
  shows "succeeds P (\<lambda>y l. \<exists>x l1 l2. C x l1 \<and> D x y l2 \<and> l = l1 @ l2) (tryE m f)"
  unfolding succeeds_def
proof (rule yields_tryE [OF assms(1) [unfolded succeeds_def]])
  fix x l
  assume "list_all P l \<and> (case Inr x of Inl _ \<Rightarrow> True | Inr y \<Rightarrow> C y l)"
  then show "yields (\<lambda>r l'. list_all P (l @ l') \<and>
      (case r of Inl _ \<Rightarrow> True | Inr y \<Rightarrow> \<exists>x l1 l2. C x l1 \<and> D x y l2 \<and> l @ l' = l1 @ l2)) (f x)"
    using assms(2) [of x] unfolding succeeds_def
    by (elim yields_mono) (auto split: sum.splits)
qed auto

lemma succeeds_bind:
  assumes "yields (\<lambda>r l. list_all P l \<and> C r l) m" and "\<And>x. succeeds P (D x) (f x)"
  shows "succeeds P (\<lambda>y l. \<exists>x l1 l2. C x l1 \<and> D x y l2 \<and> l = l1 @ l2) (State_Monad.bind m f)"
  unfolding succeeds_def
proof (rule yields_bind [OF assms(1)])
  fix x l
  assume "list_all P l \<and> C x l"
  then show "yields (\<lambda>r l'. list_all P (l @ l') \<and>
      (case r of Inl _ \<Rightarrow> True | Inr y \<Rightarrow> \<exists>x l1 l2. C x l1 \<and> D x y l2 \<and> l @ l' = l1 @ l2)) (f x)"
    using assms(2) [of x] unfolding succeeds_def
    by (elim yields_mono) (auto split: sum.splits)
qed

lemma succeeds_wrapE: "succeeds P C m \<Longrightarrow> succeeds P C (wrapE p m)"
  unfolding succeeds_def by (rule yields_wrapE, erule yields_mono) (auto split: sum.splits)

subsection \<open>The calls before the hypervisor starts\<close>

definition not_start :: "os_call \<Rightarrow> bool" where
  "not_start c \<longleftrightarrow> (\<forall>p a. c \<noteq> StartProcess p a)"

lemma not_start_simps [simp]:
  "not_start (MkdirAll p m)" "not_start (ReadFile p)" "not_start (WriteFile p d m)" "not_start (Remove p)"
  "not_start (Exec p a)" "not_start KillProcess" "not_start (Listen s)" "not_start (CloseListener s)"
  "not_start (Dial s n)" "not_start (CloseConn s)" "not_start (UnixRequest s t u)" "not_start (Stderr t)"
  "\<not> not_start (StartProcess p a)"
  by (simp_all add: not_start_def)

definition execOf :: "string list \<Rightarrow> os_call" where
  "execOf c = Exec (hd c) (tl c)"

definition diskCalls :: "options \<Rightarrow> networkState \<Rightarrow> string \<Rightarrow> string \<Rightarrow> os_call list" where
  "diskCalls opts network guestMAC userData =
     (let state = o_stateDir opts;
          seedDir = filepath_Join [state, ''cidata''];
          seedDisk = filepath_Join [state, ''cidata.img'']
      in (if o_kernelPath opts = []
          then [Exec ''qemu-img'' [''create'', ''-f'', ''qcow2'', ''-F'', ''qcow2'', ''-b'',
                  filepath_Join [o_imageDir opts, ''disk.qcow2''], filepath_Join [state, ''root.qcow2'']]]
          else []) @
         [MkdirAll seedDir 448,
          ReadFile (filepath_Join [o_configDir opts, ''userdata'']),
          WriteFile (filepath_Join [seedDir, ''user-data'']) userData 384,
          WriteFile (filepath_Join [seedDir, ''meta-data'']) (metaData guestMAC) 384,
          WriteFile (filepath_Join [seedDir, ''network-config''])
            (renderNetworkConfig network (o_networkMTU opts)) 384,
          (if o_kernelPath opts \<noteq> []
           then Exec ''mke2fs'' [''-q'', ''-t'', ''ext4'', ''-L'', ''cidata'', ''-d'', seedDir, seedDisk, ''4M'']
           else Exec ''genisoimage''
             [''-quiet'', ''-output'', seedDisk, ''-volid'', ''cidata'', ''-joliet'', ''-rock'', seedDir])])"

lemma succeeds_runCommand: "succeeds not_start (\<lambda>_ l. l = [Exec name args]) (runCommand h name args)"
  unfolding succeeds_def runCommand_def
  by (intro yields_bind [OF yields_host(5)]) (auto intro!: yields_return split: option.splits)

lemmas succeeds_host =
  yields_host(1-4,8-9) [THEN succeeds_call [where P = not_start], simplified]

lemma succeeds_prepareDisks:
  "succeeds not_start (\<lambda>_ l. \<exists>ud. l = diskCalls opts network mac ud) (prepareDisks h opts network mac)"
proof -
  let ?state = "o_stateDir opts"
  let ?seedDir = "filepath_Join [?state, ''cidata'']"
  have overlay: "succeeds not_start (\<lambda>_ l. l = (if o_kernelPath opts = [] then [Exec name args] else []))
      (if o_kernelPath opts = [] then wrapE p (runCommand h name args) else State_Monad.return (Inr ()))"
    for p name args
    by (simp add: succeeds_return succeeds_wrapE [OF succeeds_runCommand])
  have seed: "succeeds not_start (\<lambda>_ l. l = [if o_kernelPath opts \<noteq> [] then Exec n1 a1 else Exec n2 a2])
      (if o_kernelPath opts \<noteq> [] then wrapE p1 (runCommand h n1 a1) else wrapE p2 (runCommand h n2 a2))"
    for p1 n1 a1 p2 n2 a2
    by (simp add: succeeds_wrapE [OF succeeds_runCommand])
  show ?thesis
    unfolding prepareDisks_def Let_def
    by (rule succeeds_mono, rule succeeds_tryE [OF overlay], rule succeeds_tryE [OF succeeds_host(1)],
          rule succeeds_tryE [OF succeeds_host(2)], rule succeeds_tryE [OF succeeds_host(3)],
          rule succeeds_tryE [OF succeeds_host(3)], rule succeeds_tryE [OF succeeds_host(3)], rule seed)
       (auto simp: diskCalls_def Let_def)
qed

lemma succeeds_runCommands: "succeeds not_start (\<lambda>_ l. l = map execOf cs) (runCommands h cs)"
proof (induction cs)
  case (Cons c cs)
  show ?case
    unfolding runCommands.simps
    by (rule succeeds_mono, rule succeeds_tryE [OF succeeds_wrapE [OF succeeds_runCommand] Cons])
       (auto simp: execOf_def)
qed (simp add: succeeds_return)

definition nameserver_list :: "string list \<Rightarrow> bool" where
  "nameserver_list dns \<longleftrightarrow> list_all ParseIP_ok dns"

lemma nameserverLines_ok: "nameserver_list (nameserverLines lines)"
  by (induction lines) (auto simp: nameserver_list_def Let_def)

lemma yields_nameservers:
  "yields (\<lambda>dns l. list_all not_start l \<and> (l = [ReadFile ''/etc/resolv.conf''] \<and> nameserver_list dns)) (nameservers h)"
  unfolding nameservers_def
  by (intro yields_bind [OF yields_host(2)] yields_return)
     (auto simp: nameserverLines_ok nameserver_list_def [of "[]"] split: sum.splits)

definition local_unicast :: "string \<Rightarrow> bool" where
  "local_unicast mac \<longleftrightarrow> (\<exists>bs. length bs = 6 \<and> hd bs AND 3 = 2 \<and> mac = MACString bs)"

lemma mac_bits: "((b :: byte) OR 2) AND 254 AND 3 = 2"
proof -
  have "(b OR 2) AND 254 AND 3 = (b OR 2) AND (2 :: byte)" by (simp add: and.assoc)
  then show ?thesis by (simp only: word_ao_absorbs)
qed

lemma succeeds_randomMAC: "succeeds not_start (\<lambda>mac l. l = [] \<and> local_unicast mac) (randomMAC h)"
proof -
  have unicast: "local_unicast (MACString ((take 6 (bs @ replicate 6 0))[0 := (x OR 2) AND 0xfe]))" for bs x
    unfolding local_unicast_def
    by (intro exI [of _ "(take 6 (bs @ replicate 6 0))[0 := (x OR 2) AND 0xfe]"])
       (simp add: hd_conv_nth mac_bits and.assoc)
  have "succeeds not_start (\<lambda>_ l. l = []) (rand_Read h 6)"
    unfolding succeeds_def by (rule yields_mono [OF yields_host(17)]) (auto split: sum.splits)
  then show ?thesis
    unfolding randomMAC_def Let_def
    by (rule succeeds_mono [OF succeeds_tryE [OF _ succeeds_return [of "\<lambda>mac l. l = [] \<and> local_unicast mac"]]])
       (auto simp: unicast simp del: take_append)
qed

subsection \<open>The whole run\<close>

lemma yields_after:
  assumes "succeeds P C m" and "\<And>x. yields (\<lambda>r l. list_all P l \<or> D x r l) (f x)"
  shows "yields (\<lambda>r l. list_all P l \<or> (\<exists>x l1 l2. C x l1 \<and> D x r l2 \<and> l = l1 @ l2)) (tryE m f)"
proof (rule yields_tryE [OF assms(1) [unfolded succeeds_def]])
  fix x l
  assume "list_all P l \<and> (case Inr x of Inl _ \<Rightarrow> True | Inr y \<Rightarrow> C y l)"
  then show "yields (\<lambda>r l'. list_all P (l @ l') \<or> (\<exists>x l1 l2. C x l1 \<and> D x r l2 \<and> l @ l' = l1 @ l2)) (f x)"
    using assms(2) [of x] by (elim yields_mono) auto
qed auto

lemma yields_after_bind:
  assumes "yields (\<lambda>x l. list_all P l \<and> C x l) m" and "\<And>x. yields (\<lambda>r l. list_all P l \<or> D x r l) (f x)"
  shows "yields (\<lambda>r l. list_all P l \<or> (\<exists>x l1 l2. C x l1 \<and> D x r l2 \<and> l = l1 @ l2)) (State_Monad.bind m f)"
proof (rule yields_bind [OF assms(1)])
  fix x l
  assume "list_all P l \<and> C x l"
  then show "yields (\<lambda>r l'. list_all P (l @ l') \<or> (\<exists>x l1 l2. C x l1 \<and> D x r l2 \<and> l @ l' = l1 @ l2)) (f x)"
    using assms(2) [of x] by (elim yields_mono) auto
qed

lemma yields_after_defer:
  assumes "yields (\<lambda>_ l. l = [c]) d" and "P c" and "yields (\<lambda>r l. list_all P l \<or> D r l) m"
  shows "yields (\<lambda>r l. list_all P l \<or> (\<exists>l1. D r l1 \<and> l = l1 @ [c])) (deferring d m)"
proof (rule yields_deferring, rule yields_mono [OF assms(3)])
  fix r l
  assume "list_all P l \<or> D r l"
  with assms(2) show "yields (\<lambda>_ l'. list_all P (l @ l') \<or> (\<exists>l1. D r l1 \<and> l @ l' = l1 @ [c])) d"
    by (intro yields_mono [OF assms(1)]) auto
qed

text \<open>The calls after the start: nothing when the hypervisor exits by itself; after a signal the request
  to shut down, and the kill when it does not exit within ten seconds.\<close>

definition stopCalls :: "string \<Rightarrow> os_call list \<Rightarrow> bool" where
  "stopCalls socket l \<longleftrightarrow> l = [] \<or>
     (\<exists>sig tail. l = [Stderr (''received '' @ sig @ '', shutting down PodVM'' @ [CHR 0x0A]),
        UnixRequest socket ''PUT'' ''/api/v1/vm.shutdown''] @ tail \<and> (tail = [] \<or> tail = [KillProcess]))"

definition socketOf :: "options \<Rightarrow> string" where
  "socketOf opts = filepath_Join [o_stateDir opts, ''cloud-hypervisor.sock'']"

definition startCall :: "options \<Rightarrow> string \<Rightarrow> os_call" where
  "startCall opts guestMAC = StartProcess (filepath_Join [o_runtimeAssetsDir opts, ''bin'', ''cloud-hypervisor''])
     (cloudHypervisorArgs opts (socketOf opts) (filepath_Join [o_stateDir opts, ''root.qcow2''])
       (filepath_Join [o_stateDir opts, ''cidata.img'']) guestMAC)"

lemma yields_shutdown: "yields (\<lambda>_ l. l = [UnixRequest socket ''PUT'' ''/api/v1/vm.shutdown'']) (shutdown h socket)"
  unfolding shutdown_def apiRequest_def
  by (rule yields_tryE [OF yields_host(12)]) (auto intro: yields_return)

lemma yields_launch:
  "yields (\<lambda>_ l. \<exists>tail. l = [Remove (socketOf opts), startCall opts mac] @ tail \<and> stopCalls (socketOf opts) tail)
     (launch h opts mac)"
proof -
  have stop: "yields (\<lambda>_ l. l = [] \<or> l = [KillProcess])
      (State_Monad.bind (wait_stop h) (\<lambda>e2. case e2 of StopExited r \<Rightarrow> State_Monad.return r | StopTimeout \<Rightarrow> cmd_Kill h))"
    by (rule yields_bind [OF yields_host(19)])
       (auto split: stop_event.split intro: yields_return yields_mono [OF yields_host(7)])
  have "yields (\<lambda>_ l. stopCalls (socketOf opts) l)
      (State_Monad.bind (write_stderr (''received '' @ sig @ '', shutting down PodVM'' @ [CHR 0x0A])) (\<lambda>_.
       State_Monad.bind (shutdown h (socketOf opts)) (\<lambda>_.
       State_Monad.bind (wait_stop h) (\<lambda>e2. case e2 of
         StopExited r \<Rightarrow> State_Monad.return r | StopTimeout \<Rightarrow> cmd_Kill h))))" for sig
    by (rule yields_bind [OF yields_host(16)], rule yields_bind [OF yields_shutdown],
        rule yields_mono [OF stop]) (auto simp: stopCalls_def)
  then have wait: "yields (\<lambda>_ l. stopCalls (socketOf opts) l)
      (State_Monad.bind (wait_run h) (\<lambda>e. case e of
           Exited r \<Rightarrow> State_Monad.return r
         | Signalled sig \<Rightarrow>
             State_Monad.bind (write_stderr (''received '' @ sig @ '', shutting down PodVM'' @ [CHR 0x0A])) (\<lambda>_.
             State_Monad.bind (shutdown h (socketOf opts)) (\<lambda>_.
             State_Monad.bind (wait_stop h) (\<lambda>e2. case e2 of
               StopExited r \<Rightarrow> State_Monad.return r
             | StopTimeout \<Rightarrow> cmd_Kill h)))))"
    by (intro yields_bind [OF yields_host(18)])
       (auto split: run_event.split intro: yields_return simp: stopCalls_def [of _ "[]"])
  show ?thesis
    unfolding launch_def Let_def startCall_def socketOf_def [symmetric]
    by (rule yields_bind [OF yields_host(4)], rule yields_tryE [OF yields_host(6)],
        simp add: stopCalls_def, rule yields_mono [OF wait], simp)
qed

definition bootNetwork :: "string \<Rightarrow> string list \<Rightarrow> networkState" where
  "bootNetwork guestMAC dns = \<lparr>ns_Address = guestAddress, ns_Gateway = gateway, ns_DNS = dns, ns_MAC = guestMAC\<rparr>"

abbreviation agentListener :: string where "agentListener \<equiv> JoinHostPort [] forwarderPort"
abbreviation proxyListener :: string where "proxyListener \<equiv> JoinHostPort gateway proxyPort"

definition bootCalls :: "options \<Rightarrow> string \<Rightarrow> string list \<Rightarrow> string \<Rightarrow> os_call list" where
  "bootCalls opts guestMAC dns userData =
     [MkdirAll (o_stateDir opts) 448, ReadFile ''/etc/resolv.conf''] @
     diskCalls opts (bootNetwork guestMAC dns) guestMAC userData @
     map execOf (networkCommands primaryLink bridgeName tapName (o_networkMTU opts)) @
     [Listen agentListener, Listen proxyListener, Remove (socketOf opts), startCall opts guestMAC]"

definition capacity_ok :: "options \<Rightarrow> bool" where
  "capacity_ok opts \<longleftrightarrow> 1 \<le> sint (o_cpus opts) \<and> 128 \<le> sint (o_memoryMiB opts) \<and>
     o_imageDir opts \<noteq> [] \<and> o_configDir opts \<noteq> []"

definition booted :: "options \<Rightarrow> os_call list \<Rightarrow> bool" where
  "booted opts l \<longleftrightarrow> capacity_ok opts \<and>
     (\<exists>mac dns ud tail. local_unicast mac \<and> nameserver_list dns \<and> stopCalls (socketOf opts) tail \<and>
        l = bootCalls opts mac dns ud @ tail @ [CloseListener proxyListener, CloseListener agentListener])"

lemma succeeds_startAgentProxy:
  "succeeds not_start (\<lambda>_ l. l = [Listen agentListener]) (startAgentProxy h forwarderPort target)"
  unfolding startAgentProxy_def by (intro succeeds_wrapE succeeds_host)

lemma succeeds_startHTTPProxy: "succeeds not_start (\<lambda>_ l. l = [Listen a]) (startHTTPProxy h a)"
  unfolding startHTTPProxy_def by (intro succeeds_wrapE succeeds_host)

lemma run_starts_or_not: "yields (\<lambda>r l. list_all not_start l \<or> booted opts l) (run h opts)"
proof (cases "capacity_ok opts")
  case False
  then have "\<exists>e. run h opts = State_Monad.return (Inl e)"
    by (auto simp: run_def capacity_ok_def)
  then show ?thesis by (elim exE ssubst) (rule yields_return, simp)
next
  case True
  have launch: "yields (\<lambda>r l. list_all not_start l \<or> (\<exists>tail. stopCalls (socketOf opts) tail \<and>
      l = [Remove (socketOf opts), startCall opts mac] @ tail)) (launch h opts mac)" for mac
    by (rule yields_mono [OF yields_launch]) auto
  show ?thesis
    using True unfolding run_def Let_def prepareNetwork_def
    apply (simp add: capacity_ok_def not_less split del: if_split)
    apply (rule yields_mono)
     apply (rule yields_after [OF succeeds_host(1)], rule yields_after [OF succeeds_randomMAC],
        rule yields_after_bind [OF yields_nameservers], rule yields_after [OF succeeds_prepareDisks],
        rule yields_after [OF succeeds_runCommands], rule yields_after [OF succeeds_startAgentProxy],
        rule yields_after_defer [OF yields_host(9)], simp, rule yields_after [OF succeeds_startHTTPProxy],
        rule yields_after_defer [OF yields_host(9)], simp, rule launch)
    apply (erule disjE, simp)
    apply (elim exE conjE)
    apply hypsubst
    apply (rule disjI2)
    apply (simp only: booted_def bootCalls_def bootNetwork_def True append_assoc)
    apply (intro conjI exI)
    apply (assumption | rule TrueI | simp)+
    done
qed

subsection \<open>Hosts on which every call succeeds\<close>

definition host_up :: "'w host \<Rightarrow> bool" where
  "host_up h \<longleftrightarrow>
     (\<forall>p m w. \<exists>w'. h_MkdirAll h p m w = (Inr (), w')) \<and>
     (\<forall>p w. \<exists>d w'. h_ReadFile h p w = (Inr d, w')) \<and>
     (\<forall>p d m w. \<exists>w'. h_WriteFile h p d m w = (Inr (), w')) \<and>
     (\<forall>p a w. \<exists>t w'. h_Exec h p a w = ((None, t), w')) \<and>
     (\<forall>a w. \<exists>w'. h_Listen h a w = (Inr (), w')) \<and>
     (\<forall>n w. \<exists>bs w'. h_RandRead h n w = (Inr bs, w'))"

definition never_fails :: "('w, 'c, 'e + 'a) prog \<Rightarrow> bool" where
  "never_fails m \<longleftrightarrow> pred_state (\<lambda>r. \<exists>x. r = Inr x) m"

lemma never_fails_return: "never_fails (State_Monad.return (Inr x))"
  by (simp add: never_fails_def pred_state_return)

lemma never_fails_tryE: "never_fails m \<Longrightarrow> (\<And>x. never_fails (f x)) \<Longrightarrow> never_fails (tryE m f)"
  unfolding never_fails_def tryE_def by (erule pred_state_bind) auto

lemma never_fails_wrapE: "never_fails m \<Longrightarrow> never_fails (wrapE p m)"
  unfolding never_fails_def wrapE_def by (erule pred_state_bind) (auto intro: pred_state_return)

lemma never_fails_if: "never_fails m \<Longrightarrow> never_fails n \<Longrightarrow> never_fails (if b then m else n)"
  by simp

lemma never_fails_host:
  assumes "host_up h"
  shows "never_fails (os_MkdirAll h p m)" "never_fails (os_ReadFile h p)" "never_fails (os_WriteFile h p d m)"
    "never_fails (net_Listen h a)" "never_fails (runCommand h name args)" "never_fails (randomMAC h)"
proof -
  have perf: "never_fails (perform c f)" if "\<And>w. \<exists>x w'. f w = (Inr x, w')" for c :: os_call and f :: "('w, 'b) call"
    unfolding never_fails_def by (rule pred_state_perform) (metis that fst_conv)
  have "\<exists>x w'. h_MkdirAll h p m w = (Inr x, w')" for w using assms unfolding host_up_def by blast
  then show "never_fails (os_MkdirAll h p m)" unfolding host_ops by (rule perf)
  have "\<exists>x w'. h_ReadFile h p w = (Inr x, w')" for w using assms unfolding host_up_def by blast
  then show "never_fails (os_ReadFile h p)" unfolding host_ops by (rule perf)
  have "\<exists>x w'. h_WriteFile h p d m w = (Inr x, w')" for w using assms unfolding host_up_def by blast
  then show "never_fails (os_WriteFile h p d m)" unfolding host_ops by (rule perf)
  have "\<exists>x w'. h_Listen h a w = (Inr x, w')" for w using assms unfolding host_up_def by blast
  then show "never_fails (net_Listen h a)" unfolding host_ops by (rule perf)
  have "\<exists>t w'. h_Exec h name args w = ((None, t), w')" for w using assms unfolding host_up_def by blast
  then have "fst (fst (h_Exec h name args w)) = None" for w by (metis fst_conv)
  then have "pred_state (\<lambda>r. fst r = None) (cmd_Run h name args)"
    unfolding host_ops by (rule pred_state_perform)
  then show "never_fails (runCommand h name args)"
    unfolding never_fails_def runCommand_def by (rule pred_state_bind) (auto intro: pred_state_return)
  have "\<exists>bs w'. h_RandRead h 6 w = (Inr bs, w')" for w using assms unfolding host_up_def by blast
  then have "\<exists>bs. fst (h_RandRead h 6 w) = Inr bs" for w by (metis fst_conv)
  then have "never_fails (rand_Read h 6)"
    unfolding never_fails_def host_ops by (intro pred_stateI) auto
  then show "never_fails (randomMAC h)"
    unfolding randomMAC_def Let_def by (intro never_fails_tryE never_fails_return)
qed

lemma never_fails_prepare:
  assumes "host_up h"
  shows "never_fails (prepareDisks h opts network mac)" "never_fails (runCommands h cs)"
proof -
  show "never_fails (runCommands h cs)"
    by (induction cs) (auto intro!: never_fails_return never_fails_tryE never_fails_wrapE never_fails_host assms)
  show "never_fails (prepareDisks h opts network mac)"
    unfolding prepareDisks_def Let_def
    by (intro never_fails_tryE never_fails_if never_fails_wrapE never_fails_return never_fails_host assms)
qed

lemma yields_conj: "yields Q m \<Longrightarrow> yields R m \<Longrightarrow> yields (\<lambda>a l. Q a l \<and> R a l) m"
  unfolding yields_def by (metis same_append_eq)

lemma yields_sure:
  assumes "succeeds P C m" and "never_fails m" and "\<And>x. yields (\<lambda>_ l. \<not> list_all P l) (f x)"
  shows "yields (\<lambda>_ l. \<not> list_all P l) (tryE m f)"
proof (rule yields_tryE [of "\<lambda>r l. \<exists>x. r = Inr x"])
  show "yields (\<lambda>r l. \<exists>x. r = Inr x) m"
  proof (rule yieldsI)
    fix s
    obtain a t where m: "run_state m s = (a, t)" by fastforce
    with assms(2) have "\<exists>x. a = Inr x" unfolding never_fails_def by (rule pred_stateD)
    moreover from assms(1) m obtain l where "trace t = trace s @ l"
      unfolding succeeds_def by (rule yields_run)
    ultimately show "\<exists>l. trace (snd (run_state m s)) = trace s @ l \<and> (\<exists>x. fst (run_state m s) = Inr x)"
      using m by simp
  qed
  show "yields (\<lambda>b l'. \<not> list_all P (l @ l')) (f x)" for x l
    by (rule yields_mono [OF assms(3)]) auto
qed auto

lemma yields_sure_defer:
  assumes "yields (\<lambda>_ l. l = [c]) d" and "yields (\<lambda>_ l. \<not> list_all P l) m"
  shows "yields (\<lambda>_ l. \<not> list_all P l) (deferring d m)"
  by (rule yields_deferring, rule yields_mono [OF assms(2)], rule yields_mono [OF assms(1)]) auto

text \<open>On such a host a run with valid options boots the PodVM.\<close>

lemma run_boots:
  assumes "host_up h" and "capacity_ok opts"
  shows "yields (\<lambda>r l. booted opts l) (run h opts)"
proof -
  note up = never_fails_host [OF assms(1)] never_fails_prepare [OF assms(1)]
  have launch: "yields (\<lambda>_ l. \<not> list_all not_start l) (launch h opts mac)" for mac
    by (rule yields_mono [OF yields_launch]) (auto simp: startCall_def)
  have agent: "never_fails (startAgentProxy h p t)" for p t
    unfolding startAgentProxy_def by (intro never_fails_wrapE up)
  have proxy: "never_fails (startHTTPProxy h a)" for a
    unfolding startHTTPProxy_def by (intro never_fails_wrapE up)
  have "yields (\<lambda>_ l. \<not> list_all not_start l) (run h opts)"
    using assms(2) unfolding run_def Let_def prepareNetwork_def
    apply (simp add: capacity_ok_def not_less split del: if_split)
    apply (rule yields_sure [OF succeeds_host(1) up(1)], rule yields_sure [OF succeeds_randomMAC up(6)])
    apply (rule yields_bind [OF yields_nameservers], rule yields_mono)
     apply (rule yields_sure [OF succeeds_prepareDisks up(7)], rule yields_sure [OF succeeds_runCommands up(8)],
        rule yields_sure [OF succeeds_startAgentProxy agent], rule yields_sure_defer [OF yields_host(9)],
        rule yields_sure [OF succeeds_startHTTPProxy proxy], rule yields_sure_defer [OF yields_host(9)], rule launch)
    apply simp
    done
  then show ?thesis
    by (rule yields_mono [OF yields_conj [OF _ run_starts_or_not]]) auto
qed

end
