(* ===== verification/Runner_Proxy.thy ===== *)
theory Runner_Proxy
  imports Host_Os
begin

text \<open>
  The proxies of the runner (\<open>cmd/runner/main.go\<close>): what is done with one connection
  (\<open>proxyConnection\<close>), with one HTTP request (\<open>proxyHTTP\<close>, \<open>proxyConnect\<close>), and the two concurrent
  copies of \<open>bridgeConnections\<close> as a transition system whose transitions are the steps of the two
  goroutines, of the function that waits for them, and of the peers at both ends.
\<close>

subsection \<open>Connections\<close>

text \<open>The result says whether the function goes on with \<open>bridgeConnections\<close>.\<close>

definition proxyConnection :: "'w host \<Rightarrow> string \<Rightarrow> string \<Rightarrow> ('w, bool) hprog" where
  "proxyConnection h connection target =
     State_Monad.bind (net_DialTimeout h target 5) (\<lambda>r. case r of
       Inl _ \<Rightarrow> State_Monad.bind (conn_Close h connection) (\<lambda>_. State_Monad.return False)
     | Inr _ \<Rightarrow> State_Monad.return True)"

subsection \<open>HTTP\<close>

text \<open>\<open>textproto.CanonicalMIMEHeaderKey\<close>: a key with a byte that no header field may have is left as
  it is.\<close>

definition is_lower :: "char \<Rightarrow> bool" where "is_lower c \<longleftrightarrow> 97 \<le> cv c \<and> cv c \<le> 122"
definition is_upper :: "char \<Rightarrow> bool" where "is_upper c \<longleftrightarrow> 65 \<le> cv c \<and> cv c \<le> 90"

definition validHeaderFieldByte :: "char \<Rightarrow> bool" where
  "validHeaderFieldByte c \<longleftrightarrow> is_digit c \<or> is_lower c \<or> is_upper c \<or>
     c \<in> set ''!#$%&*+-.^_|~'' \<or> c = CHR 0x27 \<or> c = CHR 0x60"

fun canon_bytes :: "bool \<Rightarrow> string \<Rightarrow> string" where
  "canon_bytes upper [] = []"
| "canon_bytes upper (c # s) =
     (let d = (if upper \<and> is_lower c then char_of (cv c - 32)
               else if \<not> upper \<and> is_upper c then char_of (cv c + 32) else c)
      in d # canon_bytes (d = CHR ''-'') s)"

definition CanonicalMIMEHeaderKey :: "string \<Rightarrow> string" where
  "CanonicalMIMEHeaderKey s = (if list_all validHeaderFieldByte s then canon_bytes True s else s)"

fun header_append :: "header \<Rightarrow> string \<Rightarrow> string \<Rightarrow> header" where
  "header_append [] k v = [(k, [v])]"
| "header_append ((k', vs) # r) k v =
     (if k' = k then (k', vs @ [v]) # r else (k', vs) # header_append r k v)"

definition header_Add :: "string \<Rightarrow> string \<Rightarrow> header \<Rightarrow> header" where
  "header_Add k v h = header_append h (CanonicalMIMEHeaderKey k) v"

definition header_Del :: "string \<Rightarrow> header \<Rightarrow> header" where
  "header_Del k h = filter (\<lambda>(k', _). k' \<noteq> CanonicalMIMEHeaderKey k) h"

definition copyHeader :: "header \<Rightarrow> header \<Rightarrow> header" where
  "copyHeader from to = fold (\<lambda>(key, values). fold (\<lambda>value. header_Add key value) values) from to"

definition proxyError :: "string \<Rightarrow> nat \<Rightarrow> http_reply" where
  "proxyError msg code = \<lparr>hr_Status = code,
     hr_Header = [(''Content-Type'', [''text/plain; charset=utf-8'']), (''X-Content-Type-Options'', [''nosniff''])],
     hr_Body = msg @ [CHR 0x0A]\<rparr>"

text \<open>What becomes of a request: a reply, or a connection that was taken over (\<open>None\<close>). \<open>hijackable\<close> is
  the type assertion on the response writer.\<close>

definition proxyConnect :: "'w host \<Rightarrow> bool \<Rightarrow> http_message \<Rightarrow> ('w, http_reply option) hprog" where
  "proxyConnect h hijackable request =
     State_Monad.bind (net_DialTimeout h (hm_Host request) 10) (\<lambda>r. case r of
       Inl _ \<Rightarrow> State_Monad.return (Some (proxyError ''upstream unavailable'' 502))
     | Inr _ \<Rightarrow>
         if \<not> hijackable then
           State_Monad.bind (conn_Close h (hm_Host request)) (\<lambda>_.
             State_Monad.return (Some (proxyError ''CONNECT is unsupported'' 500)))
         else State_Monad.bind (hijacker_Hijack h) (\<lambda>r2. case r2 of
           Inl _ \<Rightarrow> State_Monad.bind (conn_Close h (hm_Host request)) (\<lambda>_. State_Monad.return None)
         | Inr _ \<Rightarrow>
             State_Monad.bind (io_WriteString h
               (''HTTP/1.1 200 Connection Established'' @ [CHR 0x0D, CHR 0x0A, CHR 0x0D, CHR 0x0A])) (\<lambda>r3.
             case r3 of
               Inl _ \<Rightarrow> State_Monad.bind (conn_Close h ''client'') (\<lambda>_.
                 State_Monad.bind (conn_Close h (hm_Host request)) (\<lambda>_. State_Monad.return None))
             | Inr _ \<Rightarrow> State_Monad.return None)))"

definition proxyHTTP :: "'w host \<Rightarrow> bool \<Rightarrow> http_message \<Rightarrow> ('w, http_reply option) hprog" where
  "proxyHTTP h hijackable request =
     (if hm_Method request = ''CONNECT'' then proxyConnect h hijackable request
      else
        let outbound = request\<lparr>hm_Header := header_Del ''Proxy-Connection'' (hm_Header request)\<rparr>
        in State_Monad.bind (transport_RoundTrip h outbound) (\<lambda>r. case r of
             Inl _ \<Rightarrow> State_Monad.return (Some (proxyError ''upstream unavailable'' 502))
           | Inr upstream \<Rightarrow> State_Monad.return (Some
               \<lparr>hr_Status = hr_Status upstream, hr_Header = copyHeader (hr_Header upstream) [],
                hr_Body = hr_Body upstream\<rparr>)))"

subsection \<open>bridgeConnections\<close>

text \<open>One direction of a bridge. The peer of the source has sent \<open>sent\<close> in all, of which \<open>pending\<close> is
  still to be read and \<open>buffered\<close> was read by \<open>io.Copy\<close> and not yet written; \<open>delivered\<close> reached the
  destination. \<open>eof\<close>: the peer closed its side. \<open>copied\<close>: \<open>copyStream\<close> sent to the channel. \<open>halfClosed\<close>:
  \<open>CloseWrite\<close> succeeded on the destination, which is possible when it is a TCP connection.\<close>

record stream =
  sent :: string
  pending :: string
  buffered :: string
  delivered :: string
  eof :: bool
  copied :: bool
  halfClosed :: bool
  isTCP :: bool

record bridge =
  toUpstream :: stream
  toClient :: stream
  doneTokens :: nat
  closed :: bool

datatype direction = ToUpstream | ToClient

datatype bridge_event =
    PeerSends direction string
  | PeerCloses direction
  | CopyReads direction nat
  | CopyWrites direction
  | CopyFails direction nat
  | CopyEnds direction
  | WaitReturns

fun stream_of :: "direction \<Rightarrow> bridge \<Rightarrow> stream" where
  "stream_of ToUpstream b = toUpstream b"
| "stream_of ToClient b = toClient b"

fun set_stream :: "direction \<Rightarrow> stream \<Rightarrow> bridge \<Rightarrow> bridge" where
  "set_stream ToUpstream s b = b\<lparr>toUpstream := s\<rparr>"
| "set_stream ToClient s b = b\<lparr>toClient := s\<rparr>"

text \<open>The goroutine of a direction can go on while neither it has ended nor the connections are closed.\<close>

definition copying :: "direction \<Rightarrow> bridge \<Rightarrow> bool" where
  "copying d b \<longleftrightarrow> \<not> copied (stream_of d b) \<and> \<not> closed b"

definition end_copy :: "direction \<Rightarrow> stream \<Rightarrow> bridge \<Rightarrow> bridge" where
  "end_copy d s b = (set_stream d (s\<lparr>copied := True\<rparr>) b)\<lparr>doneTokens := doneTokens b + 1\<rparr>"

text \<open>One transition, if the event can happen. \<open>CopyEnds\<close> is the end of \<open>io.Copy\<close> without an error;
  \<open>CopyFails d n\<close> is its end with an error, after \<open>n\<close> bytes of the buffer were written: an error of
  either connection, or the use of a connection that the waiting function has closed.\<close>

fun bridge_step :: "bridge_event \<Rightarrow> bridge \<Rightarrow> bridge option" where
  "bridge_step (PeerSends d bs) b = (let s = stream_of d b in
     if eof s then None else Some (set_stream d (s\<lparr>sent := sent s @ bs, pending := pending s @ bs\<rparr>) b))"
| "bridge_step (PeerCloses d) b = (let s = stream_of d b in Some (set_stream d (s\<lparr>eof := True\<rparr>) b))"
| "bridge_step (CopyReads d n) b = (let s = stream_of d b in
     if copying d b \<and> buffered s = [] \<and> pending s \<noteq> [] \<and> 0 < n
     then Some (set_stream d (s\<lparr>buffered := take n (pending s), pending := drop n (pending s)\<rparr>) b) else None)"
| "bridge_step (CopyWrites d) b = (let s = stream_of d b in
     if copying d b \<and> buffered s \<noteq> []
     then Some (set_stream d (s\<lparr>delivered := delivered s @ buffered s, buffered := []\<rparr>) b) else None)"
| "bridge_step (CopyFails d n) b = (let s = stream_of d b in
     if \<not> copied s \<and> (closed b \<longrightarrow> n = 0)
     then Some (end_copy d (s\<lparr>delivered := delivered s @ take n (buffered s), buffered := drop n (buffered s)\<rparr>) b)
     else None)"
| "bridge_step (CopyEnds d) b = (let s = stream_of d b in
     if copying d b \<and> buffered s = [] \<and> pending s = [] \<and> eof s
     then Some (end_copy d (s\<lparr>halfClosed := isTCP s\<rparr>) b) else None)"
| "bridge_step WaitReturns b =
     (if 0 < doneTokens b \<and> \<not> closed b then Some (b\<lparr>doneTokens := doneTokens b - 1, closed := True\<rparr>) else None)"

definition new_stream :: "bool \<Rightarrow> stream" where
  "new_stream tcp = \<lparr>sent = [], pending = [], buffered = [], delivered = [], eof = False, copied = False,
     halfClosed = False, isTCP = tcp\<rparr>"

definition bridgeConnections :: "bool \<Rightarrow> bool \<Rightarrow> bridge" where
  "bridgeConnections connectionTCP upstreamTCP =
     \<lparr>toUpstream = new_stream upstreamTCP, toClient = new_stream connectionTCP, doneTokens = 0, closed = False\<rparr>"

inductive bridge_reaches :: "bridge \<Rightarrow> bridge \<Rightarrow> bool" where
  refl: "bridge_reaches b b"
| step: "bridge_reaches a b \<Longrightarrow> bridge_step e b = Some c \<Longrightarrow> bridge_reaches a c"

subsection \<open>Safety of the bridge\<close>

text \<open>What has been delivered, is buffered and is pending is what was sent, in order. After a half-close
  nothing is left.\<close>

definition stream_ok :: "stream \<Rightarrow> bool" where
  "stream_ok s \<longleftrightarrow> sent s = delivered s @ buffered s @ pending s \<and>
     (halfClosed s \<longrightarrow> copied s \<and> eof s \<and> buffered s = [] \<and> pending s = [])"

text \<open>The channel holds one token for every ended copy, less the one received.\<close>

definition tokens_ok :: "bridge \<Rightarrow> bool" where
  "tokens_ok b \<longleftrightarrow> doneTokens b + of_bool (closed b) =
     of_bool (copied (toUpstream b)) + of_bool (copied (toClient b))"

definition bridge_ok :: "bridge \<Rightarrow> bool" where
  "bridge_ok b \<longleftrightarrow> (\<forall>d. stream_ok (stream_of d b)) \<and> tokens_ok b"

lemma stream_of_set [simp]: "stream_of d (set_stream d' s b) = (if d = d' then s else stream_of d b)"
  by (cases d; cases d') simp_all

lemma stream_of_tokens [simp]:
  "stream_of d (b\<lparr>doneTokens := n\<rparr>) = stream_of d b"
  "stream_of d (b\<lparr>doneTokens := n, closed := q\<rparr>) = stream_of d b"
  by (cases d; simp)+

lemma set_stream_sel [simp]:
  "doneTokens (set_stream d s b) = doneTokens b" "closed (set_stream d s b) = closed b"
  by (cases d; simp)+

lemma tokens_ok_keep: "copied s = copied (stream_of d b) \<Longrightarrow> tokens_ok (set_stream d s b) \<longleftrightarrow> tokens_ok b"
  by (cases d) (simp_all add: tokens_ok_def)

lemma tokens_ok_end: "\<not> copied (stream_of d b) \<Longrightarrow> tokens_ok b \<Longrightarrow> tokens_ok (end_copy d s b)"
  by (cases d) (simp_all add: tokens_ok_def end_copy_def)

lemma tokens_ok_step: "tokens_ok b \<Longrightarrow> bridge_step e b = Some c \<Longrightarrow> tokens_ok c"
proof (induction e b rule: bridge_step.induct)
  case (7 b)
  then show ?case by (auto simp: tokens_ok_def split: if_splits)
qed (auto simp: Let_def tokens_ok_keep tokens_ok_end copying_def split: if_splits)

lemma stream_ok_step:
  "\<forall>d. stream_ok (stream_of d b) \<Longrightarrow> bridge_step e b = Some c \<Longrightarrow> stream_ok (stream_of d c)"
  by (induction e b rule: bridge_step.induct)
     (auto simp: stream_ok_def Let_def copying_def end_copy_def split: if_splits)

lemma bridge_ok_init: "bridge_ok (bridgeConnections c u)"
proof -
  have "stream_ok (stream_of d (bridgeConnections c u))" for d
    by (cases d) (simp_all add: bridgeConnections_def new_stream_def stream_ok_def)
  moreover have "tokens_ok (bridgeConnections c u)"
    by (simp add: tokens_ok_def bridgeConnections_def new_stream_def)
  ultimately show ?thesis by (simp add: bridge_ok_def)
qed

lemma bridge_ok_step: "bridge_ok b \<Longrightarrow> bridge_step e b = Some c \<Longrightarrow> bridge_ok c"
  unfolding bridge_ok_def using stream_ok_step tokens_ok_step by metis

lemma bridge_ok_reaches: "bridge_reaches a b \<Longrightarrow> bridge_ok a \<Longrightarrow> bridge_ok b"
  by (induction rule: bridge_reaches.induct) (auto intro: bridge_ok_step)

text \<open>Once the connections are closed, nothing more is delivered.\<close>

lemma closed_step:
  assumes "bridge_step e b = Some c" and "closed b"
  shows "closed c \<and> delivered (stream_of d c) = delivered (stream_of d b)"
  using assms
  by (induction e b rule: bridge_step.induct)
     (auto simp: end_copy_def copying_def Let_def split: if_splits)

lemma closed_reaches:
  "bridge_reaches b c \<Longrightarrow> closed b \<Longrightarrow> closed c \<and> delivered (stream_of d c) = delivered (stream_of d b)"
  by (induction rule: bridge_reaches.induct) (simp, metis closed_step)

subsection \<open>The bridge ends\<close>

text \<open>The events of the bridge itself, and those of them that are not errors.\<close>

fun own_event :: "bridge_event \<Rightarrow> bool" where
  "own_event (PeerSends d bs) = False"
| "own_event (PeerCloses d) = False"
| "own_event e = True"

fun regular_event :: "bridge_event \<Rightarrow> bool" where
  "regular_event (CopyFails d n) = False"
| "regular_event e = own_event e"

fun bridge_run :: "bridge_event list \<Rightarrow> bridge \<Rightarrow> bridge option" where
  "bridge_run [] b = Some b"
| "bridge_run (e # es) b = (case bridge_step e b of None \<Rightarrow> None | Some c \<Rightarrow> bridge_run es c)"

text \<open>What is left to do: a byte is read and written, a copy ends, the connections are closed.\<close>

definition stream_work :: "stream \<Rightarrow> nat" where
  "stream_work s = 2 * length (pending s) + length (buffered s) + of_bool (\<not> copied s)"

definition bridge_work :: "bridge \<Rightarrow> nat" where
  "bridge_work b = stream_work (toUpstream b) + stream_work (toClient b) + of_bool (\<not> closed b)"

lemma bridge_work_set:
  "stream_work s < stream_work (stream_of d b) \<Longrightarrow> bridge_work (set_stream d s b) < bridge_work b"
  by (cases d) (simp_all add: bridge_work_def)

lemma bridge_work_end:
  "stream_work (s\<lparr>copied := True\<rparr>) < stream_work (stream_of d b) \<Longrightarrow> bridge_work (end_copy d s b) < bridge_work b"
  by (cases d) (simp_all add: bridge_work_def end_copy_def)

lemma own_step_work:
  assumes "own_event e" and "bridge_step e b = Some c"
  shows "bridge_work c < bridge_work b"
  using assms
proof (induction e b rule: bridge_step.induct)
  case (3 d n b)
  then have "c = set_stream d ((stream_of d b)\<lparr>buffered := take n (pending (stream_of d b)), pending := drop n (pending (stream_of d b))\<rparr>) b"
    "buffered (stream_of d b) = []" "pending (stream_of d b) \<noteq> []" "0 < n"
    by (auto simp: Let_def split: if_splits)
  then show ?case by (auto intro!: bridge_work_set simp: stream_work_def min_def)
next
  case (4 d b)
  then show ?case by (auto intro!: bridge_work_set simp: stream_work_def Let_def split: if_splits)
next
  case (5 d n b)
  then show ?case by (auto intro!: bridge_work_end simp: stream_work_def Let_def split: if_splits)
next
  case (6 d b)
  then show ?case by (auto intro!: bridge_work_end simp: stream_work_def Let_def copying_def split: if_splits)
next
  case (7 b)
  then show ?case by (auto simp: bridge_work_def split: if_splits)
qed simp_all

lemma own_run_work: "list_all own_event es \<Longrightarrow> bridge_run es b = Some c \<Longrightarrow> length es + bridge_work c \<le> bridge_work b"
proof (induction es arbitrary: b)
  case (Cons e es)
  then obtain b' where b': "bridge_step e b = Some b'" "bridge_run es b' = Some c" by (auto split: option.splits)
  from own_step_work [OF _ b'(1)] Cons.IH [OF _ b'(2)] Cons.prems(1) show ?case by simp
qed simp

lemma bridge_run_reaches: "bridge_reaches a b \<Longrightarrow> bridge_run es b = Some c \<Longrightarrow> bridge_reaches a c"
  by (induction es arbitrary: b) (auto intro: bridge_reaches.step split: option.splits)

lemma stuck_done:
  assumes "bridge_ok b" and "\<And>e. own_event e \<Longrightarrow> bridge_step e b = None"
  shows "closed b \<and> copied (toUpstream b) \<and> copied (toClient b) \<and> doneTokens b = 1"
proof -
  have "copied (stream_of d b)" for d
    using assms(2) [of "CopyFails d 0"] by (auto simp: Let_def split: if_splits)
  from this [of ToUpstream] this [of ToClient] have c: "copied (toUpstream b)" "copied (toClient b)" by simp_all
  moreover have "tokens_ok b" using assms(1) by (simp add: bridge_ok_def)
  moreover have "doneTokens b = 0 \<or> closed b" using assms(2) [of WaitReturns] by (simp split: if_splits)
  ultimately show ?thesis by (cases "closed b") (simp_all add: tokens_ok_def)
qed

lemma eof_closes:
  assumes "bridge_ok b" and "eof (stream_of d b)" and "\<And>e. regular_event e \<Longrightarrow> bridge_step e b = None"
  shows "closed b"
proof (rule ccontr)
  assume o: "\<not> closed b"
  have "copied (stream_of d b)"
  proof (rule ccontr)
    assume "\<not> copied (stream_of d b)"
    then have "copying d b" using o by (simp add: copying_def)
    with assms(2) assms(3) [of "CopyReads d 1"] assms(3) [of "CopyWrites d"] assms(3) [of "CopyEnds d"] show False
      by (auto simp: Let_def split: if_splits)
  qed
  then have "0 < doneTokens b" using assms(1) o by (cases d) (auto simp: bridge_ok_def tokens_ok_def)
  with o assms(3) [of WaitReturns] show False by simp
qed

end
