(* ===== verification/Runner_Properties.thy ===== *)
theory Runner_Properties
  imports Runner_Contract Runner_Proxy Controller_Properties
begin

text \<open>
  The properties of the runner, and of the controller and the runner together: the Pod the controller
  creates makes the runner boot the virtual machine that the sandbox asks for.
\<close>

subsection \<open>From the sandbox to the virtual machine\<close>

definition networkMTUOf :: "PodSandboxClass \<Rightarrow> int32" where
  "networkMTUOf cls = (if cls_NetworkMTU (psc_Spec cls) = 0 then 1500 else cls_NetworkMTU (psc_Spec cls))"

definition sandboxOptions :: "PodSandbox \<Rightarrow> int32 \<Rightarrow> options" where
  "sandboxOptions sandbox mtu = runDefaults\<lparr>
     o_cpus := spec_VCPUs (psb_Spec sandbox), o_memoryMiB := spec_MemoryMiB (psb_Spec sandbox),
     o_networkMTU := scast mtu, o_imageDir := ''/var/lib/podvm/image'', o_configDir := ''/var/lib/podvm/config'',
     o_kernelPath := ''/var/lib/podvm/image/vmlinux'', o_rootfsPath := ''/var/lib/podvm/image/rootfs.img''\<rparr>"

definition runnerContainer :: "PodSandbox \<Rightarrow> PodSandboxClass \<Rightarrow> Container" where
  "runnerContainer sandbox cls = hd (ps_Containers (pod_Spec (desiredRunner sandbox cls)))"

definition sandboxVM :: "PodSandbox \<Rightarrow> string \<Rightarrow> string list" where
  "sandboxVM sandbox mac =
     [''--api-socket'', ''/run/pod-sandbox/cloud-hypervisor.sock'',
      ''--cpus'', ''boot='' @ show_int (sint (spec_VCPUs (psb_Spec sandbox))),
      ''--memory'', ''size='' @ show_int (sint (spec_MemoryMiB (psb_Spec sandbox))) @ ''M'',
      ''--kernel'', ''/var/lib/podvm/image/vmlinux'',
      ''--cmdline'', directKernelParams,
      ''--disk'', ''path=/var/lib/podvm/image/rootfs.img,image_type=raw'',
      ''path=/run/pod-sandbox/cidata.img,readonly=on,image_type=raw'',
      ''--net'', ''tap=podvm-tap0,mac='' @ mac,
      ''--serial'', ''tty'', ''--console'', ''off'']"

lemma sint32_bounds: "- (2 ^ 63) \<le> sint (x :: int32) \<and> sint x < 2 ^ 63"
  using sint_range_size [of x] by (simp add: size_word_def)

lemma ParseInt0_show_sint32: "ParseInt0 (show_int (sint (x :: int32))) = Some (sint x)"
  using sint32_bounds [of x] by (intro ParseInt0_show_int) auto

lemma parse_runnerArgs: "parseRunOptions (tl (runnerArgs sandbox mtu)) = Inr (sandboxOptions sandbox mtu)"
  by (simp add: parseRunOptions_def runnerArgs_def runFlags_def flag_arg_of_def flag_name_def IntVar_def
      StringVar_def ParseInt0_show_sint ParseInt0_show_sint32 sandboxOptions_def runDefaults_def)

lemma runnerContainer_args: "ctr_Args (runnerContainer sandbox cls) = runnerArgs sandbox (networkMTUOf cls)"
  by (simp add: runnerContainer_def desiredRunner_def networkMTUOf_def Let_def)

lemma runnerArgs_run: "runnerArgs sandbox mtu = ''run'' # tl (runnerArgs sandbox mtu)"
  by (simp add: runnerArgs_def)

lemma runner_paths:
  "filepath_Join [''/run/pod-sandbox'', ''cloud-hypervisor.sock''] = ''/run/pod-sandbox/cloud-hypervisor.sock''"
  "filepath_Join [''/run/pod-sandbox'', ''cidata.img''] = ''/run/pod-sandbox/cidata.img''"
  "filepath_Join [''/opt/podvm-runtime'', ''bin'', ''cloud-hypervisor''] = ''/opt/podvm-runtime/bin/cloud-hypervisor''"
  by code_simp+

lemma startCall_sandbox:
  "startCall (sandboxOptions sandbox mtu) mac =
     StartProcess ''/opt/podvm-runtime/bin/cloud-hypervisor'' (sandboxVM sandbox mac)"
proof -
  have "TrimSpace [] = []" by (simp add: TrimSpace_def)
  then show ?thesis
    by (simp add: startCall_def socketOf_def sandboxOptions_def runDefaults_def cloudHypervisorArgs_def runner_paths
        sandboxVM_def Let_def)
qed

lemma capacity_sandbox:
  "PodSandboxSpec_valid (psb_Spec sandbox) \<Longrightarrow> capacity_ok (sandboxOptions sandbox mtu)"
  by (simp add: PodSandboxSpec_valid_def capacity_ok_def sandboxOptions_def runDefaults_def)

definition demo_host :: "unit host" where
  "demo_host = \<lparr>h_MkdirAll = \<lambda>_ _ w. (Inr (), w), h_ReadFile = \<lambda>_ w. (Inr [], w), h_WriteFile = \<lambda>_ _ _ w. (Inr (), w),
     h_Remove = \<lambda>_ w. (Inr (), w), h_Exec = \<lambda>_ _ w. ((None, []), w), h_StartProcess = \<lambda>_ _ w. (Inr (), w),
     h_KillProcess = \<lambda>w. (Inr (), w), h_Listen = \<lambda>_ w. (Inr (), w), h_CloseListener = \<lambda>_ w. (Inr (), w),
     h_Dial = \<lambda>_ _ w. (Inr (), w), h_CloseConn = \<lambda>_ w. (Inr (), w), h_UnixRequest = \<lambda>_ _ _ w. (Inr (200, ''200 OK''), w),
     h_RoundTrip = \<lambda>_ w. (Inr \<lparr>hr_Status = 200, hr_Header = [(''Etag'', [''x'', ''y''])], hr_Body = ''b''\<rparr>, w),
     h_Hijack = \<lambda>w. (Inr (), w), h_WriteConn = \<lambda>_ w. (Inl (errorsNew ''broken pipe''), w),
     h_RandRead = \<lambda>n w. (Inr (replicate n 1), w),
     h_WaitRun = \<lambda>w. (Signalled ''terminated'', w), h_WaitStop = \<lambda>w. (StopTimeout, w)\<rparr>"

lemma demo_host_up: "host_up demo_host"
  by (simp add: host_up_def demo_host_def)

text \<open>C24: The controller and the runner together boot the PodVM that the sandbox asks for. Take a valid
  sandbox, the runner Pod the controller wants for it, and a host on which every call succeeds. The
  runner, started with the arguments of the Pod, prepares the disks and the network in order
  (\<open>bootCalls\<close>) and then starts Cloud Hypervisor with the CPUs and the memory of the sandbox, the
  kernel and the root disk of the image, the seed disk it has just built, and a locally administered
  unicast MAC address.\<close>

theorem runner_boots_sandbox:
  assumes "PodSandboxSpec_valid (psb_Spec sandbox)" and "host_up h"
  shows "wp (main h (''/runner'' # ctr_Args (runnerContainer sandbox cls))) (\<lambda>_ t. \<exists>mac dns userData rest.
     local_unicast mac \<and> nameserver_list dns \<and>
     trace t = trace s @ bootCalls (sandboxOptions sandbox (networkMTUOf cls)) mac dns userData @ rest \<and>
     last (bootCalls (sandboxOptions sandbox (networkMTUOf cls)) mac dns userData) =
       StartProcess ''/opt/podvm-runtime/bin/cloud-hypervisor'' (sandboxVM sandbox mac)) s"
proof -
  let ?opts = "sandboxOptions sandbox (networkMTUOf cls)"
  have main: "main h (''/runner'' # ctr_Args (runnerContainer sandbox cls)) =
      State_Monad.bind (run h ?opts) (\<lambda>r. case r of
        Inl err \<Rightarrow> fatalf (''run PodVM: '' @ Error err) | Inr _ \<Rightarrow> State_Monad.return 0)"
    unfolding runnerContainer_args by (subst runnerArgs_run) (simp add: main_def parse_runnerArgs)
  have last: "last (bootCalls ?opts mac dns ud) =
      StartProcess ''/opt/podvm-runtime/bin/cloud-hypervisor'' (sandboxVM sandbox mac)" for mac dns ud
    by (simp add: bootCalls_def startCall_sandbox)
  have finish: "yields (\<lambda>_ _. True) (case r of
      Inl err \<Rightarrow> fatalf (''run PodVM: '' @ Error err) | Inr _ \<Rightarrow> State_Monad.return (0 :: nat))"
    for r :: "go_error + unit"
    by (cases r) (auto simp: yields_def fatalf_def host_ops)
  have "yields (\<lambda>_ l. \<exists>mac dns ud rest. local_unicast mac \<and> nameserver_list dns \<and>
      l = bootCalls ?opts mac dns ud @ rest) (main h (''/runner'' # ctr_Args (runnerContainer sandbox cls)))"
    unfolding main
    by (rule yields_bind [OF run_boots [OF assms(2) capacity_sandbox [OF assms(1)]]], rule yields_mono [OF finish],
        unfold booted_def, elim conjE exE, simp only: append_assoc, blast)
  then show ?thesis
    by (rule wp_mono [OF yields_wp]) (auto simp: last)
qed

theorem runner_boots_sandbox_witness:
  "PodSandboxSpec_valid (psb_Spec demo_psb) \<and> host_up demo_host \<and>
   wp (main demo_host (''/runner'' # ctr_Args (runnerContainer demo_psb demo_class))) (\<lambda>_ t. \<exists>mac dns userData rest.
     local_unicast mac \<and> nameserver_list dns \<and>
     trace t = [] @ bootCalls (sandboxOptions demo_psb (networkMTUOf demo_class)) mac dns userData @ rest \<and>
     last (bootCalls (sandboxOptions demo_psb (networkMTUOf demo_class)) mac dns userData) =
       StartProcess ''/opt/podvm-runtime/bin/cloud-hypervisor'' (sandboxVM demo_psb mac)) \<lparr>world = (), trace = []\<rparr>"
proof -
  have "PodSandboxSpec_valid (psb_Spec demo_psb)" by (simp add: PodSandboxSpec_valid_def demo_psb_def)
  then show ?thesis
    using runner_boots_sandbox [of demo_psb demo_host demo_class "\<lparr>world = (), trace = []\<rparr>"] demo_host_up by simp
qed



subsection \<open>Readiness\<close>

text \<open>C26: The readiness probe of the runner Pod exits with 0 exactly when Cloud Hypervisor answers
  \<open>vm.info\<close> with 200 on the API socket, and then the guest's agent forwarder accepts a connection that
  closes without an error. The socket is the one the runner of the same Pod gives to Cloud
  Hypervisor, and the address is the one the agent proxy forwards to.\<close>

theorem probe_checks_runner:
  "(case ctr_ReadinessProbe (runnerContainer sandbox cls) of
      None \<Rightarrow> False
    | Some probe \<Rightarrow>
        (fst (run_state (main h (pr_ExecCommand probe)) s) = 0 \<longleftrightarrow>
           (\<exists>status w1 w2 w3.
              h_UnixRequest h (socketOf (sandboxOptions sandbox mtu)) ''GET'' ''/api/v1/vm.info'' (world s)
                = (Inr (200, status), w1) \<and>
              h_Dial h ''192.0.2.2:15150'' 1 w1 = (Inr (), w2) \<and>
              h_CloseConn h ''192.0.2.2:15150'' w2 = (Inr (), w3))))"
proof -
  have probe: "ctr_ReadinessProbe (runnerContainer sandbox cls) = Some \<lparr>
      pr_ExecCommand = [''/runner'', ''ready'', ''--state-dir=/run/pod-sandbox''],
      pr_InitialDelaySeconds = 2, pr_PeriodSeconds = 2, pr_TimeoutSeconds = 1\<rparr>"
    by (simp add: runnerContainer_def desiredRunner_def Let_def)
  have ready: "parseReadyOptions [''--state-dir=/run/pod-sandbox''] = Inr \<lparr>ro_stateDir = ''/run/pod-sandbox''\<rparr>"
    by (simp add: parseReadyOptions_def flag_arg_of_def flag_name_def StringVar_def)
  have sock: "socketOf (sandboxOptions sandbox mtu) = ''/run/pod-sandbox/cloud-hypervisor.sock''"
    by (simp add: socketOf_def sandboxOptions_def runDefaults_def runner_paths)
  have addr: "JoinHostPort guestIP forwarderPort = ''192.0.2.2:15150''" by (simp add: JoinHostPort_def)
  obtain r1 w1 where r1: "h_UnixRequest h ''/run/pod-sandbox/cloud-hypervisor.sock'' ''GET'' ''/api/v1/vm.info'' (world s)
      = (r1, w1)" by fastforce
  obtain r2 w2 where r2: "h_Dial h ''192.0.2.2:15150'' 1 w1 = (r2, w2)" by fastforce
  obtain r3 w3 where r3: "h_CloseConn h ''192.0.2.2:15150'' w2 = (r3, w3)" by fastforce
  note run = probe sock main_def ready runner_paths addr readyCheck_def vmInfo_def agentReady_def apiRequest_def tryE_def
    host_ops r1 r2 r3
  consider (err) e where "r1 = Inl e" | (bad) c st where "r1 = Inr (c, st)" "c \<noteq> 200" | (ok) st where "r1 = Inr (200, st)"
    by (cases r1) auto
  then show ?thesis
  proof cases
    case err
    then show ?thesis by (simp add: run)
  next
    case bad
    then show ?thesis by (simp add: run)
  next
    case ok
    then show ?thesis by (cases r2; cases r3; simp add: run del: One_nat_def)
  qed
qed

subsection \<open>The network\<close>

definition networkErrorPrefix :: "string list \<Rightarrow> string" where
  "networkErrorPrefix c = ''configure PodVM network ('' @ Join c '' '' @ ''): ''"

lemma runCommands_stop:
  "yields (\<lambda>r l. \<exists>n \<le> length cs. l = map execOf (take n cs) \<and>
     (case r of Inr _ \<Rightarrow> n = length cs | Inl e \<Rightarrow> 0 < n \<and> HasPrefix (Error e) (networkErrorPrefix (cs ! (n - 1)))))
   (runCommands h cs)"
proof (induction cs)
  case (Cons c cs)
  have first: "yields (\<lambda>r l. l = [execOf c] \<and>
      (case r of Inr _ \<Rightarrow> True | Inl e \<Rightarrow> HasPrefix (Error e) (networkErrorPrefix c)))
      (wrapE (''configure PodVM network ('' @ Join c '' '' @ ''): '') (runCommand h (hd c) (tl c)))"
    unfolding runCommand_def
    by (rule yields_wrapE, rule yields_bind [OF yields_host(5)])
       (auto intro!: yields_return simp: execOf_def wrapError_def networkErrorPrefix_def HasPrefix_iff
         split: option.splits sum.splits)
  show ?case
    unfolding runCommands.simps
  proof (rule yields_tryE [OF first])
    fix x :: unit and l
    assume l: "l = [execOf c] \<and> (case Inr x of Inr _ \<Rightarrow> True | Inl e \<Rightarrow> HasPrefix (Error e) (networkErrorPrefix c))"
    show "yields (\<lambda>r l'. \<exists>n \<le> length (c # cs). l @ l' = map execOf (take n (c # cs)) \<and>
       (case r of Inr _ \<Rightarrow> n = length (c # cs)
        | Inl e \<Rightarrow> 0 < n \<and> HasPrefix (Error e) (networkErrorPrefix ((c # cs) ! (n - 1))))) (runCommands h cs)"
    proof (rule yields_mono [OF Cons], elim exE conjE)
      fix r l' n
      assume "n \<le> length cs" "l' = map execOf (take n cs)"
        "case r of Inr _ \<Rightarrow> n = length cs | Inl e \<Rightarrow> 0 < n \<and> HasPrefix (Error e) (networkErrorPrefix (cs ! (n - 1)))"
      with l show "\<exists>n \<le> length (c # cs). l @ l' = map execOf (take n (c # cs)) \<and>
         (case r of Inr _ \<Rightarrow> n = length (c # cs)
          | Inl e \<Rightarrow> 0 < n \<and> HasPrefix (Error e) (networkErrorPrefix ((c # cs) ! (n - 1))))"
        by (intro exI [of _ "Suc n"]) (auto split: sum.splits)
    qed
  qed (auto intro!: exI [of _ 1])
qed (auto intro: yields_return)

text \<open>\<open>prepareNetwork\<close> runs its fourteen commands in order and stops at the first that fails. It
  succeeds exactly when all of them ran, and its error names the command that failed.\<close>

theorem prepareNetwork_in_order:
  "wp (prepareNetwork h link bridge tap mtu) (\<lambda>r t. \<exists>n.
     trace t = trace s @ map execOf (take n (networkCommands link bridge tap mtu)) \<and>
     (case r of
        Inr _ \<Rightarrow> n = 14
      | Inl e \<Rightarrow> 0 < n \<and> n \<le> 14 \<and>
          HasPrefix (Error e) (networkErrorPrefix (networkCommands link bridge tap mtu ! (n - 1))))) s"
proof -
  have len: "length (networkCommands link bridge tap mtu) = 14" by (simp add: networkCommands_def)
  show ?thesis
    unfolding prepareNetwork_def
  proof (rule wp_mono [OF yields_wp [OF runCommands_stop]], elim exE conjE)
    fix r t l n
    assume "trace t = trace s @ l" "n \<le> length (networkCommands link bridge tap mtu)"
      "l = map execOf (take n (networkCommands link bridge tap mtu))"
      "case r of Inr _ \<Rightarrow> n = length (networkCommands link bridge tap mtu)
       | Inl e \<Rightarrow> 0 < n \<and> HasPrefix (Error e) (networkErrorPrefix (networkCommands link bridge tap mtu ! (n - 1)))"
    then show "\<exists>n. trace t = trace s @ map execOf (take n (networkCommands link bridge tap mtu)) \<and>
       (case r of Inr _ \<Rightarrow> n = 14 | Inl e \<Rightarrow> 0 < n \<and> n \<le> 14 \<and>
          HasPrefix (Error e) (networkErrorPrefix (networkCommands link bridge tap mtu ! (n - 1))))"
      by (intro exI [of _ n]) (simp add: len split: sum.splits)
  qed
qed

subsection \<open>Identity and name servers\<close>

lemma hex_char_inj: "a < 16 \<Longrightarrow> b < 16 \<Longrightarrow> hex_char a = hex_char b \<Longrightarrow> a = b"
proof -
  assume ab: "a < 16" "b < 16" "hex_char a = hex_char b"
  have v: "(of_char (hex_char d) :: nat) = (if d < 10 then 48 + d else 87 + d)" if "d < 16" for d
    using that by (simp add: hex_char_def)
  have "(of_char (hex_char a) :: nat) = of_char (hex_char b)" using ab(3) by simp
  with ab(1,2) show "a = b" by (auto simp: v split: if_splits)
qed

lemma hex_byte_inj: "hex_byte a = hex_byte b \<Longrightarrow> a = b"
proof -
  assume "hex_byte a = hex_byte b"
  then have hi: "unat (drop_bit 4 a) = unat (drop_bit 4 b)" and lo: "unat (a AND 15) = unat (b AND 15)"
    by (auto simp: hex_byte_def intro: hex_char_inj unat_high_nibble unat_low_nibble)
  have low: "unat (x AND 15) = unat x mod 16" for x :: byte
  proof -
    have "x AND 15 = take_bit 4 x" by (simp add: take_bit_eq_mask mask_eq_exp_minus_1)
    then show ?thesis by (simp add: take_bit_eq_mod unat_mod)
  qed
  have high: "unat (drop_bit 4 x) = unat x div 16" for x :: byte
    by (simp add: drop_bit_eq_div unat_div)
  have "unat a = unat b"
    using hi lo unfolding low high by (metis div_mult_mod_eq)
  then show "a = b" by (simp add: word_unat_eq_iff)
qed

lemma hex_inj: "hex_EncodeToString as = hex_EncodeToString bs \<Longrightarrow> as = bs"
proof (induction as arbitrary: bs)
  case Nil
  then show ?case by (cases bs) (auto simp: hex_EncodeToString_def hex_byte_def)
next
  case (Cons a as)
  then obtain b bs' where bs: "bs = b # bs'"
    by (cases bs) (auto simp: hex_EncodeToString_def hex_byte_def)
  with Cons.prems have "hex_byte a = hex_byte b \<and> hex_EncodeToString as = hex_EncodeToString bs'"
    by (auto simp: hex_EncodeToString_def hex_byte_def)
  with Cons.IH bs show ?case by (auto dest: hex_byte_inj)
qed

lemma hex_no_colon: "CHR '':'' \<notin> set (hex_EncodeToString bs)"
  using hex_lower [of "CHR '':''" bs] by (auto simp: is_lower_hex_def is_digit_def)

lemma RemoveAll_MAC: "RemoveAll (CHR '':'') (MACString bs) = hex_EncodeToString bs"
proof -
  have "filter (\<lambda>c. c \<noteq> CHR '':'') (hex_byte b) = hex_byte b" for b
    using hex_no_colon [of "[b]"] by (auto simp: hex_EncodeToString_def intro: filter_True)
  then have "filter (\<lambda>c. c \<noteq> CHR '':'') (Join (map hex_byte bs) '':'') = hex_EncodeToString bs"
  proof (induction bs)
    case (Cons b bs)
    then show ?case by (cases bs) (auto simp: hex_EncodeToString_def)
  qed (simp add: hex_EncodeToString_def)
  then show ?thesis by (simp add: RemoveAll_def MACString_def)
qed

text \<open>The runner generates locally administered unicast MAC addresses, and the instance ID of
  cloud-init identifies the address: two runners have the same meta-data exactly when they have the
  same six bytes.\<close>

theorem mac_identifies_instance:
  "wp (randomMAC h) (\<lambda>r _. case r of Inl _ \<Rightarrow> True | Inr mac \<Rightarrow>
     \<exists>bs. length bs = 6 \<and> hd bs AND 3 = 2 \<and> mac = MACString bs \<and>
       (\<forall>bs'. metaData (MACString bs') = metaData mac \<longleftrightarrow> bs' = bs)) s"
proof -
  have "metaData (MACString a) = metaData (MACString b) \<longleftrightarrow> a = b" for a b
    by (auto simp: metaData_def RemoveAll_MAC dest: hex_inj)
  then show ?thesis
    by (intro wp_mono [OF yields_wp [OF succeeds_randomMAC [unfolded succeeds_def]]])
       (simp add: local_unicast_def split: sum.splits, blast)
qed

text \<open>The name servers of the host that reach the guest's network configuration are valid IP
  addresses, whatever \<open>/etc/resolv.conf\<close> contains, so the rendered address list is made of hexadecimal
  digits, dots and colons, separated by a comma and a space.\<close>

theorem nameservers_safe:
  "wp (nameservers h) (\<lambda>dns _. list_all ParseIP_ok dns \<and>
     list_all (\<lambda>c. ip_char c \<or> c = CHR '','' \<or> c = CHR '' '') (Join dns '', '')) s"
proof -
  let ?P = "\<lambda>c. ip_char c \<or> c = CHR '','' \<or> c = CHR '' ''"
  have "list_all ?P (Join dns '', '')" if "list_all ParseIP_ok dns" for dns
    using that
    by (induction dns "'', ''" rule: Join.induct)
       (auto simp: list_all_iff dest!: ParseIP_ok_chars)
  then show ?thesis
    by (intro wp_mono [OF yields_wp [OF yields_nameservers]]) (auto simp: nameserver_list_def)
qed

subsection \<open>The proxies\<close>











subsection \<open>The bridge\<close>


definition request_reply :: "bridge_event list" where
  "request_reply =
     [PeerSends ToUpstream ''ping'', PeerCloses ToUpstream, CopyReads ToUpstream 4, CopyWrites ToUpstream,
      CopyEnds ToUpstream, PeerSends ToClient ''pong'', WaitReturns]"


text \<open>C31: A bridge loses data when one peer half-closes. There is a run in which the client sends its
  request and closes its sending side, the request is delivered and the half-close is passed on, the
  upstream then answers, and the bridge closes both connections because one copy has ended: from there
  on nothing of the answer is ever delivered.\<close>

theorem bridge_half_close_loses:
  "\<exists>b. bridge_reaches (bridgeConnections True True) b \<and>
     sent (toUpstream b) = ''ping'' \<and> delivered (toUpstream b) = ''ping'' \<and> halfClosed (toUpstream b) \<and>
     sent (toClient b) = ''pong'' \<and> \<not> eof (toClient b) \<and>
     {c. bridge_reaches b c} \<subseteq> {c. delivered (toClient c) = []}"
proof -
  obtain b where b: "bridge_run request_reply (bridgeConnections True True) = Some b"
      "sent (toUpstream b) = ''ping''" "delivered (toUpstream b) = ''ping''" "halfClosed (toUpstream b)"
      "sent (toClient b) = ''pong''" "\<not> eof (toClient b)" "delivered (toClient b) = []" "closed b"
    by (simp add: request_reply_def bridgeConnections_def new_stream_def copying_def end_copy_def Let_def)
  have "delivered (toClient c) = []" if "bridge_reaches b c" for c
    using closed_reaches [OF that b(8), of ToClient] b(7) by simp
  with b bridge_run_reaches [OF bridge_reaches.refl b(1)] show ?thesis by blast
qed



end
