(* ===== verification/Sandbox_Client.thy ===== *)
theory Sandbox_Client
  imports Go_Json Go_Net
begin

text \<open>
  The HTTP client of the provider plugin (\<open>client.go\<close>), in the order of the file: the messages with
  their JSON tags, the three operations of the interface \<open>sandboxClient\<close>, and \<open>do\<close>, which they share.
  The network is the parameter \<open>'w transport\<close>, the method \<open>Do\<close> of the HTTP client. A URL is the record of
  what \<open>url.Parse\<close> returned, which is an argument of \<open>newHTTPSandboxClient\<close>. The locale \<open>sandboxClient\<close> is
  the contract the provider relies on; it is interpreted on the HTTP client.
\<close>

unbundle bit_operations_syntax

subsection \<open>Package net/url\<close>

datatype escape_mode = EncodePath | EncodePathSegment

text \<open>\<open>shouldEscape\<close> for a path and for a path segment.\<close>

definition is_alnum :: "char \<Rightarrow> bool" where
  "is_alnum c \<longleftrightarrow> is_digit c \<or> in_range 97 122 (cv c) \<or> in_range 65 90 (cv c)"

definition shouldEscape :: "escape_mode \<Rightarrow> char \<Rightarrow> bool" where
  "shouldEscape mode c =
     (if is_alnum c \<or> c \<in> set ''-_.~'' then False
      else if c \<in> set ''$&+,/:;=?@'' then
        (case mode of EncodePath \<Rightarrow> c = CHR ''?''
         | EncodePathSegment \<Rightarrow> c \<in> set ''/;,?'')
      else True)"

definition upper_hex :: "nat \<Rightarrow> char" where
  "upper_hex d = (if d < 10 then digit_char d else char_of (55 + d))"

definition escape :: "escape_mode \<Rightarrow> string \<Rightarrow> string" where
  "escape mode s = concat (map (\<lambda>c. if shouldEscape mode c
     then [CHR ''%'', upper_hex (cv c div 16), upper_hex (cv c mod 16)] else [c]) s)"

definition PathEscape :: "string \<Rightarrow> string" where
  "PathEscape s = escape EncodePathSegment s"

record url =
  url_Scheme :: string
  url_Host :: string
  url_Path :: string

subsection \<open>Messages\<close>

record workloadReference =
  wl_Namespace :: string
  wl_Name :: string
  wl_UID :: string

record createSandboxRequest =
  cr_WorkloadRef :: workloadReference
  cr_SandboxID :: string
  cr_UserData :: string
  cr_VCPUs :: int64
  cr_MemoryMiB :: int64
  cr_Arch :: string

record sandbox =
  sb_ID :: string
  sb_Name :: string
  sb_IPs :: "string list"

record sandboxProviderConfig =
  spc_NetworkMTU :: int64

text \<open>\<open>json.Marshal\<close>; a field tagged \<open>omitempty\<close> is left out when it is empty or zero.\<close>

definition omitempty_string :: "string \<Rightarrow> string \<Rightarrow> (string \<times> json) list" where
  "omitempty_string key v = (if v = [] then [] else [(key, JStr v)])"

definition omitempty_int64 :: "string \<Rightarrow> int64 \<Rightarrow> (string \<times> json) list" where
  "omitempty_int64 key v = (if v = 0 then [] else [(key, JNum (show_int (sint v)))])"

definition workloadReference_json :: "workloadReference \<Rightarrow> json" where
  "workloadReference_json w = JObj (omitempty_string ''namespace'' (wl_Namespace w) @
     [(''name'', JStr (wl_Name w))] @ omitempty_string ''uid'' (wl_UID w))"

definition createSandboxRequest_json :: "createSandboxRequest \<Rightarrow> json" where
  "createSandboxRequest_json r = JObj ([(''workloadRef'', workloadReference_json (cr_WorkloadRef r)),
     (''sandboxID'', JStr (cr_SandboxID r)), (''userData'', JStr (cr_UserData r))] @
     omitempty_int64 ''vcpus'' (cr_VCPUs r) @ omitempty_int64 ''memoryMiB'' (cr_MemoryMiB r) @
     omitempty_string ''arch'' (cr_Arch r))"

text \<open>\<open>Decode\<close> of a list of strings into a slice: an element that is \<open>null\<close> leaves the one of the slice at
  its place.\<close>

fun store_elems :: "json list \<Rightarrow> string list \<Rightarrow> string list \<times> bool" where
  "store_elems [] old = ([], False)"
| "store_elems (v # vs) old =
     (let (x, b) = store_string v (case old of [] \<Rightarrow> [] | o1 # _ \<Rightarrow> o1);
          (xs, bs) = store_elems vs (tl old)
      in (x # xs, b \<or> bs))"

definition store_strings :: "json \<Rightarrow> string list \<Rightarrow> string list \<times> bool" where
  "store_strings v old = (case v of
     JArr vs \<Rightarrow> store_elems vs old | JNull \<Rightarrow> ([], False) | _ \<Rightarrow> (old, True))"

fun store_sandbox :: "string \<times> json \<Rightarrow> sandbox \<times> bool \<Rightarrow> sandbox \<times> bool" where
  "store_sandbox (key, v) (r, bad) =
     (case match_field [''id'', ''name'', ''ips''] key of
        None \<Rightarrow> (r, bad)
      | Some f \<Rightarrow>
          if f = ''id'' then (let (x, b) = store_string v (sb_ID r) in (r\<lparr>sb_ID := x\<rparr>, bad \<or> b))
          else if f = ''name'' then (let (x, b) = store_string v (sb_Name r) in (r\<lparr>sb_Name := x\<rparr>, bad \<or> b))
          else (let (x, b) = store_strings v (sb_IPs r) in (r\<lparr>sb_IPs := x\<rparr>, bad \<or> b)))"

fun store_sandboxProviderConfig ::
    "string \<times> json \<Rightarrow> sandboxProviderConfig \<times> bool \<Rightarrow> sandboxProviderConfig \<times> bool" where
  "store_sandboxProviderConfig (key, v) (r, bad) =
     (case match_field [''networkMTU''] key of
        None \<Rightarrow> (r, bad)
      | Some f \<Rightarrow> (let (x, b) = store_int64 v (spc_NetworkMTU r) in (r\<lparr>spc_NetworkMTU := x\<rparr>, bad \<or> b)))"

definition decode_object ::
    "(string \<times> json \<Rightarrow> 'a \<times> bool \<Rightarrow> 'a \<times> bool) \<Rightarrow> 'a \<Rightarrow> string \<Rightarrow> go_error + 'a" where
  "decode_object store zero body = (case json_scan body of
     Inl e \<Rightarrow> Inl e
   | Inr v \<Rightarrow>
       (let (r, bad) = (case v of
          JObj kvs \<Rightarrow> fold store kvs (zero, False) | JNull \<Rightarrow> (zero, False) | _ \<Rightarrow> (zero, True))
        in if bad then Inl (errorsNew ''json: cannot unmarshal value into Go struct field'') else Inr r))"

definition zero_sandbox :: sandbox where
  "zero_sandbox = \<lparr>sb_ID = [], sb_Name = [], sb_IPs = []\<rparr>"

definition zero_sandboxProviderConfig :: sandboxProviderConfig where
  "zero_sandboxProviderConfig = \<lparr>spc_NetworkMTU = 0\<rparr>"

subsection \<open>Requests\<close>

record client_request =
  clr_Method :: string
  clr_Scheme :: string
  clr_Host :: string
  clr_EscapedPath :: string
  clr_ContentType :: string
  clr_Authorization :: string
  clr_Body :: string

record client_response =
  clp_StatusCode :: nat
  clp_Status :: string
  clp_Body :: string

text \<open>\<open>NewRequestWithContext\<close> parses the URL it is given again and can refuse it, and \<open>Do\<close> can fail; both
  are replies of the parameter.\<close>

datatype transport_error = BadRequest go_error | CallFailed go_error

type_synonym 'w transport = "client_request \<Rightarrow> 'w \<Rightarrow> (transport_error + client_response) \<times> 'w"

type_synonym ('w, 'a) cprog = "('w, client_request, 'a) prog"

record httpSandboxClient =
  hsc_baseURL :: url
  hsc_token :: string

definition newHTTPSandboxClient ::
    "(string \<Rightarrow> go_error + url) \<Rightarrow> string \<Rightarrow> string \<Rightarrow> go_error + httpSandboxClient" where
  "newHTTPSandboxClient url_Parse endpoint token = (case url_Parse endpoint of
     Inl err \<Rightarrow> Inl (wrapError ''parse Pod Sandbox endpoint: '' err)
   | Inr baseURL \<Rightarrow>
       if url_Scheme baseURL \<noteq> ''http'' \<and> url_Scheme baseURL \<noteq> ''https''
       then Inl (errorsNew ''pod sandbox endpoint must use http or https'')
       else if url_Host baseURL = [] then Inl (errorsNew ''pod sandbox endpoint must include a host'')
       else Inr \<lparr>hsc_baseURL = baseURL, hsc_token = token\<rparr>)"

definition newRequest :: "httpSandboxClient \<Rightarrow> string \<Rightarrow> string \<Rightarrow> string option \<Rightarrow> client_request" where
  "newRequest c method path body =
     \<lparr>clr_Method = method,
      clr_Scheme = url_Scheme (hsc_baseURL c),
      clr_Host = url_Host (hsc_baseURL c),
      clr_EscapedPath = escape EncodePath (TrimSuffix (url_Path (hsc_baseURL c)) ''/'' @ ''/'' @ path),
      clr_ContentType = (case body of None \<Rightarrow> [] | Some _ \<Rightarrow> ''application/json''),
      clr_Authorization = (if hsc_token c \<noteq> [] then ''Bearer '' @ hsc_token c else []),
      clr_Body = (case body of None \<Rightarrow> [] | Some b \<Rightarrow> b)\<rparr>"

text \<open>\<open>do\<close>; \<open>decode\<close> is the decoding into the result variable, \<open>None\<close> when there is none. The result is
  the value of the variable, which is \<open>zero\<close> before.\<close>

definition doRequest :: "'w transport \<Rightarrow> httpSandboxClient \<Rightarrow> string \<Rightarrow> string \<Rightarrow> string option \<Rightarrow>
    (string \<Rightarrow> go_error + 'a) option \<Rightarrow> 'a \<Rightarrow> ('w, go_error + 'a) cprog" where
  "doRequest tr c method path body decode zero =
     (let req = newRequest c method path body in
      State_Monad.bind (perform req (tr req)) (\<lambda>r. State_Monad.return (case r of
        Inl (BadRequest err) \<Rightarrow> Inl (wrapError ''create Pod Sandbox request: '' err)
      | Inl (CallFailed err) \<Rightarrow> Inl (wrapError ''call Pod Sandbox API: '' err)
      | Inr resp \<Rightarrow>
          if clp_StatusCode resp < 200 \<or> 300 \<le> clp_StatusCode resp
          then Inl (errorsNew (''pod sandbox API returned '' @ clp_Status resp @ '': '' @
                 TrimSpace (take 4096 (clp_Body resp))))
          else case decode of
            None \<Rightarrow> Inr zero
          | Some dec \<Rightarrow>
              if clp_StatusCode resp = 204 then Inr zero
              else case dec (clp_Body resp) of
                Inl err \<Rightarrow> Inl (wrapError ''decode Pod Sandbox response: '' err)
              | Inr v \<Rightarrow> Inr v)))"

definition client_Config :: "'w transport \<Rightarrow> httpSandboxClient \<Rightarrow> ('w, go_error + sandboxProviderConfig) cprog" where
  "client_Config tr c = doRequest tr c ''GET'' ''v1/config'' None
     (Some (decode_object store_sandboxProviderConfig zero_sandboxProviderConfig)) zero_sandboxProviderConfig"

definition client_Create ::
    "'w transport \<Rightarrow> httpSandboxClient \<Rightarrow> createSandboxRequest \<Rightarrow> ('w, go_error + sandbox) cprog" where
  "client_Create tr c request = doRequest tr c ''POST'' ''v1/sandboxes''
     (Some (json_encode (createSandboxRequest_json request)))
     (Some (decode_object store_sandbox zero_sandbox)) zero_sandbox"

definition client_Delete :: "'w transport \<Rightarrow> httpSandboxClient \<Rightarrow> string \<Rightarrow> ('w, go_error + unit) cprog" where
  "client_Delete tr c id0 = doRequest tr c ''DELETE'' (''v1/sandboxes/'' @ PathEscape id0) None None ()"

subsection \<open>The contract of a client\<close>

text \<open>What the provider relies on: every operation makes one call, and the calls are those the client
  may make.\<close>

locale sandboxClient =
  fixes cl_Config :: "('w, 'c, go_error + sandboxProviderConfig) prog"
    and cl_Create :: "createSandboxRequest \<Rightarrow> ('w, 'c, go_error + sandbox) prog"
    and cl_Delete :: "string \<Rightarrow> ('w, 'c, go_error + unit) prog"
    and config_call :: "'c \<Rightarrow> bool"
    and create_call :: "createSandboxRequest \<Rightarrow> 'c \<Rightarrow> bool"
    and delete_call :: "string \<Rightarrow> 'c \<Rightarrow> bool"
  assumes config_one: "yields (\<lambda>_ l. \<exists>x. l = [x] \<and> config_call x) cl_Config"
    and create_one: "yields (\<lambda>_ l. \<exists>x. l = [x] \<and> create_call rq x) (cl_Create rq)"
    and delete_one: "yields (\<lambda>_ l. \<exists>x. l = [x] \<and> delete_call i x) (cl_Delete i)"

lemma yields_doRequest:
  "yields (\<lambda>_ l. l = [newRequest c method path body]) (doRequest tr c method path body decode zero)"
  unfolding doRequest_def Let_def
  by (rule yields_bind [of "\<lambda>_ l. l = [newRequest c method path body]"])
     (auto intro: yields_perform yields_return)

interpretation http: sandboxClient "client_Config tr c" "client_Create tr c" "client_Delete tr c"
    "\<lambda>x. x = newRequest c ''GET'' ''v1/config'' None"
    "\<lambda>rq x. x = newRequest c ''POST'' ''v1/sandboxes'' (Some (json_encode (createSandboxRequest_json rq)))"
    "\<lambda>i x. x = newRequest c ''DELETE'' (''v1/sandboxes/'' @ PathEscape i) None"
    for tr :: "'w transport" and c
  by unfold_locales
     (auto simp: client_Config_def client_Create_def client_Delete_def intro: yields_mono [OF yields_doRequest])

end
