(* ===== verification/Go_Float.thy ===== *)
theory Go_Float
  imports Go_Json Complex_Main
begin

text \<open>
  The \<open>float64\<close> values that \<open>encoding/json\<close> decodes numbers to, as far as the provider needs them: the
  rounding of a decimal literal to the nearest binary64 value, the conversion to \<open>int\<close>, and the
  shortest decimal that reads back as the same value, which the encoder prints. A finite value is its
  sign and its magnitude. An untyped JSON value (\<open>any\<close>) holds such numbers, and \<open>int\<close>s put there by the
  program.
\<close>

datatype float64 = F64 (negative: bool) (magnitude: rat)

subsection \<open>Rounding\<close>

definition pow2 :: "int \<Rightarrow> rat" where
  "pow2 e = (if 0 \<le> e then 2 ^ nat e else 1 / 2 ^ nat (- e))"

definition pow10 :: "int \<Rightarrow> rat" where
  "pow10 e = (if 0 \<le> e then 10 ^ nat e else 1 / 10 ^ nat (- e))"

function log2_floor :: "int \<Rightarrow> int" where
  "log2_floor n = (if n \<le> 1 then 0 else 1 + log2_floor (n div 2))"
  by pat_completeness auto
termination by (relation "measure nat") auto

declare log2_floor.simps [simp del]

definition binary_exponent :: "rat \<Rightarrow> int" where
  "binary_exponent x = (case quotient_of x of (n, d) \<Rightarrow>
     let e = log2_floor n - log2_floor d
     in if pow2 e \<le> x then e else e - 1)"

definition round_half_even :: "rat \<Rightarrow> int" where
  "round_half_even x =
     (let f = \<lfloor>x\<rfloor>; r = x - of_int f
      in if r < 1 / 2 then f else if 1 / 2 < r then f + 1 else if even f then f else f + 1)"

text \<open>The nearest binary64 magnitude, \<open>None\<close> when the value overflows.\<close>

definition round64 :: "rat \<Rightarrow> rat option" where
  "round64 x =
     (if x = 0 then Some 0
      else
        let ulp = max (binary_exponent x - 52) (- 1074);
            y = of_int (round_half_even (x / pow2 ulp)) * pow2 ulp
        in if pow2 1024 \<le> y then None else Some y)"

subsection \<open>Literals\<close>

definition digits_value :: "string \<Rightarrow> int" where
  "digits_value ds = foldl (\<lambda>n c. n * 10 + int (cv c - 48)) 0 ds"

definition signed_value :: "string \<Rightarrow> int" where
  "signed_value s = (case s of
     [] \<Rightarrow> 0
   | c # r \<Rightarrow> if c = CHR ''-'' then - digits_value r else if c = CHR ''+'' then digits_value r else digits_value s)"

text \<open>\<open>strconv.ParseFloat\<close> on a number literal of JSON: sign, integer part, fraction, exponent.\<close>

definition literal_parts :: "string \<Rightarrow> bool \<times> string \<times> string \<times> string" where
  "literal_parts lit =
     (let neg = (lit \<noteq> [] \<and> hd lit = CHR ''-'');
          s = (if neg then tl lit else lit);
          ip = takeWhile is_digit s;
          s1 = dropWhile is_digit s;
          fp = (if s1 \<noteq> [] \<and> hd s1 = CHR ''.'' then takeWhile is_digit (tl s1) else []);
          s2 = (if s1 \<noteq> [] \<and> hd s1 = CHR ''.'' then dropWhile is_digit (tl s1) else s1)
      in (neg, ip, fp, if s2 = [] then [] else tl s2))"

definition ParseFloat :: "string \<Rightarrow> float64 option" where
  "ParseFloat lit = (case literal_parts lit of (neg, ip, fp, ep) \<Rightarrow>
     map_option (F64 neg)
       (round64 (of_int (digits_value (ip @ fp)) * pow10 (signed_value ep - int (length fp)))))"

text \<open>The conversion \<open>int(f)\<close> drops the fraction. Outside the range of \<open>int\<close> its value is left to the
  implementation; on the platforms of the plugin it is the least \<open>int\<close>.\<close>

definition float_int :: "float64 \<Rightarrow> int64" where
  "float_int f =
     (let t = \<lfloor>magnitude f\<rfloor>; i = (if negative f then - t else t)
      in if - (2 ^ 63) \<le> i \<and> i < 2 ^ 63 then word_of_int i else word_of_int (- (2 ^ 63)))"

subsection \<open>Output\<close>

fun decimal_exponent_from :: "nat \<Rightarrow> int \<Rightarrow> rat \<Rightarrow> int" where
  "decimal_exponent_from 0 k x = k"
| "decimal_exponent_from (Suc n) k x =
     (if x < pow10 k then decimal_exponent_from n (k - 1) x
      else if pow10 (k + 1) \<le> x then decimal_exponent_from n (k + 1) x else k)"

text \<open>A positive binary64 value is between \<open>10\<^sup>-\<^sup>3\<^sup>2\<^sup>4\<close> and \<open>10\<^sup>3\<^sup>0\<^sup>9\<close>, so 400 steps are enough.\<close>

definition decimal_exponent :: "rat \<Rightarrow> int" where
  "decimal_exponent x = decimal_exponent_from 400 0 x"

text \<open>The shortest digits that read back as the value, with the exponent of the first digit.\<close>

fun shortest_from :: "nat \<Rightarrow> nat \<Rightarrow> rat \<Rightarrow> int \<times> int" where
  "shortest_from 0 n x = (round_half_even (x / pow10 (decimal_exponent x - int n + 1)), decimal_exponent x - int n + 1)"
| "shortest_from (Suc fuel) n x =
     (let q = decimal_exponent x - int n + 1;
          m = round_half_even (x / pow10 q)
      in if round64 (of_int m * pow10 q) = Some x then (m, q) else shortest_from fuel (n + 1) x)"

definition shortest_digits :: "rat \<Rightarrow> string \<times> int" where
  "shortest_digits x =
     (let (m, q) = shortest_from 16 1 x;
          ds = show_nat (nat m);
          k = int (length ds) - 1 + q;
          ts = rev (dropWhile (\<lambda>c. c = CHR ''0'') (rev ds))
      in (ts, k))"

text \<open>The encoder of \<open>encoding/json\<close>: plain notation for exponents from -6 to 20, otherwise the scientific
  one. The bounds are the binary64 values of \<open>1e-6\<close> and \<open>1e21\<close>; the second is exact.\<close>

definition encode_magnitude :: "rat \<Rightarrow> string" where
  "encode_magnitude x =
     (if x = 0 then ''0''
      else case shortest_digits x of (ds, k) \<Rightarrow>
        if x < the (round64 (1 / 1000000)) \<or> 10 ^ 21 \<le> x then
          take 1 ds @ (if length ds = 1 then [] else ''.'' @ drop 1 ds) @
          ''e'' @ (if k < 0 then ''-'' @ show_nat (nat (- k)) else ''+'' @ show_nat (nat k))
        else if k < 0 then ''0.'' @ replicate (nat (- k) - 1) (CHR ''0'') @ ds
        else if int (length ds) \<le> k + 1 then ds @ replicate (nat k + 1 - length ds) (CHR ''0'')
        else take (nat k + 1) ds @ ''.'' @ drop (nat k + 1) ds)"

definition encode_float :: "float64 \<Rightarrow> string" where
  "encode_float f = (if negative f then ''-'' else []) @ encode_magnitude (magnitude f)"

subsection \<open>Untyped values\<close>

datatype any =
    ANull
  | ABool bool
  | AFloat float64
  | AInt int64
  | AStr string
  | AArr "any list"
  | AObj "(string \<times> any) list"

text \<open>Decoding into a variable of type \<open>any\<close>; a number that overflows is an error. A repeated key keeps
  its last value.\<close>

fun put_key :: "string \<Rightarrow> 'v \<Rightarrow> (string \<times> 'v) list \<Rightarrow> (string \<times> 'v) list" where
  "put_key k v [] = [(k, v)]"
| "put_key k v ((k', v') # r) = (if k' = k then (k, v) # r else (k', v') # put_key k v r)"

fun to_any :: "json \<Rightarrow> any option" and to_anys :: "json list \<Rightarrow> any list option"
  and to_members :: "(string \<times> json) list \<Rightarrow> (string \<times> any) list \<Rightarrow> (string \<times> any) list option" where
  "to_any JNull = Some ANull"
| "to_any (JBool b) = Some (ABool b)"
| "to_any (JNum lit) = map_option AFloat (ParseFloat lit)"
| "to_any (JStr s) = Some (AStr s)"
| "to_any (JArr vs) = map_option AArr (to_anys vs)"
| "to_any (JObj kvs) = map_option AObj (to_members kvs [])"
| "to_anys [] = Some []"
| "to_anys (v # vs) = (case to_any v of None \<Rightarrow> None | Some x \<Rightarrow> map_option ((#) x) (to_anys vs))"
| "to_members [] acc = Some acc"
| "to_members ((k, v) # kvs) acc =
     (case to_any v of None \<Rightarrow> None | Some x \<Rightarrow> to_members kvs (put_key k x acc))"

text \<open>\<open>json.Unmarshal\<close> reads the whole input: after the value only white space may follow.\<close>

definition strict_step :: "scan_state \<Rightarrow> char \<Rightarrow> scan_state" where
  "strict_step st c = (case scan_step st c of
     (MDone v, st') \<Rightarrow>
       (case fst st of
          MDone _ \<Rightarrow> if is_json_space c then (MDone v, st') else (MFail, [])
        | MNum _ _ \<Rightarrow> if is_json_space c then (MDone v, st') else (MFail, [])
        | _ \<Rightarrow> (MDone v, st'))
   | r \<Rightarrow> r)"

definition json_document :: "string \<Rightarrow> go_error + json" where
  "json_document s = (case foldl strict_step (MBegin, []) s of
     (MDone v, _) \<Rightarrow> Inr v
   | (MNum ns lit, []) \<Rightarrow> if num_final ns then Inr (JNum lit) else Inl (errorsNew ''unexpected end of JSON input'')
   | (MFail, _) \<Rightarrow> Inl (errorsNew ''invalid character'')
   | _ \<Rightarrow> Inl (errorsNew ''unexpected end of JSON input''))"

text \<open>\<open>json.MarshalIndent(v, "", "    ")\<close>: the members of a map in the order of their keys.\<close>

definition string_less :: "string \<Rightarrow> string \<Rightarrow> bool" where
  "string_less a b \<longleftrightarrow> ord.lexordp (\<lambda>c d. cv c < cv d) a b"

fun insert_key :: "string \<times> 'v \<Rightarrow> (string \<times> 'v) list \<Rightarrow> (string \<times> 'v) list" where
  "insert_key p [] = [p]"
| "insert_key p (q # qs) = (if string_less (fst q) (fst p) then q # insert_key p qs else p # q # qs)"

definition sort_keys :: "(string \<times> 'v) list \<Rightarrow> (string \<times> 'v) list" where
  "sort_keys kvs = foldr insert_key kvs []"

definition indent_by :: "nat \<Rightarrow> string" where
  "indent_by n = CHR 0x0A # replicate (4 * n) (CHR '' '')"

fun marshal_indent :: "nat \<Rightarrow> any \<Rightarrow> string" where
  "marshal_indent n ANull = ''null''"
| "marshal_indent n (ABool b) = (if b then ''true'' else ''false'')"
| "marshal_indent n (AFloat f) = encode_float f"
| "marshal_indent n (AInt i) = show_int (sint i)"
| "marshal_indent n (AStr s) = encode_string s"
| "marshal_indent n (AArr vs) =
     (if vs = [] then ''[]''
      else ''['' @ Join (map (\<lambda>v. indent_by (n + 1) @ marshal_indent (n + 1) v) vs) '','' @ indent_by n @ '']'')"
| "marshal_indent n (AObj kvs) =
     (if kvs = [] then ''{}''
      else ''{'' @ Join (map snd (sort_keys (map (\<lambda>(k, v).
             (k, indent_by (n + 1) @ encode_string k @ '': '' @ marshal_indent (n + 1) v)) kvs))) '','' @
           indent_by n @ ''}'')"

end
