(* ===== verification/Go_Time.thy ===== *)
theory Go_Time
  imports Go_Float
begin

text \<open>
  \<open>time.ParseDuration\<close>. A duration is a number of nanoseconds. The accumulators of type \<open>uint64\<close> are natural
  numbers with the checks of the source; only the sum of the terms can wrap around, which is written out.
  The fraction of a term is computed in \<open>float64\<close>, with each operation rounded.
\<close>

subsection \<open>Definitions\<close>

text \<open>\<open>quote\<close> of package \<open>time\<close>.\<close>

definition quote_char :: "char \<Rightarrow> string" where
  "quote_char c =
     (if 128 \<le> cv c \<or> cv c < 32 then [CHR 0x5C, CHR ''x'', hex_char (cv c div 16), hex_char (cv c mod 16)]
      else if c = CHR 0x22 \<or> c = CHR 0x5C then [CHR 0x5C, c] else [c])"

definition time_quote :: "string \<Rightarrow> string" where
  "time_quote s = [CHR 0x22] @ concat (map quote_char s) @ [CHR 0x22]"

definition invalidDuration :: "string \<Rightarrow> go_error" where
  "invalidDuration orig = errorsNew (''time: invalid duration '' @ time_quote orig)"

text \<open>\<open>leadingInt\<close>: the value of the leading digits and the rest, \<open>None\<close> on overflow.\<close>

fun leadingInt :: "nat \<Rightarrow> string \<Rightarrow> (nat \<times> string) option" where
  "leadingInt x [] = Some (x, [])"
| "leadingInt x (c # s) =
     (if \<not> is_digit c then Some (x, c # s)
      else if x > 2 ^ 63 div 10 then None
      else let y = x * 10 + (cv c - 48) in if y > 2 ^ 63 then None else leadingInt y s)"

text \<open>\<open>leadingFraction\<close>: value and scale; digits that do not fit are skipped.\<close>

fun leadingFraction :: "bool \<Rightarrow> nat \<Rightarrow> nat \<Rightarrow> string \<Rightarrow> nat \<times> nat \<times> string" where
  "leadingFraction overflow x scale [] = (x, scale, [])"
| "leadingFraction overflow x scale (c # s) =
     (if \<not> is_digit c then (x, scale, c # s)
      else if overflow then leadingFraction overflow x scale s
      else if x > (2 ^ 63 - 1) div 10 then leadingFraction True x scale s
      else let y = x * 10 + (cv c - 48) in
        if y > 2 ^ 63 then leadingFraction True x scale s else leadingFraction False y (scale * 10) s)"

definition unitMap :: "string \<Rightarrow> nat option" where
  "unitMap = map_of
     [(''ns'', 1),
      (''us'', 1000),
      ([CHR 0xC2, CHR 0xB5] @ ''s'', 1000),
      ([CHR 0xCE, CHR 0xBC] @ ''s'', 1000),
      (''ms'', 1000000),
      (''s'', 1000000000),
      (''m'', 60000000000),
      (''h'', 3600000000000)]"

text \<open>\<open>uint64(float64(f) * (float64(unit) / scale))\<close>; the scale is a power of ten that \<open>float64\<close> holds.\<close>

definition fraction_ns :: "nat \<Rightarrow> nat \<Rightarrow> nat \<Rightarrow> nat" where
  "fraction_ns f unit scale =
     (let rd = (\<lambda>x. case round64 x of Some y \<Rightarrow> y | None \<Rightarrow> 0)
      in nat \<lfloor>rd (rd (of_nat f) * rd (of_nat unit / of_nat scale))\<rfloor>)"

definition unit_end :: "char \<Rightarrow> bool" where
  "unit_end c \<longleftrightarrow> c = CHR ''.'' \<or> is_digit c"

text \<open>One term: its value in nanoseconds and the rest.\<close>

definition durationTerm :: "string \<Rightarrow> string \<Rightarrow> go_error + nat \<times> string" where
  "durationTerm orig s =
     (if s = [] \<or> \<not> unit_end (hd s) then Inl (invalidDuration orig)
      else case leadingInt 0 s of
        None \<Rightarrow> Inl (invalidDuration orig)
      | Some (v, s1) \<Rightarrow>
          let pre = (length s1 \<noteq> length s);
              (f, scale, s2, post) =
                (if s1 \<noteq> [] \<and> hd s1 = CHR ''.''
                 then case leadingFraction False 0 1 (tl s1) of (f, scale, r) \<Rightarrow> (f, scale, r, length r \<noteq> length (tl s1))
                 else (0, 1, s1, False))
          in if \<not> pre \<and> \<not> post then Inl (invalidDuration orig)
             else let u = takeWhile (\<lambda>c. \<not> unit_end c) s2; r = dropWhile (\<lambda>c. \<not> unit_end c) s2 in
               if u = [] then Inl (errorsNew (''time: missing unit in duration '' @ time_quote orig))
               else case unitMap u of
                 None \<Rightarrow> Inl (errorsNew (''time: unknown unit '' @ time_quote u @ '' in duration '' @ time_quote orig))
               | Some unit \<Rightarrow>
                   if v > 2 ^ 63 div unit then Inl (invalidDuration orig)
                   else if f > 0 then
                     (let w = v * unit + fraction_ns f unit scale
                      in if w > 2 ^ 63 then Inl (invalidDuration orig) else Inr (w, r))
                   else Inr (v * unit, r))"

text \<open>A term is never empty, so the loop ends.\<close>

lemma leadingInt_length: "leadingInt x s = Some (v, r) \<Longrightarrow> length r \<le> length s"
  by (induction x s rule: leadingInt.induct) (auto simp: Let_def le_SucI split: if_splits)

lemma leadingFraction_length: "leadingFraction b x sc s = (f, sc', r) \<Longrightarrow> length r \<le> length s"
  by (induction b x sc s rule: leadingFraction.induct) (auto simp: Let_def le_SucI split: if_splits)

lemma durationTerm_shorter:
  assumes "durationTerm orig s = Inr (w, r)"
  shows "length r < length s"
proof -
  obtain v s1 where i: "leadingInt 0 s = Some (v, s1)"
    using assms by (auto simp: durationTerm_def split: if_splits option.splits)
  obtain f scale r1 where fr: "leadingFraction False 0 1 (tl s1) = (f, scale, r1)"
    by (cases "leadingFraction False 0 1 (tl s1)")
  define s2 where "s2 = (if s1 \<noteq> [] \<and> hd s1 = CHR ''.'' then r1 else s1)"
  have r: "r = dropWhile (\<lambda>c. \<not> unit_end c) s2" and u: "takeWhile (\<lambda>c. \<not> unit_end c) s2 \<noteq> []"
    using assms i fr by (auto simp: durationTerm_def Let_def s2_def split: if_splits option.splits)
  have "length s2 \<le> length s1" using leadingFraction_length [OF fr] by (simp add: s2_def) linarith
  moreover have "length s1 \<le> length s" by (rule leadingInt_length [OF i])
  moreover have "length s2 = length (takeWhile (\<lambda>c. \<not> unit_end c) s2) + length r"
    unfolding r length_append [symmetric] by simp
  ultimately show ?thesis using u by (simp add: length_greater_0_conv [symmetric] del: length_greater_0_conv)
qed

function durationTerms :: "string \<Rightarrow> nat \<Rightarrow> string \<Rightarrow> go_error + nat" where
  "durationTerms orig d s =
     (if s = [] then Inr d
      else case durationTerm orig s of
        Inl err \<Rightarrow> Inl err
      | Inr (v, r) \<Rightarrow>
          let d' = (d + v) mod 2 ^ 64 in if d' > 2 ^ 63 then Inl (invalidDuration orig) else durationTerms orig d' r)"
  by pat_completeness auto
termination
  by (relation "measure (\<lambda>(_, _, s). length s)") (auto dest: durationTerm_shorter)

declare durationTerms.simps [simp del]

definition ParseDuration :: "string \<Rightarrow> go_error + int" where
  "ParseDuration orig =
     (let signed = (orig \<noteq> [] \<and> (hd orig = CHR ''-'' \<or> hd orig = CHR ''+''));
          neg = (signed \<and> hd orig = CHR ''-'');
          s = (if signed then tl orig else orig)
      in if s = ''0'' then Inr 0
         else if s = [] then Inl (invalidDuration orig)
         else case durationTerms orig 0 s of
           Inl err \<Rightarrow> Inl err
         | Inr d \<Rightarrow>
             if neg then Inr (- int d)
             else if d > 2 ^ 63 - 1 then Inl (invalidDuration orig) else Inr (int d))"

subsection \<open>Properties\<close>

text \<open>A duration is in the range of \<open>int64\<close>.\<close>

lemma ParseDuration_range: "ParseDuration s = Inr d \<Longrightarrow> - (2 ^ 63) \<le> d \<and> d < 2 ^ 63"
proof -
  have "durationTerms orig x r = Inr y \<Longrightarrow> x \<le> 2 ^ 63 \<Longrightarrow> y \<le> 2 ^ 63" for orig x r y
  proof (induction orig x r rule: durationTerms.induct)
    case (1 orig d s)
    show ?case
    proof (cases "s = []")
      case True
      with 1(2,3) show ?thesis by (simp add: durationTerms.simps [of orig d "[]"])
    next
      case False
      with 1(2) obtain v r where "durationTerm orig s = Inr (v, r)"
        by (auto simp: durationTerms.simps [of orig d s] split: sum.splits)
      with 1(1) [OF False this refl refl] 1(2) False show ?thesis
        by (auto simp: durationTerms.simps [of orig d s] Let_def split: if_splits)
    qed
  qed
  then show "ParseDuration s = Inr d \<Longrightarrow> - (2 ^ 63) \<le> d \<and> d < 2 ^ 63"
    by (auto simp: ParseDuration_def Let_def split: if_splits sum.splits)
qed

text \<open>A whole number of units is read back.\<close>

lemma leadingInt_show_nat: "n \<le> 2 ^ 63 \<Longrightarrow> leadingInt 0 (show_nat n @ r) = leadingInt n r"
proof (induction n arbitrary: r rule: show_nat.induct)
  case (1 n)
  have d: "cv (digit_char (n mod 10)) - 48 = n mod 10" by simp
  show ?case
  proof (cases "n < 10")
    case True
    then show ?thesis by (subst show_nat.simps) (simp add: Let_def)
  next
    case False
    have "n div 10 \<le> 2 ^ 63 div 10" using 1(2) by (rule div_le_mono)
    moreover have "n div 10 * 10 + n mod 10 = n" by simp
    ultimately show ?thesis using 1 False by (subst show_nat.simps) (simp add: Let_def)
  qed
qed

lemma unitMap_chars: "unitMap u = Some k \<Longrightarrow> u \<noteq> [] \<and> list_all (\<lambda>c. \<not> unit_end c) u \<and> 0 < k"
  by (auto simp: unitMap_def unit_end_def is_digit_def split: if_splits)

lemma ParseDuration_units:
  assumes "unitMap u = Some k" and "n * k < 2 ^ 63"
  shows "ParseDuration (show_nat n @ u) = Inr (int (n * k))"
proof -
  let ?s = "show_nat n @ u"
  note u = unitMap_chars [OF assms(1)]
  have n: "n \<le> 2 ^ 63 div k" "n < 2 ^ 63"
    using assms(2) u by (simp_all add: less_eq_div_iff_mult_less_eq order_le_less_trans [of n "n * k"])
  have h: "is_digit (hd ?s)" "?s \<noteq> []" using hd_show_nat_digit [of n] by (simp_all add: hd_append)
  have "\<not> unit_end (hd u)" using u by (cases u) auto
  then have hu: "\<not> is_digit (hd u)" "hd u \<noteq> CHR ''.''" by (simp_all add: unit_end_def)
  have i: "leadingInt 0 ?s = Some (n, u)"
    using leadingInt_show_nat [of n u] n(2) u hu by (cases u) simp_all
  have t: "takeWhile (\<lambda>c. \<not> unit_end c) u = u" "dropWhile (\<lambda>c. \<not> unit_end c) u = []"
    using u by (simp_all add: list_all_iff takeWhile_eq_all_conv dropWhile_eq_Nil_conv)
  have "unit_end (hd ?s)" using h(1) by (simp add: unit_end_def)
  then have "durationTerm ?s ?s = Inr (n * k, [])"
    using h(2) hu(2) u n(1) by (simp add: durationTerm_def i t assms(1) Let_def not_less)
  then have "durationTerms ?s 0 ?s = Inr (n * k)"
    using h(2) assms(2) by (simp add: durationTerms.simps)
  moreover have "hd ?s \<noteq> CHR ''-''" "hd ?s \<noteq> CHR ''+''" using h(1) by (auto simp: is_digit_def)
  moreover have "?s \<noteq> ''0''" using u by (cases "show_nat n") (auto simp: append_eq_Cons_conv)
  ultimately show ?thesis using h(2) assms(2) by (simp add: ParseDuration_def Let_def)
qed

end
