(* ===== verification/Kube_Provider.thy ===== *)
theory Kube_Provider
  imports Sandbox_Client Go_Time
begin

text \<open>
  The provider that the plugin registers with the Cloud API Adaptor (\<open>provider.go\<close>, \<open>manager.go\<close>,
  \<open>config.go\<close>), in the order of the files. The adaptor's cloud-init package is not part of the
  repository: a generator is either a cloud configuration, of which the provider reads and changes the
  list of files, or another generator; what \<open>Generate\<close> returns for it is an argument. The client is the
  record of the three operations of the interface \<open>sandboxClient\<close>; the provider's lemmas are proved in
  the context of that locale.
\<close>

subsection \<open>Configuration\<close>

record config =
  pcfg_Endpoint :: string
  pcfg_Token :: string
  pcfg_Timeout :: string

record ('w, 'c) client_ops =
  co_Config :: "('w, 'c, go_error + sandboxProviderConfig) prog"
  co_Create :: "createSandboxRequest \<Rightarrow> ('w, 'c, go_error + sandbox) prog"
  co_Delete :: "string \<Rightarrow> ('w, 'c, go_error + unit) prog"

record ('w, 'c) kubernetesProvider =
  kp_config :: config
  kp_client :: "('w, 'c) client_ops option"

definition http_ops :: "'w transport \<Rightarrow> httpSandboxClient \<Rightarrow> ('w, client_request) client_ops" where
  "http_ops tr c = \<lparr>co_Config = client_Config tr c, co_Create = client_Create tr c, co_Delete = client_Delete tr c\<rparr>"

text \<open>The transport depends on the timeout in nanoseconds. What \<open>url.Parse\<close> accepts depends on the release of Go,
  so it is an argument.\<close>

definition newKubernetesProvider ::
    "(string \<Rightarrow> go_error + url) \<Rightarrow> (int \<Rightarrow> 'w transport) \<Rightarrow> config \<Rightarrow>
     ('w, client_request) client_ops option \<Rightarrow> go_error + ('w, client_request) kubernetesProvider" where
  "newKubernetesProvider url_Parse net cfg client =
     (case (if pcfg_Timeout cfg \<noteq> [] then ParseDuration (pcfg_Timeout cfg) else Inr (120 * 1000000000)) of
        Inl err \<Rightarrow> Inl (wrapError ''parse KUBERNETES_POD_SANDBOX_TIMEOUT: '' err)
      | Inr timeout \<Rightarrow>
          if client = None \<and> pcfg_Endpoint cfg \<noteq> [] then
            (case newHTTPSandboxClient url_Parse (pcfg_Endpoint cfg) (pcfg_Token cfg) of
               Inl err \<Rightarrow> Inl err
             | Inr created \<Rightarrow> Inr \<lparr>kp_config = cfg, kp_client = Some (http_ops (net timeout) created)\<rparr>)
          else Inr \<lparr>kp_config = cfg, kp_client = client\<rparr>)"

text \<open>\<open>manager.NewProvider\<close>.\<close>

definition NewProvider ::
    "(string \<Rightarrow> go_error + url) \<Rightarrow> (int \<Rightarrow> 'w transport) \<Rightarrow> config \<Rightarrow>
     go_error + ('w, client_request) kubernetesProvider" where
  "NewProvider url_Parse net providerConfig =
     newKubernetesProvider url_Parse net providerConfig None"

definition ConfigVerifier :: "('w, 'c) kubernetesProvider \<Rightarrow> go_error + ('w, 'c) client_ops" where
  "ConfigVerifier p =
     (if pcfg_Endpoint (kp_config p) = [] then Inl (errorsNew ''KUBERNETES_POD_SANDBOX_ENDPOINT is required'')
      else case kp_client p of
        None \<Rightarrow> Inl (errorsNew ''pod sandbox API client is not configured'')
      | Some client \<Rightarrow> Inr client)"

subsection \<open>User data\<close>

record WriteFile =
  wf_Path :: string
  wf_Content :: string

datatype 'g generator = CloudConfig (writeFiles: "WriteFile list") 'g | OtherGenerator 'g

abbreviation agentProtocolForwarderConfigPath :: string where
  "agentProtocolForwarderConfigPath \<equiv> ''/run/peerpod/apf.json''"
abbreviation guestProxyURL :: string where "guestProxyURL \<equiv> ''http://192.0.2.1:3128''"
abbreviation cdhProxyDropInPath :: string where
  "cdhProxyDropInPath \<equiv> ''/etc/systemd/system/confidential-data-hub.service.d/proxy.conf''"
abbreviation apfOrderingDropInPath :: string where
  "apfOrderingDropInPath \<equiv> ''/etc/systemd/system/agent-protocol-forwarder.service.d/ordering.conf''"

definition envLine :: "string \<Rightarrow> string \<Rightarrow> string" where
  "envLine name v = ''Environment='' @ [CHR 0x22] @ name @ ''='' @ v @ [CHR 0x22, CHR 0x0A]"

definition cdhProxyDropIn :: string where
  "cdhProxyDropIn = ''[Service]'' @ [CHR 0x0A] @ envLine ''HTTP_PROXY'' guestProxyURL @
     envLine ''HTTPS_PROXY'' guestProxyURL @ envLine ''NO_PROXY'' ''127.0.0.1,localhost''"

definition apfOrderingDropIn :: string where
  "apfOrderingDropIn = ''[Unit]'' @ [CHR 0x0A] @ ''Requires=netns@podns.service'' @ [CHR 0x0A] @
     ''After=cloud-init.service netns@podns.service'' @ [CHR 0x0A]"

record apf_document =
  apf_PodName :: string
  apf_PodNamespace :: string
  apf_PodUID :: string

fun store_apf :: "string \<times> json \<Rightarrow> apf_document \<times> bool \<Rightarrow> apf_document \<times> bool" where
  "store_apf (key, v) (d, bad) =
     (case match_field [''pod-name'', ''pod-namespace'', ''pod-uid''] key of
        None \<Rightarrow> (d, bad)
      | Some f \<Rightarrow>
          if f = ''pod-name'' then (let (x, b) = store_string v (apf_PodName d) in (d\<lparr>apf_PodName := x\<rparr>, bad \<or> b))
          else if f = ''pod-namespace''
          then (let (x, b) = store_string v (apf_PodNamespace d) in (d\<lparr>apf_PodNamespace := x\<rparr>, bad \<or> b))
          else (let (x, b) = store_string v (apf_PodUID d) in (d\<lparr>apf_PodUID := x\<rparr>, bad \<or> b)))"

definition unmarshal_apf :: "string \<Rightarrow> apf_document option" where
  "unmarshal_apf content = (case json_document content of
     Inl _ \<Rightarrow> None
   | Inr v \<Rightarrow>
       (let zero = \<lparr>apf_PodName = [], apf_PodNamespace = [], apf_PodUID = []\<rparr>;
            (d, bad) = (case v of JObj kvs \<Rightarrow> fold store_apf kvs (zero, False) | JNull \<Rightarrow> (zero, False) | _ \<Rightarrow> (zero, True))
        in if bad then None else Some d))"

definition sourceWorkloadReference :: "'g generator \<Rightarrow> string \<Rightarrow> workloadReference" where
  "sourceWorkloadReference generator fallbackName =
     (let reference = \<lparr>wl_Namespace = [], wl_Name = fallbackName, wl_UID = []\<rparr> in
      case generator of
        OtherGenerator _ \<Rightarrow> reference
      | CloudConfig files _ \<Rightarrow>
          (case find (\<lambda>f. wf_Path f = agentProtocolForwarderConfigPath) files of
             None \<Rightarrow> reference
           | Some f \<Rightarrow>
               (case unmarshal_apf (wf_Content f) of
                  None \<Rightarrow> reference
                | Some document \<Rightarrow>
                    \<lparr>wl_Namespace = apf_PodNamespace document,
                     wl_Name = (if apf_PodName document \<noteq> [] then apf_PodName document else fallbackName),
                     wl_UID = apf_PodUID document\<rparr>)))"

text \<open>The adjustment of one document: \<open>document["pod-network"]["mtu"]\<close> is lowered to the MTU of the
  network when it is larger. \<open>int\<close> is 64 bits wide. A JSON \<open>null\<close> leaves the map nil, in which the
  lookup finds nothing.\<close>

definition adjustDocument :: "any \<Rightarrow> int64 \<Rightarrow> go_error + any" where
  "adjustDocument doc networkMTU =
     (case (case doc of AObj members \<Rightarrow> map_of members ''pod-network'' | _ \<Rightarrow> None) of
        Some (AObj network) \<Rightarrow>
          (case map_of network ''mtu'' of
             Some (AFloat current) \<Rightarrow>
               Inr (case doc of
                 AObj members \<Rightarrow>
                   (if sint networkMTU < sint (float_int current)
                    then AObj (put_key ''pod-network'' (AObj (put_key ''mtu'' (AInt networkMTU) network)) members)
                    else doc)
               | _ \<Rightarrow> doc)
           | _ \<Rightarrow> Inl (errorsNew ''agent protocol forwarder config has no numeric MTU''))
      | _ \<Rightarrow> Inl (errorsNew ''agent protocol forwarder config has no pod-network object''))"

text \<open>\<open>json.Unmarshal\<close> into a variable of type \<open>map[string]any\<close>.\<close>

definition unmarshal_map :: "string \<Rightarrow> go_error + any" where
  "unmarshal_map content = (case json_document content of
     Inl e \<Rightarrow> Inl e
   | Inr JNull \<Rightarrow> Inr ANull
   | Inr (JObj kvs) \<Rightarrow> (case to_any (JObj kvs) of
       Some d \<Rightarrow> Inr d | None \<Rightarrow> Inl (errorsNew ''json: cannot unmarshal number into Go value of type float64''))
   | Inr _ \<Rightarrow> Inl (errorsNew ''json: cannot unmarshal value into Go value of type map[string]interface {}''))"

fun adjustFiles :: "int64 \<Rightarrow> WriteFile list \<Rightarrow> go_error + (WriteFile list \<times> bool)" where
  "adjustFiles networkMTU [] = Inr ([], False)"
| "adjustFiles networkMTU (f # files) =
     (if wf_Path f \<noteq> agentProtocolForwarderConfigPath then
        (case adjustFiles networkMTU files of Inl e \<Rightarrow> Inl e | Inr (fs, found) \<Rightarrow> Inr (f # fs, found))
      else case unmarshal_map (wf_Content f) of
        Inl err \<Rightarrow> Inl (wrapError ''parse agent protocol forwarder config: '' err)
      | Inr document \<Rightarrow>
          (case adjustDocument document networkMTU of
             Inl err \<Rightarrow> Inl err
           | Inr adjusted \<Rightarrow>
               (case adjustFiles networkMTU files of
                  Inl e \<Rightarrow> Inl e
                | Inr (fs, _) \<Rightarrow> Inr (f\<lparr>wf_Content := marshal_indent 0 adjusted\<rparr> # fs, True))))"

definition generateUserData ::
    "('g generator \<Rightarrow> go_error + string) \<Rightarrow> 'g generator \<Rightarrow> int64 \<Rightarrow> go_error + string" where
  "generateUserData Generate generator networkMTU = (case generator of
     OtherGenerator _ \<Rightarrow> Generate generator
   | CloudConfig files g \<Rightarrow>
       if sint networkMTU \<le> 0 then Generate generator
       else case adjustFiles networkMTU files of
         Inl e \<Rightarrow> Inl e
       | Inr (adjusted, found) \<Rightarrow>
           if \<not> found then Inl (errorsNew ''agent protocol forwarder config is missing'')
           else Generate (CloudConfig (adjusted @
             [\<lparr>wf_Path = apfOrderingDropInPath, wf_Content = apfOrderingDropIn\<rparr>,
              \<lparr>wf_Path = cdhProxyDropInPath, wf_Content = cdhProxyDropIn\<rparr>]) g))"

subsection \<open>Instances\<close>

record InstanceTypeSpec =
  its_VCPUs :: int64
  its_Memory :: int64
  its_Arch :: string

text \<open>An instance; an address is the text it was parsed from, and the reason \<open>netip.ParseAddr\<close> gives for
  refusing one is left out of the error.\<close>

record Instance =
  in_ID :: string
  in_Name :: string
  in_IPs :: "string list"

text \<open>The result of \<open>CreateInstance\<close> has both an instance (or nil) and an error (or nil).\<close>

type_synonym instance_result = "Instance option \<times> go_error option"

fun firstBadIP :: "string list \<Rightarrow> string option" where
  "firstBadIP [] = None"
| "firstBadIP (raw # rest) = (if ParseAddr_ok raw then firstBadIP rest else Some raw)"

definition instanceOf :: "sandbox \<Rightarrow> instance_result" where
  "instanceOf created = (case firstBadIP (sb_IPs created) of
     Some raw \<Rightarrow> (Some \<lparr>in_ID = sb_ID created, in_Name = sb_Name created, in_IPs = []\<rparr>,
       Some (errorsNew (''parse Pod Sandbox IP '' @ Quote raw)))
   | None \<Rightarrow>
       (let inst = \<lparr>in_ID = sb_ID created, in_Name = sb_Name created, in_IPs = sb_IPs created\<rparr>
        in if sb_ID created = [] \<or> sb_IPs created = []
           then (Some inst, Some (errorsNew ''pod sandbox API returned an incomplete instance''))
           else (Some inst, None)))"

definition createRequest :: "'g generator \<Rightarrow> string \<Rightarrow> string \<Rightarrow> string \<Rightarrow> InstanceTypeSpec \<Rightarrow> createSandboxRequest" where
  "createRequest cloudConfig podName sandboxID userData spec =
     \<lparr>cr_WorkloadRef = sourceWorkloadReference cloudConfig podName, cr_SandboxID = sandboxID,
      cr_UserData = userData, cr_VCPUs = its_VCPUs spec, cr_MemoryMiB = its_Memory spec, cr_Arch = its_Arch spec\<rparr>"

definition CreateInstance ::
    "('g generator \<Rightarrow> go_error + string) \<Rightarrow> ('w, 'c) kubernetesProvider \<Rightarrow> string \<Rightarrow> string \<Rightarrow> 'g generator \<Rightarrow>
     InstanceTypeSpec \<Rightarrow> ('w, 'c, instance_result) prog" where
  "CreateInstance Generate p podName sandboxID cloudConfig spec = (case ConfigVerifier p of
     Inl err \<Rightarrow> State_Monad.return (None, Some err)
   | Inr client \<Rightarrow>
       State_Monad.bind (co_Config client) (\<lambda>r. case r of
         Inl err \<Rightarrow> State_Monad.return (None, Some (wrapError ''get Kubernetes Pod Sandbox configuration: '' err))
       | Inr providerConfig \<Rightarrow>
           (case generateUserData Generate cloudConfig (spc_NetworkMTU providerConfig) of
              Inl err \<Rightarrow> State_Monad.return (None, Some (wrapError ''generate Pod VM user data: '' err))
            | Inr userData \<Rightarrow>
                State_Monad.bind (co_Create client (createRequest cloudConfig podName sandboxID userData spec))
                  (\<lambda>r2. case r2 of
                    Inl err \<Rightarrow> State_Monad.return (None, Some (wrapError ''create Kubernetes Pod Sandbox: '' err))
                  | Inr created \<Rightarrow> State_Monad.return (instanceOf created)))))"

definition DeleteInstance :: "('w, 'c) kubernetesProvider \<Rightarrow> string \<Rightarrow> ('w, 'c, go_error + unit) prog" where
  "DeleteInstance p instanceID =
     (if instanceID = [] then State_Monad.return (Inl (errorsNew ''DeleteInstance called with empty instanceID''))
      else case ConfigVerifier p of
        Inl err \<Rightarrow> State_Monad.return (Inl err)
      | Inr client \<Rightarrow>
          State_Monad.bind (co_Delete client instanceID) (\<lambda>r. State_Monad.return (case r of
            Inl err \<Rightarrow> Inl (wrapError (''delete Kubernetes Pod Sandbox '' @ Quote instanceID @ '': '') err)
          | Inr _ \<Rightarrow> Inr ())))"

definition Teardown :: "('w, 'c) kubernetesProvider \<Rightarrow> ('w, 'c, go_error + unit) prog" where
  "Teardown p = State_Monad.return (Inr ())"

subsection \<open>The calls of a provider\<close>

context sandboxClient
begin

definition ops where
  "ops = \<lparr>co_Config = cl_Config, co_Create = cl_Create, co_Delete = cl_Delete\<rparr>"

text \<open>A create request is sent at most once, after the configuration was read, and it is the one built
  from the arguments and the user data for that configuration.\<close>

lemma create_calls:
  assumes "kp_client p = Some ops"
  shows "yields (\<lambda>_ l. l = [] \<or> (\<exists>x. config_call x \<and> (l = [x] \<or>
     (\<exists>mtu ud y. generateUserData Generate gen mtu = Inr ud \<and>
        create_call (createRequest gen podName sandboxID ud spec) y \<and> l = [x, y]))))
     (CreateInstance Generate p podName sandboxID gen spec)"
proof (cases "ConfigVerifier p")
  case (Inl e)
  then show ?thesis by (simp add: CreateInstance_def yields_return)
next
  case (Inr client)
  with assms have c: "client = ops" by (simp add: ConfigVerifier_def split: if_splits)
  have create: "yields (\<lambda>_ l. \<exists>y. l = [y] \<and> create_call rq y)
      (State_Monad.bind (cl_Create rq) (\<lambda>r2. case r2 of
         Inl err \<Rightarrow> State_Monad.return (None, Some (wrapError ''create Kubernetes Pod Sandbox: '' err))
       | Inr created \<Rightarrow> State_Monad.return (instanceOf created)))" for rq
    by (rule yields_bind [OF create_one]) (auto intro: yields_return split: sum.split)
  show ?thesis
    unfolding CreateInstance_def Inr sum.case c ops_def client_ops.simps
  proof (rule yields_bind [OF config_one], goal_cases)
    case (1 r l)
    then obtain x where x: "l = [x]" "config_call x" by blast
    show ?case
    proof (cases r)
      case (Inl e)
      with x show ?thesis by (simp add: yields_return)
    next
      case (Inr cfg)
      show ?thesis
      proof (cases "generateUserData Generate gen (spc_NetworkMTU cfg)")
        case (Inl e)
        with x Inr show ?thesis by (simp add: yields_return)
      next
        case (Inr ud)
        with x \<open>r = Inr cfg\<close> show ?thesis
          by (simp only: sum.case) (rule yields_mono [OF create], auto)
      qed
    qed
  qed
qed

lemma delete_calls:
  assumes "kp_client p = Some ops"
  shows "yields (\<lambda>_ l. l = [] \<or> (\<exists>x. delete_call i x \<and> l = [x])) (DeleteInstance p i)"
proof -
  have "yields (\<lambda>_ l. \<exists>x. l = [x] \<and> delete_call i x)
     (State_Monad.bind (cl_Delete i) (\<lambda>r. State_Monad.return (f r)))" for f :: "_ \<Rightarrow> go_error + unit"
    by (rule yields_bind [OF delete_one]) (auto intro: yields_return)
  note one = yields_mono [OF this]
  from assms show ?thesis
    unfolding DeleteInstance_def ConfigVerifier_def
    by (auto simp: ops_def yields_return split: option.split intro: one)
qed

end

end
