(* ===== verification/Json_Roundtrip.thy ===== *)
theory Json_Roundtrip
  imports Go_Json
begin

text \<open>
  The encoder and the scanner of \<open>Go_Json\<close> are inverse to each other: scanning an encoded value gives
  the value back, with the bytes of its strings that are not valid UTF-8 replaced by \<open>U+FFFD\<close>
  (\<open>json_roundtrip\<close>). The hypotheses are that number literals have the syntax of JSON, which the
  rendering of an integer has (\<open>num_lit_show_int\<close>), and that the nesting is within the scanner's limit.
\<close>

subsection \<open>Runes\<close>

lemma cv_less [simp]: "cv c < 256"
  by (metis char_of_char of_char_of mod_less_divisor zero_less_numeral)

lemma char_of_cv [simp]: "char_of (cv c) = c"
  by simp

text \<open>A rune as \<open>runes\<close> delivers it: an ASCII character; a longer sequence that decodes the same before
  any rest; or a byte that is not part of a valid sequence.\<close>

definition rune_ok :: "nat \<times> string \<Rightarrow> bool" where
  "rune_ok p \<longleftrightarrow> (case p of (r, bs) \<Rightarrow>
     (r < 128 \<and> bs = [char_of r]) \<or>
     (128 \<le> r \<and> bs \<noteq> [] \<and> list_all (\<lambda>c. 128 \<le> cv c) bs \<and>
       (r = RuneError \<and> length bs = 1 \<or>
        (1 < length bs \<and> EncodeRune r = bs \<and> (\<forall>t. DecodeRune (bs @ t) = (r, length bs))))))"

lemma div64 [simp]: "b < 64 \<Longrightarrow> (a * 64 + b) div 64 = (a :: nat)" "b < 64 \<Longrightarrow> (a * 64 + b) mod 64 = (b :: nat)"
  by simp_all

lemma Encode2:
  assumes "0xC2 \<le> b0" "b0 \<le> 0xDF" "0x80 \<le> b1" "b1 \<le> 0xBF"
  shows "EncodeRune ((b0 - 0xC0) * 64 + (b1 - 0x80)) = [char_of b0, char_of b1]"
proof -
  define x y where "x = b0 - 0xC0" and "y = b1 - 0x80"
  have x: "2 \<le> x" "x \<le> 31" "b0 = 0xC0 + x" and y: "y < 64" "b1 = 0x80 + y"
    using assms by (auto simp: x_def y_def)
  have "\<not> is_surrogate (x * 64 + y)" using x y by (auto simp: is_surrogate_def in_range_def)
  moreover have "128 \<le> x * 64 + y" "x * 64 + y < 2048" using x y by auto
  moreover have "(x * 64 + y) div 64 = x" "(x * 64 + y) mod 64 = y" using y by auto
  ultimately show ?thesis
    unfolding x_def [symmetric] y_def [symmetric] x(3) y(2) by (simp add: EncodeRune_def Let_def)
qed

lemma Encode3:
  assumes "0xE0 \<le> b0" "b0 \<le> 0xEF" "second_ok b0 b1" "0x80 \<le> b2" "b2 \<le> 0xBF"
  shows "EncodeRune (((b0 - 0xE0) * 64 + (b1 - 0x80)) * 64 + (b2 - 0x80)) = [char_of b0, char_of b1, char_of b2]"
proof -
  define x y z where "x = b0 - 0xE0" and "y = b1 - 0x80" and "z = b2 - 0x80"
  have s: "0x80 \<le> b1" "b1 \<le> 0xBF" "b0 = 0xE0 \<longrightarrow> 0xA0 \<le> b1" "b0 = 0xED \<longrightarrow> b1 \<le> 0x9F"
    using assms(3) by (auto simp: second_ok_def in_range_def split: if_splits)
  have x: "x \<le> 15" "b0 = 0xE0 + x" and y: "y < 64" "b1 = 0x80 + y" and z: "z < 64" "b2 = 0x80 + z"
    using assms s by (auto simp: x_def y_def z_def)
  have lo: "x = 0 \<longrightarrow> 32 \<le> y" and sur: "x = 13 \<longrightarrow> y < 32"
    using s x y by auto
  let ?r = "(x * 64 + y) * 64 + z"
  have "\<not> is_surrogate ?r" using x(1) y(1) z(1) sur by (cases "x < 13"; cases "x = 13"; simp add: is_surrogate_def in_range_def)
  moreover have "2048 \<le> ?r" "?r < 65536" using x y z lo by (cases "x = 0"; simp)+
  moreover have "?r div 64 = x * 64 + y" by (rule div64(1) [OF z(1)])
  moreover have "?r mod 64 = z" by (rule div64(2) [OF z(1)])
  moreover have "?r div 4096 = x" using div_mult2_eq [of ?r 64 64] \<open>?r div 64 = x * 64 + y\<close> y by simp
  ultimately show ?thesis
    unfolding x_def [symmetric] y_def [symmetric] z_def [symmetric] x(2) y(2) z(2)
    unfolding EncodeRune_def Let_def using y by simp
qed

lemma Encode4:
  assumes "0xF0 \<le> b0" "b0 \<le> 0xF4" "second_ok b0 b1" "0x80 \<le> b2" "b2 \<le> 0xBF" "0x80 \<le> b3" "b3 \<le> 0xBF"
  shows "EncodeRune ((((b0 - 0xF0) * 64 + (b1 - 0x80)) * 64 + (b2 - 0x80)) * 64 + (b3 - 0x80)) =
    [char_of b0, char_of b1, char_of b2, char_of b3]"
proof -
  define x y z u where "x = b0 - 0xF0" and "y = b1 - 0x80" and "z = b2 - 0x80" and "u = b3 - 0x80"
  have s: "0x80 \<le> b1" "b1 \<le> 0xBF" "b0 = 0xF0 \<longrightarrow> 0x90 \<le> b1" "b0 = 0xF4 \<longrightarrow> b1 \<le> 0x8F"
    using assms(3) by (auto simp: second_ok_def in_range_def split: if_splits)
  have x: "x \<le> 4" "b0 = 0xF0 + x" and y: "y < 64" "b1 = 0x80 + y" and z: "z < 64" "b2 = 0x80 + z"
    and u: "u < 64" "b3 = 0x80 + u"
    using assms s by (auto simp: x_def y_def z_def u_def)
  have lo: "x = 0 \<longrightarrow> 16 \<le> y" and hi: "x = 4 \<longrightarrow> y < 16"
    using s x y by auto
  let ?r = "((x * 64 + y) * 64 + z) * 64 + u"
  have "65536 \<le> ?r" using x y z u lo by (cases "x = 0"; simp)
  moreover have "?r \<le> 0x10FFFF" using x y z u hi by (cases "x = 4"; simp)
  moreover have "?r div 64 = (x * 64 + y) * 64 + z" by (rule div64(1) [OF u(1)])
  moreover have "?r mod 64 = u" by (rule div64(2) [OF u(1)])
  moreover have "((x * 64 + y) * 64 + z) mod 64 = z" by (rule div64(2) [OF z(1)])
  moreover have "?r div 4096 = x * 64 + y"
    using div_mult2_eq [of ?r 64 64] \<open>?r div 64 = (x * 64 + y) * 64 + z\<close> z by simp
  moreover have "?r div 262144 = x"
    using div_mult2_eq [of ?r 4096 64] \<open>?r div 4096 = x * 64 + y\<close> y by simp
  ultimately show ?thesis
    unfolding x_def [symmetric] y_def [symmetric] z_def [symmetric] u_def [symmetric] x(2) y(2) z(2) u(2)
    by (simp add: EncodeRune_def Let_def is_surrogate_def in_range_def)
qed


lemma DecodeRune_ok:
  assumes "s \<noteq> []" and "DecodeRune s = (r, n)"
  shows "rune_ok (r, take n s) \<and> n = length (take n s)"
proof -
  obtain c0 s1 where s: "s = c0 # s1" using assms(1) by (cases s) auto
  have bad: "rune_ok (RuneError, [c0])" if "128 \<le> cv c0"
    using that by (simp add: rune_ok_def RuneError_def)
  show ?thesis
  proof (cases "cv c0 < 128")
    case True
    with assms s show ?thesis by (auto simp: rune_ok_def)
  next
    case False
    then have hi: "128 \<le> cv c0" by simp
    show ?thesis
    proof (cases "r = RuneError \<and> n = 1")
      case True
      with bad [OF hi] s show ?thesis by simp
    next
      case good: False
      obtain c1 s2 where s1: "s1 = c1 # s2"
        using assms(2) good hi by (cases s1) (auto simp: s DecodeRune_def)
      have ok: "second_ok (cv c0) (cv c1)"
        using assms(2) good hi by (auto simp: s s1 DecodeRune_def Let_def split: if_splits)
      show ?thesis
      proof (cases "in_range 0xC2 0xDF (cv c0)")
        case two: True
        then have rn: "r = (cv c0 - 0xC0) * 64 + (cv c1 - 0x80)" "n = 2"
          using assms(2) hi ok by (auto simp: s s1 DecodeRune_def Let_def)
        have c1: "0x80 \<le> cv c1" "cv c1 \<le> 0xBF"
          using ok two by (auto simp: second_ok_def in_range_def split: if_splits)
        have "EncodeRune r = [c0, c1]"
          using Encode2 [of "cv c0" "cv c1"] two c1 by (simp add: rn in_range_def)
        moreover have "128 \<le> r" using two c1 by (auto simp: rn in_range_def)
        moreover have "DecodeRune ([c0, c1] @ t) = (r, 2)" for t
          using two hi ok by (simp add: DecodeRune_def Let_def rn)
        ultimately show ?thesis using hi c1 by (simp add: rune_ok_def s s1 rn(2))
      next
        case n2: False
        obtain c2 s3 where s2: "s2 = c2 # s3"
          using assms(2) good hi ok n2 by (cases s2) (auto simp: s s1 DecodeRune_def Let_def)
        have c2: "in_range 0x80 0xBF (cv c2)"
          using assms(2) good hi ok n2 by (auto simp: s s1 s2 DecodeRune_def Let_def split: if_splits)
        have c1: "0x80 \<le> cv c1"
          using ok by (auto simp: second_ok_def in_range_def split: if_splits)
        show ?thesis
        proof (cases "in_range 0xE0 0xEF (cv c0)")
          case three: True
          then have rn: "r = ((cv c0 - 0xE0) * 64 + (cv c1 - 0x80)) * 64 + (cv c2 - 0x80)" "n = 3"
            using assms(2) hi ok n2 c2 by (auto simp: s s1 s2 DecodeRune_def Let_def)
          have e: "EncodeRune r = [c0, c1, c2]"
            using Encode3 [of "cv c0" "cv c1" "cv c2"] three ok c2 by (simp add: rn in_range_def)
          moreover have "128 \<le> r" by (rule ccontr) (use e in \<open>simp add: EncodeRune_def Let_def is_surrogate_def in_range_def\<close>)
          moreover have "DecodeRune ([c0, c1, c2] @ t) = (r, 3)" for t
            using three hi ok n2 c2 by (simp add: DecodeRune_def Let_def rn)
          ultimately show ?thesis using hi c1 c2 by (simp add: rune_ok_def s s1 s2 rn(2) in_range_def)
        next
          case n3: False
          obtain c3 s4 where s3: "s3 = c3 # s4"
            using assms(2) good hi ok n2 n3 c2 by (cases s3) (auto simp: s s1 s2 DecodeRune_def Let_def)
          have four: "in_range 0xF0 0xF4 (cv c0)" "in_range 0x80 0xBF (cv c3)"
            using assms(2) good hi ok n2 n3 c2
            by (auto simp: s s1 s2 s3 DecodeRune_def Let_def split: if_splits)
          then have rn: "r = (((cv c0 - 0xF0) * 64 + (cv c1 - 0x80)) * 64 + (cv c2 - 0x80)) * 64 + (cv c3 - 0x80)" "n = 4"
            using assms(2) hi ok n2 n3 c2 by (auto simp: s s1 s2 s3 DecodeRune_def Let_def)
          have e: "EncodeRune r = [c0, c1, c2, c3]"
            using Encode4 [of "cv c0" "cv c1" "cv c2" "cv c3"] four ok c2 by (simp add: rn in_range_def)
          moreover have "128 \<le> r" by (rule ccontr) (use e in \<open>simp add: EncodeRune_def Let_def is_surrogate_def in_range_def\<close>)
          moreover have "DecodeRune ([c0, c1, c2, c3] @ t) = (r, 4)" for t
            using four hi ok n2 n3 c2 by (simp add: DecodeRune_def Let_def rn)
          ultimately show ?thesis using hi c1 c2 four by (simp add: rune_ok_def s s1 s2 s3 rn(2) in_range_def)
        qed
      qed
    qed
  qed
qed

lemma runes_ok: "p \<in> set (runes s) \<Longrightarrow> rune_ok p"
proof (induction s rule: runes.induct)
  case (1 s)
  show ?case
  proof (cases "s = []")
    case False
    obtain r n where d: "DecodeRune s = (r, n)" by fastforce
    have "runes s = (r, take n s) # runes (drop n s)"
      using False d by (subst runes.simps) simp
    with 1 False d DecodeRune_ok [OF False d] show ?thesis by auto
  qed (use 1 in simp)
qed


subsection \<open>Strings\<close>

text \<open>What a decoder makes of an encoded string: an invalid byte becomes \<open>U+FFFD\<close>.\<close>

definition san_rune :: "nat \<times> string \<Rightarrow> string" where
  "san_rune p = (case p of (r, bs) \<Rightarrow> if r = RuneError \<and> length bs = 1 then EncodeRune RuneError else bs)"

definition sanitize :: "string \<Rightarrow> string" where
  "sanitize s = concat (map san_rune (runes s))"

definition valid_utf8 :: "string \<Rightarrow> bool" where
  "valid_utf8 s \<longleftrightarrow> list_all (\<lambda>p. \<not> (fst p = RuneError \<and> length (snd p) = 1)) (runes s)"

lemma sanitize_valid: "valid_utf8 s \<Longrightarrow> sanitize s = s"
proof -
  assume "valid_utf8 s"
  then have "map san_rune (runes s) = map snd (runes s)"
    by (auto simp: valid_utf8_def list_all_iff san_rune_def)
  then show ?thesis unfolding sanitize_def by (simp only: concat_runes)
qed

lemma valid_utf8_ascii: "list_all (\<lambda>c. cv c < 128) s \<Longrightarrow> valid_utf8 s"
  by (auto simp: valid_utf8_def runes_ascii list_all_iff RuneError_def)

lemma hex_char_is_hex: "d < 16 \<Longrightarrow> is_hex_char (hex_char d)"
  using hex_char_lower [of d] by (auto simp: is_hex_char_def is_lower_hex_def in_range_def)

lemma hex_val_hex_char: "d < 16 \<Longrightarrow> hex_val (hex_char d) = d"
  by (auto simp: hex_val_def hex_char_def is_digit_def)

lemma hex_char_plain: "d < 16 \<Longrightarrow> hex_char d \<noteq> CHR 0x22 \<and> hex_char d \<noteq> CHR 0x5C"
  using hex_char_lower [of d] by (auto simp: is_lower_hex_def is_digit_def)

lemma scan_plain:
  assumes "c \<noteq> CHR 0x22" "c \<noteq> CHR 0x5C" "32 \<le> cv c"
  shows "scan_step (MStr k raw, st) c = (MStr k (raw @ [c]), st)"
  using assms by simp

lemma scan_plains:
  assumes "list_all (\<lambda>c. 128 \<le> cv c) bs"
  shows "scan_all (MStr k raw, st) bs = (MStr k (raw @ bs), st)"
  using assms
proof (induction bs arbitrary: raw)
  case (Cons c bs)
  then have "scan_step (MStr k raw, st) c = (MStr k (raw @ [c]), st)"
    by (intro scan_plain) auto
  with Cons show ?case by simp
qed simp

lemma digit_is_hex: "is_hex_char (CHR ''0'')" "is_hex_char (CHR ''f'')" "is_hex_char (CHR ''d'')"
  "is_hex_char (CHR ''2'')" "is_hex_char (CHR ''8'')" "is_hex_char (CHR ''9'')"
  by (simp_all add: is_hex_char_def is_digit_def in_range_def)

lemma scan_u:
  assumes "is_hex_char a" "is_hex_char b" "is_hex_char c" "is_hex_char d"
  shows "scan_all (MStr k raw, st) [CHR 0x5C, CHR ''u'', a, b, c, d] =
    (MStr k (raw @ [CHR 0x5C, CHR ''u'', a, b, c, d]), st)"
  using assms by (simp add: numeral_3_eq_3)

lemma scan_encode_rune:
  assumes "rune_ok p"
  shows "scan_all (MStr k raw, st) (encode_rune p) = (MStr k (raw @ encode_rune p), st)"
proof -
  obtain r bs where p: "p = (r, bs)" by (cases p)
  show ?thesis
  proof (cases "r < 128")
    case True
    then have bs: "bs = [char_of r]" using assms by (auto simp: p rune_ok_def)
    have h: "r div 16 < 16" "r mod 16 < 16" using True by auto
    have u: "scan_all (MStr k raw, st) (esc (CHR ''u'') @ ''00'' @ hex2 r) =
        (MStr k (raw @ esc (CHR ''u'') @ ''00'' @ hex2 r), st)"
      using scan_u [OF digit_is_hex(1) digit_is_hex(1) hex_char_is_hex [OF h(1)] hex_char_is_hex [OF h(2)], of k raw st]
      by (simp add: esc_def hex2_def)
    have bslash: "char_of (92 :: nat) = CHR 0x5C" "char_of (34 :: nat) = CHR 0x22" by code_simp+
    have plain: "scan_all (MStr k raw, st) bs = (MStr k (raw @ bs), st)" if "r \<noteq> 0x5C" "r \<noteq> 0x22" "32 \<le> r"
    proof -
      have "cv (char_of r) = r" using True by simp
      moreover have "cv (CHR 0x22) = 34" "cv (CHR 0x5C) = 92" by simp_all
      ultimately have "char_of r \<noteq> CHR 0x22" "char_of r \<noteq> CHR 0x5C" using that by metis+
      then show ?thesis using that True by (simp add: bs)
    qed
    show ?thesis
      using True u plain by (auto simp: p encode_rune_def esc_def bs bslash not_less)
  next
    case False
    then have hi: "list_all (\<lambda>c. 128 \<le> cv c) bs" using assms by (auto simp: p rune_ok_def)
    show ?thesis
      using False scan_plains [OF hi, of k raw st]
        scan_u [OF digit_is_hex(2) digit_is_hex(2) digit_is_hex(2) digit_is_hex(3), of k raw st]
        scan_u [OF digit_is_hex(4) digit_is_hex(1) digit_is_hex(4) digit_is_hex(5), of k raw st]
        scan_u [OF digit_is_hex(4) digit_is_hex(1) digit_is_hex(4) digit_is_hex(6), of k raw st]
      by (auto simp: p encode_rune_def esc_def)
  qed
qed

lemma scan_encode_runes:
  assumes "list_all rune_ok ps"
  shows "scan_all (MStr k raw, st) (concat (map encode_rune ps)) = (MStr k (raw @ concat (map encode_rune ps)), st)"
  using assms
proof (induction ps arbitrary: raw)
  case (Cons p ps)
  then show ?case using scan_encode_rune [of p k raw st] by simp
qed simp


lemma unquote_Nil [simp]: "unquote [] = []"
  by (subst unquote.simps) simp

lemma unquote_escape: "unquote (CHR 0x5C # e # s) = fst (unescape e s) @ unquote (drop (snd (unescape e s)) (CHR 0x5C # e # s))"
  by (subst unquote.simps) (simp split: prod.splits)

lemma unquote_plain:
  assumes "c \<noteq> CHR 0x5C" and "DecodeRune (c # s) = (r, n)"
  shows "unquote (c # s) = (if r = RuneError \<and> n = 1 then EncodeRune RuneError else take n (c # s)) @ unquote (drop n (c # s))"
  using assms by (subst unquote.simps) simp

lemma unquote_u:
  assumes "\<not> is_surrogate (hex4 a b c d)"
  shows "unquote ([CHR 0x5C, CHR ''u'', a, b, c, d] @ t) = EncodeRune (hex4 a b c d) @ unquote t"
  using assms by (simp add: unquote_escape unescape_def Let_def)

lemma unquote_encode_rune:
  assumes "rune_ok p"
  shows "unquote (encode_rune p @ t) = san_rune p @ unquote t"
proof -
  obtain r bs where p: "p = (r, bs)" by (cases p)
  show ?thesis
  proof (cases "r < 128")
    case True
    then have bs: "bs = [char_of r]" using assms by (auto simp: p rune_ok_def)
    have san: "san_rune p = [char_of r]" using True by (simp add: p bs san_rune_def RuneError_def)
    have h: "r div 16 < 16" "r mod 16 < 16" using True by auto
    have "hex4 (CHR ''0'') (CHR ''0'') (hex_char (r div 16)) (hex_char (r mod 16)) = r"
    proof -
      have "hex_val (CHR ''0'') = 0" by (simp add: hex_val_def is_digit_def)
      then show ?thesis by (simp add: hex4_def hex_val_hex_char h)
    qed
    then have u: "unquote (esc (CHR ''u'') @ ''00'' @ hex2 r @ t) = [char_of r] @ unquote t"
      using unquote_u [of "CHR ''0''" "CHR ''0''" "hex_char (r div 16)" "hex_char (r mod 16)" t] True
      by (simp add: esc_def hex2_def EncodeRune_def is_surrogate_def in_range_def)
    have bslash: "char_of (92 :: nat) = CHR 0x5C" "char_of (34 :: nat) = CHR 0x22" by code_simp+
    have e: "unquote (CHR 0x5C # e # t) = [x] @ unquote t"
      if "(e, x) \<in> {(CHR ''b'', char_of (8 :: nat)), (CHR ''f'', char_of (12 :: nat)), (CHR ''n'', char_of (10 :: nat)),
            (CHR ''r'', char_of (13 :: nat)), (CHR ''t'', char_of (9 :: nat)), (CHR 0x22, CHR 0x22), (CHR 0x5C, CHR 0x5C)}" for e x
      using that by (auto simp: unquote_escape unescape_def)
    have plain: "unquote (bs @ t) = [char_of r] @ unquote t" if "r \<noteq> 0x5C"
    proof -
      have "cv (char_of r) = r" using True by simp
      moreover have "cv (CHR 0x5C) = 92" by simp
      ultimately have ne: "char_of r \<noteq> CHR 0x5C" using that by metis
      have "DecodeRune (char_of r # t) = (r, 1)" using True by simp
      from unquote_plain [OF ne this] True show ?thesis by (simp add: bs RuneError_def)
    qed
    show ?thesis
      unfolding san using True u plain e
      by (auto simp: p encode_rune_def esc_def bs bslash)
  next
    case False
    then have ok: "list_all (\<lambda>c. 128 \<le> cv c) bs" "bs \<noteq> []"
      "r = RuneError \<and> length bs = 1 \<or> 1 < length bs \<and> EncodeRune r = bs \<and> (\<forall>t. DecodeRune (bs @ t) = (r, length bs))"
      using assms by (auto simp: p rune_ok_def)
    have plain: "unquote (bs @ t) = bs @ unquote t" if "1 < length bs" "\<forall>t. DecodeRune (bs @ t) = (r, length bs)"
    proof -
      obtain c cs where bs: "bs = c # cs" using ok(2) by (cases bs) auto
      have "c \<noteq> CHR 0x5C" using ok(1) by (auto simp: bs)
      moreover have "DecodeRune (c # cs @ t) = (r, length bs)" using that(2) by (simp add: bs)
      ultimately show ?thesis using unquote_plain [of c "cs @ t" r "length bs"] that(1) by (auto simp: bs)
    qed
    have f: "unquote ([CHR 0x5C, CHR ''u'', CHR ''f'', CHR ''f'', CHR ''f'', CHR ''d''] @ t) = EncodeRune RuneError @ unquote t"
      by (subst unquote_u) (simp_all add: hex4_def hex_val_def is_digit_def is_surrogate_def in_range_def RuneError_def)
    have l1: "unquote ([CHR 0x5C, CHR ''u'', CHR ''2'', CHR ''0'', CHR ''2'', CHR ''8''] @ t) = EncodeRune 0x2028 @ unquote t"
      by (subst unquote_u) (simp_all add: hex4_def hex_val_def is_digit_def is_surrogate_def in_range_def)
    have l2: "unquote ([CHR 0x5C, CHR ''u'', CHR ''2'', CHR ''0'', CHR ''2'', CHR ''9''] @ t) = EncodeRune 0x2029 @ unquote t"
      by (subst unquote_u) (simp_all add: hex4_def hex_val_def is_digit_def is_surrogate_def in_range_def)
    show ?thesis
      using False ok(3) plain f l1 l2
      by (auto simp: p encode_rune_def esc_def san_rune_def RuneError_def)
  qed
qed

lemma unquote_encode_runes:
  assumes "list_all rune_ok ps"
  shows "unquote (concat (map encode_rune ps)) = concat (map san_rune ps)"
  using assms by (induction ps) (simp_all add: unquote_encode_rune)

text \<open>Scanning an encoded string: the literal between the quotes unquotes to the sanitized string.\<close>

lemma scan_encode_string:
  "scan_all (MStr k [], st) (tl (encode_string s)) = end_string k (concat (map encode_rune (runes s))) st \<and>
   unquote (concat (map encode_rune (runes s))) = sanitize s"
proof -
  have ok: "list_all rune_ok (runes s)" by (auto simp: list_all_iff intro: runes_ok)
  show ?thesis
    using scan_encode_runes [OF ok, of k "[]" st] unquote_encode_runes [OF ok]
    by (simp add: encode_string_def sanitize_def)
qed


subsection \<open>Values\<close>

text \<open>A number literal: the scanner ends it in a final state of the number grammar.\<close>

definition num_lit :: "string \<Rightarrow> bool" where
  "num_lit lit \<longleftrightarrow> lit \<noteq> [] \<and> (hd lit = CHR ''-'' \<or> is_digit (hd lit)) \<and>
     (\<exists>ns. num_final ns \<and> (\<forall>st. scan_all (MBegin, st) lit = (MNum ns lit, st)))"

fun jdepth :: "json \<Rightarrow> nat" where
  "jdepth (JArr vs) = Suc (foldr max (map jdepth vs) 0)"
| "jdepth (JObj kvs) = Suc (foldr max (map (\<lambda>(k, v). jdepth v) kvs) 0)"
| "jdepth _ = 0"

fun num_ok :: "json \<Rightarrow> bool" where
  "num_ok (JNum lit) = num_lit lit"
| "num_ok (JArr vs) = list_all num_ok vs"
| "num_ok (JObj kvs) = list_all (\<lambda>(k, v). num_ok v) kvs"
| "num_ok _ = True"

fun san_json :: "json \<Rightarrow> json" where
  "san_json (JStr s) = JStr (sanitize s)"
| "san_json (JArr vs) = JArr (map san_json vs)"
| "san_json (JObj kvs) = JObj (map (\<lambda>(k, v). (sanitize k, san_json v)) kvs)"
| "san_json v = v"

lemma foldr_max_le: "foldr max xs (0 :: nat) \<le> n \<longleftrightarrow> (\<forall>x \<in> set xs. x \<le> n)"
  by (induction xs) auto

text \<open>A value was scanned: it is complete, or a number that the next delimiter will complete.\<close>

definition scanned :: "json \<Rightarrow> frame list \<Rightarrow> bool" where
  "scanned v st = (case v of
     JNum lit \<Rightarrow> (\<exists>ns. num_final ns \<and> scan_all (MBegin, st) lit = (MNum ns lit, st))
   | _ \<Rightarrow> scan_all (MBegin, st) (json_encode v) = finish_value (san_json v) st)"

definition is_delim :: "char \<Rightarrow> bool" where
  "is_delim d \<longleftrightarrow> d \<in> {CHR '','', CHR ''}'', CHR '']''}"

lemma num_final_delim: "num_final ns \<Longrightarrow> is_delim d \<Longrightarrow> num_next ns d = None"
  by (cases ns) (auto simp: num_final_def is_delim_def is_digit_def)

lemma scanned_arr:
  assumes "scanned v (FArr vs # st)" and "is_delim d"
  shows "scan_all (MBegin, FArr vs # st) (json_encode v @ [d]) = step_after d (FArr (vs @ [san_json v]) # st)"
  using assms by (cases v) (auto simp: scanned_def num_final_delim split: prod.splits)

lemma scanned_val:
  assumes "scanned v (FVal kvs k # st)" and "is_delim d"
  shows "scan_all (MBegin, FVal kvs k # st) (json_encode v @ [d]) = step_after d (FObj (kvs @ [(k, san_json v)]) # st)"
  using assms by (cases v) (auto simp: scanned_def num_final_delim split: prod.splits)

lemma scan_elems:
  assumes "vs \<noteq> []" and "\<And>v acc. v \<in> set vs \<Longrightarrow> scanned v (FArr acc # st)"
  shows "scan_all (MBegin, FArr acc # st) (Join (map json_encode vs) '','' @ '']'') =
    finish_value (JArr (acc @ map san_json vs)) st"
  using assms
proof (induction vs arbitrary: acc)
  case (Cons v vs)
  show ?case
  proof (cases vs)
    case Nil
    then show ?thesis
      using scanned_arr [OF Cons.prems(2) [of v acc], of "CHR '']''"] by (simp add: is_delim_def is_json_space_def)
  next
    case (Cons w ws)
    have IH: "scan_all (MBegin, FArr (acc @ [san_json v]) # st) (Join (map json_encode vs) '','' @ '']'') =
        finish_value (JArr ((acc @ [san_json v]) @ map san_json vs)) st"
      using Cons Cons.prems by (intro Cons.IH) auto
    have "Join (map json_encode (v # vs)) '','' = json_encode v @ '','' @ Join (map json_encode vs) '',''"
      by (simp add: Cons)
    then show ?thesis
      using scanned_arr [OF Cons.prems(2) [of v acc], of "CHR '',''"] IH
      by (simp add: is_delim_def is_json_space_def)
  qed
qed simp

definition member :: "string \<times> json \<Rightarrow> string" where
  "member = (\<lambda>(k, v). encode_string k @ '':'' @ json_encode v)"

lemma encode_string_Cons: "encode_string s = CHR 0x22 # tl (encode_string s)"
  by (simp add: encode_string_def)

lemma scan_key:
  "scan_all (MKey, FObj acc # st) (encode_string k @ '':'') = (MBegin, FVal acc (sanitize k) # st)"
proof -
  have "scan_all (MKey, FObj acc # st) (encode_string k) = (MAfter, FKey acc (sanitize k) # st)"
    by (subst encode_string_Cons) (use scan_encode_string [of True "FObj acc # st" k] in \<open>simp add: is_json_space_def\<close>)
  then show ?thesis by (simp add: is_json_space_def)
qed

lemma scan_members:
  assumes "kvs \<noteq> []" and "\<And>k v acc key. (k, v) \<in> set kvs \<Longrightarrow> scanned v (FVal acc key # st)"
  shows "scan_all (MKey, FObj acc # st) (Join (map member kvs) '','' @ ''}'') =
    finish_value (JObj (acc @ map (\<lambda>(k, v). (sanitize k, san_json v)) kvs)) st"
  using assms
proof (induction kvs arbitrary: acc)
  case (Cons p kvs)
  obtain k v where p: "p = (k, v)" by (cases p)
  have one: "scan_all (MKey, FObj acc # st) (member p @ [d]) = step_after d (FObj (acc @ [(sanitize k, san_json v)]) # st)"
    if "is_delim d" for d
  proof -
    have "member p @ [d] = (encode_string k @ '':'') @ json_encode v @ [d]" by (simp add: p member_def)
    then show ?thesis
      using scan_key [of acc st k] scanned_val [OF Cons.prems(2) [of k v acc "sanitize k"] that]
      by (simp only: scan_all_append p) simp
  qed
  show ?case
  proof (cases kvs)
    case Nil
    then show ?thesis using one [of "CHR ''}''"] by (simp add: is_delim_def is_json_space_def p)
  next
    case (Cons w ws)
    have IH: "scan_all (MKey, FObj (acc @ [(sanitize k, san_json v)]) # st) (Join (map member kvs) '','' @ ''}'') =
        finish_value (JObj ((acc @ [(sanitize k, san_json v)]) @ map (\<lambda>(k, v). (sanitize k, san_json v)) kvs)) st"
      using Cons Cons.prems by (intro Cons.IH) auto
    have "Join (map member (p # kvs)) '','' = (member p @ '','') @ Join (map member kvs) '',''"
      by (simp add: Cons)
    then show ?thesis
      using one [of "CHR '',''"] IH by (simp add: is_delim_def is_json_space_def p)
  qed
qed simp


text \<open>A value does not start with white space or a closing bracket.\<close>

lemma json_encode_hd:
  assumes "num_ok v"
  shows "\<exists>c cs. json_encode v = c # cs \<and> \<not> is_json_space c \<and> c \<noteq> CHR '']'' \<and> c \<noteq> CHR ''}''"
proof (cases v)
  case (JNum lit)
  with assms show ?thesis
    by (cases lit) (auto simp: num_lit_def is_digit_def is_json_space_def)
qed (auto simp: encode_string_def is_json_space_def)

lemma scan_BeginOrEnd:
  assumes "num_ok v"
  shows "scan_all (MBeginOrEnd, st) (json_encode v @ t) = scan_all (MBegin, st) (json_encode v @ t)"
proof -
  obtain c cs where "json_encode v = c # cs" "\<not> is_json_space c" "c \<noteq> CHR '']''"
    using json_encode_hd [OF assms] by blast
  then show ?thesis by simp
qed

lemma Join_Cons: "\<exists>t. Join (x # xs) sep = x @ t"
  by (cases xs) auto

lemma scanned_all:
  "num_ok v \<Longrightarrow> length st + jdepth v \<le> maxNestingDepth \<Longrightarrow> scanned v st"
proof (induction v arbitrary: st)
  case (JStr s)
  show ?case
    using scan_encode_string [of False st s]
    by (subst scanned_def) (simp, subst encode_string_Cons, simp add: is_json_space_def step_begin_def)
next
  case (JNum lit)
  then show ?case by (auto simp: scanned_def num_lit_def)
next
  case (JArr vs)
  have depth: "length st < maxNestingDepth" using JArr.prems(2) by simp
  have elem: "scanned v (FArr acc # st)" if "v \<in> set vs" for v acc
    using foldr_max_le [of "map jdepth vs" "foldr max (map jdepth vs) 0"] JArr.prems that
    by (intro JArr.IH) (auto simp: list_all_iff)
  show ?case
  proof (cases vs)
    case Nil
    then show ?thesis using depth by (simp add: scanned_def is_json_space_def step_begin_def push_frame_def)
  next
    case (Cons v ws)
    have v: "num_ok v" using JArr.prems(1) Cons by simp
    obtain t where "Join (map json_encode vs) '','' = json_encode v @ t"
      using Join_Cons [of "json_encode v" "map json_encode ws"] Cons by auto
    then have "scan_all (MBeginOrEnd, FArr [] # st) (Join (map json_encode vs) '','' @ '']'') =
        scan_all (MBegin, FArr [] # st) (Join (map json_encode vs) '','' @ '']'')"
      using scan_BeginOrEnd [OF v, of "FArr [] # st" "t @ '']''"] by simp
    also have "\<dots> = finish_value (JArr ([] @ map san_json vs)) st"
      by (rule scan_elems) (use Cons elem in auto)
    finally show ?thesis
      using depth by (simp add: scanned_def is_json_space_def step_begin_def push_frame_def)
  qed
next
  case (JObj kvs)
  have depth: "length st < maxNestingDepth" using JObj.prems(2) by simp
  have elem: "scanned v (FVal acc key # st)" if "(k, v) \<in> set kvs" for k v acc key
    using foldr_max_le [of "map (\<lambda>(k, v). jdepth v) kvs" "foldr max (map (\<lambda>(k, v). jdepth v) kvs) 0"]
      JObj.prems that
    by (intro JObj.IH [OF that]) (auto simp: list_all_iff)
  have enc: "json_encode (JObj kvs) = ''{'' @ Join (map member kvs) '','' @ ''}''"
    by (simp add: member_def)
  show ?case
  proof (cases kvs)
    case Nil
    then show ?thesis using depth by (simp add: scanned_def is_json_space_def step_begin_def push_frame_def)
  next
    case (Cons p ps)
    obtain k v where p: "p = (k, v)" by (cases p)
    obtain t where "Join (map member kvs) '','' = encode_string k @ t"
      using Join_Cons [of "member p" "map member ps"] Cons by (auto simp: p member_def)
    then have t: "Join (map member kvs) '','' @ ''}'' = CHR 0x22 # tl (encode_string k) @ t @ ''}''"
      by (simp add: encode_string_def)
    have "scan_all (MKeyOrEnd, FObj [] # st) (Join (map member kvs) '','' @ ''}'') =
        scan_all (MKey, FObj [] # st) (Join (map member kvs) '','' @ ''}'')"
      unfolding t by (simp add: is_json_space_def)
    also have "\<dots> = finish_value (JObj ([] @ map (\<lambda>(k, v). (sanitize k, san_json v)) kvs)) st"
      by (rule scan_members) (use Cons elem in auto)
    finally show ?thesis
      using depth unfolding scanned_def json.case enc
      by (simp add: is_json_space_def step_begin_def push_frame_def)
  qed
qed (simp_all add: scanned_def is_json_space_def step_begin_def is_digit_def)

lemma json_roundtrip:
  assumes "num_ok v" and "jdepth v \<le> maxNestingDepth"
  shows "json_scan (json_encode v) = Inr (san_json v)"
proof -
  have "scanned v []" using assms by (intro scanned_all) simp_all
  then show ?thesis
    by (cases v) (auto simp: scanned_def json_scan_def)
qed

text \<open>The same with a rest of the input, which is not read; a bare number is not affected by a
  newline after it.\<close>

lemma json_roundtrip_container:
  assumes "num_ok (JObj kvs)" and "jdepth (JObj kvs) \<le> maxNestingDepth"
  shows "json_scan (json_encode (JObj kvs) @ rest) = Inr (san_json (JObj kvs))"
proof -
  have "scanned (JObj kvs) []" using assms by (intro scanned_all) simp_all
  then have "scan_all (MBegin, []) (json_encode (JObj kvs)) = (MDone (san_json (JObj kvs)), [])"
    by (simp add: scanned_def)
  then show ?thesis by (simp only: json_scan_def scan_all_append) simp
qed

subsection \<open>Numbers\<close>

lemma scan_digits:
  assumes "list_all is_digit ds"
  shows "scan_all (MNum N1 lit, st) ds = (MNum N1 (lit @ ds), st)"
  using assms by (induction ds arbitrary: lit) auto

lemma scan_Neg:
  assumes "is_digit d" and "list_all is_digit ds" and "d = CHR ''0'' \<longrightarrow> ds = []"
  shows "\<exists>ns. num_final ns \<and> (\<forall>st. scan_all (MNum NNeg [CHR ''-''], st) (d # ds) = (MNum ns (CHR ''-'' # d # ds), st))"
  using assms scan_digits [of ds "[CHR ''-'', d]"]
  by (cases "d = CHR ''0''") (auto simp: num_final_def)

lemma show_nat_split:
  obtains d ds where "show_nat n = d # ds" and "is_digit d" and "list_all is_digit ds" and "d = CHR ''0'' \<longrightarrow> ds = []"
proof -
  obtain d ds where s: "show_nat n = d # ds" by (cases "show_nat n") auto
  have dig: "is_digit c" if "c \<in> set (d # ds)" for c using show_nat_digits [of c n] that by (simp add: s)
  have "ds = []" if "d = CHR ''0''"
  proof -
    have "n = 0" using hd_show_nat_zero [of n] that by (simp add: s digit_char_0)
    then have "show_nat n = [digit_char 0]" by (simp add: show_nat.simps)
    with s show ?thesis by simp
  qed
  with s dig show thesis by (intro that) (auto simp: list_all_iff)
qed

lemma num_lit_show_int: "num_lit (show_int i)"
proof -
  obtain d ds where s: "show_nat (nat (if i < 0 then - i else i)) = d # ds" and d: "is_digit d" "list_all is_digit ds"
    and z: "d = CHR ''0'' \<longrightarrow> ds = []"
    using show_nat_split .
  have "\<exists>ns. num_final ns \<and> (\<forall>st. scan_all (MBegin, st) (d # ds) = (MNum ns (d # ds), st))"
    using d z scan_digits [of ds "[d]"]
    by (cases "d = CHR ''0''") (auto simp: num_final_def is_json_space_def step_begin_def is_digit_def)
  moreover have "scan_all (MBegin, st) (CHR ''-'' # d # ds) = scan_all (MNum NNeg [CHR ''-''], st) (d # ds)" for st
    by (simp add: is_json_space_def step_begin_def)
  ultimately show ?thesis
    using s d scan_Neg [OF d z] by (auto simp: num_lit_def show_int_def split: if_splits)
qed

end
