(* ===== verification/Provider_Properties.thy ===== *)
theory Provider_Properties
  imports Kube_Provider Json_Roundtrip Server_Properties Controller_Properties
begin

text \<open>
  The properties of the provider plugin, and of the plugin and the API server together. \<open>wire\<close> turns a
  request of the client into the request the server sees; \<open>apiTransport\<close> is the network on which the
  server of \<open>Sandbox_Server\<close> answers.
\<close>

subsection \<open>The wire\<close>

definition wire :: "client_request \<Rightarrow> http_request" where
  "wire r = \<lparr>req_Method = clr_Method r, req_Path = Split (CHR ''/'') (tl (clr_EscapedPath r)),
     req_Authorization = clr_Authorization r, req_Body = clr_Body r\<rparr>"

definition apiTransport ::
    "nat \<Rightarrow> 'w kube \<Rightarrow> Config \<Rightarrow> ('w, kube_call) sys transport" where
  "apiTransport polls k cfg r s = (case run_state (ServeHTTP polls k cfg (wire r)) s of
     (None, t) \<Rightarrow> (Inl (CallFailed (errorsNew ''context deadline exceeded'')), t)
   | (Some rsp, t) \<Rightarrow> (Inr \<lparr>clp_StatusCode = rsp_Status rsp, clp_Status = show_nat (rsp_Status rsp),
       clp_Body = rsp_Body rsp\<rparr>, t))"

definition serverRequest :: "Sandbox_Client.createSandboxRequest \<Rightarrow> Sandbox_Server.createSandboxRequest" where
  "serverRequest r = \<lparr>csr_WorkloadRef = \<lparr>wr_Namespace = wl_Namespace (cr_WorkloadRef r),
       wr_Name = wl_Name (cr_WorkloadRef r), wr_UID = wl_UID (cr_WorkloadRef r)\<rparr>,
     csr_SandboxID = cr_SandboxID r, csr_UserData = cr_UserData r, csr_VCPUs = cr_VCPUs r,
     csr_MemoryMiB = cr_MemoryMiB r, csr_Arch = cr_Arch r\<rparr>"

definition valid_request :: "Sandbox_Client.createSandboxRequest \<Rightarrow> bool" where
  "valid_request r \<longleftrightarrow> list_all valid_utf8 [wl_Namespace (cr_WorkloadRef r), wl_Name (cr_WorkloadRef r),
     wl_UID (cr_WorkloadRef r), cr_SandboxID r, cr_UserData r, cr_Arch r] \<and>
     length (json_encode (createSandboxRequest_json r)) \<le> maxRequestBytes"

lemma ParseInt10_show_int:
  assumes "- (2 ^ 63) \<le> i" and "i < 2 ^ 63"
  shows "ParseInt10 (show_int i) = Some i"
proof (cases "i < 0")
  case True
  then have "nat (- i) \<le> 2 ^ 63" using assms(1) by simp
  with True show ?thesis by (simp add: ParseInt10_def show_int_def parse_digits_show_nat Let_def)
next
  case False
  have "\<not> (2 ^ 63 \<le> nat i)" using assms(2) False by simp
  moreover have "hd (show_nat (nat i)) \<noteq> CHR ''-''" "hd (show_nat (nat i)) \<noteq> CHR ''+''"
    using hd_show_nat_digit [of "nat i"] by (auto simp: is_digit_def)
  ultimately show ?thesis using False
    by (simp add: ParseInt10_def show_int_def parse_digits_show_nat Let_def)
qed

lemma store_int64_show: "store_int64 (JNum (show_int (sint (x :: int64)))) old = (x, False)"
  using ParseInt10_show_int [of "sint x"] sint64_bounds [of x] by (simp add: store_int64_def)

lemma store_int64_show32: "store_int64 (JNum (show_int (sint (x :: int32)))) old = (scast x, False)"
proof -
  have "- (2 ^ 63) \<le> sint x \<and> sint x < 2 ^ 63"
    using sint_range_size [of x] by (simp add: size_word_def)
  then show ?thesis using ParseInt10_show_int [of "sint x"] by (simp add: store_int64_def)
qed

lemma sanitize_ascii: "list_all (\<lambda>c. cv c < 128) s \<Longrightarrow> sanitize s = s"
  by (simp add: sanitize_valid valid_utf8_ascii)

lemma request_num_ok: "num_ok (createSandboxRequest_json r)"
  by (simp add: createSandboxRequest_json_def workloadReference_json_def omitempty_string_def
      omitempty_int64_def num_lit_show_int)

lemma request_depth: "jdepth (createSandboxRequest_json r) \<le> maxNestingDepth"
  by (simp add: createSandboxRequest_json_def workloadReference_json_def omitempty_string_def
      omitempty_int64_def maxNestingDepth_def)

lemma request_san:
  assumes "valid_request r"
  shows "san_json (createSandboxRequest_json r) = createSandboxRequest_json r"
proof -
  have "sanitize s = s" if "s \<in> set [''namespace'', ''name'', ''uid'', ''workloadRef'', ''sandboxID'', ''userData'',
      ''vcpus'', ''memoryMiB'', ''arch'']" for s
    using that by (intro sanitize_ascii) auto
  with assms show ?thesis
    by (simp add: createSandboxRequest_json_def workloadReference_json_def omitempty_string_def
        omitempty_int64_def valid_request_def sanitize_valid)
qed

lemma decode_request:
  "decode_createSandboxRequest (createSandboxRequest_json r) = Inr (serverRequest r)"
  by (simp add: decode_createSandboxRequest_def createSandboxRequest_json_def workloadReference_json_def
      omitempty_string_def omitempty_int64_def decode_WorkloadReference_def match_field_def store_string_def
      store_int64_show serverRequest_def zero_createSandboxRequest_def zero_WorkloadReference_def)

lemma wire_decode:
  assumes "valid_request r"
  shows "decodeRequest (json_encode (createSandboxRequest_json r)) = Inr (serverRequest r)"
proof -
  obtain kvs where kvs: "createSandboxRequest_json r = JObj kvs" by (simp add: createSandboxRequest_json_def)
  have "json_scan (json_encode (JObj kvs) @ []) = Inr (san_json (JObj kvs))"
    using request_num_ok [of r] request_depth [of r] by (intro json_roundtrip_container) (simp_all add: kvs)
  then have "json_scan (json_encode (createSandboxRequest_json r)) = Inr (createSandboxRequest_json r)"
    using request_san [OF assms] by (simp add: kvs)
  with assms show ?thesis by (simp add: decodeRequest_def valid_request_def decode_request)
qed

lemma fields_ascii:
  "sanitize ''id'' = ''id''" "sanitize ''name'' = ''name''" "sanitize ''ips'' = ''ips''" "sanitize ''networkMTU'' = ''networkMTU''"
  by (auto intro!: sanitize_ascii)

lemma store_elems_strings: "store_elems (map JStr xs) old = (xs, False)"
  by (induction xs arbitrary: old) (simp_all add: store_string_def)

lemma response_decode:
  "decode_object store_sandbox zero_sandbox (json_encode (sandboxResponse_json r) @ rest) =
     Inr \<lparr>sb_ID = sanitize (sr_ID r), sb_Name = sanitize (sr_Name r), sb_IPs = map sanitize (sr_IPs r)\<rparr>"
proof -
  have "json_scan (json_encode (sandboxResponse_json r) @ rest) = Inr (san_json (sandboxResponse_json r))"
    unfolding sandboxResponse_json_def
    by (rule json_roundtrip_container) (auto simp: list_all_iff foldr_max_le maxNestingDepth_def comp_def)
  moreover have "map san_json (map JStr xs) = map JStr (map sanitize xs)" for xs by simp
  ultimately show ?thesis
    by (simp add: decode_object_def sandboxResponse_json_def fields_ascii match_field_def store_string_def
        store_strings_def store_elems_strings zero_sandbox_def comp_def del: map_map)
qed

lemma config_decode:
  "decode_object store_sandboxProviderConfig zero_sandboxProviderConfig
     (json_encode (providerConfigResponse_json r) @ rest) = Inr \<lparr>spc_NetworkMTU = scast (pcr_NetworkMTU r)\<rparr>"
proof -
  have "json_scan (json_encode (providerConfigResponse_json r) @ rest) = Inr (san_json (providerConfigResponse_json r))"
    unfolding providerConfigResponse_json_def
    by (rule json_roundtrip_container) (simp_all add: num_lit_show_int maxNestingDepth_def)
  then show ?thesis
    by (simp add: decode_object_def providerConfigResponse_json_def fields_ascii match_field_def
        store_int64_show32 zero_sandboxProviderConfig_def)
qed

subsection \<open>Routes\<close>

definition root_endpoint :: "httpSandboxClient \<Rightarrow> bool" where
  "root_endpoint c \<longleftrightarrow> url_Path (hsc_baseURL c) = [] \<or> url_Path (hsc_baseURL c) = ''/''"

lemma root_path: "root_endpoint c \<Longrightarrow> TrimSuffix (url_Path (hsc_baseURL c)) ''/'' = []"
  by (auto simp: root_endpoint_def TrimSuffix_def HasSuffix_def)

lemma escape_append: "escape m (a @ b) = escape m a @ escape m b"
  by (simp add: escape_def)

lemma escape_paths:
  "escape EncodePath ''/v1/sandboxes'' = ''/v1/sandboxes''" "escape EncodePath ''/v1/config'' = ''/v1/config''"
  "escape EncodePath ''/v1/sandboxes/'' = ''/v1/sandboxes/''"
  by code_simp+

lemma wire_create:
  "root_endpoint c \<Longrightarrow> wire (newRequest c ''POST'' ''v1/sandboxes'' (Some body)) =
     \<lparr>req_Method = ''POST'', req_Path = [''v1'', ''sandboxes''],
      req_Authorization = (if hsc_token c \<noteq> [] then ''Bearer '' @ hsc_token c else []), req_Body = body\<rparr>"
  by (simp add: wire_def newRequest_def root_path escape_paths)

lemma wire_config:
  "root_endpoint c \<Longrightarrow> wire (newRequest c ''GET'' ''v1/config'' None) =
     \<lparr>req_Method = ''GET'', req_Path = [''v1'', ''config''],
      req_Authorization = (if hsc_token c \<noteq> [] then ''Bearer '' @ hsc_token c else []), req_Body = []\<rparr>"
  by (simp add: wire_def newRequest_def root_path escape_paths)

lemma route_create: "routeOf \<lparr>req_Method = ''POST'', req_Path = [''v1'', ''sandboxes''], req_Authorization = a, req_Body = b\<rparr> = RCreate"
  by code_simp

lemma route_config: "routeOf \<lparr>req_Method = ''GET'', req_Path = [''v1'', ''config''], req_Authorization = a, req_Body = b\<rparr> = RConfig"
  by code_simp

lemma bearer_token: "bearer \<lparr>req_Method = m, req_Path = p,
    req_Authorization = (if tok \<noteq> [] then ''Bearer '' @ tok else []), req_Body = b\<rparr> = tok"
  using TrimPrefix_append [of "''Bearer ''" tok] by (simp add: bearer_def TrimPrefix_def HasPrefix_def)

lemma authorize_answer:
  assumes handler: "\<And>a s1. run_state (authorizedAccessFor k cfg (bearer r)) s = (Inr a, s1) \<Longrightarrow>
    wp (h a r) (\<lambda>rsp t. case rsp of None \<Rightarrow> True | Some x \<Rightarrow> rsp_Status x < 400 \<longrightarrow> Q a x t) s1"
  shows "wp (authorize k cfg h r) (\<lambda>rsp t. case rsp of None \<Rightarrow> True | Some x \<Rightarrow>
     rsp_Status x < 400 \<longrightarrow> (\<exists>a. fst (run_state (authorizedAccessFor k cfg (bearer r)) s) = Inr a \<and>
       validAccess a \<and> Q a x t)) s"
proof -
  obtain a s1 where a: "run_state (authorizedAccessFor k cfg (bearer r)) s = (a, s1)" by fastforce
  have bind: "wp (State_Monad.bind (authorizedAccessFor k cfg (bearer r)) f) Q s \<longleftrightarrow> wp (f a) Q s1" for f Q
    unfolding wp_bind by (simp add: wp_def a)
  show ?thesis
  proof (cases a)
    case (Inl e)
    then show ?thesis by (simp add: authorize_def bind httpError_def del: wp_bind)
  next
    case (Inr access)
    show ?thesis
    proof (cases "validAccess access")
      case False
      with Inr show ?thesis by (auto simp: authorize_def bind httpError_def validAccess_def simp del: wp_bind)
    next
      case True
      with Inr show ?thesis using handler [of access s1] a
        by (auto simp: authorize_def bind validAccess_def a simp del: wp_bind split: option.splits elim!: wp_mono)
    qed
  qed
qed

lemma create_answer:
  "wp (createSandbox n k a r) (\<lambda>rsp t. case rsp of None \<Rightarrow> True | Some x \<Rightarrow>
     rsp_Status x < 400 \<longrightarrow> ready_answer k a r (Some x) t) s"
  by (rule wp_mono [OF createSandbox_ready]) (auto split: option.splits)

subsection \<open>Creating an instance\<close>

text \<open>The answer of a client and a server connected by the wire: a sandbox that was read ready under the
  name of the request, in the namespace that the token of the client was granted.\<close>

definition ready_sandbox ::
    "'w kube \<Rightarrow> Config \<Rightarrow> httpSandboxClient \<Rightarrow> Sandbox_Client.createSandboxRequest \<Rightarrow>
     ('w, kube_call) sys \<Rightarrow> ('w, kube_call) sys \<Rightarrow> sandbox \<Rightarrow> bool" where
  "ready_sandbox k cfg c rq s t sb \<longleftrightarrow> (\<exists>a w0 psb.
     fst (run_state (authorizedAccessFor k cfg (hsc_token c)) s) = Inr a \<and> validAccess a \<and>
     kc_GetSandbox k (NN (aa_Namespace a) (sandboxName (cr_SandboxID rq))) w0 = (Inr psb, world t) \<and>
     conditionTrue (status_Conditions (psb_Status psb)) ConditionReady \<and> status_IPs (psb_Status psb) \<noteq> [] \<and>
     sb = \<lparr>sb_ID = sanitize (psb_Name psb), sb_Name = wl_Name (cr_WorkloadRef rq),
           sb_IPs = map sanitize (status_IPs (psb_Status psb))\<rparr>)"

text \<open>What holds of every successful answer of the create handler holds of the answer that a client decodes.\<close>

definition decoded_sandbox :: "http_response \<Rightarrow> sandbox \<Rightarrow> bool" where
  "decoded_sandbox x sb \<longleftrightarrow> rsp_Status x < 400 \<and>
     (if rsp_Status x = 204 then sb = zero_sandbox else decode_object store_sandbox zero_sandbox (rsp_Body x) = Inr sb)"

lemma decoded_response:
  assumes "decoded_sandbox (writeJSON 201 (sandboxResponse_json r)) sb"
  shows "sb = \<lparr>sb_ID = sanitize (sr_ID r), sb_Name = sanitize (sr_Name r), sb_IPs = map sanitize (sr_IPs r)\<rparr>"
  using assms by (simp add: decoded_sandbox_def writeJSON_def response_decode)

lemma client_create_answer:
  assumes "root_endpoint c" and "valid_request rq"
    and "run_state (client_Create (apiTransport n k cfg) c rq) s = (Inr sb, t)"
    and handler: "\<And>a r s1. run_state (authorizedAccessFor k cfg (hsc_token c)) (world s) = (Inr a, s1) \<Longrightarrow>
      wp (createSandbox n k a r) (\<lambda>rsp u. case rsp of None \<Rightarrow> True | Some x \<Rightarrow> rsp_Status x < 400 \<longrightarrow> Q a r x u) s1"
  shows "\<exists>a r x. fst (run_state (authorizedAccessFor k cfg (hsc_token c)) (world s)) = Inr a \<and> validAccess a \<and>
    decodeRequest (req_Body r) = Inr (serverRequest rq) \<and> decoded_sandbox x sb \<and> Q a r x (world t)"
proof -
  let ?body = "json_encode (createSandboxRequest_json rq)"
  let ?r = "wire (newRequest c ''POST'' ''v1/sandboxes'' (Some ?body))"
  have r: "?r = \<lparr>req_Method = ''POST'', req_Path = [''v1'', ''sandboxes''],
      req_Authorization = (if hsc_token c \<noteq> [] then ''Bearer '' @ hsc_token c else []), req_Body = ?body\<rparr>"
    by (rule wire_create [OF assms(1)])
  have serve: "ServeHTTP n k cfg ?r = authorize k cfg (createSandbox n k) ?r"
    unfolding r by (simp add: ServeHTTP_def route_create)
  have tok: "bearer ?r = hsc_token c" unfolding r by (rule bearer_token)
  have body: "decodeRequest (req_Body ?r) = Inr (serverRequest rq)" unfolding r by (simp add: wire_decode [OF assms(2)])
  obtain rsp u where run: "run_state (ServeHTTP n k cfg ?r) (world s) = (rsp, u)" by fastforce
  obtain x where x: "rsp = Some x" "rsp_Status x < 400" "world t = u" "decoded_sandbox x sb"
    using assms(3) run
    by (cases rsp) (auto simp: client_Create_def doRequest_def Let_def apiTransport_def decoded_sandbox_def
        split: if_splits sum.splits)
  with wpD [OF authorize_answer [where k = k and cfg = cfg and h = "createSandbox n k" and s = "world s" and r = ?r
    and Q = "\<lambda>a. Q a ?r", unfolded tok, OF handler] run [unfolded serve]] body
  show ?thesis by auto
qed

lemma ready_answer_sandbox:
  assumes "valid_request rq" and "decodeRequest (req_Body r) = Inr (serverRequest rq)" and "decoded_sandbox x sb"
    and "ready_answer k a r (Some x) t" and "validAccess a"
    and "fst (run_state (authorizedAccessFor k cfg (hsc_token c)) s) = Inr a"
  shows "ready_sandbox k cfg c rq s t sb"
proof -
  have "rsp_Status x < 400" using assms(3) by (simp add: decoded_sandbox_def)
  with assms(2,4) obtain w0 psb where psb: "kc_GetSandbox k (sandboxKey a (serverRequest rq)) w0 = (Inr psb, world t)"
      "conditionTrue (status_Conditions (psb_Status psb)) ConditionReady" "status_IPs (psb_Status psb) \<noteq> []"
      and x: "x = writeJSON 201 (sandboxResponse_json \<lparr>sr_ID = psb_Name psb,
        sr_Name = wl_Name (cr_WorkloadRef rq), sr_IPs = status_IPs (psb_Status psb)\<rparr>)"
    by (auto simp: ready_answer_def ready_reply_def serverRequest_def)
  have "sanitize (wl_Name (cr_WorkloadRef rq)) = wl_Name (cr_WorkloadRef rq)"
    using assms(1) by (simp add: valid_request_def sanitize_valid)
  with decoded_response [OF assms(3) [unfolded x]] psb assms(5,6) show ?thesis
    unfolding ready_sandbox_def by (auto simp: sandboxKey_def serverRequest_def)
qed

lemma client_server_create:
  assumes "root_endpoint c" and "valid_request rq"
    and "run_state (client_Create (apiTransport n k cfg) c rq) s = (Inr sb, t)"
  shows "ready_sandbox k cfg c rq (world s) (world t) sb"
  using client_create_answer [OF assms create_answer] ready_answer_sandbox [OF assms(2)] by blast

lemma CreateInstance_success:
  assumes "run_state (CreateInstance Generate p podName sandboxID gen spec) s = ((Some inst, None), t)"
  obtains client cfg s1 ud sb where "ConfigVerifier p = Inr client" "run_state (co_Config client) s = (Inr cfg, s1)"
    "generateUserData Generate gen (spc_NetworkMTU cfg) = Inr ud"
    "run_state (co_Create client (createRequest gen podName sandboxID ud spec)) s1 = (Inr sb, t)"
    "instanceOf sb = (Some inst, None)"
  using assms unfolding CreateInstance_def
  by (auto simp: run_state_bind split: sum.splits prod.splits)

lemma CreateInstance_http:
  assumes "kp_client p = Some (http_ops tr c)"
    and "run_state (CreateInstance Generate p podName sandboxID gen spec) s = ((Some inst, None), t)"
  obtains cfg s1 ud sb where "generateUserData Generate gen (spc_NetworkMTU cfg) = Inr ud"
    "run_state (client_Create tr c (createRequest gen podName sandboxID ud spec)) s1 = (Inr sb, t)"
    "instanceOf sb = (Some inst, None)" "run_state (client_Config tr c) s = (Inr cfg, s1)"
proof -
  from assms(2) obtain client cfg s1 ud sb where c: "ConfigVerifier p = Inr client"
      and steps: "run_state (co_Config client) s = (Inr cfg, s1)"
      "generateUserData Generate gen (spc_NetworkMTU cfg) = Inr ud"
      "run_state (co_Create client (createRequest gen podName sandboxID ud spec)) s1 = (Inr sb, t)"
      "instanceOf sb = (Some inst, None)"
    by (rule CreateInstance_success)
  have "client = http_ops tr c" using c assms(1) by (simp add: ConfigVerifier_def split: if_splits)
  with steps show thesis by (intro that) (simp_all add: http_ops_def)
qed

lemma firstBadIP_None: "firstBadIP ips = None \<longleftrightarrow> list_all ParseAddr_ok ips"
  by (induction ips) auto

lemma instanceOf_success:
  "instanceOf sb = (Some inst, None) \<longleftrightarrow> sb_ID sb \<noteq> [] \<and> sb_IPs sb \<noteq> [] \<and> list_all ParseAddr_ok (sb_IPs sb) \<and>
     inst = \<lparr>in_ID = sb_ID sb, in_Name = sb_Name sb, in_IPs = sb_IPs sb\<rparr>"
  by (auto simp: instanceOf_def Let_def firstBadIP_None split: option.splits)
    (metis firstBadIP_None option.distinct(1))+

lemma sandboxName_chars: "c \<in> set (sandboxName i) \<Longrightarrow> c \<in> set ''psb-'' \<or> is_lower_hex c"
  unfolding sandboxName_def using hex_lower by auto

lemma sandboxName_ascii: "sanitize (sandboxName i) = sandboxName i"
  using sandboxName_chars [of _ i]
  by (intro sanitize_ascii) (fastforce simp: list_all_iff is_lower_hex_def is_digit_def)

lemma instance_of_ready:
  assumes "sandbox_read_law k" and "ready_sandbox k cfg c rq s t sb"
  shows "sb_ID sb = sandboxName (cr_SandboxID rq)"
  using assms unfolding ready_sandbox_def sandbox_read_law_def
  by (fastforce simp: ObjectKeyFromMeta_eq sandboxName_ascii)

subsection \<open>Paths\<close>

lemma upper_hex_ok: "d < 16 \<Longrightarrow> is_hex_char (upper_hex d) \<and> hex_val (upper_hex d) = d"
  by (auto simp: is_hex_char_def hex_val_def upper_hex_def in_range_def is_digit_def)

lemma unescape_escape: "unescape_path (escape m s) = Some s"
proof (induction s)
  case Nil
  show ?case by (simp add: escape_def)
next
  case (Cons c s)
  have "\<not> shouldEscape m (CHR ''%'') \<Longrightarrow> False"
    by (cases m) (simp_all add: shouldEscape_def is_alnum_def is_digit_def in_range_def)
  moreover have "cv c div 16 < 16" "cv c mod 16 < 16"
    using cv_less [of c] by (simp_all add: less_mult_imp_div_less)
  moreover have "cv c div 16 * 16 + cv c mod 16 = cv c" by simp
  ultimately show ?case using Cons upper_hex_ok
    by (auto simp: escape_def)
qed

lemma PathUnescape_escape [simp]: "PathUnescape (escape m s) = s"
  by (simp add: PathUnescape_def unescape_escape)

lemma escape_inj: "escape m s = escape m t \<Longrightarrow> s = t"
  by (metis option.inject unescape_escape)

lemma upper_hex_alnum: "d < 16 \<Longrightarrow> is_alnum (upper_hex d)"
  by (auto simp: is_alnum_def upper_hex_def in_range_def is_digit_def)

definition is_alnum_dash :: "char \<Rightarrow> bool" where
  "is_alnum_dash c \<longleftrightarrow> is_alnum c \<or> c = CHR ''-''"

lemma escape_no_slash:
  assumes "CHR ''/'' \<notin> set s \<or> m = EncodePathSegment"
  shows "CHR ''/'' \<notin> set (escape m s)"
proof
  assume "CHR ''/'' \<in> set (escape m s)"
  then obtain c where c: "c \<in> set s" "CHR ''/'' = upper_hex (cv c div 16) \<or> CHR ''/'' = upper_hex (cv c mod 16) \<or>
      c = CHR ''/'' \<and> \<not> shouldEscape m c"
    by (auto simp: escape_def split: if_splits)
  have "\<not> is_alnum (CHR ''/'')" by (simp add: is_alnum_def is_digit_def in_range_def)
  moreover have "is_alnum (upper_hex (cv c div 16))" "is_alnum (upper_hex (cv c mod 16))"
    using cv_less [of c] by (simp_all add: upper_hex_alnum less_mult_imp_div_less)
  ultimately have "c = CHR ''/'' \<and> \<not> shouldEscape m c" using c(2) by metis
  with assms c(1) show False
    by (auto simp: shouldEscape_def is_alnum_def is_digit_def in_range_def)
qed

lemma wire_delete:
  assumes "root_endpoint c"
  shows "wire (newRequest c ''DELETE'' (''v1/sandboxes/'' @ PathEscape i) None) =
     \<lparr>req_Method = ''DELETE'', req_Path = [''v1'', ''sandboxes'', escape EncodePath (PathEscape i)],
      req_Authorization = (if hsc_token c \<noteq> [] then ''Bearer '' @ hsc_token c else []), req_Body = []\<rparr>"
proof -
  have "CHR ''/'' \<notin> set (escape EncodePath (PathEscape i))"
    unfolding PathEscape_def by (rule escape_no_slash, rule disjI1) (simp add: escape_no_slash)
  then have "Split (CHR ''/'') (''v1/sandboxes/'' @ escape EncodePath (PathEscape i)) =
      [''v1'', ''sandboxes'', escape EncodePath (PathEscape i)]"
    by (simp add: Split_no)
  moreover have "escape EncodePath (''/v1/sandboxes/'' @ PathEscape i) = ''/v1/sandboxes/'' @ escape EncodePath (PathEscape i)"
    by (simp only: escape_append escape_paths)
  ultimately show ?thesis using assms by (simp add: wire_def newRequest_def root_path)
qed

lemma escape_dots: "escape m [] = []" "escape m ''.'' = ''.''" "escape m ''..'' = ''..''"
  by (simp_all add: escape_def shouldEscape_def)

lemma route_delete:
  assumes "i \<noteq> []" "i \<noteq> ''.''" "i \<noteq> ''..''"
  shows "routeOf \<lparr>req_Method = ''DELETE'', req_Path = [''v1'', ''sandboxes'', escape EncodePath (PathEscape i)],
    req_Authorization = a, req_Body = b\<rparr> = RDelete"
proof -
  have "escape m j \<noteq> []" "escape m j \<noteq> ''.''" "escape m j \<noteq> ''..''" if "j \<notin> {[], ''.'', ''..''}" for m j
    using that escape_dots escape_inj by (metis insertCI)+
  then have "escape EncodePath (PathEscape i) \<notin> {[], ''.'', ''..''}" "PathEscape i \<noteq> []"
    using assms by (simp_all add: PathEscape_def)
  moreover have "PathUnescape ''v1'' = ''v1''" "PathUnescape ''sandboxes'' = ''sandboxes''"
    by (simp_all add: PathUnescape_def)
  ultimately show ?thesis by (auto simp: routeOf_def cleanSegments_def matchPath_def)
qed

lemma PathEscape_plain: "list_all is_alnum_dash s \<Longrightarrow> PathEscape s = s"
  by (induction s) (auto simp: PathEscape_def escape_def shouldEscape_def is_alnum_dash_def)

lemma PathEscape_sandboxName: "PathEscape (sandboxName i) = sandboxName i"
  using sandboxName_chars [of _ i]
  by (intro PathEscape_plain)
     (fastforce simp: list_all_iff is_alnum_dash_def is_lower_hex_def is_alnum_def in_range_def is_digit_def)

definition plug_client :: httpSandboxClient where
  "plug_client = \<lparr>hsc_baseURL = \<lparr>url_Scheme = ''http'', url_Host = ''api:8080'', url_Path = []\<rparr>, hsc_token = ''secret''\<rparr>"

lemma plug_root: "root_endpoint plug_client"
  by (simp add: root_endpoint_def plug_client_def)

text \<open>The ID of a deletion is escaped twice, so one that needs escaping arrives changed.\<close>

theorem delete_escapes_twice:
  "pathValueID (wire (newRequest plug_client ''DELETE'' (''v1/sandboxes/'' @ PathEscape ''a b'') None)) = ''a%20b''"
proof -
  have "PathEscape ''a b'' = ''a%20b''" by code_simp
  then show ?thesis unfolding wire_delete [OF plug_root] by (simp add: pathValueID_def)
qed

subsection \<open>Deleting an instance\<close>

text \<open>What a successful deletion of the sandbox \<open>key\<close> saw last: no such sandbox, or a sandbox of the class of
  the access and the deletion of it, which succeeded or found it gone.\<close>

definition deleted_sandbox :: "'w kube \<Rightarrow> authorizedAccess \<Rightarrow> NamespacedName \<Rightarrow> 'w \<Rightarrow> bool" where
  "deleted_sandbox k a key w \<longleftrightarrow>
     (\<exists>w0 e. kc_GetSandbox k key w0 = (Inl e, w) \<and> IsNotFound e) \<or>
     (\<exists>w0 psb w1 d. kc_GetSandbox k key w0 = (Inr psb, w1) \<and> spec_ClassName (psb_Spec psb) = aa_ClassName a \<and>
        kc_DeleteSandbox k RequestCtx key w1 = (d, w) \<and> (case d of Inl e \<Rightarrow> IsNotFound e | Inr _ \<Rightarrow> True))"

lemma deleteSandbox_deleted:
  assumes "sandbox_read_law k"
  shows "wp (deleteSandbox k a r) (\<lambda>rsp t. case rsp of None \<Rightarrow> True | Some x \<Rightarrow>
     rsp_Status x < 400 \<longrightarrow> deleted_sandbox k a (NN (aa_Namespace a) (pathValueID r)) (world t)) s"
proof -
  let ?key = "NN (aa_Namespace a) (pathValueID r)"
  obtain g w1 where g: "kc_GetSandbox k ?key (world s) = (g, w1)" by fastforce
  obtain d w2 where d: "kc_DeleteSandbox k RequestCtx ?key w1 = (d, w2)" by fastforce
  have key: "psb_key psb = ?key" if "g = Inr psb" for psb
    using assms that g unfolding sandbox_read_law_def by blast
  have "deleted_sandbox k a ?key w1" if "g = Inl e" "IsNotFound e" for e
    using g that unfolding deleted_sandbox_def by blast
  moreover have "deleted_sandbox k a ?key w2" if "g = Inr psb" "spec_ClassName (psb_Spec psb) = aa_ClassName a"
      "case d of Inl e \<Rightarrow> IsNotFound e | Inr _ \<Rightarrow> True" for psb
    using g d that unfolding deleted_sandbox_def by blast
  ultimately show ?thesis
    unfolding deleteSandbox_def Let_def getSandbox_def deleteSandboxObject_def
    by (cases g; cases d) (auto simp: wp_perform g d key httpError_def writeHeader_def)
qed

lemma client_server_delete:
  assumes "sandbox_read_law k" and "root_endpoint c" and "i \<notin> {[], ''.'', ''..''}"
    and "run_state (client_Delete (apiTransport n k cfg) c i) s = (Inr (), t)"
  shows "\<exists>a. fst (run_state (authorizedAccessFor k cfg (hsc_token c)) (world s)) = Inr a \<and> validAccess a \<and>
    deleted_sandbox k a (NN (aa_Namespace a) (PathEscape i)) (world (world t))"
proof -
  let ?r = "wire (newRequest c ''DELETE'' (''v1/sandboxes/'' @ PathEscape i) None)"
  note r = wire_delete [OF assms(2), of i]
  have serve: "ServeHTTP n k cfg ?r = authorize k cfg (deleteSandbox k) ?r"
    unfolding r using assms(3) by (simp add: ServeHTTP_def route_delete)
  have tok: "bearer ?r = hsc_token c" unfolding r by (rule bearer_token)
  have id: "pathValueID ?r = PathEscape i" unfolding r by (simp add: pathValueID_def)
  obtain rsp u where run: "run_state (ServeHTTP n k cfg ?r) (world s) = (rsp, u)" by fastforce
  obtain x where x: "rsp = Some x" "rsp_Status x < 300" "world t = u"
    using assms(4) run
    by (cases rsp) (auto simp: client_Delete_def doRequest_def Let_def apiTransport_def split: if_splits)
  then show ?thesis
    using wpD [OF authorize_answer [OF deleteSandbox_deleted [OF assms(1)]] run [unfolded serve]]
    unfolding tok id by auto
qed

subsection \<open>The provider and the server\<close>

text \<open>C32: An instance that the provider reports is a sandbox that the server has seen ready. When
  \<open>CreateInstance\<close> succeeds against this server, the token of the plugin was granted an access; the last
  call of the server read, in the namespace of that access and under the name derived from the sandbox
  ID, a sandbox whose condition Ready is true; the instance has that name as its ID and the addresses of
  that sandbox, of which there is at least one and each of which is a valid address.\<close>

theorem CreateInstance_end_to_end:
  assumes "sandbox_read_law k" and "root_endpoint c"
    and "kp_client p = Some (http_ops (apiTransport polls k cfg) c)"
    and "\<And>mtu ud. generateUserData Generate gen mtu = Inr ud \<Longrightarrow>
      valid_request (createRequest gen podName sandboxID ud spec)"
    and "run_state (CreateInstance Generate p podName sandboxID gen spec) s = ((Some inst, None), t)"
  shows "in_ID inst = sandboxName sandboxID \<and> in_IPs inst \<noteq> [] \<and> list_all ParseAddr_ok (in_IPs inst) \<and>
    (\<exists>a s1 w0 psb. fst (run_state (authorizedAccessFor k cfg (hsc_token c)) s1) = Inr a \<and> validAccess a \<and>
      kc_GetSandbox k (NN (aa_Namespace a) (sandboxName sandboxID)) w0 = (Inr psb, world (world t)) \<and>
      conditionTrue (status_Conditions (psb_Status psb)) ConditionReady \<and>
      in_IPs inst = map sanitize (status_IPs (psb_Status psb)))"
proof -
  obtain pc s1 ud sb where create: "generateUserData Generate gen (spc_NetworkMTU pc) = Inr ud"
      "run_state (client_Create (apiTransport polls k cfg) c (createRequest gen podName sandboxID ud spec)) s1 = (Inr sb, t)"
      and inst: "instanceOf sb = (Some inst, None)"
      and "run_state (client_Config (apiTransport polls k cfg) c) s = (Inr pc, s1)"
    by (rule CreateInstance_http [OF assms(3,5)])
  have ready: "ready_sandbox k cfg c (createRequest gen podName sandboxID ud spec) (world s1) (world t) sb"
    by (rule client_server_create [OF assms(2) assms(4) [OF create(1)] create(2)])
  from instance_of_ready [OF assms(1) ready] inst have
      "in_ID inst = sandboxName sandboxID" "in_IPs inst = sb_IPs sb" "in_IPs inst \<noteq> []"
      "list_all ParseAddr_ok (in_IPs inst)"
    by (simp_all add: instanceOf_success createRequest_def)
  with ready show ?thesis unfolding ready_sandbox_def by (auto simp: createRequest_def) blast
qed

text \<open>C33: The ID that \<open>CreateInstance\<close> returned deletes the sandbox it was returned for. A successful
  \<open>DeleteInstance\<close> of the name derived from a sandbox ID has, with the access granted to the token of the
  plugin, addressed exactly the sandbox of that name in the namespace of the access: it was not there, or
  it has the class of the access and was deleted.\<close>

theorem DeleteInstance_end_to_end:
  assumes "sandbox_read_law k" and "root_endpoint c"
    and "kp_client p = Some (http_ops (apiTransport polls k cfg) c)"
    and "run_state (DeleteInstance p (sandboxName sandboxID)) s = (Inr (), t)"
  shows "\<exists>a. fst (run_state (authorizedAccessFor k cfg (hsc_token c)) (world s)) = Inr a \<and> validAccess a \<and>
    deleted_sandbox k a (NN (aa_Namespace a) (sandboxName sandboxID)) (world (world t))"
proof -
  let ?i = "sandboxName sandboxID"
  have "length ?i = 24" by (simp add: sandboxName_shape)
  then have i: "?i \<notin> {[], ''.'', ''..''}" by auto
  have "run_state (client_Delete (apiTransport polls k cfg) c ?i) s = (Inr (), t)"
    using assms(3,4) i
    by (auto simp: DeleteInstance_def ConfigVerifier_def http_ops_def run_state_bind split: if_splits sum.splits prod.splits)
  from client_server_delete [OF assms(1,2) i this] show ?thesis by (simp only: PathEscape_sandboxName)
qed

subsection \<open>A plugin and a server\<close>

definition plug_provider :: "((mem, kube_call) sys, client_request) kubernetesProvider" where
  "plug_provider = \<lparr>kp_config = \<lparr>pcfg_Endpoint = ''http://api:8080'', pcfg_Token = ''secret'', pcfg_Timeout = []\<rparr>,
     kp_client = Some (http_ops (apiTransport 2 mem_kube demo_config) plug_client)\<rparr>"

definition plug_spec :: InstanceTypeSpec where
  "plug_spec = \<lparr>its_VCPUs = 0, its_Memory = 0, its_Arch = []\<rparr>"

definition plug_generate :: "unit generator \<Rightarrow> go_error + string" where
  "plug_generate g = Inr ''cloud-config''"

definition plug_request :: Sandbox_Client.createSandboxRequest where
  "plug_request = createRequest (OtherGenerator ()) ''web'' ''sid'' ''cloud-config'' plug_spec"

definition plug_sandbox :: PodSandbox where
  "plug_sandbox = (newSandbox ''system'' (sandboxName ''sid'') ''default'' ''userdata'' (serverRequest plug_request))
     \<lparr>psb_Status := psb_Status demo_sandbox\<rparr>"

definition plug_start :: "((mem, kube_call) sys, client_request) sys" where
  "plug_start = \<lparr>world = mem_start (empty_mem\<lparr>m_Sandboxes := [plug_sandbox], m_Classes := [demo_class]\<rparr>), trace = []\<rparr>"

lemma plug_valid: "valid_request plug_request"
proof -
  have "json_encode (createSandboxRequest_json plug_request) =
      ''{'' @ encode_string ''workloadRef'' @ '':{'' @ encode_string ''name'' @ '':'' @ encode_string ''web'' @ ''},'' @
      encode_string ''sandboxID'' @ '':'' @ encode_string ''sid'' @ '','' @
      encode_string ''userData'' @ '':'' @ encode_string ''cloud-config'' @ ''}''"
    by (simp add: createSandboxRequest_json_def plug_request_def createRequest_def sourceWorkloadReference_def plug_spec_def
        workloadReference_json_def omitempty_string_def omitempty_int64_def)
  moreover have "length (encode_string ''workloadRef'') = 13" "length (encode_string ''name'') = 6"
    "length (encode_string ''web'') = 5" "length (encode_string ''sandboxID'') = 11" "length (encode_string ''sid'') = 5"
    "length (encode_string ''userData'') = 10" "length (encode_string ''cloud-config'') = 14"
    by code_simp+
  ultimately have "length (json_encode (createSandboxRequest_json plug_request)) \<le> maxRequestBytes"
    by (simp add: maxRequestBytes_def)
  then show ?thesis
    by (simp add: valid_request_def plug_request_def createRequest_def sourceWorkloadReference_def plug_spec_def
        valid_utf8_ascii)
qed

lemma plug_access:
  "run_state (authorizedAccessFor k demo_config ''secret'') s = (Inr demo_access, s)"
  by (simp add: authorizedAccessFor_def demo_config_def demo_access_def token_def tokenMatches_def ConstantTimeCompare_iff)

lemma plug_bearer:
  "bearer (wire (newRequest plug_client ''GET'' ''v1/config'' None)) = ''secret''"
  "bearer (wire (newRequest plug_client ''POST'' ''v1/sandboxes'' (Some b))) = ''secret''"
  unfolding wire_config [OF plug_root] wire_create [OF plug_root] bearer_token by (simp_all add: plug_client_def)

lemma plug_config:
  "\<exists>t. run_state (client_Config (apiTransport 2 mem_kube demo_config) plug_client) plug_start =
     (Inr \<lparr>spc_NetworkMTU = 1500\<rparr>, t) \<and> world (world t) = world (world plug_start)"
proof -
  have "ServeHTTP 2 mem_kube demo_config (wire (newRequest plug_client ''GET'' ''v1/config'' None)) =
      authorize mem_kube demo_config (getConfig mem_kube) (wire (newRequest plug_client ''GET'' ''v1/config'' None))"
    unfolding wire_config [OF plug_root] by (simp add: ServeHTTP_def route_config)
  then show ?thesis
    by (simp add: client_Config_def doRequest_def Let_def apiTransport_def authorize_def plug_bearer run_state_bind
        plug_access demo_access_def getConfig_def getClass_def getClassObject_def mem_eval plug_start_def mem_start_def
        empty_mem_def demo_class_def writeJSON_def config_decode)
qed

definition plug_response :: http_response where
  "plug_response = writeJSON 201 (sandboxResponse_json
     \<lparr>sr_ID = sandboxName ''sid'', sr_Name = ''web'', sr_IPs = [''10.0.0.7'']\<rparr>)"

lemma plug_read:
  "world u = world (world plug_start) \<Longrightarrow> run_state (getSandbox mem_kube (NN ''system'' (sandboxName ''sid''))) u =
     (Inr plug_sandbox, u\<lparr>trace := trace u @ [GetSandbox (NN ''system'' (sandboxName ''sid''))]\<rparr>)"
  by (simp add: getSandbox_def mem_kube_simps mem_get_def plug_start_def mem_start_def plug_sandbox_def newSandbox_def
      ObjectKeyFromMeta_def zero_ObjectMeta_def)

lemma plug_poll: "pollResult ''web'' plug_sandbox = Some (plug_response, True)"
  by (simp add: pollResult_def plug_sandbox_def demo_sandbox_def newSandbox_def conditionTrue_def plug_response_def
      zero_ObjectMeta_def)

lemma plug_names: "csr_SandboxID (serverRequest plug_request) = ''sid''"
  "wr_Name (csr_WorkloadRef (serverRequest plug_request)) = ''web''" "csr_UserData (serverRequest plug_request) \<noteq> []"
   "identityConflict ''default'' (applyDefaults (serverRequest plug_request)) plug_sandbox = False"
  by (simp_all add: serverRequest_def plug_request_def createRequest_def sourceWorkloadReference_def
      identityConflict_def plug_sandbox_def newSandbox_def)

lemma plug_admit:
  assumes "world u = world (world plug_start)"
  shows "\<exists>t. run_state (admitSandbox 2 mem_kube demo_access (applyDefaults (serverRequest plug_request))) u =
    (Some plug_response, t)"
  using assms plug_poll
  by (simp add: admitSandbox_def Let_def plug_names demo_access_def run_state_bind plug_read awaitSandbox_def
      numeral_2_eq_2 finishCreate_def)

lemma plug_create:
  assumes "world (world s) = world (world plug_start)"
  shows "\<exists>t. run_state (client_Create (apiTransport 2 mem_kube demo_config) plug_client plug_request) s =
     (Inr \<lparr>sb_ID = sandboxName ''sid'', sb_Name = ''web'', sb_IPs = [''10.0.0.7'']\<rparr>, t)"
proof -
  let ?r = "wire (newRequest plug_client ''POST'' ''v1/sandboxes'' (Some (json_encode (createSandboxRequest_json plug_request))))"
  have serve: "ServeHTTP 2 mem_kube demo_config ?r = authorize mem_kube demo_config (createSandbox 2 mem_kube) ?r"
    unfolding wire_create [OF plug_root] by (simp add: ServeHTTP_def route_create)
  have body: "decodeRequest (req_Body ?r) = Inr (serverRequest plug_request)"
    unfolding wire_create [OF plug_root] by (simp add: wire_decode [OF plug_valid])
  have "run_state (getClass mem_kube ''default'') (world s) =
      (Inr demo_class, (world s)\<lparr>trace := trace (world s) @ [GetClass ''default'']\<rparr>)"
    using assms by (simp add: getClass_def getClassObject_def mem_eval plug_start_def mem_start_def empty_mem_def
        demo_class_def run_state_bind)
  moreover obtain t where "run_state (admitSandbox 2 mem_kube demo_access (applyDefaults (serverRequest plug_request)))
      ((world s)\<lparr>trace := trace (world s) @ [GetClass ''default'']\<rparr>) = (Some plug_response, t)"
    using plug_admit assms by fastforce
  ultimately have "run_state (ServeHTTP 2 mem_kube demo_config ?r) (world s) = (Some plug_response, t)"
    unfolding serve using body
    by (simp add: authorize_def plug_bearer run_state_bind plug_access createSandbox_def plug_names)
       (simp add: demo_access_def plug_names)
  then show ?thesis
    by (simp add: client_Create_def doRequest_def Let_def apiTransport_def plug_response_def writeJSON_def
        response_decode sandboxName_ascii sanitize_ascii)
qed

lemma plug_run:
  "\<exists>t. run_state (CreateInstance plug_generate plug_provider ''web'' ''sid'' (OtherGenerator ()) plug_spec) plug_start =
     ((Some \<lparr>in_ID = sandboxName ''sid'', in_Name = ''web'', in_IPs = [''10.0.0.7'']\<rparr>, None), t)"
proof -
  obtain s1 where config: "run_state (client_Config (apiTransport 2 mem_kube demo_config) plug_client) plug_start =
      (Inr \<lparr>spc_NetworkMTU = 1500\<rparr>, s1)" "world (world s1) = world (world plug_start)"
    using plug_config by blast
  obtain t where "run_state (client_Create (apiTransport 2 mem_kube demo_config) plug_client plug_request) s1 =
      (Inr \<lparr>sb_ID = sandboxName ''sid'', sb_Name = ''web'', sb_IPs = [''10.0.0.7'']\<rparr>, t)"
    using plug_create [OF config(2)] by blast
  moreover have "sandboxName ''sid'' \<noteq> []" using sandboxName_shape(1) [of "''sid''"] by auto
  moreover have "ParseAddr_ok ''10.0.0.7''" by code_simp
  ultimately show ?thesis using config(1)
    by (simp add: CreateInstance_def plug_provider_def ConfigVerifier_def http_ops_def run_state_bind
        generateUserData_def plug_generate_def plug_request_def instanceOf_def Let_def)
qed

theorem CreateInstance_end_to_end_witness:
  "\<exists>t w0 psb. run_state (CreateInstance plug_generate plug_provider ''web'' ''sid'' (OtherGenerator ()) plug_spec) plug_start =
       ((Some \<lparr>in_ID = sandboxName ''sid'', in_Name = ''web'', in_IPs = [''10.0.0.7'']\<rparr>, None), t) \<and>
     kc_GetSandbox mem_kube (NN ''system'' (sandboxName ''sid'')) w0 = (Inr psb, world (world t)) \<and>
     conditionTrue (status_Conditions (psb_Status psb)) ConditionReady"
proof -
  obtain t where run: "run_state (CreateInstance plug_generate plug_provider ''web'' ''sid'' (OtherGenerator ()) plug_spec) plug_start =
     ((Some \<lparr>in_ID = sandboxName ''sid'', in_Name = ''web'', in_IPs = [''10.0.0.7'']\<rparr>, None), t)"
    using plug_run by blast
  have "kp_client plug_provider = Some (http_ops (apiTransport 2 mem_kube demo_config) plug_client)"
    by (simp add: plug_provider_def)
  moreover have "valid_request (createRequest (OtherGenerator ()) ''web'' ''sid'' ud plug_spec)"
    if "generateUserData plug_generate (OtherGenerator ()) mtu = Inr ud" for mtu ud
    using that plug_valid by (simp add: generateUserData_def plug_generate_def plug_request_def)
  ultimately have "\<exists>a s1 w0 psb. fst (run_state (authorizedAccessFor mem_kube demo_config (hsc_token plug_client)) s1) = Inr a \<and>
      kc_GetSandbox mem_kube (NN (aa_Namespace a) (sandboxName ''sid'')) w0 = (Inr psb, world (world t)) \<and>
      conditionTrue (status_Conditions (psb_Status psb)) ConditionReady"
    using CreateInstance_end_to_end [OF mem_sandbox_read_law plug_root _ _ run] by blast
  with run show ?thesis
    by (auto simp: plug_client_def plug_access demo_access_def)
qed

lemma plug_delete:
  "\<exists>t. run_state (DeleteInstance plug_provider (sandboxName ''sid'')) plug_start = (Inr (), t)"
proof -
  let ?i = "sandboxName ''sid''"
  define path where "path = ''v1/sandboxes/'' @ PathEscape ?i"
  let ?r = "wire (newRequest plug_client ''DELETE'' path None)"
  note r = wire_delete [OF plug_root, of ?i, folded path_def]
  have len: "length ?i = 24" by (simp add: sandboxName_shape)
  then have i: "?i \<notin> {[], ''.'', ''..''}" by auto
  have serve: "ServeHTTP 2 mem_kube demo_config ?r = authorize mem_kube demo_config (deleteSandbox mem_kube) ?r"
    unfolding r using i by (simp add: ServeHTTP_def route_delete)
  have tok: "bearer ?r = ''secret''" unfolding r bearer_token by (simp add: plug_client_def)
  have id: "pathValueID ?r = ?i"
    unfolding r by (simp add: pathValueID_def PathEscape_sandboxName)
  have slash: "CHR ''/'' \<notin> set ?i"
    using sandboxName_chars [of "CHR ''/''" "''sid''"] by (auto simp: is_lower_hex_def is_digit_def)
  have "spec_ClassName (psb_Spec plug_sandbox) = ''default''" "psb_key plug_sandbox = NN ''system'' ?i"
    by (simp_all add: plug_sandbox_def newSandbox_def ObjectKeyFromMeta_def zero_ObjectMeta_def)
  moreover have "m_Sandboxes (world (world plug_start)) = [plug_sandbox]"
    by (simp add: plug_start_def mem_start_def)
  ultimately obtain u where "run_state (deleteSandbox mem_kube demo_access ?r) (world plug_start) = (Some (writeHeader 204), u)"
    using i slash plug_read [of "world plug_start"]
    by (simp add: deleteSandbox_def id Let_def demo_access_def run_state_bind deleteSandboxObject_def mem_kube_simps
        mem_delete_def mem_get_def)
  then have "run_state (ServeHTTP 2 mem_kube demo_config ?r) (world plug_start) = (Some (writeHeader 204), u)"
    unfolding serve by (simp add: authorize_def tok run_state_bind plug_access) (simp add: demo_access_def)
  moreover have "client_Delete tr plug_client ?i = doRequest tr plug_client ''DELETE'' path None None ()"
    for tr :: "(mem, kube_call) sys transport"
    by (simp only: client_Delete_def path_def)
  ultimately show ?thesis
    using i by (simp add: DeleteInstance_def plug_provider_def ConfigVerifier_def http_ops_def
      doRequest_def Let_def run_state_bind apiTransport_def writeHeader_def)
qed

theorem DeleteInstance_end_to_end_witness:
  "\<exists>t. run_state (DeleteInstance plug_provider (sandboxName ''sid'')) plug_start = (Inr (), t) \<and>
     deleted_sandbox mem_kube demo_access (NN ''system'' (sandboxName ''sid'')) (world (world t))"
proof -
  obtain t where run: "run_state (DeleteInstance plug_provider (sandboxName ''sid'')) plug_start = (Inr (), t)"
    using plug_delete by blast
  have "kp_client plug_provider = Some (http_ops (apiTransport 2 mem_kube demo_config) plug_client)"
    by (simp add: plug_provider_def)
  from DeleteInstance_end_to_end [OF mem_sandbox_read_law plug_root this run] run show ?thesis
    by (auto simp: plug_client_def plug_access demo_access_def)
qed

text \<open>C34: What the server decodes is what the plugin encoded: for a request whose texts are valid UTF-8 and
  which fits into the limit of the server, every field of the decoded request is the field of the encoded
  one, those left out because they are empty or zero included.\<close>

theorem createRequest_roundtrip:
  assumes "valid_request r"
  shows "decodeRequest (json_encode (createSandboxRequest_json r)) = Inr (serverRequest r)"
  using assms by (rule wire_decode)

theorem createRequest_roundtrip_witness:
  "decodeRequest (json_encode (createSandboxRequest_json plug_request)) = Inr (serverRequest plug_request)"
  by (rule createRequest_roundtrip [OF plug_valid])

text \<open>Creating an instance makes at most two requests, and at most one that creates: first the
  configuration of the provider is read, and then one sandbox is requested with the arguments of the call,
  the source workload of the cloud configuration, and user data generated for an MTU. A failed request is
  never repeated.\<close>

theorem CreateInstance_calls:
  assumes "kp_client p = Some (http_ops tr c)"
  shows "yields (\<lambda>_ l. l = [] \<or> (\<exists>x. x = newRequest c ''GET'' ''v1/config'' None \<and> (l = [x] \<or>
     (\<exists>mtu ud y. generateUserData Generate gen mtu = Inr ud \<and>
        y = newRequest c ''POST'' ''v1/sandboxes''
          (Some (json_encode (createSandboxRequest_json (createRequest gen podName sandboxID ud spec)))) \<and> l = [x, y]))))
     (CreateInstance Generate p podName sandboxID gen spec)"
proof -
  have "http_ops tr c = http.ops tr c" unfolding http_ops_def http.ops_def ..
  with assms show ?thesis using http.create_calls [of p tr c Generate gen podName sandboxID spec] by simp
qed

theorem CreateInstance_calls_witness:
  "\<exists>x y. yields (\<lambda>_ l. l = [] \<or> l = [x] \<or> l = [x, y])
     (CreateInstance plug_generate plug_provider ''web'' ''sid'' (OtherGenerator ()) plug_spec)"
proof -
  have "kp_client plug_provider = Some (http_ops (apiTransport 2 mem_kube demo_config) plug_client)"
    by (simp add: plug_provider_def)
  from CreateInstance_calls [OF this, of plug_generate "OtherGenerator ()" "''web''" "''sid''" plug_spec] show ?thesis
    by (intro exI) (erule yields_mono, auto simp: generateUserData_def plug_generate_def)
qed

subsection \<open>User data\<close>

















end
