(* ===== verification/Peer_Pod_Node.thy ===== *)
theory Peer_Pod_Node
  imports Sandbox_Server Go_Net
begin

text \<open>
  The supervisor of a peer-pod node (\<open>cmd/peer-pod-node/main.go\<close>), in the order of the file: \<open>run\<close> with
  what it defers, the log socket, the hash of the plugin, the restart loop of the adaptor, the kubelet's
  configuration, processes and their termination, the network namespaces, the wait for a socket, and the
  health endpoint. The operating system is the parameter \<open>'w node\<close>. What a \<open>select\<close> receives is an event
  of the parameter; a loop that waits has fuel, and \<open>None\<close> is a run that still waits when the fuel is
  spent or a receive never succeeds. The trace also records what the supervisor learned of a process:
  its handle when it was started (\<open>NStart\<close>) and that it was seen to have exited (\<open>NDone\<close>), and how an
  unmount ended (\<open>NUnmount\<close>).
\<close>

subsection \<open>The operating system\<close>

datatype errno = EINVAL | ENOENT | OtherErrno string

definition errno_text :: "errno \<Rightarrow> string" where
  "errno_text e = (case e of EINVAL \<Rightarrow> ''invalid argument'' | ENOENT \<Rightarrow> ''no such file or directory'' | OtherErrno t \<Rightarrow> t)"

datatype path_event = PathCtxDone go_error | PathDeadline | PathTick
datatype retry_event = RetryCtxDone go_error | RetryDeadline | RetryAfter

text \<open>The end of \<open>run\<close>: a signal, the failure of the health server, which cancels the same context, or the
  exit of the managed process at an index with the result of \<open>Wait\<close>.\<close>

datatype node_event = NodeSignalled | HealthFailed go_error | ManagedExited nat "go_error option"

datatype node_call =
    NStat string
  | NMkdirAll string nat
  | NRemove string
  | NSymlink string string
  | NWriteFile string string nat
  | NOpen string
  | NRead string
  | NClose string
  | NReadDir string
  | NUnmount string "errno option"
  | NStart string "string list" "string list option" "nat option"
  | NDone nat
  | NTerm nat
  | NKill nat
  | NServe string
  | NShutdown
  | NLog string

record 'w node =
  n_Getenv :: "string \<Rightarrow> string"
  n_Environ :: "string list"
  n_Hostname :: "go_error + string"
  n_Stat :: "string \<Rightarrow> ('w, bool) call"
  n_MkdirAll :: "string \<Rightarrow> nat \<Rightarrow> ('w, unit) call"
  n_Remove :: "string \<Rightarrow> ('w, unit) call"
  n_Symlink :: "string \<Rightarrow> string \<Rightarrow> ('w, unit) call"
  n_WriteFile :: "string \<Rightarrow> string \<Rightarrow> nat \<Rightarrow> ('w, unit) call"
  n_Open :: "string \<Rightarrow> ('w, unit) call"
  n_Read :: "string \<Rightarrow> ('w, string) call"
  n_Close :: "string \<Rightarrow> ('w, unit) call"
  n_ReadDir :: "string \<Rightarrow> ('w, (string \<times> bool) list) call"
  n_Unmount :: "string \<Rightarrow> 'w \<Rightarrow> errno option \<times> 'w"
  n_Start :: "string \<Rightarrow> string list \<Rightarrow> string list option \<Rightarrow> ('w, nat) call"
  n_Term :: "nat \<Rightarrow> ('w, unit) call"
  n_Kill :: "nat \<Rightarrow> ('w, unit) call"
  n_Exited :: "nat \<Rightarrow> 'w \<Rightarrow> go_error option option \<times> 'w"
  n_AwaitExit :: "nat \<Rightarrow> 'w \<Rightarrow> bool \<times> 'w"
  n_ExitOrDeadline :: "nat \<Rightarrow> nat \<Rightarrow> 'w \<Rightarrow> bool \<times> 'w"
  n_ProcessState :: "nat \<Rightarrow> 'w \<Rightarrow> bool \<times> 'w"
  n_PathEvent :: "string \<Rightarrow> nat \<Rightarrow> 'w \<Rightarrow> path_event \<times> 'w"
  n_RetryEvent :: "'w \<Rightarrow> retry_event \<times> 'w"
  n_RunEvent :: "nat list \<Rightarrow> 'w \<Rightarrow> node_event \<times> 'w"

type_synonym ('w, 'a) nprog = "('w, node_call, 'a) prog"

text \<open>A call that is recorded together with its reply.\<close>

definition performs :: "('a \<Rightarrow> 'c) \<Rightarrow> ('w \<Rightarrow> 'a \<times> 'w) \<Rightarrow> ('w, 'c, 'a) prog" where
  "performs c f = State (\<lambda>s. case f (world s) of
     (a, w) \<Rightarrow> (a, \<lparr>world = w, trace = trace s @ [c a]\<rparr>))"

named_theorems node_ops \<open>definitions of the one-call operations of the node\<close>

definition nd_Stat :: "'w node \<Rightarrow> string \<Rightarrow> ('w, go_error + bool) nprog" where
  [node_ops]: "nd_Stat h p = perform (NStat p) (n_Stat h p)"

definition nd_MkdirAll :: "'w node \<Rightarrow> string \<Rightarrow> nat \<Rightarrow> ('w, go_error + unit) nprog" where
  [node_ops]: "nd_MkdirAll h p m = perform (NMkdirAll p m) (n_MkdirAll h p m)"

definition nd_Remove :: "'w node \<Rightarrow> string \<Rightarrow> ('w, go_error + unit) nprog" where
  [node_ops]: "nd_Remove h p = perform (NRemove p) (n_Remove h p)"

definition nd_Symlink :: "'w node \<Rightarrow> string \<Rightarrow> string \<Rightarrow> ('w, go_error + unit) nprog" where
  [node_ops]: "nd_Symlink h target link = perform (NSymlink target link) (n_Symlink h target link)"

definition nd_WriteFile :: "'w node \<Rightarrow> string \<Rightarrow> string \<Rightarrow> nat \<Rightarrow> ('w, go_error + unit) nprog" where
  [node_ops]: "nd_WriteFile h p d m = perform (NWriteFile p d m) (n_WriteFile h p d m)"

definition nd_Open :: "'w node \<Rightarrow> string \<Rightarrow> ('w, go_error + unit) nprog" where
  [node_ops]: "nd_Open h p = perform (NOpen p) (n_Open h p)"

definition nd_Read :: "'w node \<Rightarrow> string \<Rightarrow> ('w, go_error + string) nprog" where
  [node_ops]: "nd_Read h p = perform (NRead p) (n_Read h p)"

definition nd_Close :: "'w node \<Rightarrow> string \<Rightarrow> ('w, go_error + unit) nprog" where
  [node_ops]: "nd_Close h p = perform (NClose p) (n_Close h p)"

definition nd_ReadDir :: "'w node \<Rightarrow> string \<Rightarrow> ('w, go_error + (string \<times> bool) list) nprog" where
  [node_ops]: "nd_ReadDir h p = perform (NReadDir p) (n_ReadDir h p)"

definition nd_Unmount :: "'w node \<Rightarrow> string \<Rightarrow> ('w, errno option) nprog" where
  "nd_Unmount h p = performs (NUnmount p) (n_Unmount h p)"

definition nd_Term :: "'w node \<Rightarrow> nat \<Rightarrow> ('w, go_error + unit) nprog" where
  [node_ops]: "nd_Term h pid = perform (NTerm pid) (n_Term h pid)"

definition nd_Kill :: "'w node \<Rightarrow> nat \<Rightarrow> ('w, go_error + unit) nprog" where
  [node_ops]: "nd_Kill h pid = perform (NKill pid) (n_Kill h pid)"

definition log_Printf :: "string \<Rightarrow> ('w, unit) nprog" where
  [node_ops]: "log_Printf t = perform (NLog t) (\<lambda>w. ((), w))"

definition note_done :: "nat \<Rightarrow> ('w, unit) nprog" where
  [node_ops]: "note_done pid = perform (NDone pid) (\<lambda>w. ((), w))"

definition nd_Start ::
    "'w node \<Rightarrow> string \<Rightarrow> string list \<Rightarrow> string list option \<Rightarrow> ('w, go_error + nat) nprog" where
  "nd_Start h path args envs = performs (\<lambda>r. NStart path args envs (case r of Inl _ \<Rightarrow> None | Inr pid \<Rightarrow> Some pid))
     (n_Start h path args envs)"

subsection \<open>Processes\<close>

abbreviation node_defaultStateDir :: string where "node_defaultStateDir \<equiv> ''/var/lib/peer-pod-node''"
abbreviation defaultContainerdSock :: string where "defaultContainerdSock \<equiv> ''/run/containerd/containerd.sock''"
abbreviation hypervisorSock :: string where "hypervisorSock \<equiv> ''/run/peerpod/hypervisor.sock''"

text \<open>A process; the handle is that of \<open>cmd.Process\<close>, which \<open>Start\<close> sets together with \<open>done\<close>.\<close>

record process =
  p_name :: string
  p_path :: string
  p_args :: "string list"
  p_env :: "string list option"
  p_handle :: "nat option"

datatype node_error = NodeErr go_error | ProcessExit string "go_error option"

definition node_error_text :: "node_error \<Rightarrow> string" where
  "node_error_text e = (case e of
     NodeErr err \<Rightarrow> Error err
   | ProcessExit name err \<Rightarrow> name @ '' exited: '' @ (case err of None \<Rightarrow> ''<nil>'' | Some x \<Rightarrow> Error x))"

text \<open>Early returns of a program that may wait.\<close>

definition tryO :: "('w, ('e + 'a) option) nprog \<Rightarrow> ('a \<Rightarrow> ('w, ('e + 'b) option) nprog) \<Rightarrow> ('w, ('e + 'b) option) nprog" where
  "tryO m f = State_Monad.bind m (\<lambda>r. case r of
     None \<Rightarrow> State_Monad.return None
   | Some (Inl e) \<Rightarrow> State_Monad.return (Some (Inl e))
   | Some (Inr x) \<Rightarrow> f x)"

definition liftE :: "('w, go_error + 'a) nprog \<Rightarrow> ('w, (node_error + 'a) option) nprog" where
  "liftE m = State_Monad.bind m (\<lambda>r. State_Monad.return (Some (map_sum NodeErr id r)))"

definition env :: "'w node \<Rightarrow> string \<Rightarrow> string \<Rightarrow> string" where
  "env h name fallback = (let v = TrimSpace (n_Getenv h name) in if v \<noteq> [] then v else fallback)"

definition hostname :: "'w node \<Rightarrow> string" where
  "hostname h = (case n_Hostname h of
     Inl err \<Rightarrow> ''peer-pod-node'' | Inr v \<Rightarrow> if v = [] then ''peer-pod-node'' else v)"

definition command :: "string \<Rightarrow> string \<Rightarrow> string list \<Rightarrow> process" where
  "command name executable args =
     \<lparr>p_name = name, p_path = executable, p_args = args, p_env = None, p_handle = None\<rparr>"

definition node_start :: "'w node \<Rightarrow> process \<Rightarrow> ('w, go_error + process) nprog" where
  "node_start h p = State_Monad.bind (log_Printf (''starting '' @ p_name p)) (\<lambda>_.
     State_Monad.bind (nd_Start h (p_path p) (p_args p) (p_env p)) (\<lambda>r. State_Monad.return (case r of
       Inl err \<Rightarrow> Inl (wrapError (''start '' @ p_name p @ '': '') err)
     | Inr pid \<Rightarrow> Inr (p\<lparr>p_handle := Some pid\<rparr>))))"

text \<open>\<open>terminate\<close>: the signals, then the waits, both from the last process to the first; at the deadline
  every process without a \<open>ProcessState\<close> is killed, from the first to the last.\<close>

fun signalAll :: "'w node \<Rightarrow> process list \<Rightarrow> ('w, unit) nprog" where
  "signalAll h [] = State_Monad.return ()"
| "signalAll h (p # ps) = (case p_handle p of
     None \<Rightarrow> signalAll h ps
   | Some pid \<Rightarrow> State_Monad.bind (nd_Term h pid) (\<lambda>_. signalAll h ps))"

fun killAll :: "'w node \<Rightarrow> process list \<Rightarrow> ('w, unit) nprog" where
  "killAll h [] = State_Monad.return ()"
| "killAll h (p # ps) = (case p_handle p of
     None \<Rightarrow> killAll h ps
   | Some pid \<Rightarrow> State_Monad.bind (observe (n_ProcessState h pid)) (\<lambda>finished.
       if finished then killAll h ps else State_Monad.bind (nd_Kill h pid) (\<lambda>_. killAll h ps)))"

fun awaitAll :: "'w node \<Rightarrow> nat \<Rightarrow> process list \<Rightarrow> process list \<Rightarrow> ('w, unit) nprog" where
  "awaitAll h timeout processes [] = State_Monad.return ()"
| "awaitAll h timeout processes (p # ps) = (case p_handle p of
     None \<Rightarrow> awaitAll h timeout processes ps
   | Some pid \<Rightarrow> State_Monad.bind (observe (n_ExitOrDeadline h pid timeout)) (\<lambda>exited.
       if exited then State_Monad.bind (note_done pid) (\<lambda>_. awaitAll h timeout processes ps)
       else killAll h processes))"

definition terminate :: "'w node \<Rightarrow> process list \<Rightarrow> nat \<Rightarrow> ('w, unit) nprog" where
  "terminate h processes timeout =
     State_Monad.bind (signalAll h (rev processes)) (\<lambda>_. awaitAll h timeout processes (rev processes))"

subsection \<open>Network namespaces\<close>

definition errors_Join :: "go_error list \<Rightarrow> go_error option" where
  "errors_Join es = (if es = [] then None else Some (errorsNew (Join (map Error es) newline)))"

definition removeEntry :: "'w node \<Rightarrow> string \<Rightarrow> ('w, go_error list) nprog" where
  "removeEntry h path = State_Monad.bind (nd_Unmount h path) (\<lambda>u.
     case u of
       Some (OtherErrno t) \<Rightarrow> State_Monad.return [errorsNew (''unmount '' @ path @ '': '' @ t)]
     | _ \<Rightarrow> State_Monad.bind (nd_Remove h path) (\<lambda>r. State_Monad.return (case r of
         Inl err \<Rightarrow> if IsNotFound err then [] else [wrapError (''remove '' @ path @ '': '') err]
       | Inr _ \<Rightarrow> [])))"

fun removeEntries :: "'w node \<Rightarrow> string \<Rightarrow> (string \<times> bool) list \<Rightarrow> ('w, go_error list) nprog" where
  "removeEntries h directory [] = State_Monad.return []"
| "removeEntries h directory ((name, isDir) # entries) =
     (if isDir then removeEntries h directory entries
      else State_Monad.bind (removeEntry h (filepath_Join [directory, name])) (\<lambda>es.
        State_Monad.bind (removeEntries h directory entries) (\<lambda>rest. State_Monad.return (es @ rest))))"

definition cleanupNetworkNamespaces :: "'w node \<Rightarrow> string \<Rightarrow> ('w, go_error option) nprog" where
  "cleanupNetworkNamespaces h directory = State_Monad.bind (nd_ReadDir h directory) (\<lambda>r. case r of
     Inl err \<Rightarrow> State_Monad.return (if IsNotFound err then None else Some err)
   | Inr entries \<Rightarrow>
       State_Monad.bind (removeEntries h directory entries) (\<lambda>es. State_Monad.return (errors_Join es)))"

subsection \<open>Waiting for a socket\<close>

text \<open>The loop over the processes: the first that has exited, with the result of \<open>Wait\<close>. A process that
  was not started has no channel, and the \<open>select\<close> takes its default.\<close>

fun firstExited :: "'w node \<Rightarrow> process list \<Rightarrow> ('w, node_error option) nprog" where
  "firstExited h [] = State_Monad.return None"
| "firstExited h (p # ps) = (case p_handle p of
     None \<Rightarrow> firstExited h ps
   | Some pid \<Rightarrow> State_Monad.bind (observe (n_Exited h pid)) (\<lambda>r. case r of
       Some err \<Rightarrow> State_Monad.bind (note_done pid) (\<lambda>_. State_Monad.return (Some (ProcessExit (p_name p) err)))
     | None \<Rightarrow> firstExited h ps))"

fun waitForPath ::
    "nat \<Rightarrow> 'w node \<Rightarrow> string \<Rightarrow> nat \<Rightarrow> process list \<Rightarrow> ('w, (node_error + unit) option) nprog" where
  "waitForPath 0 h path timeout processes = State_Monad.return None"
| "waitForPath (Suc n) h path timeout processes = State_Monad.bind (nd_Stat h path) (\<lambda>r. case r of
     Inr _ \<Rightarrow> State_Monad.return (Some (Inr ()))
   | Inl _ \<Rightarrow> State_Monad.bind (firstExited h processes) (\<lambda>x. case x of
       Some err \<Rightarrow> State_Monad.return (Some (Inl err))
     | None \<Rightarrow> State_Monad.bind (observe (n_PathEvent h path timeout)) (\<lambda>ev. case ev of
         PathCtxDone err \<Rightarrow> State_Monad.return (Some (Inl (NodeErr err)))
       | PathDeadline \<Rightarrow> State_Monad.return (Some (Inl (NodeErr (errorsNew (''timed out waiting for '' @ path)))))
       | PathTick \<Rightarrow> waitForPath n h path timeout processes)))"

subsection \<open>The adaptor\<close>

definition fileSHA256 :: "'w node \<Rightarrow> string \<Rightarrow> ('w, go_error + string) nprog" where
  "fileSHA256 h path = tryE (nd_Open h path) (\<lambda>_. deferring (nd_Close h path)
     (tryE (nd_Read h path) (\<lambda>content.
        State_Monad.return (Inr (hex_EncodeToString (Sum256 (map byte_of content)))))))"

definition caaCommand :: "'w node \<Rightarrow> string \<Rightarrow> string \<Rightarrow> string \<Rightarrow> process" where
  "caaCommand h nodeName pluginPath pluginHash =
     (command ''cloud-api-adaptor'' ''/usr/local/bin/cloud-api-adaptor'' [''kubernetes''])
       \<lparr>p_env := Some (n_Environ h @
         [''ENABLE_CLOUD_PROVIDER_EXTERNAL_PLUGIN=true'',
          ''CLOUD_PROVIDER_EXTERNAL_PLUGIN_PATH='' @ pluginPath,
          ''CLOUD_PROVIDER_EXTERNAL_PLUGIN_HASH='' @ pluginHash,
          ''CRI_RUNTIME_ENDPOINT='' @ defaultContainerdSock,
          ''NODE_NAME='' @ nodeName])\<rparr>"

definition exitOf :: "node_error \<Rightarrow> string \<Rightarrow> bool" where
  "exitOf err name = (case err of ProcessExit n _ \<Rightarrow> n = name | NodeErr _ \<Rightarrow> False)"

text \<open>\<open>SIGTERM\<close> and the wait for the exit, unless the adaptor was seen to have exited; \<open>False\<close> when the wait
  never ends.\<close>

definition stopCAA :: "'w node \<Rightarrow> process \<Rightarrow> node_error \<Rightarrow> ('w, bool) nprog" where
  "stopCAA h caa err = (case p_handle caa of
     None \<Rightarrow> State_Monad.return True
   | Some pid \<Rightarrow>
       if exitOf err (p_name caa) then State_Monad.return True
       else State_Monad.bind (nd_Term h pid) (\<lambda>_. State_Monad.bind (observe (n_AwaitExit h pid)) (\<lambda>exited.
         if exited then State_Monad.bind (note_done pid) (\<lambda>_. State_Monad.return True)
         else State_Monad.return False)))"

fun startCAA ::
    "nat \<Rightarrow> nat \<Rightarrow> 'w node \<Rightarrow> string \<Rightarrow> string \<Rightarrow> string \<Rightarrow> process \<Rightarrow> ('w, (node_error + process) option) nprog" where
  "startCAA 0 polls h nodeName pluginPath pluginHash kubelet = State_Monad.return None"
| "startCAA (Suc n) polls h nodeName pluginPath pluginHash kubelet =
     State_Monad.bind (node_start h (caaCommand h nodeName pluginPath pluginHash)) (\<lambda>r. case r of
       Inl err \<Rightarrow> State_Monad.return (Some (Inl (NodeErr err)))
     | Inr caa \<Rightarrow>
         State_Monad.bind (waitForPath polls h hypervisorSock 15000 [caa, kubelet]) (\<lambda>w. case w of
           None \<Rightarrow> State_Monad.return None
         | Some (Inr _) \<Rightarrow> State_Monad.return (Some (Inr caa))
         | Some (Inl err) \<Rightarrow>
             if exitOf err (p_name kubelet) then State_Monad.return (Some (Inl err))
             else State_Monad.bind (stopCAA h caa err) (\<lambda>stopped.
               if \<not> stopped then State_Monad.return None
               else State_Monad.bind
                 (log_Printf (''cloud-api-adaptor is waiting for PeerPodNode registration: '' @ node_error_text err)) (\<lambda>_.
                 State_Monad.bind (observe (n_RetryEvent h)) (\<lambda>ev. case ev of
                   RetryCtxDone e \<Rightarrow> State_Monad.return (Some (Inl (NodeErr e)))
                 | RetryDeadline \<Rightarrow> State_Monad.return (Some (Inl (NodeErr
                     (errorsNew ''timed out starting cloud-api-adaptor after PeerPodNode registration''))))
                 | RetryAfter \<Rightarrow> startCAA n polls h nodeName pluginPath pluginHash kubelet)))))"

subsection \<open>Files of the node\<close>

definition ensureUnixSyslogSocket :: "'w node \<Rightarrow> ('w, go_error + unit) nprog" where
  "ensureUnixSyslogSocket h =
     (let link = ''/dev/log''; target = ''/run/systemd/journal/dev-log'' in
      tryE (wrapE ''syslog socket: '' (nd_Stat h target)) (\<lambda>isSocket.
        if \<not> isSocket
        then State_Monad.return (Inl (errorsNew (''syslog socket: '' @ target @ '' is not a Unix socket'')))
        else State_Monad.bind (nd_Remove h link) (\<lambda>r.
          if (case r of Inl err \<Rightarrow> \<not> IsNotFound err | Inr _ \<Rightarrow> False)
          then State_Monad.return (map_sum (wrapError ''remove stale syslog socket: '') id r)
          else wrapE ''create syslog socket link: '' (nd_Symlink h target link))))"

definition kubeletConfiguration :: "string \<Rightarrow> string \<Rightarrow> string \<Rightarrow> string" where
  "kubeletConfiguration clientCA domain dns = concat (map (\<lambda>l. l @ newline)
     [''apiVersion: kubelet.config.k8s.io/v1beta1'',
      ''kind: KubeletConfiguration'',
      ''authentication:'',
      ''  anonymous:'',
      ''    enabled: false'',
      ''  webhook:'',
      ''    enabled: true'',
      ''  x509:'',
      ''    clientCAFile: '' @ clientCA,
      ''authorization:'',
      ''  mode: Webhook'',
      ''cgroupDriver: cgroupfs'',
      ''clusterDomain: '' @ domain,
      ''clusterDNS:'',
      ''  - '' @ dns,
      ''failSwapOn: false'',
      ''registerNode: true'',
      ''rotateCertificates: true'',
      ''serverTLSBootstrap: true'',
      ''staticPodPath: /etc/peer-pod-node/manifests''])"

definition prepareKubeletConfig :: "'w node \<Rightarrow> string \<Rightarrow> ('w, go_error + string) nprog" where
  "prepareKubeletConfig h stateDir =
     (let configured = TrimSpace (n_Getenv h ''PEER_POD_NODE_KUBELET_CONFIG'') in
      if configured \<noteq> []
      then tryE (wrapE ''kubelet config: '' (nd_Stat h configured)) (\<lambda>_. State_Monad.return (Inr configured))
      else
        let dns = TrimSpace (n_Getenv h ''PEER_POD_NODE_CLUSTER_DNS'') in
        if \<not> ParseIP_ok dns
        then State_Monad.return (Inl (errorsNew ''PEER_POD_NODE_CLUSTER_DNS must contain a valid cluster DNS IP address''))
        else
          let domain = env h ''PEER_POD_NODE_CLUSTER_DOMAIN'' ''cluster.local'';
              clientCA = env h ''PEER_POD_NODE_CLIENT_CA_FILE'' ''/etc/peer-pod-node/cluster-ca.crt'';
              path = filepath_Join [stateDir, ''kubelet.yaml'']
          in tryE (wrapE ''kubelet client CA: '' (nd_Stat h clientCA)) (\<lambda>_.
               tryE (nd_WriteFile h path (kubeletConfiguration clientCA domain dns) 384) (\<lambda>_.
                 State_Monad.return (Inr path))))"

subsection \<open>run\<close>

fun makeDirs :: "'w node \<Rightarrow> string list \<Rightarrow> ('w, go_error + unit) nprog" where
  "makeDirs h [] = State_Monad.return (Inr ())"
| "makeDirs h (d # ds) = tryE (nd_MkdirAll h d 448) (\<lambda>_. makeDirs h ds)"

definition kubeletCommand :: "'w node \<Rightarrow> string \<Rightarrow> string \<Rightarrow> string \<Rightarrow> string \<Rightarrow> process" where
  "kubeletCommand h bootstrap stateDir kubeletConfig nodeName =
     command ''kubelet'' ''/usr/local/bin/kubelet''
       [''--bootstrap-kubeconfig='' @ bootstrap,
        ''--kubeconfig='' @ filepath_Join [stateDir, ''kubeconfig''],
        ''--cert-dir='' @ filepath_Join [stateDir, ''pki''],
        ''--config='' @ kubeletConfig,
        ''--container-runtime-endpoint=unix://'' @ defaultContainerdSock,
        ''--hostname-override='' @ nodeName,
        ''--node-labels=kata.peerpods.io/node=true,'' @ env h ''PEER_POD_NODE_LABELS'' ''node.kubernetes.io/worker='',
        ''--register-with-taints='' @ env h ''PEER_POD_NODE_TAINTS'' ''kata.peerpods.io/node=true:NoSchedule'',
        ''--root-dir='' @ filepath_Join [stateDir, ''kubelet'']]"

definition handles :: "process list \<Rightarrow> nat list" where
  "handles ps = List.map_filter p_handle ps"

text \<open>The health server and the end of \<open>run\<close>. There is one goroutine per process, so an event for another
  index does not arrive.\<close>

definition supervise :: "'w node \<Rightarrow> process list \<Rightarrow> ('w, (node_error + unit) option) nprog" where
  "supervise h processes =
     State_Monad.bind (perform (NServe (env h ''PEER_POD_NODE_HEALTH_ADDRESS'' '':8081'')) (\<lambda>w. ((), w))) (\<lambda>_.
     State_Monad.bind (observe (n_RunEvent h (handles processes))) (\<lambda>ev. case ev of
       NodeSignalled \<Rightarrow> deferring (perform NShutdown (\<lambda>w. ((), w))) (State_Monad.return (Some (Inr ())))
     | HealthFailed err \<Rightarrow> deferring (perform NShutdown (\<lambda>w. ((), w))) (State_Monad.return (Some (Inr ())))
     | ManagedExited i err \<Rightarrow>
         if length processes \<le> i then State_Monad.return None
         else deferring (perform NShutdown (\<lambda>w. ((), w)))
           (State_Monad.bind (case p_handle (processes ! i) of None \<Rightarrow> State_Monad.return () | Some pid \<Rightarrow> note_done pid) (\<lambda>_.
             State_Monad.return (Some (Inl (ProcessExit (p_name (processes ! i))
               (Some (case err of None \<Rightarrow> errorsNew ''process exited without an error'' | Some e \<Rightarrow> e)))))))))"

text \<open>\<open>run\<close> after containerd was started: the processes that the deferred \<open>terminate\<close> finds, and the result.
  \<open>runAdaptor\<close> is the part after kubelet was started, \<open>runKubelet\<close> the one after containerd's socket appeared.\<close>

type_synonym managed_result = "(process list \<times> (node_error + unit)) option"

definition runAdaptor :: "nat \<Rightarrow> nat \<Rightarrow> 'w node \<Rightarrow> process \<Rightarrow> process \<Rightarrow> string \<Rightarrow> ('w, managed_result) nprog" where
  "runAdaptor tries polls h containerd kubelet nodeName =
     (let pluginPath = ''/cloud-providers/kubernetes.so'' in
      State_Monad.bind (fileSHA256 h pluginPath) (\<lambda>f. case f of
        Inl err \<Rightarrow> State_Monad.return (Some ([containerd, kubelet], Inl (NodeErr (wrapError ''hash CAA provider plugin: '' err))))
      | Inr pluginHash \<Rightarrow>
          State_Monad.bind (startCAA tries polls h nodeName pluginPath pluginHash kubelet) (\<lambda>c. case c of
            None \<Rightarrow> State_Monad.return None
          | Some (Inl err) \<Rightarrow> State_Monad.return (Some ([containerd, kubelet], Inl err))
          | Some (Inr caa) \<Rightarrow>
              State_Monad.bind (supervise h [containerd, kubelet, caa]) (\<lambda>r.
                State_Monad.return (map_option (\<lambda>x. ([containerd, kubelet, caa], x)) r)))))"

definition runKubelet :: "nat \<Rightarrow> nat \<Rightarrow> 'w node \<Rightarrow> process \<Rightarrow> process \<Rightarrow> string \<Rightarrow> ('w, managed_result) nprog" where
  "runKubelet tries polls h containerd kubelet nodeName =
     State_Monad.bind (node_start h kubelet) (\<lambda>k. case k of
       Inl err \<Rightarrow> State_Monad.return (Some ([containerd, kubelet], Inl (NodeErr err)))
     | Inr started \<Rightarrow> runAdaptor tries polls h containerd started nodeName)"

definition runManaged :: "nat \<Rightarrow> nat \<Rightarrow> 'w node \<Rightarrow> process \<Rightarrow> process \<Rightarrow> string \<Rightarrow> ('w, managed_result) nprog" where
  "runManaged tries polls h containerd kubelet nodeName =
     State_Monad.bind (waitForPath polls h defaultContainerdSock 30000 [containerd]) (\<lambda>w. case w of
       None \<Rightarrow> State_Monad.return None
     | Some (Inl err) \<Rightarrow> State_Monad.return (Some ([containerd], Inl err))
     | Some (Inr _) \<Rightarrow> runKubelet tries polls h containerd kubelet nodeName)"

text \<open>The deferred function.\<close>

definition cleanup :: "'w node \<Rightarrow> process list \<Rightarrow> ('w, unit) nprog" where
  "cleanup h processes = State_Monad.bind (terminate h processes 30000) (\<lambda>_.
     State_Monad.bind (cleanupNetworkNamespaces h ''/run/netns'') (\<lambda>e. case e of
       None \<Rightarrow> State_Monad.return ()
     | Some err \<Rightarrow> log_Printf (''clean up network namespaces: '' @ Error err)))"

definition node_run :: "nat \<Rightarrow> nat \<Rightarrow> 'w node \<Rightarrow> ('w, (node_error + unit) option) nprog" where
  "node_run tries polls h =
     (let bootstrap = env h ''PEER_POD_NODE_BOOTSTRAP_KUBECONFIG'' ''/etc/peer-pod-node/bootstrap-kubeconfig'';
          nodeName = env h ''PEER_POD_NODE_NAME'' (hostname h);
          stateDir = env h ''PEER_POD_NODE_STATE_DIR'' node_defaultStateDir
      in tryO (liftE (wrapE ''bootstrap kubeconfig: '' (nd_Stat h bootstrap))) (\<lambda>_.
         tryO (liftE (makeDirs h [stateDir, ''/run/containerd'', ''/run/peerpod'', ''/run/netns'',
           ''/var/lib/containerd'', ''/var/lib/kubelet''])) (\<lambda>_.
         tryO (liftE (ensureUnixSyslogSocket h)) (\<lambda>_.
         tryO (liftE (prepareKubeletConfig h stateDir)) (\<lambda>kubeletConfig.
         tryO (liftE (node_start h (command ''containerd'' ''/usr/local/bin/containerd''
           [''--config'', ''/etc/containerd/config.toml'']))) (\<lambda>containerd.
         State_Monad.bind (runManaged tries polls h containerd
             (kubeletCommand h bootstrap stateDir kubeletConfig nodeName) nodeName) (\<lambda>r. case r of
           None \<Rightarrow> State_Monad.return None
         | Some (processes, result) \<Rightarrow>
             State_Monad.bind (cleanup h processes) (\<lambda>_. State_Monad.return (Some result)))))))))"

subsection \<open>Health\<close>

fun readySockets :: "'w node \<Rightarrow> string list \<Rightarrow> ('w, http_response) nprog" where
  "readySockets h [] = State_Monad.return (writeHeader 200)"
| "readySockets h (path # paths) = State_Monad.bind (nd_Stat h path) (\<lambda>r. case r of
     Inl _ \<Rightarrow> State_Monad.return (httpError (path @ '' is unavailable'') 503)
   | Inr _ \<Rightarrow> readySockets h paths)"

definition healthHandler :: "'w node \<Rightarrow> string \<Rightarrow> http_request \<Rightarrow> ('w, http_response) nprog" where
  "healthHandler h containerdSocket r =
     (if req_Method r \<noteq> ''CONNECT'' \<and> \<not> cleanSegments (req_Path r) then State_Monad.return (writeHeader 307)
      else case map PathUnescape (req_Path r) of
        [p] \<Rightarrow>
          if p = ''healthz'' then State_Monad.return (writeHeader 200)
          else if p = ''readyz'' then readySockets h [containerdSocket, hypervisorSock]
          else State_Monad.return (httpError ''404 page not found'' 404)
      | _ \<Rightarrow> State_Monad.return (httpError ''404 page not found'' 404))"

end
