(* ===== verification/Node_Properties.thy ===== *)
theory Node_Properties
  imports Peer_Pod_Node "HOL-Library.Sublist"
begin

text \<open>
  The properties of the node supervisor: which of the processes it started it accounts for, in which
  order it starts and terminates them, what it removes, and what it tells the kubelet.
\<close>

subsection \<open>Calls\<close>

lemma yields_performs: "(\<And>w. Q (fst (f w)) [c (fst (f w))]) \<Longrightarrow> yields Q (performs c f)"
  unfolding yields_def performs_def by (auto simp: case_prod_beta)

lemma yields_observing: "(\<And>a. yields Q (f a)) \<Longrightarrow> yields Q (State_Monad.bind (observe g) f)"
  by (rule yields_bind [of "\<lambda>_ l. l = []"]) (auto intro: yields_observe)

lemma yields_calling:
  "yields (\<lambda>_ l. l = [c]) m \<Longrightarrow> (\<And>a. yields (\<lambda>b l. Q b (c # l)) (f a)) \<Longrightarrow> yields Q (State_Monad.bind m f)"
  by (erule yields_bind) auto

lemma yields_node:
  "yields (\<lambda>_ l. l = [NStat p]) (nd_Stat h p)"
  "yields (\<lambda>_ l. l = [NMkdirAll p m]) (nd_MkdirAll h p m)"
  "yields (\<lambda>_ l. l = [NRemove p]) (nd_Remove h p)"
  "yields (\<lambda>_ l. l = [NSymlink p q]) (nd_Symlink h p q)"
  "yields (\<lambda>_ l. l = [NWriteFile p d m]) (nd_WriteFile h p d m)"
  "yields (\<lambda>_ l. l = [NOpen p]) (nd_Open h p)"
  "yields (\<lambda>_ l. l = [NRead p]) (nd_Read h p)"
  "yields (\<lambda>_ l. l = [NClose p]) (nd_Close h p)"
  "yields (\<lambda>_ l. l = [NReadDir p]) (nd_ReadDir h p)"
  "yields (\<lambda>_ l. l = [NTerm pid]) (nd_Term h pid)"
  "yields (\<lambda>_ l. l = [NKill pid]) (nd_Kill h pid)"
  "yields (\<lambda>_ l. l = [NLog t]) (log_Printf t)"
  "yields (\<lambda>_ l. l = [NDone pid]) (note_done pid)"
  by (simp_all add: node_ops yields_perform)

lemma yields_unmount: "yields (\<lambda>r l. l = [NUnmount p r]) (nd_Unmount h p)"
  by (simp add: nd_Unmount_def yields_performs)

lemma yields_case_option:
  "(x = None \<Longrightarrow> yields Q m) \<Longrightarrow> (\<And>y. x = Some y \<Longrightarrow> yields Q (f y)) \<Longrightarrow> yields Q (case x of None \<Rightarrow> m | Some y \<Rightarrow> f y)"
  by (cases x) auto

lemma yields_start:
  "yields (\<lambda>r l. case r of
     Inl _ \<Rightarrow> l = [NLog (''starting '' @ p_name p), NStart (p_path p) (p_args p) (p_env p) None]
   | Inr q \<Rightarrow> \<exists>pid. q = p\<lparr>p_handle := Some pid\<rparr> \<and>
       l = [NLog (''starting '' @ p_name p), NStart (p_path p) (p_args p) (p_env p) (Some pid)]) (node_start h p)"
  unfolding node_start_def
proof (rule yields_bind [OF yields_node(12)])
  fix a l assume l: "l = [NLog (''starting '' @ p_name p)]"
  have "yields (\<lambda>r l. l = [NStart (p_path p) (p_args p) (p_env p) (case r of Inl _ \<Rightarrow> None | Inr pid \<Rightarrow> Some pid)])
      (nd_Start h (p_path p) (p_args p) (p_env p))"
    by (simp add: nd_Start_def yields_performs)
  then show "yields (\<lambda>r l'. case r of
       Inl _ \<Rightarrow> l @ l' = [NLog (''starting '' @ p_name p), NStart (p_path p) (p_args p) (p_env p) None]
     | Inr q \<Rightarrow> \<exists>pid. q = p\<lparr>p_handle := Some pid\<rparr> \<and>
         l @ l' = [NLog (''starting '' @ p_name p), NStart (p_path p) (p_args p) (p_env p) (Some pid)])
     (State_Monad.bind (nd_Start h (p_path p) (p_args p) (p_env p)) (\<lambda>r. State_Monad.return (case r of
       Inl err \<Rightarrow> Inl (wrapError (''start '' @ p_name p @ '': '') err)
     | Inr pid \<Rightarrow> Inr (p\<lparr>p_handle := Some pid\<rparr>))))"
    using l by (elim yields_bind) (auto intro!: yields_return split: sum.splits)
qed

subsection \<open>Accounting\<close>

text \<open>The processes that were started and neither seen to have exited nor, for \<open>unattended\<close>, sent
  \<open>SIGTERM\<close> since.\<close>

fun live_step :: "node_call \<Rightarrow> nat set \<Rightarrow> nat set" where
  "live_step (NStart _ _ _ (Some pid)) S = insert pid S"
| "live_step (NDone pid) S = S - {pid}"
| "live_step _ S = S"

definition live :: "node_call list \<Rightarrow> nat set \<Rightarrow> nat set" where
  "live l S = fold live_step l S"

lemma live_append [simp]: "live (l @ m) S = live m (live l S)"
  by (simp add: live_def)

lemma live_Nil [simp]: "live [] S = S" by (simp add: live_def)

lemma live_Cons [simp]: "live (c # l) S = live l (live_step c S)"
  by (simp add: live_def)

definition waiting :: "process list \<Rightarrow> node_call \<Rightarrow> bool" where
  "waiting ps c \<longleftrightarrow> (\<exists>p. c = NStat p) \<or> (\<exists>q \<in> set ps. \<exists>pid. p_handle q = Some pid \<and> c = NDone pid)"

lemma live_waiting: "list_all (waiting ps) l \<Longrightarrow> live l S = S - {pid. NDone pid \<in> set l}"
  by (induction l arbitrary: S) (auto simp: waiting_def)

definition exit_seen :: "process list \<Rightarrow> node_error \<Rightarrow> node_call list \<Rightarrow> bool" where
  "exit_seen ps e l \<longleftrightarrow> (case e of NodeErr _ \<Rightarrow> True | ProcessExit name _ \<Rightarrow>
     (\<exists>q \<in> set ps. p_name q = name \<and> (\<exists>pid. p_handle q = Some pid \<and> NDone pid \<in> set l)))"

lemma firstExited_seen:
  "yields (\<lambda>r l. list_all (waiting ps) l \<and> (case r of None \<Rightarrow> l = [] | Some e \<Rightarrow> exit_seen ps e l)) (firstExited h ps)"
proof (induction ps)
  case Nil
  show ?case by (simp add: yields_return)
next
  case (Cons p ps)
  have rest: "yields (\<lambda>r l. list_all (waiting (p # ps)) l \<and>
      (case r of None \<Rightarrow> l = [] | Some e \<Rightarrow> exit_seen (p # ps) e l)) (firstExited h ps)"
    by (rule yields_mono [OF Cons.IH])
       (auto simp: waiting_def exit_seen_def list_all_iff split: option.splits node_error.splits)
  show ?case
  proof (cases "p_handle p")
    case None
    with rest show ?thesis by simp
  next
    case (Some pid)
    have seen: "yields (\<lambda>r l. l = [NDone pid] \<and> r = Some (ProcessExit (p_name p) err))
        (State_Monad.bind (note_done pid) (\<lambda>_. State_Monad.return (Some (ProcessExit (p_name p) err))))" for err
      by (rule yields_bind [OF yields_node(13)]) (simp add: yields_return)
    have "waiting (p # ps) (NDone pid)" "exit_seen (p # ps) (ProcessExit (p_name p) err) [NDone pid]" for err
      using Some by (auto simp: waiting_def exit_seen_def)
    with rest show ?thesis
      unfolding firstExited.simps Some option.case
      by (intro yields_observing yields_case_option) (auto intro: yields_mono [OF seen])
  qed
qed

definition path_waited :: "process list \<Rightarrow> (node_error + unit) option \<Rightarrow> node_call list \<Rightarrow> bool" where
  "path_waited ps r l \<longleftrightarrow> list_all (waiting ps) l \<and>
     (case r of Some (Inl e) \<Rightarrow> exit_seen ps e l | _ \<Rightarrow> {pid. NDone pid \<in> set l} = {})"

lemma path_waited_NStat [simp]: "path_waited ps r (NStat p # l) \<longleftrightarrow> path_waited ps r l"
  by (auto simp: path_waited_def exit_seen_def waiting_def split: option.splits sum.splits node_error.splits)

lemma waitForPath_seen: "yields (path_waited ps) (waitForPath n h path timeout ps)"
proof (induction n)
  case 0
  show ?case by (simp add: yields_return path_waited_def)
next
  case (Suc n)
  define event where "event = State_Monad.bind (observe (n_PathEvent h path timeout)) (\<lambda>ev. case ev of
         PathCtxDone err \<Rightarrow> State_Monad.return (Some (Inl (NodeErr err)))
       | PathDeadline \<Rightarrow> State_Monad.return (Some (Inl (NodeErr (errorsNew (''timed out waiting for '' @ path)))))
       | PathTick \<Rightarrow> waitForPath n h path timeout ps)"
  have "yields (path_waited ps) event"
    unfolding event_def
    by (rule yields_observing)
       (auto simp: path_waited_def [of _ "Some _"] exit_seen_def Suc intro!: yields_return split: path_event.splits)
  then have "yields (path_waited ps) (State_Monad.bind (firstExited h ps) (\<lambda>x. case x of
         Some err \<Rightarrow> State_Monad.return (Some (Inl err)) | None \<Rightarrow> event))"
    by (intro yields_bind [OF firstExited_seen] yields_case_option)
       (auto simp: path_waited_def [of _ "Some _"] intro!: yields_return)
  then show ?case
    unfolding waitForPath.simps event_def [symmetric]
    by (intro yields_calling [OF yields_node(1)] yields_case_sum)
       (simp_all add: yields_return path_waited_def [of _ "Some _"])
qed

subsection \<open>The restart loop\<close>

definition caa_left :: "process \<Rightarrow> (node_error + process) option \<Rightarrow> nat set \<Rightarrow> bool" where
  "caa_left kubelet r left \<longleftrightarrow> (case r of
     None \<Rightarrow> True
   | Some (Inr caa) \<Rightarrow> (\<exists>pid. p_handle caa = Some pid \<and> left \<subseteq> {pid})
   | Some (Inl e) \<Rightarrow> exitOf e (p_name kubelet) \<or> left = {})"

lemma stopCAA_done:
  assumes "p_handle caa = Some pid"
  shows "yields (\<lambda>stopped l. if stopped then l = (if exitOf err (p_name caa) then [] else [NTerm pid, NDone pid]) else True)
    (stopCAA h caa err)"
proof (cases "exitOf err (p_name caa)")
  case True
  with assms show ?thesis by (simp add: stopCAA_def yields_return)
next
  case False
  with assms show ?thesis
    unfolding stopCAA_def
    by (auto intro!: yields_calling [OF yields_node(10)] yields_observing yields_calling [OF yields_node(13)] yields_return)
qed

lemma live_waited: "path_waited ps r l \<Longrightarrow> live l S = S - {pid. NDone pid \<in> set l}"
  using live_waiting [of ps l S] by (simp add: path_waited_def)

lemma stopped_left:
  assumes "p_name kubelet \<noteq> p_name caa" and "p_handle caa = Some pid" and "\<not> exitOf err (p_name kubelet)"
    and "path_waited [caa, kubelet] (Some (Inl err)) l"
    and "m = (if exitOf err (p_name caa) then [] else [NTerm pid, NDone pid])"
  shows "live m (live l {pid}) = {}"
proof (cases "exitOf err (p_name caa)")
  case True
  with assms(1,2,4) have "NDone pid \<in> set l" by (auto simp: path_waited_def exit_seen_def exitOf_def split: node_error.splits)
  with True assms(5) live_waited [OF assms(4)] show ?thesis by simp
next
  case False
  with assms(5) live_waited [OF assms(4)] show ?thesis by auto
qed

lemma startCAA_left:
  assumes "p_name kubelet \<noteq> ''cloud-api-adaptor''"
  shows "yields (\<lambda>r l. caa_left kubelet r (live l {})) (startCAA n polls h nodeName path hash kubelet)"
proof (induction n)
  case 0
  show ?case by (simp add: yields_return caa_left_def)
next
  case (Suc n)
  let ?caa = "caaCommand h nodeName path hash"
  define again where "again err = State_Monad.bind
      (log_Printf (''cloud-api-adaptor is waiting for PeerPodNode registration: '' @ node_error_text err)) (\<lambda>_.
       State_Monad.bind (observe (n_RetryEvent h)) (\<lambda>ev. case ev of
         RetryCtxDone e \<Rightarrow> State_Monad.return (Some (Inl (NodeErr e)))
       | RetryDeadline \<Rightarrow> State_Monad.return (Some (Inl (NodeErr
           (errorsNew ''timed out starting cloud-api-adaptor after PeerPodNode registration''))))
       | RetryAfter \<Rightarrow> startCAA n polls h nodeName path hash kubelet))" for err
  have again: "yields (\<lambda>r l. caa_left kubelet r (live l {})) (again err)" for err
    unfolding again_def
    by (intro yields_calling [OF yields_node(12)] yields_observing)
       (auto simp: caa_left_def [of _ "Some _"] Suc intro!: yields_return split: retry_event.splits)
  have failed: "yields (\<lambda>r m. caa_left kubelet r (live m (live l {pid})))
      (if exitOf err (p_name kubelet) then State_Monad.return (Some (Inl err))
       else State_Monad.bind (stopCAA h caa err) (\<lambda>stopped. if \<not> stopped then State_Monad.return None else again err))"
    if l: "path_waited [caa, kubelet] (Some (Inl err)) l" and caa: "p_name caa = ''cloud-api-adaptor''" "p_handle caa = Some pid"
    for caa pid l err
  proof (cases "exitOf err (p_name kubelet)")
    case True
    then show ?thesis by (simp add: yields_return caa_left_def)
  next
    case False
    have "yields (\<lambda>r m'. caa_left kubelet r (live (m @ m') (live l {pid})))
        (if \<not> stopped then State_Monad.return None else again err)"
      if m: "if stopped then m = (if exitOf err (p_name caa) then [] else [NTerm pid, NDone pid]) else True" for stopped m
    proof (cases stopped)
      case True
      then have "live m (live l {pid}) = {}"
        using stopped_left [OF _ caa(2) False l] assms caa(1) m by simp
      with True again show ?thesis by simp
    qed (simp add: yields_return caa_left_def)
    with False show ?thesis
      by (simp only: if_False) (rule yields_bind [OF stopCAA_done [OF caa(2)]], blast)
  qed
  have "yields (\<lambda>r m. caa_left kubelet r (live m {pid}))
      (State_Monad.bind (waitForPath polls h hypervisorSock 15000 [caa, kubelet]) (\<lambda>w. case w of
         None \<Rightarrow> State_Monad.return None
       | Some (Inr _) \<Rightarrow> State_Monad.return (Some (Inr caa))
       | Some (Inl err) \<Rightarrow> if exitOf err (p_name kubelet) then State_Monad.return (Some (Inl err))
           else State_Monad.bind (stopCAA h caa err) (\<lambda>stopped. if \<not> stopped then State_Monad.return None else again err)))"
    if caa: "caa = ?caa\<lparr>p_handle := Some pid\<rparr>" for caa pid
  proof (rule yields_bind [OF waitForPath_seen])
    fix w l assume l: "path_waited [caa, kubelet] w l"
    have sub: "live l {pid} \<subseteq> {pid}"
      using live_waited [OF l] by simp
    have name: "p_name caa = ''cloud-api-adaptor''" "p_handle caa = Some pid"
      using caa by (simp_all add: caaCommand_def command_def)
    show "yields (\<lambda>r m. caa_left kubelet r (live (l @ m) {pid})) (case w of
         None \<Rightarrow> State_Monad.return None
       | Some (Inr _) \<Rightarrow> State_Monad.return (Some (Inr caa))
       | Some (Inl err) \<Rightarrow> if exitOf err (p_name kubelet) then State_Monad.return (Some (Inl err))
           else State_Monad.bind (stopCAA h caa err) (\<lambda>stopped. if \<not> stopped then State_Monad.return None else again err))"
    proof (cases w)
      case (Some x)
      then show ?thesis
      proof (cases x)
        case (Inl err)
        with Some l failed [OF _ name] show ?thesis by simp
      qed (use sub name in \<open>simp add: yields_return caa_left_def\<close>)
    qed (simp add: yields_return caa_left_def)
  qed
  note rest = this
  show ?case
    unfolding startCAA.simps again_def [symmetric]
    by (intro yields_bind [OF yields_start] yields_case_sum)
       (auto simp: caa_left_def [of _ "Some _"] intro!: yields_return rest)
qed

subsection \<open>Termination\<close>

lemma handles_simps [simp]: "handles [] = []"
  "handles (p # ps) = (case p_handle p of None \<Rightarrow> handles ps | Some pid \<Rightarrow> pid # handles ps)"
  by (simp_all add: handles_def List.map_filter_simps split: option.split)

lemma handles_rev: "handles (rev ps) = rev (handles ps)"
  by (simp add: handles_def List.map_filter_def rev_map rev_filter)

lemma signalAll_calls: "yields (\<lambda>_ l. l = map NTerm (handles ps)) (signalAll h ps)"
proof (induction ps)
  case (Cons p ps)
  show ?case
  proof (cases "p_handle p")
    case (Some pid)
    with Cons show ?thesis by (auto intro!: yields_calling [OF yields_node(10)])
  qed (use Cons in simp)
qed (simp add: yields_return)

lemma killAll_calls: "yields (\<lambda>_ l. \<exists>ks. l = map NKill ks \<and> subseq ks (handles ps)) (killAll h ps)"
proof (induction ps)
  case (Cons p ps)
  show ?case
  proof (cases "p_handle p")
    case (Some pid)
    have "yields (\<lambda>_ l. \<exists>ks. l = map NKill ks \<and> subseq ks (pid # handles ps)) (killAll h ps)"
      by (rule yields_mono [OF Cons]) auto
    moreover have "yields (\<lambda>_ l. \<exists>ks. NKill pid # l = map NKill ks \<and> subseq ks (pid # handles ps)) (killAll h ps)"
      by (rule yields_mono [OF Cons]) (metis list.simps(9) subseq_Cons2)
    ultimately show ?thesis
      unfolding killAll.simps Some option.case handles_simps
      by (intro yields_observing yields_if yields_calling [OF yields_node(11)]) auto
  qed (use Cons in simp)
qed (simp add: yields_return)

lemma awaitAll_calls:
  "yields (\<lambda>_ l. \<exists>seen kills. l = map NDone seen @ map NKill kills \<and>
     (seen = handles ps \<and> kills = [] \<or> strict_prefix seen (handles ps) \<and> subseq kills (handles qs))) (awaitAll h timeout qs ps)"
proof (induction ps)
  case (Cons p ps)
  show ?case
  proof (cases "p_handle p")
    case (Some pid)
    have "yields (\<lambda>_ l. \<exists>seen kills. NDone pid # l = map NDone seen @ map NKill kills \<and>
        (seen = pid # handles ps \<and> kills = [] \<or> strict_prefix seen (pid # handles ps) \<and> subseq kills (handles qs)))
        (awaitAll h timeout qs ps)"
    proof (rule yields_mono [OF Cons], elim exE conjE)
      fix l seen kills
      assume "l = map NDone seen @ map NKill kills"
        "seen = handles ps \<and> kills = [] \<or> strict_prefix seen (handles ps) \<and> subseq kills (handles qs)"
      then show "\<exists>seen kills. NDone pid # l = map NDone seen @ map NKill kills \<and>
          (seen = pid # handles ps \<and> kills = [] \<or> strict_prefix seen (pid # handles ps) \<and> subseq kills (handles qs))"
        by (intro exI [of _ "pid # seen"] exI [of _ kills]) auto
    qed
    moreover have "yields (\<lambda>_ l. \<exists>seen kills. l = map NDone seen @ map NKill kills \<and>
        (seen = pid # handles ps \<and> kills = [] \<or> strict_prefix seen (pid # handles ps) \<and> subseq kills (handles qs)))
        (killAll h qs)"
      by (rule yields_mono [OF killAll_calls]) (metis append_Nil list.simps(8) strict_prefix_simps(2))
    ultimately show ?thesis
      unfolding awaitAll.simps Some option.case handles_simps
      by (intro yields_observing yields_if yields_calling [OF yields_node(13)]) auto
  qed (use Cons in simp)
qed (simp add: yields_return)

lemma terminate_calls:
  "yields (\<lambda>_ l. \<exists>seen kills. l = map NTerm (rev (handles ps)) @ map NDone seen @ map NKill kills \<and>
     (seen = rev (handles ps) \<and> kills = [] \<or> strict_prefix seen (rev (handles ps)) \<and> subseq kills (handles ps)))
     (terminate h ps timeout)"
proof -
  have "yields (\<lambda>_ l. \<exists>seen kills. l = map NTerm (handles (rev ps)) @ map NDone seen @ map NKill kills \<and>
     (seen = handles (rev ps) \<and> kills = [] \<or> strict_prefix seen (handles (rev ps)) \<and> subseq kills (handles ps)))
     (terminate h ps timeout)"
    unfolding terminate_def
    by (rule yields_bind [OF signalAll_calls]) (auto intro!: yields_mono [OF awaitAll_calls [where qs = ps]])
  then show ?thesis by (simp add: handles_rev)
qed

text \<open>Termination is orderly. Every process with a handle is sent \<open>SIGTERM\<close>, the last started first; then
  the exits are awaited in the same order; processes are killed only when one of them did not exit before
  the deadline, and only managed ones.\<close>

theorem terminate_orderly:
  "yields (\<lambda>_ l. \<exists>seen kills. l = map NTerm (rev (handles ps)) @ map NDone seen @ map NKill kills \<and>
     (seen = rev (handles ps) \<and> kills = [] \<or> strict_prefix seen (rev (handles ps)) \<and> subseq kills (handles ps)))
     (terminate h ps timeout)"
  by (rule terminate_calls)

subsection \<open>run\<close>

fun unattended_step :: "node_call \<Rightarrow> nat set \<Rightarrow> nat set" where
  "unattended_step (NStart _ _ _ (Some pid)) S = insert pid S"
| "unattended_step (NDone pid) S = S - {pid}"
| "unattended_step (NTerm pid) S = S - {pid}"
| "unattended_step _ S = S"

definition unattended :: "node_call list \<Rightarrow> nat set \<Rightarrow> nat set" where
  "unattended l S = fold unattended_step l S"

lemma unattended_simps [simp]:
  "unattended [] S = S" "unattended (c # l) S = unattended l (unattended_step c S)"
  "unattended (l @ m) S = unattended m (unattended l S)"
  by (simp_all add: unattended_def)

lemma unattended_step_live: "S \<subseteq> T \<Longrightarrow> unattended_step c S \<subseteq> live_step c T"
  by (cases "(c, S)" rule: unattended_step.cases) auto

lemma unattended_live: "S \<subseteq> T \<Longrightarrow> unattended l S \<subseteq> live l T"
  by (induction l arbitrary: S T) (auto dest: unattended_step_live)

lemma live_step_Un: "live_step c (S \<union> T) = live_step c S \<union> live_step c T"
  by (cases "(c, S)" rule: live_step.cases) auto

lemma live_Un: "live l (S \<union> T) = live l S \<union> live l T"
  by (induction l arbitrary: S T) (simp_all add: live_step_Un)

lemma live_mono: "S \<subseteq> T \<Longrightarrow> live l S \<subseteq> live l T"
  by (metis le_iff_sup live_Un)

text \<open>Calls that start no process.\<close>

definition starts :: "node_call \<Rightarrow> bool" where
  "starts c \<longleftrightarrow> (case c of NStart _ _ _ (Some _) \<Rightarrow> True | _ \<Rightarrow> False)"

definition quiet :: "node_call list \<Rightarrow> bool" where
  "quiet l \<longleftrightarrow> list_all (\<lambda>c. \<not> starts c) l"

lemma quiet_simps [simp]: "quiet []" "quiet (c # l) \<longleftrightarrow> \<not> starts c \<and> quiet l" "quiet (l @ m) \<longleftrightarrow> quiet l \<and> quiet m"
  by (simp_all add: quiet_def)

lemma live_quiet: "quiet l \<Longrightarrow> live l S \<subseteq> S"
proof (induction l arbitrary: S)
  case (Cons c l)
  then have "live_step c S \<subseteq> S" by (cases "(c, S)" rule: live_step.cases) (auto simp: starts_def)
  with Cons show ?case by fastforce
qed simp

lemma live_left: "live l S \<subseteq> S \<union> live l {}"
proof (induction l rule: rev_induct)
  case (snoc c l)
  have "live_step c (live l S) \<subseteq> live_step c (S \<union> live l {})"
    using snoc live_step_Un by (metis le_iff_sup)
  also have "... \<subseteq> S \<union> live_step c (live l {})"
    by (cases "(c, S)" rule: live_step.cases) auto
  finally show ?case by simp
qed simp

lemma quiet_fileSHA256: "yields (\<lambda>_. quiet) (fileSHA256 h path)"
  unfolding fileSHA256_def tryE_def deferring_def
  by (intro yields_calling [OF yields_node(6)] yields_case_sum yields_return yields_bind [of "\<lambda>_. quiet"]
      yields_calling [OF yields_node(7)])
     (auto simp: starts_def intro: yields_return yields_mono [OF yields_node(8)])

lemma quiet_supervise: "yields (\<lambda>_. quiet) (supervise h ps)"
proof -
  have shut: "yields (\<lambda>_. quiet) (deferring (perform NShutdown (\<lambda>w. ((), w))) m)" if "yields (\<lambda>_. quiet) m" for m :: "('a, 'b) nprog"
    by (rule yields_deferring, rule yields_mono [OF that], rule yields_perform) (simp add: starts_def)
  have "yields (\<lambda>_. quiet) (State_Monad.bind (case q of None \<Rightarrow> State_Monad.return () | Some pid \<Rightarrow> note_done pid)
      (\<lambda>_. State_Monad.return x))" for q and x :: "(node_error + unit) option"
    by (cases q) (auto simp: starts_def intro!: yields_return yields_calling [OF yields_node(13)])
  note exited = shut [OF this]
  show ?thesis
    unfolding supervise_def
    by (intro yields_calling [of "NServe (env h ''PEER_POD_NODE_HEALTH_ADDRESS'' '':8081'')"] yields_observing yields_perform refl)
       (auto simp: starts_def intro!: yields_return shut exited split: node_event.splits)
qed

definition accounted :: "managed_result \<Rightarrow> nat set \<Rightarrow> bool" where
  "accounted r left \<longleftrightarrow> (case r of
     None \<Rightarrow> True
   | Some (ps, res) \<Rightarrow> left \<subseteq> set (handles ps) \<or> (\<exists>e. res = Inl (ProcessExit ''kubelet'' e)))"

lemma supervise_accounted:
  assumes "S \<subseteq> set (handles ps)"
  shows "yields (\<lambda>r l. accounted r (live l S)) (State_Monad.bind (supervise h ps) (\<lambda>r.
    State_Monad.return (map_option (\<lambda>x. (ps, x)) r)))"
proof (rule yields_bind [OF quiet_supervise])
  fix r l assume "quiet l"
  with assms have "live l S \<subseteq> set (handles ps)" using live_quiet by blast
  then show "yields (\<lambda>r l'. accounted r (live (l @ l') S)) (State_Monad.return (map_option (\<lambda>x. (ps, x)) r))"
    by (cases r) (simp_all add: yields_return accounted_def)
qed

lemma adaptor_accounted:
  assumes "S \<subseteq> set (handles [containerd, k])" and "caa_left k x (live l {})" and "p_name k = ''kubelet''"
  shows "yields (\<lambda>r m. accounted r (live m (live l S))) (case x of
     None \<Rightarrow> State_Monad.return None
   | Some (Inl err) \<Rightarrow> State_Monad.return (Some ([containerd, k], Inl err))
   | Some (Inr caa) \<Rightarrow> State_Monad.bind (supervise h [containerd, k, caa]) (\<lambda>r.
       State_Monad.return (map_option (\<lambda>x. ([containerd, k, caa], x)) r)))"
proof (cases x)
  case None
  then show ?thesis by (simp add: yields_return accounted_def)
next
  case (Some y)
  have sub: "live l S \<subseteq> set (handles [containerd, k]) \<union> live l {}" using live_left [of l S] assms(1) by blast
  show ?thesis
  proof (cases y)
    case (Inl err)
    have "exitOf err ''kubelet'' \<or> live l {} = {}" using assms Some Inl by (simp add: caa_left_def)
    then have "accounted (Some ([containerd, k], Inl err)) (live l S)"
      using sub by (auto simp: accounted_def exitOf_def split: node_error.splits)
    with Some Inl show ?thesis by (simp add: yields_return)
  next
    case (Inr q)
    then obtain pid where "p_handle q = Some pid" "live l {} \<subseteq> {pid}"
      using assms(2) Some by (auto simp: caa_left_def)
    with sub have "live l S \<subseteq> set (handles [containerd, k, q])" by (auto split: option.splits)
    from supervise_accounted [OF this] Some Inr show ?thesis by simp
  qed
qed

lemma runAdaptor_accounted:
  assumes "S \<subseteq> set (handles [containerd, k])" and "p_name k = ''kubelet''"
  shows "yields (\<lambda>r l. accounted r (live l S)) (runAdaptor tries polls h containerd k nodeName)"
  unfolding runAdaptor_def Let_def
proof (intro yields_bind [OF quiet_fileSHA256] yields_case_sum, goal_cases)
  case (1 f l err)
  with assms show ?case using live_quiet by (fastforce simp: accounted_def intro!: yields_return)
next
  case (2 f l hash)
  then have S: "live l S \<subseteq> set (handles [containerd, k])" using assms live_quiet by blast
  have "p_name k \<noteq> ''cloud-api-adaptor''" using assms(2) by simp
  then show ?case
    by (intro yields_bind [OF startCAA_left]) (simp_all add: adaptor_accounted [OF S _ assms(2)])
qed

lemma runKubelet_accounted:
  assumes "S \<subseteq> {c}" and "p_handle containerd = Some c" and "p_name kubelet = ''kubelet''"
  shows "yields (\<lambda>r l. accounted r (live l S)) (runKubelet tries polls h containerd kubelet nodeName)"
  unfolding runKubelet_def
proof (intro yields_bind [OF yields_start] yields_case_sum, goal_cases)
  case (1 k l e)
  with assms show ?case by (auto simp: accounted_def [of "Some _"] intro!: yields_return split: option.split)
next
  case (2 k l k1)
  then obtain pid where k1: "k1 = kubelet\<lparr>p_handle := Some pid\<rparr>" "live l S = insert pid S" by auto
  with assms have "live l S \<subseteq> set (handles [containerd, k1])" "p_name k1 = ''kubelet''" by auto
  from runAdaptor_accounted [OF this] show ?case by simp
qed

lemma runManaged_accounted:
  assumes "p_handle containerd = Some c" and "p_name kubelet = ''kubelet''"
  shows "yields (\<lambda>r l. accounted r (live l {c})) (runManaged tries polls h containerd kubelet nodeName)"
  unfolding runManaged_def
proof (rule yields_bind [OF waitForPath_seen], goal_cases)
  case (1 w l)
  then have "live l {c} \<subseteq> {c}" using live_waited [OF 1] by simp
  with runKubelet_accounted [OF this assms] assms(1) show ?case
    by (auto simp: accounted_def [of "Some _"] accounted_def [of None] intro!: yields_return split: option.split sum.split)
qed

subsection \<open>The whole run\<close>

definition attended :: "(node_error + unit) option \<Rightarrow> node_call list \<Rightarrow> bool" where
  "attended r l \<longleftrightarrow> (case r of
     None \<Rightarrow> True | Some res \<Rightarrow> unattended l {} = {} \<or> (\<exists>e. res = Inl (ProcessExit ''kubelet'' e)))"

lemma unattended_quiet: "quiet l \<Longrightarrow> unattended l {} = {}"
  using unattended_live [of "{}" "{}" l] live_quiet [of l "{}"] by auto

lemma attended_quiet [simp]: "quiet l \<Longrightarrow> attended r (l @ m) \<longleftrightarrow> attended r m" "quiet l \<Longrightarrow> attended r l"
  by (cases r; simp add: attended_def unattended_quiet)+

lemma attended_tryO:
  assumes "yields (\<lambda>_. quiet) m" and "\<And>x. yields attended (f x)"
  shows "yields attended (tryO (liftE m) f)"
proof -
  have "yields (\<lambda>_. quiet) (liftE m)"
    unfolding liftE_def by (rule yields_bind [OF assms(1)]) (simp add: yields_return)
  then show ?thesis
    unfolding tryO_def using assms(2)
    by (elim yields_bind) (auto intro!: yields_return split: option.splits sum.splits)
qed

lemma quiet_call: "yields (\<lambda>_ l. l = [c]) m \<Longrightarrow> \<not> starts c \<Longrightarrow> yields (\<lambda>_. quiet) m"
  by (erule yields_mono) simp

lemma quiet_tryE: "yields (\<lambda>_. quiet) m \<Longrightarrow> (\<And>x. yields (\<lambda>_. quiet) (f x)) \<Longrightarrow> yields (\<lambda>_. quiet) (tryE m f)"
  by (rule yields_tryE [of "\<lambda>_. quiet"]) (auto elim: yields_mono)

lemma quiet_wrapE: "yields (\<lambda>_. quiet) m \<Longrightarrow> yields (\<lambda>_. quiet) (wrapE p m)"
  by (rule yields_wrapE) simp

lemma quiet_bind:
  "yields (\<lambda>_. quiet) m \<Longrightarrow> (\<And>x. yields (\<lambda>_. quiet) (f x)) \<Longrightarrow> yields (\<lambda>_. quiet) (State_Monad.bind m f)"
  by (erule yields_bind) (auto elim: yields_mono)

lemma quiet_return: "yields (\<lambda>_. quiet) (State_Monad.return x)"
  by (simp add: yields_return)

lemma quiet_calls:
  "yields (\<lambda>_. quiet) (nd_Stat h p)" "yields (\<lambda>_. quiet) (nd_MkdirAll h p m)" "yields (\<lambda>_. quiet) (nd_Remove h p)"
  "yields (\<lambda>_. quiet) (nd_Symlink h p q)" "yields (\<lambda>_. quiet) (nd_WriteFile h p d m)" "yields (\<lambda>_. quiet) (nd_ReadDir h p)"
  "yields (\<lambda>_. quiet) (nd_Unmount h p)" "yields (\<lambda>_. quiet) (log_Printf t)"
  by (simp_all add: node_ops nd_Unmount_def yields_perform yields_performs starts_def)

lemmas quiet_intros = quiet_calls quiet_tryE quiet_wrapE quiet_bind quiet_return yields_if yields_case_sum yields_case_option

lemma quiet_makeDirs: "yields (\<lambda>_. quiet) (makeDirs h ds)"
  by (induction ds) (auto intro!: quiet_intros)

lemma quiet_ensureUnixSyslogSocket: "yields (\<lambda>_. quiet) (ensureUnixSyslogSocket h)"
  unfolding ensureUnixSyslogSocket_def Let_def by (intro quiet_intros)

lemma quiet_prepareKubeletConfig: "yields (\<lambda>_. quiet) (prepareKubeletConfig h d)"
  unfolding prepareKubeletConfig_def Let_def by (intro quiet_intros)

lemma quiet_removeEntry: "yields (\<lambda>_. quiet) (removeEntry h p)"
  unfolding removeEntry_def
  by (intro quiet_bind quiet_calls) (auto intro!: quiet_intros split: option.split errno.split)

lemma quiet_cleanupNetworkNamespaces: "yields (\<lambda>_. quiet) (cleanupNetworkNamespaces h d)"
proof -
  have "yields (\<lambda>_. quiet) (removeEntries h d es)" for es
    by (induction es) (auto intro!: quiet_intros quiet_removeEntry)
  then show ?thesis unfolding cleanupNetworkNamespaces_def by (intro quiet_intros)
qed

lemma unattended_quiet_sub: "quiet l \<Longrightarrow> unattended l S \<subseteq> S"
  using unattended_live [of S S l] live_quiet [of l S] by auto

lemma unattended_terms: "unattended (map NTerm hs) S = S - set hs"
  by (induction hs arbitrary: S) auto

lemma quiet_ends: "quiet (map NDone hs)" "quiet (map NKill ks)"
  by (simp_all add: quiet_def list_all_iff starts_def)

lemma terminate_attends: "yields (\<lambda>_ l. unattended l S \<subseteq> S - set (handles ps)) (terminate h ps t)"
proof (rule yields_mono [OF terminate_calls], elim exE conjE)
  fix l seen kills assume "l = map NTerm (rev (handles ps)) @ map NDone seen @ map NKill kills"
  moreover have "unattended (map NDone seen @ map NKill kills) (S - set (handles ps)) \<subseteq> S - set (handles ps)"
    by (rule unattended_quiet_sub) (simp add: quiet_ends)
  ultimately show "unattended l S \<subseteq> S - set (handles ps)" by (simp add: unattended_terms)
qed

lemma cleanup_attends: "yields (\<lambda>_ l. unattended l S \<subseteq> S - set (handles ps)) (cleanup h ps)"
proof -
  have "yields (\<lambda>_. quiet) (State_Monad.bind (cleanupNetworkNamespaces h ''/run/netns'') (\<lambda>e. case e of
       None \<Rightarrow> State_Monad.return () | Some err \<Rightarrow> log_Printf (''clean up network namespaces: '' @ Error err)))"
    by (intro quiet_bind quiet_cleanupNetworkNamespaces yields_case_option quiet_intros)
  then show ?thesis
    unfolding cleanup_def
    by (intro yields_bind [OF terminate_attends])
       (erule yields_mono, auto dest!: unattended_quiet_sub)
qed

lemma managed_attended:
  assumes "p_handle containerd = Some c" and "p_name kubelet = ''kubelet''"
  shows "yields (\<lambda>r l. case r of None \<Rightarrow> True
      | Some res \<Rightarrow> unattended l {c} = {} \<or> (\<exists>e. res = Inl (ProcessExit ''kubelet'' e)))
    (State_Monad.bind (runManaged tries polls h containerd kubelet nodeName) (\<lambda>r. case r of
       None \<Rightarrow> State_Monad.return None
     | Some (processes, result) \<Rightarrow> State_Monad.bind (cleanup h processes) (\<lambda>_. State_Monad.return (Some result))))"
proof (rule yields_bind [OF runManaged_accounted [OF assms]], goal_cases)
  case (1 r l)
  show ?case
  proof (cases r)
    case (Some x)
    obtain ps res where x: "x = (ps, res)" by (cases x)
    have "yields (\<lambda>r l'. r = Some res \<and> unattended l' (unattended l {c}) \<subseteq> unattended l {c} - set (handles ps))
        (State_Monad.bind (cleanup h ps) (\<lambda>_. State_Monad.return (Some res)))"
      by (rule yields_bind [OF cleanup_attends [where S = "unattended l {c}"]]) (simp add: yields_return)
    moreover have "unattended l {c} \<subseteq> set (handles ps) \<or> (\<exists>e. res = Inl (ProcessExit ''kubelet'' e))"
      using 1 Some x unattended_live [of "{c}" "{c}" l] by (auto simp: accounted_def)
    ultimately show ?thesis
      using Some x by (auto elim!: yields_mono) blast
  qed (simp add: yields_return)
qed

lemma started_attended:
  assumes "\<And>q pid. q = p\<lparr>p_handle := Some pid\<rparr> \<Longrightarrow> yields (\<lambda>r l. case r of None \<Rightarrow> True
      | Some res \<Rightarrow> unattended l {pid} = {} \<or> (\<exists>e. res = Inl (ProcessExit ''kubelet'' e))) (f q)"
  shows "yields attended (tryO (liftE (node_start h p)) f)"
proof -
  have "yields (\<lambda>r l. case r of
      Some (Inr q) \<Rightarrow> \<exists>pid. q = p\<lparr>p_handle := Some pid\<rparr> \<and> unattended l {} = {pid} | _ \<Rightarrow> quiet l) (liftE (node_start h p))"
    unfolding liftE_def
    by (rule yields_bind [OF yields_start]) (auto simp: starts_def intro!: yields_return split: sum.splits)
  then show ?thesis
    unfolding tryO_def
  proof (elim yields_bind, goal_cases)
    case (1 r l)
    show ?case
    proof (cases "\<exists>q. r = Some (Inr q)")
      case True
      with 1 obtain q pid where "r = Some (Inr q)" "q = p\<lparr>p_handle := Some pid\<rparr>" "unattended l {} = {pid}" by auto
      with assms [of q pid] show ?thesis by (auto simp: attended_def elim!: yields_mono split: option.splits)
    next
      case False
      with 1 show ?thesis by (auto intro!: yields_return split: option.splits sum.splits)
    qed
  qed
qed

lemma node_run_attended: "yields attended (node_run tries polls h)"
  unfolding node_run_def Let_def
  by (intro attended_tryO started_attended managed_attended quiet_intros quiet_makeDirs quiet_ensureUnixSyslogSocket
      quiet_prepareKubeletConfig) (simp_all add: command_def kubeletCommand_def)

text \<open>C36: No process outlives the supervisor unnoticed. Whenever \<open>run\<close> returns, every process it started has
  been seen to exit or has been sent \<open>SIGTERM\<close> since it was started, unless \<open>run\<close> returns because kubelet
  exited.\<close>

theorem node_run_attends:
  "yields (\<lambda>r l. case r of
     None \<Rightarrow> True
   | Some res \<Rightarrow> unattended l {} = {} \<or> (\<exists>e. res = Inl (ProcessExit ''kubelet'' e))) (node_run tries polls h)"
  using node_run_attended [of tries polls h] unfolding attended_def .


subsection \<open>A node whose kubelet exits\<close>

text \<open>Processes get the handles 0, 1, 2, in the order of their start; every file exists except the socket of
  the adaptor; kubelet, the second process, has exited when the supervisor looks.\<close>

definition exit_node :: "nat node" where
  "exit_node = \<lparr>n_Getenv = (\<lambda>v. if v = ''PEER_POD_NODE_KUBELET_CONFIG'' then ''k'' else []), n_Environ = [],
     n_Hostname = Inr ''n'', n_Stat = (\<lambda>p w. (if p = hypervisorSock then Inl (errorsNew ''no'') else Inr True, w)),
     n_MkdirAll = (\<lambda>_ _ w. (Inr (), w)), n_Remove = (\<lambda>_ w. (Inr (), w)), n_Symlink = (\<lambda>_ _ w. (Inr (), w)),
     n_WriteFile = (\<lambda>_ _ _ w. (Inr (), w)), n_Open = (\<lambda>_ w. (Inr (), w)), n_Read = (\<lambda>_ w. (Inr [], w)),
     n_Close = (\<lambda>_ w. (Inr (), w)), n_ReadDir = (\<lambda>_ w. (Inr [], w)), n_Unmount = (\<lambda>_ w. (None, w)),
     n_Start = (\<lambda>_ _ _ w. (Inr w, Suc w)), n_Term = (\<lambda>_ w. (Inr (), w)), n_Kill = (\<lambda>_ w. (Inr (), w)),
     n_Exited = (\<lambda>pid w. (if pid = 1 then Some None else None, w)), n_AwaitExit = (\<lambda>_ w. (True, w)),
     n_ExitOrDeadline = (\<lambda>_ _ w. (True, w)), n_ProcessState = (\<lambda>_ w. (True, w)),
     n_PathEvent = (\<lambda>_ _ w. (PathTick, w)), n_RetryEvent = (\<lambda>w. (RetryAfter, w)), n_RunEvent = (\<lambda>_ w. (NodeSignalled, w))\<rparr>"


text \<open>The exception of the two properties is real: on this node the adaptor, handle 2, is left running.\<close>

theorem kubelet_exit_leaves_adaptor:
  "\<exists>t. run_state (node_run 1 1 exit_node) \<lparr>world = 0, trace = []\<rparr> = (Some (Inl (ProcessExit ''kubelet'' None)), t) \<and>
     unattended (trace t) {} = {2}"
proof -
  have "TrimSpace ''k'' = ''k''" by (rule TrimSpace_id) (simp add: IsSpace_def in_range_def)
  then show ?thesis
    by (simp add: node_run_def exit_node_def Let_def env_def hostname_def tryO_def liftE_def wrapE_def node_ops
        makeDirs.simps tryE_def ensureUnixSyslogSocket_def prepareKubeletConfig_def node_start_def nd_Start_def
        performs_def command_def runManaged_def runKubelet_def runAdaptor_def fileSHA256_def deferring_def
        caaCommand_def kubeletCommand_def exitOf_def cleanup_def terminate_def cleanupNetworkNamespaces_def errors_Join_def
        run_state_bind) auto
qed

text \<open>When the health server fails, \<open>run\<close> ends as after a signal: without an error.\<close>

theorem health_failure_is_success:
  assumes "fst (n_RunEvent h (handles ps) (world s)) = HealthFailed err"
  shows "fst (run_state (supervise h ps) s) = Some (Inr ())"
  using assms by (simp add: supervise_def run_state_bind deferring_def case_prod_beta)

subsection \<open>Network namespaces\<close>

definition removal :: "string \<Rightarrow> node_call list \<Rightarrow> bool" where
  "removal path b \<longleftrightarrow> (\<exists>t. b = [NUnmount path (Some (OtherErrno t))]) \<or>
     (\<exists>u \<in> {None, Some EINVAL, Some ENOENT}. b = [NUnmount path u, NRemove path])"

lemma removeEntry_calls:
  "yields (\<lambda>es b. removal path b \<and> (if es = [] then length b = 2 else True)) (removeEntry h path)"
  unfolding removeEntry_def
  by (rule yields_bind [OF yields_unmount])
     (auto simp: removal_def intro!: yields_return yields_calling [OF yields_node(3)] split: option.split errno.split sum.split)

lemma removeEntries_calls:
  "yields (\<lambda>es l. \<exists>bs. l = concat bs \<and>
     list_all2 (\<lambda>e b. removal (filepath_Join [d, fst e]) b) (filter (\<lambda>e. \<not> snd e) entries) bs \<and>
     (if es = [] then list_all (\<lambda>b. length b = 2) bs else True)) (removeEntries h d entries)"
proof (induction entries)
  case Nil
  show ?case by (simp add: yields_return)
next
  case (Cons e entries)
  obtain name isDir where e: "e = (name, isDir)" by (cases e)
  show ?case
  proof (cases isDir)
    case True
    with Cons e show ?thesis by simp
  next
    case False
    let ?path = "filepath_Join [d, name]"
    have rest: "yields (\<lambda>es' l. \<exists>bs. b @ l = concat bs \<and>
        list_all2 (\<lambda>e b. removal (filepath_Join [d, fst e]) b) (filter (\<lambda>e. \<not> snd e) (e # entries)) bs \<and>
        (if es' = [] then list_all (\<lambda>b. length b = 2) bs else True))
        (State_Monad.bind (removeEntries h d entries) (\<lambda>rest. State_Monad.return (es @ rest)))"
      if b: "removal ?path b \<and> (if es = [] then length b = 2 else True)" for es b
    proof (rule yields_bind [OF Cons], elim exE conjE, rule yields_return, goal_cases)
      case (1 es' l bs)
      with b e False show ?case by (intro exI [of _ "b # bs"]) auto
    qed
    show ?thesis
      unfolding e removeEntries.simps
      using False rest [unfolded e] by (simp only: if_False) (rule yields_bind [OF removeEntry_calls], blast)
  qed
qed

text \<open>C38: A network namespace is removed only after it was unmounted. The clean-up visits exactly the entries
  of the directory that are not directories, each once and in order; the file of an entry is removed unless
  its unmount failed for another reason than that it is not a mount point or is gone, and no failure keeps
  the later entries from being visited. When it reports success, every entry was removed.\<close>

theorem cleanupNetworkNamespaces_exact:
  "wp (cleanupNetworkNamespaces h d) (\<lambda>r t. \<exists>l. trace t = trace s @ NReadDir d # l \<and>
     (case fst (n_ReadDir h d (world s)) of
        Inl err \<Rightarrow> l = [] \<and> r = (if IsNotFound err then None else Some err)
      | Inr entries \<Rightarrow> \<exists>bs. l = concat bs \<and>
          list_all2 (\<lambda>e b. removal (filepath_Join [d, fst e]) b) (filter (\<lambda>e. \<not> snd e) entries) bs \<and>
          (if r = None then list_all (\<lambda>b. length b = 2) bs else True))) s"
proof (cases "fst (n_ReadDir h d (world s))")
  case (Inl err)
  then show ?thesis
    by (simp add: cleanupNetworkNamespaces_def nd_ReadDir_def wp_perform case_prod_beta)
next
  case (Inr entries)
  let ?s = "\<lparr>world = snd (n_ReadDir h d (world s)), trace = trace s @ [NReadDir d]\<rparr>"
  have "wp (State_Monad.bind (removeEntries h d entries) (\<lambda>es. State_Monad.return (errors_Join es)))
      (\<lambda>r t. \<exists>l. trace t = trace ?s @ l \<and> (\<exists>bs. l = concat bs \<and>
          list_all2 (\<lambda>e b. removal (filepath_Join [d, fst e]) b) (filter (\<lambda>e. \<not> snd e) entries) bs \<and>
          (if r = None then list_all (\<lambda>b. length b = 2) bs else True))) ?s"
    by (rule yields_wp, rule yields_bind [OF removeEntries_calls]) (auto simp: errors_Join_def intro!: yields_return)
  with Inr show ?thesis
    by (simp add: cleanupNetworkNamespaces_def nd_ReadDir_def wp_perform case_prod_beta)
qed

subsection \<open>The kubelet's configuration\<close>

text \<open>The kubelet runs with the configured file or with the generated one. When a path is returned, either
  it is the configured path, which exists, and nothing is written; or one file was written, readable by its
  owner only, with the generated configuration for a cluster DNS server that is a valid IP address, so that
  the address cannot add lines to the document.\<close>

theorem prepareKubeletConfig_written:
  "yields (\<lambda>r l. case r of
     Inl _ \<Rightarrow> True
   | Inr path \<Rightarrow>
       (let configured = TrimSpace (n_Getenv h ''PEER_POD_NODE_KUBELET_CONFIG'');
            dns = TrimSpace (n_Getenv h ''PEER_POD_NODE_CLUSTER_DNS'');
            clientCA = env h ''PEER_POD_NODE_CLIENT_CA_FILE'' ''/etc/peer-pod-node/cluster-ca.crt'';
            domain = env h ''PEER_POD_NODE_CLUSTER_DOMAIN'' ''cluster.local''
        in if configured = []
           then path = filepath_Join [stateDir, ''kubelet.yaml''] \<and> ParseIP_ok dns \<and> list_all ip_char dns \<and>
             l = [NStat clientCA, NWriteFile path (kubeletConfiguration clientCA domain dns) 384]
           else path = configured \<and> l = [NStat configured])) (prepareKubeletConfig h stateDir)"
proof -
  let ?c = "TrimSpace (n_Getenv h ''PEER_POD_NODE_KUBELET_CONFIG'')"
  have stat: "yields (\<lambda>_ l. l = [NStat p]) (wrapE t (nd_Stat h p))" for t p
    by (rule yields_wrapE) (rule yields_node)
  show ?thesis
  proof (cases "?c = []")
    case True
    show ?thesis
      unfolding prepareKubeletConfig_def Let_def True
      by (auto intro!: yields_return yields_tryE [OF stat] yields_tryE [OF yields_node(5)] simp: ParseIP_ok_chars)
  next
    case False
    then show ?thesis
      unfolding prepareKubeletConfig_def Let_def
      by (auto intro!: yields_return yields_tryE [OF stat])
  qed
qed

end
