(* ===== verification/Manager_Main.thy ===== *)
theory Manager_Main
  imports Sandbox_Server Go_Flag "HOL-Library.Sublist"
begin

text \<open>
  The manager's program (\<open>cmd/main.go\<close>): its flags, the options of the two TLS servers and of the manager,
  and the registration of the controller, the API server and the health checks before the start. The
  controller-runtime is the parameter \<open>'w ctrl\<close>; the flags that the zap logger binds are an argument. The
  trace records the calls of the controller-runtime; log lines are left out.
\<close>

subsection \<open>Flags\<close>

record 'z mainOptions =
  mo_metricsAddr :: string
  mo_probeAddr :: string
  mo_apiAddr :: string
  mo_sandboxNamespace :: string
  mo_sandboxClassName :: string
  mo_tokenSecretName :: string
  mo_enableLeaderElection :: bool
  mo_secureMetrics :: bool
  mo_webhookCertPath :: string
  mo_webhookCertName :: string
  mo_webhookCertKey :: string
  mo_metricsCertPath :: string
  mo_metricsCertName :: string
  mo_metricsCertKey :: string
  mo_enableHTTP2 :: bool
  mo_zap :: 'z

definition mainDefaults :: "'z \<Rightarrow> 'z mainOptions" where
  "mainDefaults z = \<lparr>mo_metricsAddr = ''0'', mo_probeAddr = '':8081'', mo_apiAddr = '':8080'',
     mo_sandboxNamespace = ''caa-provider-kubernetes-system'', mo_sandboxClassName = ''default'',
     mo_tokenSecretName = ''pod-sandbox-api'', mo_enableLeaderElection = False, mo_secureMetrics = True,
     mo_webhookCertPath = [], mo_webhookCertName = ''tls.crt'', mo_webhookCertKey = ''tls.key'',
     mo_metricsCertPath = [], mo_metricsCertName = ''tls.crt'', mo_metricsCertKey = ''tls.key'',
     mo_enableHTTP2 = False, mo_zap = z\<rparr>"


subsection \<open>Options\<close>

text \<open>A TLS option changes the protocols that a server offers.\<close>

type_synonym tls_opt = "string list \<Rightarrow> string list"

definition disableHTTP2 :: tls_opt where
  "disableHTTP2 nextProtos = [''http/1.1'']"

definition tlsOpts :: "'z mainOptions \<Rightarrow> tls_opt list" where
  "tlsOpts o' = (if mo_enableHTTP2 o' then [] else [disableHTTP2])"

text \<open>The options of the two servers; the certificate fields are set when a path is given.\<close>

record server_options =
  so_TLSOpts :: "tls_opt list"
  so_CertDir :: string
  so_CertName :: string
  so_KeyName :: string

definition webhookServerOptions :: "'z mainOptions \<Rightarrow> server_options" where
  "webhookServerOptions o' =
     (if length (mo_webhookCertPath o') > 0
      then \<lparr>so_TLSOpts = tlsOpts o', so_CertDir = mo_webhookCertPath o',
            so_CertName = mo_webhookCertName o', so_KeyName = mo_webhookCertKey o'\<rparr>
      else \<lparr>so_TLSOpts = tlsOpts o', so_CertDir = [], so_CertName = [], so_KeyName = []\<rparr>)"

record metrics_options =
  mso_BindAddress :: string
  mso_SecureServing :: bool
  mso_Filtered :: bool
  mso_Server :: server_options

definition metricsServerOptions :: "'z mainOptions \<Rightarrow> metrics_options" where
  "metricsServerOptions o' =
     \<lparr>mso_BindAddress = mo_metricsAddr o',
      mso_SecureServing = mo_secureMetrics o',
      mso_Filtered = mo_secureMetrics o',
      mso_Server =
        (if length (mo_metricsCertPath o') > 0
         then \<lparr>so_TLSOpts = tlsOpts o', so_CertDir = mo_metricsCertPath o',
               so_CertName = mo_metricsCertName o', so_KeyName = mo_metricsCertKey o'\<rparr>
         else \<lparr>so_TLSOpts = tlsOpts o', so_CertDir = [], so_CertName = [], so_KeyName = []\<rparr>)\<rparr>"



definition apiConfig :: "(string \<Rightarrow> string) \<Rightarrow> 'z mainOptions \<Rightarrow> Config" where
  "apiConfig getenv o' =
     \<lparr>cfg_Address = mo_apiAddr o', cfg_Namespace = mo_sandboxNamespace o', cfg_Token = getenv ''POD_SANDBOX_API_TOKEN'',
      cfg_TokenSecretName = mo_tokenSecretName o', cfg_ClassName = mo_sandboxClassName o'\<rparr>"

subsection \<open>main\<close>






subsection \<open>Properties\<close>







text \<open>Unless HTTP/2 is enabled by its flag, both servers offer HTTP/1.1 only, and the metrics are served
  behind the authentication filter exactly when they are served over TLS.\<close>

lemma servers_hardened:
  assumes "\<not> mo_enableHTTP2 o'"
  shows "fold (\<lambda>f. f) (so_TLSOpts (webhookServerOptions o')) protos = [''http/1.1''] \<and>
    fold (\<lambda>f. f) (so_TLSOpts (mso_Server (metricsServerOptions o'))) protos = [''http/1.1'']"
    "mso_Filtered (metricsServerOptions o') = mso_SecureServing (metricsServerOptions o')"
  using assms by (simp_all add: webhookServerOptions_def metricsServerOptions_def tlsOpts_def disableHTTP2_def)

text \<open>The defaults of the flags form a configuration that \<open>New\<close> accepts as it is.\<close>

lemma defaults_accepted: "New (apiConfig getenv (mainDefaults z)) = Inr (apiConfig getenv (mainDefaults z))"
  by (simp add: New_def apiConfig_def mainDefaults_def)

end
