(* ===== verification/Ready_Store.thy ===== *)
theory Ready_Store
  imports Server_Properties Controller_Properties
begin

text \<open>
  The contract of a cluster that the server and the controller share. The locale \<open>ready_reader\<close> is what
  the server relies on: whatever others do between its calls, a sandbox it reads as ready was justified,
  that is, its addresses are among those that were \<open>seen\<close> on a ready runner Pod. The locale \<open>ready_store\<close>
  adds what the controller relies on. The lemmas show that the handlers of the server and the controller
  in turn keep that invariant, so that each guarantees what the other relies on.
\<close>

type_synonym addresses = "(NamespacedName \<times> string list) set"

abbreviation is_ready :: "PodSandbox \<Rightarrow> bool" where
  "is_ready sb \<equiv> conditionTrue (status_Conditions (psb_Status sb)) ConditionReady"

definition advances :: "('w \<Rightarrow> bool) \<Rightarrow> ('w \<Rightarrow> addresses) \<Rightarrow> 'w \<Rightarrow> 'w \<Rightarrow> bool" where
  "advances sound seen w w' \<longleftrightarrow> (if sound w then sound w' \<and> seen w \<subseteq> seen w' else True)"

lemma advances_refl: "advances sound seen w w"
  by (simp add: advances_def)

lemma advances_trans: "advances sound seen u v \<Longrightarrow> advances sound seen v w \<Longrightarrow> advances sound seen u w"
  by (auto simp: advances_def split: if_splits)

lemma advancesD: "advances sound seen w w' \<Longrightarrow> sound w \<Longrightarrow> sound w' \<and> seen w \<subseteq> seen w'"
  by (simp add: advances_def)

definition maintains :: "('w \<Rightarrow> bool) \<Rightarrow> ('w \<Rightarrow> addresses) \<Rightarrow> ('w, 'c, 'a) prog \<Rightarrow> bool" where
  "maintains sound seen m \<longleftrightarrow> (\<forall>s. advances sound seen (world s) (world (snd (run_state m s))))"

lemma maintains_return: "maintains sound seen (State_Monad.return a)"
  by (simp add: maintains_def advances_refl)

lemma maintains_bind: "maintains sound seen m \<Longrightarrow> (\<And>a. maintains sound seen (f a)) \<Longrightarrow> maintains sound seen (State_Monad.bind m f)"
  unfolding maintains_def by (auto simp: run_state_bind split: prod.splits) (metis advances_trans snd_conv)

lemma maintains_perform: "(\<And>w. advances sound seen w (snd (f w))) \<Longrightarrow> maintains sound seen (perform c f)"
  by (simp add: maintains_def)

lemma maintains_observe: "(\<And>w. advances sound seen w (snd (f w))) \<Longrightarrow> maintains sound seen (observe f)"
  by (simp add: maintains_def)

lemma maintains_if: "(b \<Longrightarrow> maintains sound seen m) \<Longrightarrow> (\<not> b \<Longrightarrow> maintains sound seen n) \<Longrightarrow> maintains sound seen (if b then m else n)"
  by simp

lemma maintains_sum:
  "(\<And>e. r = Inl e \<Longrightarrow> maintains sound seen (f e)) \<Longrightarrow> (\<And>x. r = Inr x \<Longrightarrow> maintains sound seen (g x)) \<Longrightarrow>
   maintains sound seen (case r of Inl e \<Rightarrow> f e | Inr x \<Rightarrow> g x)"
  by (cases r) auto

lemma maintains_option:
  "(r = None \<Longrightarrow> maintains sound seen m) \<Longrightarrow> (\<And>x. r = Some x \<Longrightarrow> maintains sound seen (f x)) \<Longrightarrow>
   maintains sound seen (case r of None \<Rightarrow> m | Some x \<Rightarrow> f x)"
  by (cases r) auto

lemma maintains_prod: "(\<And>x y. r = (x, y) \<Longrightarrow> maintains sound seen (f x y)) \<Longrightarrow> maintains sound seen (case r of (x, y) \<Rightarrow> f x y)"
  by (cases r) auto

lemma maintains_event:
  "(\<And>e. maintains sound seen (f e)) \<Longrightarrow> maintains sound seen g \<Longrightarrow> maintains sound seen (case r of CtxDone e \<Rightarrow> f e | Tick \<Rightarrow> g)"
  by (cases r) auto

lemmas maintains_intros = maintains_return maintains_bind maintains_if maintains_sum maintains_option maintains_prod maintains_event

lemma maintains_run: "maintains sound seen m \<Longrightarrow> run_state m s = (a, t) \<Longrightarrow> advances sound seen (world s) (world t)"
  unfolding maintains_def by (metis snd_conv)

text \<open>An answer of the create handler that reports success carries addresses that were seen.\<close>

definition served :: "addresses \<Rightarrow> NamespacedName \<Rightarrow> string \<Rightarrow> http_response \<Rightarrow> bool" where
  "served A key wn rsp \<longleftrightarrow> (if rsp_Status rsp < 400
     then \<exists>psb. rsp = writeJSON 201 (sandboxResponse_json \<lparr>sr_ID = psb_Name psb, sr_Name = wn, sr_IPs = status_IPs (psb_Status psb)\<rparr>) \<and>
       (key, status_IPs (psb_Status psb)) \<in> A
     else True)"

lemma served_error [simp]: "400 \<le> code \<Longrightarrow> served A key wn (httpError msg code)"
  by (simp add: served_def httpError_def)

subsection \<open>What the server relies on\<close>

locale ready_reader =
  fixes k :: "'w kube" and sound :: "'w \<Rightarrow> bool" and seen :: "'w \<Rightarrow> addresses"
  assumes read_ready: "sound w \<Longrightarrow> kc_GetSandbox k key w = (Inr sb, w') \<Longrightarrow> is_ready sb \<Longrightarrow>
      (key, status_IPs (psb_Status sb)) \<in> seen w'"
    and reads: "advances sound seen w (snd (kc_GetSandbox k key w))" "advances sound seen w (snd (kc_GetClass k n w))"
      "advances sound seen w (snd (kc_GetSecret k key w))" "advances sound seen w (snd (kc_ListSecrets k ns l v w))"
      "advances sound seen w (snd (kl_Select k w))"
    and writes: "advances sound seen w (snd (kc_CreateSecret k sec w))" "advances sound seen w (snd (kc_UpdateSecret k sec w))"
      "advances sound seen w (snd (kc_DeleteSecret k key w))" "advances sound seen w (snd (kc_DeleteSandbox k ctx key w))"
    and creates: "\<not> is_ready sb \<Longrightarrow> advances sound seen w (snd (kc_CreateSandbox k sb w))"
begin

lemma maintains_ops:
  "maintains sound seen (getSandbox k key)" "maintains sound seen (getClassObject k n)" "maintains sound seen (getSecret k key)"
  "maintains sound seen (listSecrets k ns l v)" "maintains sound seen (selectEvent k)" "maintains sound seen (createSecret k sec)"
  "maintains sound seen (updateSecret k sec)" "maintains sound seen (deleteSecret k sec)" "maintains sound seen (deleteSandboxObject k ctx sb)"
  by (simp_all add: go_ops maintains_perform maintains_observe reads writes)

lemma maintains_create: "\<not> is_ready sb \<Longrightarrow> maintains sound seen (createSandboxObject k sb)"
  by (simp add: createSandboxObject_def maintains_perform creates)

lemma not_ready_new: "\<not> is_ready (newSandbox ns n c sn rq)"
  by (simp add: newSandbox_def zero_PodSandboxStatus_def conditionTrue_def)

lemma maintains_authorizedAccess: "maintains sound seen (authorizedAccessFor k cfg tok)"
  unfolding authorizedAccessFor_def token_def by (intro maintains_intros maintains_ops)

lemma maintains_getConfig: "maintains sound seen (getConfig k a r)"
  unfolding getConfig_def getClass_def by (intro maintains_intros maintains_ops)

lemma maintains_deleteSandbox: "maintains sound seen (deleteSandbox k a r)"
  unfolding deleteSandbox_def Let_def by (intro maintains_intros maintains_ops)

lemma maintains_createNew: "maintains sound seen (createNew k ns n c rq)"
  unfolding createNew_def Let_def by (intro maintains_intros maintains_ops maintains_create not_ready_new)

lemma maintains_pollSandbox: "maintains sound seen (pollSandbox n k key wn sb)"
  by (induction n arbitrary: sb) (auto intro!: maintains_intros maintains_ops)

lemma maintains_createSandbox: "maintains sound seen (createSandbox n k a r)"
  unfolding createSandbox_def getClass_def admitSandbox_def awaitSandbox_def finishCreate_def Let_def
  by (intro maintains_intros maintains_ops maintains_createNew maintains_pollSandbox)

lemma maintains_ServeHTTP: "maintains sound seen (ServeHTTP n k cfg r)"
  unfolding ServeHTTP_def
  by (cases "routeOf r")
     (auto simp: authorize_def intro!: maintains_intros maintains_authorizedAccess maintains_getConfig maintains_deleteSandbox maintains_createSandbox)

lemma pollResult_served:
  assumes "pollResult wn sb = Some (rsp, completed)" and "is_ready sb \<Longrightarrow> (key, status_IPs (psb_Status sb)) \<in> A"
  shows "served A key wn rsp \<and> (completed \<or> 400 \<le> rsp_Status rsp)"
  using assms
  by (auto simp: pollResult_def Let_def served_def writeJSON_def httpError_def split: if_splits option.splits)

lemma pollSandbox_served:
  "sound (world s) \<Longrightarrow> wp (pollSandbox n k key wn sb) (\<lambda>r t. case r of
     None \<Rightarrow> True
   | Some (rsp, completed, got) \<Rightarrow> served (seen (world t)) key wn rsp \<and> (completed \<or> 400 \<le> rsp_Status rsp)) s"
proof (induction n arbitrary: s sb)
  case (Suc n)
  obtain g w1 where g: "kc_GetSandbox k key (world s) = (g, w1)" by fastforce
  obtain e w2 where e: "kl_Select k w1 = (e, w2)" by fastforce
  have w1: "sound w1" using advancesD [OF reads(1) Suc.prems, of key] g by simp
  have w2: "sound w2" using advancesD [OF reads(5) w1] e by simp
  have ready: "is_ready x \<Longrightarrow> (key, status_IPs (psb_Status x)) \<in> seen w1" if "g = Inr x" for x
    using read_ready [OF Suc.prems, of key x w1] g that by simp
  show ?case
  proof (cases g)
    case (Inl err)
    with g show ?thesis by (simp add: getSandbox_def wp_perform) (simp add: httpError_def)
  next
    case (Inr x)
    show ?thesis
    proof (cases "pollResult wn x")
      case (Some y)
      obtain rsp completed where "y = (rsp, completed)" by (cases y)
      with Some pollResult_served [of wn x rsp completed key "seen w1"] ready Inr g show ?thesis
        by (simp add: getSandbox_def wp_perform)
    next
      case None
      note step = pollSandbox.simps(2) wp_bind getSandbox_def selectEvent_def wp_perform wp_observe g e Inr None
        prod.case sum.case option.case sys.simps
      show ?thesis
      proof (cases e)
        case (CtxDone msg)
        then show ?thesis by (simp add: step) (simp add: httpError_def)
      next
        case Tick
        have "sound (world \<lparr>world = w2, trace = trace s @ [GetSandbox key]\<rparr>)" using w2 by simp
        from Suc.IH [OF this] Tick show ?thesis by (simp only: step wait_event.case fst_conv snd_conv)
      qed
    qed
  qed
qed simp

lemma awaitSandbox_served:
  assumes "sound (world s)"
  shows "wp (awaitSandbox n k b key wn sb) (\<lambda>r t. case r of None \<Rightarrow> True | Some rsp \<Rightarrow> served (seen (world t)) key wn rsp) s"
proof -
  have finish: "wp (finishCreate k b r) (\<lambda>r t. case r of None \<Rightarrow> True | Some rsp \<Rightarrow> served (seen (world t)) key wn rsp) t"
    if "case r of None \<Rightarrow> True
      | Some (rsp, completed, got) \<Rightarrow> served (seen (world t)) key wn rsp \<and> (completed \<or> 400 \<le> rsp_Status rsp)" for r t
  proof (cases r)
    case (Some x)
    obtain rsp completed got where x: "x = (rsp, completed, got)" by (cases x)
    have "served A key wn rsp" if "400 \<le> rsp_Status rsp" for A using that by (simp add: served_def)
    with that Some x show ?thesis by (auto simp: finishCreate_def deleteSandboxObject_def wp_perform)
  qed (simp add: finishCreate_def)
  show ?thesis
    unfolding awaitSandbox_def wp_bind by (rule wp_mono [OF pollSandbox_served [OF assms] finish])
qed

lemma sound_after: "sound (world s) \<Longrightarrow> maintains sound seen m \<Longrightarrow> (\<And>a t. sound (world t) \<Longrightarrow> Q a t) \<Longrightarrow> wp m Q s"
  by (rule wpI) (metis maintains_run advancesD)

lemma admitSandbox_served:
  assumes "sound (world s)"
  shows "wp (admitSandbox n k a rq) (\<lambda>r t. case r of None \<Rightarrow> True
    | Some rsp \<Rightarrow> served (seen (world t)) (sandboxKey a rq) (wr_Name (csr_WorkloadRef rq)) rsp) s"
proof -
  note await = awaitSandbox_served [where key = "sandboxKey a rq" and wn = "wr_Name (csr_WorkloadRef rq)"]
  have created: "wp (case c of Inl rsp \<Rightarrow> State_Monad.return (Some rsp)
      | Inr sb \<Rightarrow> awaitSandbox n k True (sandboxKey a rq) (wr_Name (csr_WorkloadRef rq)) sb)
      (\<lambda>r t. case r of None \<Rightarrow> True
        | Some rsp \<Rightarrow> served (seen (world t)) (sandboxKey a rq) (wr_Name (csr_WorkloadRef rq)) rsp) t"
    if "sound (world t)" "case c of Inl rsp \<Rightarrow> 400 \<le> rsp_Status rsp | Inr _ \<Rightarrow> True" for c t
    using that await [OF that(1)] by (cases c) (simp_all add: served_def)
  have new: "wp (createNew k ns nm cn rq) (\<lambda>c t. case c of Inl rsp \<Rightarrow> 400 \<le> rsp_Status rsp | Inr _ \<Rightarrow> True) t" for ns nm cn t
    unfolding createNew_def Let_def
    by (auto simp: go_ops wp_perform httpError_def split: sum.split if_split)
  have "wp (createNew k ns nm cn rq) (\<lambda>c t. sound (world t) \<and> (case c of Inl rsp \<Rightarrow> 400 \<le> rsp_Status rsp | Inr _ \<Rightarrow> True)) t"
    if "sound (world t)" for ns nm cn t
    by (rule wp_conj [OF sound_after [OF that maintains_createNew] new])
  note fresh = wp_mono [OF this created]
  show ?thesis
    unfolding admitSandbox_def Let_def sandboxKey_def [symmetric] wp_bind
  proof (rule sound_after [OF assms maintains_ops(1)], goal_cases)
    case (1 g t)
    show ?case
    proof (cases g)
      case (Inl err)
      with fresh [OF 1] show ?thesis by (auto simp: wp_bind)
    next
      case (Inr sb)
      with await [OF 1] show ?thesis by simp
    qed
  qed
qed

lemma createSandbox_served:
  assumes "sound (world s)"
  shows "wp (createSandbox n k a r) (\<lambda>rsp t. case rsp of None \<Rightarrow> True
    | Some x \<Rightarrow> if rsp_Status x < 400
        then \<exists>rq. decodeRequest (req_Body r) = Inr rq \<and>
          served (seen (world t)) (sandboxKey a rq) (wr_Name (csr_WorkloadRef rq)) x
        else True) s"
proof -
  have "maintains sound seen (getClass k c)" for c unfolding getClass_def by (intro maintains_intros maintains_ops)
  note classes = sound_after [OF assms this]
  show ?thesis
    unfolding createSandbox_def wp_bind
  proof (rule classes, goal_cases)
    case (1 c t)
    show ?case
    proof (cases c)
      case (Inl err)
      then show ?thesis by (simp add: httpError_def)
    next
      case (Inr cl)
      show ?thesis
      proof (cases "decodeRequest (req_Body r)")
        case (Inl err)
        with Inr show ?thesis by (simp add: httpError_def)
      next
        case (Inr rq)
        from admitSandbox_served [OF 1, of n a "applyDefaults rq"]
        have "wp (admitSandbox n k a (applyDefaults rq)) (\<lambda>rsp t. case rsp of None \<Rightarrow> True
          | Some x \<Rightarrow> if rsp_Status x < 400
              then \<exists>rq. decodeRequest (req_Body r) = Inr rq \<and>
                served (seen (world t)) (sandboxKey a rq) (wr_Name (csr_WorkloadRef rq)) x
              else True) t"
          by (rule wp_mono) (auto simp: Inr split: option.splits)
        with Inr \<open>c = Inr cl\<close> show ?thesis by (auto simp: httpError_def)
      qed
    qed
  qed
qed

end

subsection \<open>What the controller relies on\<close>

locale ready_store = ready_reader +
  fixes current :: "'w \<Rightarrow> NamespacedName \<Rightarrow> PodSandbox option"
  assumes laws: "set_condition_law k" "sandbox_read_law k"
    and read_current: "sound w \<Longrightarrow> kc_GetSandbox k key w = (Inr sb, w') \<Longrightarrow> current w' key = Some sb"
    and pods: "advances sound seen w (snd (kc_CreatePod k p w))" "advances sound seen w (snd (kc_GetPod k key w))"
      "advances sound seen w (snd (kc_DeletePod k key w))"
    and pod_seen: "sound w \<Longrightarrow> kc_GetPod k key w = (Inr p, w') \<Longrightarrow> podReady p \<Longrightarrow> pst_PodIP (pod_Status p) \<noteq> [] \<Longrightarrow>
      (key, [pst_PodIP (pod_Status p)]) \<in> seen w'"
    and keeps: "current (snd (kc_GetClass k n w)) = current w" "current (snd (kc_GetSecret k key w)) = current w"
      "current (snd (kc_CreatePod k p w)) = current w" "current (snd (kc_GetPod k key w)) = current w"
      "current (snd (kc_DeletePod k key w)) = current w"
    and patches: "sound w \<Longrightarrow> current w (psb_key sb) = Some sb \<Longrightarrow>
      (is_ready (sb\<lparr>psb_Status := st\<rparr>) \<Longrightarrow> (psb_key sb, status_IPs st) \<in> seen w) \<Longrightarrow>
      advances sound seen w (snd (kc_PatchStatus k sb (sb\<lparr>psb_Status := st\<rparr>) w))"
begin

text \<open>The world while a sandbox that was read is reconciled.\<close>

definition holding :: "NamespacedName \<Rightarrow> PodSandbox \<Rightarrow> 'w \<Rightarrow> bool" where
  "holding key sb w \<longleftrightarrow> sound w \<and> current w key = Some sb \<and> psb_key sb = key"

lemma ready_set:
  assumes "conditionTrue (kl_SetStatusCondition k cs (readyCondition x status reason msg) w) ConditionReady"
  shows "status = ConditionTrue"
proof -
  have find: "conditionByType cs t = condition_of cs t" for cs t
    by (induction cs) (simp_all add: condition_of_def)
  obtain c' where "condition_of (kl_SetStatusCondition k cs (readyCondition x status reason msg) w) ConditionReady = Some c'"
      "same_condition c' (readyCondition x status reason msg)"
    using laws(1) unfolding set_condition_law_def by (metis (no_types, lifting) Condition.select_convs(1) readyCondition_def)
  with assms show ?thesis
    by (simp add: conditionTrue_def find same_condition_def readyCondition_def)
qed

abbreviation ends_sound :: "'w \<Rightarrow> ('w, kube_call, 'a) prog \<Rightarrow> ('w, kube_call) sys \<Rightarrow> bool" where
  "ends_sound w m s \<equiv> wp m (\<lambda>_ t. advances sound seen w (world t)) s"

lemma report_sound:
  assumes "holding key sb (world s)" and "status = ConditionTrue \<Longrightarrow> (key, status_IPs st) \<in> seen (world s)"
  shows "ends_sound (world s) (State_Monad.bind (setStatusCondition k cs (readyCondition x status reason msg)) (\<lambda>conds.
    State_Monad.bind (patchStatus k sb (sb\<lparr>psb_Status := st\<lparr>status_Conditions := conds\<rparr>\<rparr>)) (\<lambda>p. State_Monad.return (g p)))) s"
proof -
  let ?st = "st\<lparr>status_Conditions := kl_SetStatusCondition k cs (readyCondition x status reason msg) (world s)\<rparr>"
  have "advances sound seen (world s) (snd (kc_PatchStatus k sb (sb\<lparr>psb_Status := ?st\<rparr>) (world s)))"
    using assms by (intro patches) (auto simp: holding_def dest!: ready_set)
  then show ?thesis
    by (simp add: setStatusCondition_def patchStatus_def wp_perform wp_observe)
qed

lemma not_ready_reports:
  assumes "holding key sb (world s)"
  shows "ends_sound (world s) (progressing k sb reason msg) s" "ends_sound (world s) (fail k sb reason err) s"
    "ends_sound (world s) (stopped k sb reason msg) s"
  unfolding progressing_def fail_def stopped_def Let_def by (rule report_sound [OF assms], simp)+

lemma reportRunner_sound:
  assumes "holding key sb (world s)"
    and "podReady p \<Longrightarrow> pst_PodIP (pod_Status p) \<noteq> [] \<Longrightarrow> (key, [pst_PodIP (pod_Status p)]) \<in> seen (world s)"
  shows "ends_sound (world s) (reportRunner k sb p) s"
  unfolding reportRunner_def Let_def
  by (rule report_sound [OF assms(1)]) (use assms(2) in \<open>auto simp: boolCondition_def split: if_splits\<close>)

lemma ends_sound_trans:
  assumes "advances sound seen w (world s)" and "ends_sound (world s) m s"
  shows "ends_sound w m s"
  by (rule wp_mono [OF assms(2)]) (rule advances_trans [OF assms(1)])

lemma holding_call:
  assumes "holding key sb w" and "advances sound seen w w'" and "current w' = current w"
  shows "holding key sb w'"
  using assms by (auto simp: holding_def dest: advancesD)

lemma calling_sound:
  assumes "holding key sb (world s)" and "f (world s) = (r, w')" and "advances sound seen (world s) w'"
    and "current w' = current (world s)"
    and "\<And>t. holding key sb (world t) \<Longrightarrow> world t = w' \<Longrightarrow> ends_sound (world t) (g r) t"
  shows "ends_sound (world s) (State_Monad.bind (perform c f) g) s"
proof -
  let ?t = "\<lparr>world = w', trace = trace s @ [c]\<rparr>"
  have w: "world ?t = w'" by simp
  have "holding key sb (world ?t)" unfolding w by (rule holding_call [OF assms(1,3,4)])
  then have "ends_sound (world ?t) (g r) ?t" using assms(5) w by blast
  then have "ends_sound (world s) (g r) ?t"
    by (rule ends_sound_trans [rotated]) (simp only: w assms(3))
  then show ?thesis by (simp only: wp_bind wp_perform assms(2) fst_conv snd_conv prod.case)
qed

lemma deleting_sound:
  assumes "holding key sb (world t)"
  shows "ends_sound (world t) (State_Monad.bind (deletePod k p) (\<lambda>d. case d of
      Inl err \<Rightarrow> if \<not> IsNotFound err then fail k sb r1 err else progressing k sb r2 m2
    | Inr _ \<Rightarrow> progressing k sb r2 m2)) t"
proof -
  obtain d u where d: "kc_DeletePod k (pod_key p) (world t) = (d, u)" by fastforce
  have u: "advances sound seen (world t) u" "current u = current (world t)"
    using pods(3) [of "world t" "pod_key p"] keeps(5) [of "pod_key p" "world t"] d by simp_all
  show ?thesis
    unfolding deletePod_def
  proof (rule calling_sound [where f = "kc_DeletePod k (pod_key p)", OF assms d u], goal_cases)
    case (1 v)
    show ?case using not_ready_reports [OF 1(1)] by (cases d) simp_all
  qed
qed

lemma checkRunner_sound:
  assumes "holding key sb (world s)"
  shows "ends_sound (world s) (checkRunner k key sb desired) s"
proof -
  obtain r w' where r: "kc_GetPod k key (world s) = (r, w')" by fastforce
  have w': "advances sound seen (world s) w'" "current w' = current (world s)"
    using pods(2) [of "world s" key] keeps(4) [of key "world s"] r by simp_all
  have seen: "podReady p \<Longrightarrow> pst_PodIP (pod_Status p) \<noteq> [] \<Longrightarrow> (key, [pst_PodIP (pod_Status p)]) \<in> seen w'"
    if "r = Inr p" for p
    using pod_seen [of "world s" key p w'] assms r that by (simp add: holding_def)
  show ?thesis
    unfolding checkRunner_def getPod_def
  proof (rule calling_sound [where f = "kc_GetPod k key", OF assms r w'], goal_cases)
    case (1 t)
    show ?case
    proof (cases r)
      case (Inl err)
      with not_ready_reports [OF 1(1)] show ?thesis by (simp add: advances_refl)
    next
      case (Inr p)
      have "ends_sound (world t) (reportRunner k sb p) t"
        by (rule reportRunner_sound [OF 1(1)]) (use seen [OF Inr] 1(2) in simp_all)
      with Inr deleting_sound [OF 1(1)] not_ready_reports [OF 1(1)] show ?thesis by (simp del: wp_bind)
    qed
  qed
qed

lemma applyRunner_sound:
  assumes "holding key sb (world s)"
  shows "ends_sound (world s) (applyRunner k key sb cl) s"
proof (cases "kl_SetPodController k sb (desiredRunner sb cl)")
  case (Inl err)
  then show ?thesis by (simp add: applyRunner_def advances_refl)
next
  case (Inr p)
  obtain r w' where r: "kc_CreatePod k p (world s) = (r, w')" by fastforce
  have w': "advances sound seen (world s) w'" "current w' = current (world s)"
    using pods(1) [of "world s" p] keeps(3) [of p "world s"] r by simp_all
  show ?thesis
    unfolding applyRunner_def Inr sum.case createPod_def
  proof (rule calling_sound [where f = "kc_CreatePod k p", OF assms r w'], goal_cases)
    case (1 t)
    show ?case using checkRunner_sound [OF 1(1)] not_ready_reports [OF 1(1)] by (cases r) simp_all
  qed
qed

lemma secret_sound:
  assumes "holding key sb (world t)"
  shows "ends_sound (world t) (State_Monad.bind (getSecret k sk) (\<lambda>sec. case sec of
        Inl err \<Rightarrow> fail k sb reason err
      | Inr secret \<Rightarrow> if sec_Data secret ''userdata'' = None then fail k sb reason (e secret)
          else applyRunner k key sb cl)) t"
proof -
  obtain x u where x: "kc_GetSecret k sk (world t) = (x, u)" by fastforce
  have u: "advances sound seen (world t) u" "current u = current (world t)"
    using reads(3) [of "world t" sk] keeps(2) [of sk "world t"] x by simp_all
  show ?thesis
    unfolding getSecret_def
  proof (rule calling_sound [where f = "kc_GetSecret k sk", OF assms x u], goal_cases)
    case (1 v)
    show ?case using applyRunner_sound [OF 1(1)] not_ready_reports(2) [OF 1(1)] by (cases x) simp_all
  qed
qed

lemma inputs_sound:
  assumes "holding key sb (world s)"
  shows "ends_sound (world s) (State_Monad.bind (getClassObject k n) (\<lambda>cls. case cls of
      Inl err \<Rightarrow> fail k sb r1 err
    | Inr cl \<Rightarrow> State_Monad.bind (getSecret k sk) (\<lambda>sec. case sec of
          Inl err \<Rightarrow> fail k sb r2 err
        | Inr secret \<Rightarrow> if sec_Data secret ''userdata'' = None then fail k sb r2 (e secret)
            else applyRunner k key sb cl))) s"
proof -
  obtain r w1 where r: "kc_GetClass k n (world s) = (r, w1)" by fastforce
  have w1: "advances sound seen (world s) w1" "current w1 = current (world s)"
    using reads(2) [of "world s" n] keeps(1) [of n "world s"] r by simp_all
  show ?thesis
    unfolding getClassObject_def
  proof (rule calling_sound [where f = "kc_GetClass k n", OF assms r w1], goal_cases)
    case (1 t)
    show ?case using secret_sound [OF 1(1)] not_ready_reports(2) [OF 1(1)] by (cases r) (simp_all del: wp_bind)
  qed
qed

lemma Reconcile_sound:
  assumes "sound (world s)"
  shows "ends_sound (world s) (Reconcile k key) s"
proof -
  obtain g w1 where g: "kc_GetSandbox k key (world s) = (g, w1)" by fastforce
  let ?t = "\<lparr>world = w1, trace = trace s @ [GetSandbox key]\<rparr>"
  have adv: "advances sound seen (world s) (world ?t)" using reads(1) [of "world s" key] g by simp
  have hold: "holding key sb (world ?t)" if "g = Inr sb" for sb
    using advancesD [OF adv assms] read_current [OF assms, of key sb w1] laws(2) g that
    unfolding holding_def sandbox_read_law_def by auto blast
  show ?thesis
  proof (cases g)
    case (Inl err)
    with adv show ?thesis
      unfolding Reconcile_def getSandbox_def by (simp add: wp_perform g)
  next
    case (Inr sb)
    note inputs = ends_sound_trans [OF adv inputs_sound [OF hold [OF Inr]]]
    show ?thesis
      unfolding Reconcile_def getSandbox_def
      by (simp only: wp_bind [of "perform _ _"] wp_perform g fst_conv snd_conv Inr sum.case)
         (use inputs adv in \<open>simp del: wp_bind\<close>)
  qed
qed

lemma Reconcile_maintains: "maintains sound seen (Reconcile k key)"
  unfolding maintains_def
proof
  fix s :: "('w, kube_call) sys"
  show "advances sound seen (world s) (world (snd (run_state (Reconcile k key) s)))"
  proof (cases "sound (world s)")
    case True
    then show ?thesis using Reconcile_sound [OF True, of key] by (simp add: wp_def case_prod_beta)
  qed (simp add: advances_def)
qed

end

end
