(* ===== verification/Shared_Cluster.thy ===== *)
theory Shared_Cluster
  imports Ready_Store Provider_Properties
begin

text \<open>
  Server and controller on one cluster. The world is the cluster in memory together with the addresses
  that the controller has read on ready runner Pods (\<open>cl_seen\<close>) and a plan of what others do.
  \<open>solo_kube\<close> is the cluster with one client, \<open>shared_kube\<close> the one in which, before each call of the client,
  the next entry of the plan is carried out: reconciliations and requests of other clients, each as a whole,
  and changes of Pods, classes, secrets and events by the cluster. The plan is arbitrary, so a property of the server on
  \<open>shared_kube\<close> holds however its calls interleave with them.
\<close>

subsection \<open>One client\<close>

datatype env_action =
    EnvReconcile NamespacedName
  | EnvServe http_request
  | EnvPods "Pod list"
  | EnvClasses "PodSandboxClass list"
  | EnvSecrets "Secret list"
  | EnvEvents "wait_event list"

record cluster =
  cl_mem :: mem
  cl_seen :: addresses
  cl_plan :: "env_action list list"

definition on_mem :: "(mem \<Rightarrow> 'r \<times> mem) \<Rightarrow> cluster \<Rightarrow> 'r \<times> cluster" where
  "on_mem f c = (case f (cl_mem c) of (r, m) \<Rightarrow> (r, c\<lparr>cl_mem := m\<rparr>))"

text \<open>A read of a Pod notes the address of a ready one.\<close>

definition note_pod :: "NamespacedName \<Rightarrow> (go_error + Pod) \<times> cluster \<Rightarrow> (go_error + Pod) \<times> cluster" where
  "note_pod key x = (case x of
     (Inr p, c) \<Rightarrow>
       (Inr p, if podReady p \<and> pst_PodIP (pod_Status p) \<noteq> []
               then c\<lparr>cl_seen := insert (key, [pst_PodIP (pod_Status p)]) (cl_seen c)\<rparr> else c)
   | (Inl e, c) \<Rightarrow> (Inl e, c))"

definition kube_over :: "(cluster \<Rightarrow> cluster) \<Rightarrow> cluster kube" where
  "kube_over before = \<lparr>
     kc_GetSandbox = (\<lambda>key c. on_mem (kc_GetSandbox mem_kube key) (before c)),
     kc_GetClass = (\<lambda>n c. on_mem (kc_GetClass mem_kube n) (before c)),
     kc_GetSecret = (\<lambda>key c. on_mem (kc_GetSecret mem_kube key) (before c)),
     kc_GetPod = (\<lambda>key c. note_pod key (on_mem (kc_GetPod mem_kube key) (before c))),
     kc_ListSecrets = (\<lambda>ns l v c. on_mem (kc_ListSecrets mem_kube ns l v) (before c)),
     kc_ListSandboxes = (\<lambda>c. on_mem (kc_ListSandboxes mem_kube) (before c)),
     kc_CreateSecret = (\<lambda>x c. on_mem (kc_CreateSecret mem_kube x) (before c)),
     kc_CreateSandbox = (\<lambda>x c. on_mem (kc_CreateSandbox mem_kube x) (before c)),
     kc_CreatePod = (\<lambda>x c. on_mem (kc_CreatePod mem_kube x) (before c)),
     kc_UpdateSecret = (\<lambda>x c. on_mem (kc_UpdateSecret mem_kube x) (before c)),
     kc_DeleteSandbox = (\<lambda>ctx key c. on_mem (kc_DeleteSandbox mem_kube ctx key) (before c)),
     kc_DeleteSecret = (\<lambda>key c. on_mem (kc_DeleteSecret mem_kube key) (before c)),
     kc_DeletePod = (\<lambda>key c. on_mem (kc_DeletePod mem_kube key) (before c)),
     kc_PatchStatus = (\<lambda>b n c. on_mem (kc_PatchStatus mem_kube b n) (before c)),
     kl_SetStatusCondition = (\<lambda>cs cd c. kl_SetStatusCondition mem_kube cs cd (cl_mem c)),
     kl_SetPodController = kl_SetPodController mem_kube,
     kl_SetSecretController = kl_SetSecretController mem_kube,
     kl_RandRead = (\<lambda>n c. on_mem (kl_RandRead mem_kube n) (before c)),
     kl_Select = (\<lambda>c. on_mem (kl_Select mem_kube) (before c))\<rparr>"

abbreviation solo_kube :: "cluster kube" where "solo_kube \<equiv> kube_over id"

subsection \<open>The invariant\<close>

text \<open>The addresses of every sandbox that is stored as ready were seen on its ready runner Pod.\<close>

definition justified :: "cluster \<Rightarrow> bool" where
  "justified c \<longleftrightarrow> list_all (\<lambda>sb. if is_ready sb then (psb_key sb, status_IPs (psb_Status sb)) \<in> cl_seen c else True)
     (m_Sandboxes (cl_mem c))"

definition stored :: "cluster \<Rightarrow> NamespacedName \<Rightarrow> PodSandbox option" where
  "stored c key = find (\<lambda>sb. psb_key sb = key) (m_Sandboxes (cl_mem c))"

abbreviation "calm \<equiv> advances justified cl_seen"





lemma kube_over_simps:
  "kc_GetSandbox (kube_over b) key c = on_mem (kc_GetSandbox mem_kube key) (b c)"
  "kc_GetClass (kube_over b) n c = on_mem (kc_GetClass mem_kube n) (b c)"
  "kc_GetSecret (kube_over b) key c = on_mem (kc_GetSecret mem_kube key) (b c)"
  "kc_GetPod (kube_over b) key c = note_pod key (on_mem (kc_GetPod mem_kube key) (b c))"
  "kc_ListSecrets (kube_over b) ns l v c = on_mem (kc_ListSecrets mem_kube ns l v) (b c)"
  "kc_CreateSecret (kube_over b) x c = on_mem (kc_CreateSecret mem_kube x) (b c)"
  "kc_CreateSandbox (kube_over b) sb c = on_mem (kc_CreateSandbox mem_kube sb) (b c)"
  "kc_CreatePod (kube_over b) p c = on_mem (kc_CreatePod mem_kube p) (b c)"
  "kc_UpdateSecret (kube_over b) x c = on_mem (kc_UpdateSecret mem_kube x) (b c)"
  "kc_DeleteSandbox (kube_over b) ctx key c = on_mem (kc_DeleteSandbox mem_kube ctx key) (b c)"
  "kc_DeleteSecret (kube_over b) key c = on_mem (kc_DeleteSecret mem_kube key) (b c)"
  "kc_DeletePod (kube_over b) key c = on_mem (kc_DeletePod mem_kube key) (b c)"
  "kc_PatchStatus (kube_over b) base sb c = on_mem (kc_PatchStatus mem_kube base sb) (b c)"
  "kl_SetStatusCondition (kube_over b) cs cd c = kl_SetStatusCondition mem_kube cs cd (cl_mem c)"
  "kl_SetPodController (kube_over b) = kl_SetPodController mem_kube"
  "kl_SetSecretController (kube_over b) = kl_SetSecretController mem_kube"
  "kl_Select (kube_over b) c = on_mem (kl_Select mem_kube) (b c)"
  by (simp_all add: kube_over_def)













subsection \<open>Many clients\<close>

definition env_step :: "nat \<Rightarrow> Config \<Rightarrow> env_action \<Rightarrow> cluster \<Rightarrow> cluster" where
  "env_step polls cfg a c = (case a of
     EnvReconcile key \<Rightarrow> world (snd (run_state (Reconcile solo_kube key) \<lparr>world = c, trace = []\<rparr>))
   | EnvServe r \<Rightarrow> world (snd (run_state (ServeHTTP polls solo_kube cfg r) \<lparr>world = c, trace = []\<rparr>))
   | EnvPods ps \<Rightarrow> c\<lparr>cl_mem := (cl_mem c)\<lparr>m_Pods := ps\<rparr>\<rparr>
   | EnvClasses cs \<Rightarrow> c\<lparr>cl_mem := (cl_mem c)\<lparr>m_Classes := cs\<rparr>\<rparr>
   | EnvSecrets ss \<Rightarrow> c\<lparr>cl_mem := (cl_mem c)\<lparr>m_Secrets := ss\<rparr>\<rparr>
   | EnvEvents es \<Rightarrow> c\<lparr>cl_mem := (cl_mem c)\<lparr>m_Events := es\<rparr>\<rparr>)"

definition interfere :: "nat \<Rightarrow> Config \<Rightarrow> cluster \<Rightarrow> cluster" where
  "interfere polls cfg c = (case cl_plan c of
     [] \<Rightarrow> c
   | actions # plan \<Rightarrow> fold (env_step polls cfg) actions (c\<lparr>cl_plan := plan\<rparr>))"

definition shared_kube :: "nat \<Rightarrow> Config \<Rightarrow> cluster kube" where
  "shared_kube polls cfg = kube_over (interfere polls cfg)"





subsection \<open>Reachable clusters\<close>




subsection \<open>A request and its reconciliation\<close>

text \<open>The handler finds no sandbox and creates one; before its first poll the runner Pod becomes ready and the
  controller reconciles the sandbox.\<close>

definition flow_body :: Sandbox_Server.createSandboxRequest where
  "flow_body = applyDefaults (serverRequest plug_request)"

definition flow_sandbox :: PodSandbox where
  "flow_sandbox = requestedSandbox demo_access flow_body"

definition flow_pod :: Pod where
  "flow_pod = (desiredRunner flow_sandbox demo_class)\<lparr>pod_Status := zero_PodStatus\<lparr>pst_PodIP := ''10.0.0.7'',
     pst_Conditions := [\<lparr>pc_Type = PodReadyCondition, pc_Status = ConditionTrue\<rparr>]\<rparr>\<rparr>"

definition flow_key :: NamespacedName where
  "flow_key = NN ''system'' (sandboxName ''sid'')"

definition flow_start :: cluster where
  "flow_start = \<lparr>cl_mem = empty_mem\<lparr>m_Classes := [demo_class]\<rparr>, cl_seen = {},
     cl_plan = [[], [], [], [], [], [EnvPods [flow_pod], EnvReconcile flow_key]]\<rparr>"

definition flow_secret :: Secret where
  "flow_secret = userDataSecret ''system'' (sandboxName ''sid'') flow_body"

definition flow_owned :: Secret where
  "flow_owned = flow_secret\<lparr>sec_ObjectMeta := (sec_ObjectMeta flow_secret)\<lparr>om_OwnerReferences :=
     [owner_ref ''PodSandbox'' (psb_ObjectMeta flow_sandbox)]\<rparr>\<rparr>"

definition flow_created :: cluster where
  "flow_created = flow_start\<lparr>cl_mem := empty_mem\<lparr>m_Classes := [demo_class], m_Sandboxes := [flow_sandbox],
     m_Secrets := [flow_owned]\<rparr>, cl_plan := [[EnvPods [flow_pod], EnvReconcile flow_key]]\<rparr>"

lemma flow_id: "csr_SandboxID flow_body = ''sid''"
  using plug_names(1) by (simp add: flow_body_def applyDefaults_def Let_def)

lemma flow_name: "wr_Name (csr_WorkloadRef flow_body) = ''web''"
  using plug_names(2) by (simp add: flow_body_def applyDefaults_def Let_def)

lemma flow_sandbox_simps: "psb_key flow_sandbox = flow_key" "om_DeletionTimestamp (psb_ObjectMeta flow_sandbox) = None"
  "spec_ClassName (psb_Spec flow_sandbox) = ''default''" "psb_Namespace flow_sandbox = ''system''"
  "psb_Name flow_sandbox = sandboxName ''sid''"
  "lor_Name (spec_UserDataSecretRef (psb_Spec flow_sandbox)) = sec_Name flow_secret"
  "psb_Status flow_sandbox = zero_PodSandboxStatus"
  by (simp_all add: flow_sandbox_def requestedSandbox_def newSandbox_def demo_access_def flow_id flow_key_def
      flow_secret_def userDataSecret_def ObjectKeyFromMeta_def zero_ObjectMeta_def)

lemma flow_secret_simps:
  "newSandbox ''system'' (sandboxName ''sid'') ''default'' (sec_Name flow_secret) flow_body = flow_sandbox"
  "mem_own flow_sandbox (sec_ObjectMeta flow_secret) = Inr (sec_ObjectMeta flow_owned)"
  "flow_secret\<lparr>sec_ObjectMeta := sec_ObjectMeta flow_owned\<rparr> = flow_owned" "sec_key flow_owned = sec_key flow_secret"
proof -
  show "newSandbox ''system'' (sandboxName ''sid'') ''default'' (sec_Name flow_secret) flow_body = flow_sandbox"
    by (simp add: flow_sandbox_def requestedSandbox_def flow_secret_def userDataSecret_def demo_access_def flow_id)
  show "mem_own flow_sandbox (sec_ObjectMeta flow_secret) = Inr (sec_ObjectMeta flow_owned)"
    by (simp add: mem_own_def flow_sandbox_simps flow_owned_def flow_secret_def userDataSecret_def zero_ObjectMeta_def)
qed (simp_all add: flow_owned_def ObjectKeyFromMeta_def)










definition flow_request :: http_request where
  "flow_request = \<lparr>req_Method = ''POST'', req_Path = [''v1'', ''sandboxes''], req_Authorization = ''Bearer secret'',
     req_Body = json_encode (createSandboxRequest_json plug_request)\<rparr>"






subsection \<open>Two requests for one sandbox\<close>

text \<open>A second request for the same sandbox is served in full between the read and the creation of the first
  one; it waits for the sandbox when the first one goes on.\<close>

definition race_start :: cluster where
  "race_start = flow_start\<lparr>cl_mem := (cl_mem flow_start)\<lparr>m_Events := [Tick]\<rparr>, cl_plan := [[], [], [EnvServe flow_request]]\<rparr>"

definition race_other :: cluster where
  "race_other = race_start\<lparr>cl_mem := (cl_mem flow_created), cl_plan := []\<rparr>"

lemma race_serve:
  assumes "world s = race_start\<lparr>cl_plan := []\<rparr>"
  shows "world (snd (run_state (ServeHTTP 1 solo_kube demo_config flow_request) s)) = race_other"
proof -
  let ?k = solo_kube
  have serve: "ServeHTTP 1 ?k demo_config flow_request = authorize ?k demo_config (createSandbox 1 ?k) flow_request"
    by (simp add: ServeHTTP_def flow_request_def route_create)
  have bearer: "bearer flow_request = ''secret''" using bearer_token [where tok = "''secret''"] by (simp add: flow_request_def)
  have access: "run_state (authorizedAccessFor ?k demo_config ''secret'') s = (Inr demo_access, s)"
    by (simp add: authorizedAccessFor_def demo_config_def demo_access_def token_def tokenMatches_def ConstantTimeCompare_iff)
  have body: "decodeRequest (req_Body flow_request) = Inr (serverRequest plug_request)"
    by (simp add: flow_request_def wire_decode [OF plug_valid])
  have admit: "world (snd (run_state (admitSandbox 1 ?k demo_access flow_body) t)) = race_other"
    if "world t = race_start\<lparr>cl_plan := []\<rparr>" for t
    using that
    by (simp add: admitSandbox_def demo_access_def flow_id flow_name createNew_def awaitSandbox_def finishCreate_def pollResult_def
        go_ops run_state_bind kube_over_simps on_mem_def mem_kube_simps mem_create_def mem_get_def
        mem_update_def empty_mem_def Let_def race_start_def race_other_def flow_start_def flow_created_def flow_secret_simps err_NotFound_def
        flow_sandbox_simps flow_key_def zero_PodSandboxStatus_def conditionTrue_def
        flip: flow_secret_def)
  obtain s1 where s1: "run_state (getClass ?k ''default'') s = (Inr demo_class, s1)" "world s1 = race_start\<lparr>cl_plan := []\<rparr>"
    using assms by (simp add: getClass_def go_ops kube_over_simps on_mem_def mem_kube_simps mem_get_def
        race_start_def flow_start_def empty_mem_def demo_class_def run_state_bind)
  have "run_state (createSandbox 1 ?k demo_access flow_request) s = run_state (admitSandbox 1 ?k demo_access flow_body) s1"
    using s1(1) plug_names(3) by (simp add: createSandbox_def run_state_bind body plug_names demo_access_def flow_body_def)
  then have "run_state (ServeHTTP 1 ?k demo_config flow_request) s = run_state (admitSandbox 1 ?k demo_access flow_body) s1"
    unfolding serve by (simp add: authorize_def bearer run_state_bind access) (simp add: demo_access_def)
  then show ?thesis using admit [OF s1(2)] by simp
qed

lemma race_interfere: "interfere (Suc 0) demo_config (race_start\<lparr>cl_plan := [[EnvServe flow_request]]\<rparr>) = race_other"
  using race_serve [of "\<lparr>world = race_start\<lparr>cl_plan := []\<rparr>, trace = []\<rparr>"] by (simp add: interfere_def env_step_def)

text \<open>C16: Two requests for the same sandbox can leave it without its user data. When a second request creates
  secret and sandbox after the first one has found none, the first one accepts that the secret exists,
  fails to create the sandbox, and deletes the secret, which belongs to the sandbox of the second request.
  That sandbox remains and refers to the deleted secret.\<close>

theorem create_race_loses_secret:
  "\<exists>rsp t. run_state (createSandbox 1 (shared_kube 1 demo_config) demo_access flow_request) \<lparr>world = race_start, trace = []\<rparr> =
     (Some rsp, t) \<and> rsp_Status rsp = 500 \<and> stored (world t) flow_key = Some flow_sandbox \<and>
     fst (kc_GetSecret solo_kube (NN ''system'' (lor_Name (spec_UserDataSecretRef (psb_Spec flow_sandbox)))) (world t)) = Inl err_NotFound"
proof -
  let ?k = "shared_kube 1 demo_config"
  have body: "decodeRequest (req_Body flow_request) = Inr (serverRequest plug_request)"
    by (simp add: flow_request_def wire_decode [OF plug_valid])
  obtain s1 where s1: "run_state (getClass ?k ''default'') \<lparr>world = race_start, trace = []\<rparr> = (Inr demo_class, s1)"
    "world s1 = race_start\<lparr>cl_plan := drop 1 (cl_plan race_start)\<rparr>"
    by (simp add: getClass_def go_ops shared_kube_def kube_over_simps on_mem_def mem_kube_simps mem_get_def interfere_def
        race_start_def flow_start_def empty_mem_def demo_class_def run_state_bind)
  obtain s2 where s2: "run_state (getSandbox ?k flow_key) s1 = (Inl err_NotFound, s2)"
    "world s2 = race_start\<lparr>cl_plan := [[EnvServe flow_request]]\<rparr>"
    using s1(2) by (simp add: go_ops shared_kube_def kube_over_simps on_mem_def mem_kube_simps mem_get_def interfere_def
        race_start_def flow_start_def empty_mem_def)
  obtain s3 where s3: "run_state (createNew ?k ''system'' (sandboxName ''sid'') ''default'' flow_body) s2 =
      (Inl (httpError (Error err_AlreadyExists) 500), s3)"
    "world s3 = race_other\<lparr>cl_mem := (cl_mem race_other)\<lparr>m_Secrets := []\<rparr>\<rparr>"
    using s2(2) race_interfere
    by (simp add: createNew_def go_ops run_state_bind shared_kube_def kube_over_simps on_mem_def mem_kube_simps mem_create_def mem_get_def
        mem_delete_def mem_remove_def Let_def interfere_def race_other_def race_start_def flow_created_def flow_start_def empty_mem_def
        flow_secret_simps flow_sandbox_simps err_AlreadyExists_def flip: flow_secret_def)
  have "run_state (admitSandbox 1 ?k demo_access flow_body) s1 = (Some (httpError (Error err_AlreadyExists) 500), s3)"
    using s2 s3(1) by (simp add: admitSandbox_def Let_def demo_access_def flow_id flow_name run_state_bind err_NotFound_def
        flip: flow_key_def)
  then have "run_state (createSandbox 1 ?k demo_access flow_request) \<lparr>world = race_start, trace = []\<rparr> =
      (Some (httpError (Error err_AlreadyExists) 500), s3)"
    using s1(1) plug_names(3) by (simp add: createSandbox_def run_state_bind body plug_names demo_access_def flow_body_def)
  then show ?thesis
    using s3(2) by (simp add: httpError_def stored_def race_other_def flow_created_def flow_start_def empty_mem_def flow_sandbox_simps
        kube_over_simps on_mem_def mem_kube_simps mem_get_def)
qed

end
