(* ===== verification/Plugin_Cluster.thy ===== *)
theory Plugin_Cluster
  imports Shared_Cluster
begin

text \<open>
  Plugin, server and controller together. The plugin talks to the server over the wire of
  \<open>Provider_Properties\<close>, the server works on the shared cluster of \<open>Shared_Cluster\<close>, in which the controller
  reconciles between any two of its calls.
\<close>

subsection \<open>A client of a server that reads ready sandboxes\<close>

context ready_reader
begin

lemma config_advances:
  assumes "run_state (client_Config (apiTransport n k cfg) c) s = (r, t)"
  shows "advances sound seen (world (world s)) (world (world t))"
proof -
  have "world t = snd (run_state (ServeHTTP n k cfg (wire (newRequest c ''GET'' ''v1/config'' None))) (world s))"
    using assms by (auto simp: client_Config_def doRequest_def Let_def apiTransport_def split: prod.splits option.splits)
  with maintains_ServeHTTP show ?thesis by (simp add: maintains_def)
qed

lemma client_create_seen:
  assumes "root_endpoint c" and "valid_request rq" and "sound (world (world s))"
    and "run_state (client_Create (apiTransport n k cfg) c rq) s = (Inr sb, t)"
  shows "ready_sandbox k cfg c rq (world s) (world t) sb \<and>
    (\<exists>a ips. fst (run_state (authorizedAccessFor k cfg (hsc_token c)) (world s)) = Inr a \<and> validAccess a \<and>
      (NN (aa_Namespace a) (sandboxName (cr_SandboxID rq)), ips) \<in> seen (world (world t)) \<and> sb_IPs sb = map sanitize ips)"
proof -
  let ?Q = "\<lambda>a r x u. ready_answer k a r (Some x) u \<and> (\<exists>q. decodeRequest (req_Body r) = Inr q \<and>
    served (seen (world u)) (sandboxKey a q) (wr_Name (csr_WorkloadRef q)) x)"
  have handler: "wp (createSandbox n k a r) (\<lambda>rsp u. case rsp of None \<Rightarrow> True | Some x \<Rightarrow> rsp_Status x < 400 \<longrightarrow> ?Q a r x u) s1"
    if "run_state (authorizedAccessFor k cfg (hsc_token c)) (world s) = (Inr a, s1)" for a r s1
  proof -
    have "sound (world s1)" using advancesD [OF maintains_run [OF maintains_authorizedAccess that] assms(3)] by blast
    from wp_conj [OF create_answer createSandbox_served [OF this]] show ?thesis
      by (rule wp_mono) (auto split: option.splits)
  qed
  from client_create_answer [OF assms(1,2,4) handler] obtain a r x where
      a: "fst (run_state (authorizedAccessFor k cfg (hsc_token c)) (world s)) = Inr a" "validAccess a"
      and r: "decodeRequest (req_Body r) = Inr (serverRequest rq)" and x: "decoded_sandbox x sb" and Q: "?Q a r x (world t)"
    by blast
  have "served (seen (world (world t))) (sandboxKey a (serverRequest rq)) (wr_Name (csr_WorkloadRef (serverRequest rq))) x"
    using Q r by auto
  then obtain psb where psb: "x = writeJSON 201 (sandboxResponse_json \<lparr>sr_ID = psb_Name psb,
        sr_Name = wr_Name (csr_WorkloadRef (serverRequest rq)), sr_IPs = status_IPs (psb_Status psb)\<rparr>)"
      "(sandboxKey a (serverRequest rq), status_IPs (psb_Status psb)) \<in> seen (world (world t))"
    using x by (auto simp: served_def decoded_sandbox_def)
  have "sb_IPs sb = map sanitize (status_IPs (psb_Status psb))"
    using decoded_response [OF x [unfolded psb(1)]] by simp
  with a psb(2) ready_answer_sandbox [OF assms(2) r x _ a(2,1)] Q show ?thesis
    by (auto simp: sandboxKey_def serverRequest_def)
qed

end

subsection \<open>An instance and its Pod\<close>


subsection \<open>A plugin on the shared cluster\<close>







end
