(* ===== verification/Go_Memory.thy ===== *)
theory Go_Memory
  imports Sandbox_Api "HOL-Library.DAList" "HOL-Library.State_Monad" "HOL-Library.Sublist" "HOL-Library.More_List"
begin

text \<open>
  Go's memory, for the code whose correctness depends on what is shared: the generated deep copies. A
  cell holds the array behind slices and pointers, or a map. A pointer is an element of a cell (\<open>&xs[i]\<close>;
  \<open>new\<close> allocates an array of length one), a slice a range of a cell; its capacity is left out, because
  nothing is appended. Cells are never freed.

  The locale \<open>deep_copier\<close> is the contract of every \<open>DeepCopyInto\<close> and \<open>DeepCopy\<close>: what is reachable from
  a value (\<open>refs\<close>), its content with all references followed (\<open>view\<close>, the equality of \<open>reflect.DeepEqual\<close>),
  and a copy that is equal and shares nothing.
\<close>

subsection \<open>Cells\<close>

type_synonym addr = nat
type_synonym pointer = "addr \<times> nat"

record go_slice =
  sl_Array :: addr
  sl_Offset :: nat
  sl_Len :: nat

record TypeMeta =
  tm_Kind :: string
  tm_APIVersion :: string

text \<open>The structs of \<open>api/v1alpha1\<close> as they lie in memory. A value of a struct type of the API machinery
  (\<open>ObjectMeta\<close>, \<open>ListMeta\<close>, \<open>Condition\<close>, \<open>Toleration\<close>) is of the type \<open>'l\<close>.\<close>

record PodSandboxStatus_mem =
  sm_ObservedGeneration :: int64
  sm_RunnerRef :: "pointer option"
  sm_NodeName :: string
  sm_IPs :: "go_slice option"
  sm_Conditions :: "go_slice option"

record 'l PodSandbox_mem =
  pm_TypeMeta :: TypeMeta
  pm_ObjectMeta :: 'l
  pm_Spec :: PodSandboxSpec
  pm_Status :: PodSandboxStatus_mem

record 'l PodSandboxList_mem =
  pl_TypeMeta :: TypeMeta
  pl_ListMeta :: 'l
  pl_Items :: "go_slice option"

record PodSandboxClassSpec_mem =
  km_RunnerImage :: string
  km_PodVMImage :: string
  km_NetworkMTU :: int32
  km_Annotations :: "addr option"
  km_Labels :: "addr option"
  km_NodeSelector :: "addr option"
  km_Tolerations :: "go_slice option"
  km_RuntimeAssetsDir :: string
  km_MemoryOverheadMiB :: int64

record 'l PodSandboxClass_mem =
  cm_TypeMeta :: TypeMeta
  cm_ObjectMeta :: 'l
  cm_Spec :: PodSandboxClassSpec_mem

record 'l PodSandboxClassList_mem =
  cll_TypeMeta :: TypeMeta
  cll_ListMeta :: 'l
  cll_Items :: "go_slice option"

datatype 'l cell =
    Entries (entries: "(string, string) alist")
  | Strings (strings: "string list")
  | References (references: "LocalObjectReference list")
  | Library (library: "'l list")
  | Workloads (workloads: "WorkloadReference list")
  | Specs (specs: "PodSandboxSpec list")
  | Statuses (statuses: "PodSandboxStatus_mem list")
  | Sandboxes (sandboxes: "'l PodSandbox_mem list")
  | SandboxLists (sandboxLists: "'l PodSandboxList_mem list")
  | ClassSpecs (classSpecs: "PodSandboxClassSpec_mem list")
  | Classes (classes: "'l PodSandboxClass_mem list")
  | ClassLists (classLists: "'l PodSandboxClassList_mem list")

type_synonym 'l memory = "'l cell list"
type_synonym ('l, 'a) mprog = "('l memory, 'a) state"

text \<open>The element type of an array: how a cell holds it, and its zero value.\<close>

record ('l, 'e) kind =
  k_put :: "'e list \<Rightarrow> 'l cell"
  k_get :: "'l cell \<Rightarrow> 'e list"
  k_zero :: 'e

definition kind_ok :: "('l, 'e) kind \<Rightarrow> bool" where
  "kind_ok K \<longleftrightarrow> (\<forall>xs. k_get K (k_put K xs) = xs)"

definition element :: "('l, 'e) kind \<Rightarrow> 'l memory \<Rightarrow> pointer \<Rightarrow> 'e" where
  "element K h p = nth_default (k_zero K) (k_get K (h ! fst p)) (snd p)"

definition allocate :: "'l cell \<Rightarrow> ('l, addr) mprog" where
  "allocate c = State (\<lambda>h. (length h, h @ [c]))"

definition load :: "('l, 'e) kind \<Rightarrow> pointer \<Rightarrow> ('l, 'e) mprog" where
  "load K p = State (\<lambda>h. (element K h p, h))"

definition store :: "('l, 'e) kind \<Rightarrow> pointer \<Rightarrow> 'e \<Rightarrow> ('l, unit) mprog" where
  "store K p v = State (\<lambda>h. ((), h[fst p := k_put K ((k_get K (h ! fst p))[snd p := v])]))"

lemmas memory_ops = allocate_def load_def store_def

subsection \<open>Copying slices, pointers and maps\<close>

text \<open>\<open>for i := range *in { (*in)[i].DeepCopyInto(&(*out)[i]) }\<close>; the builtin \<open>copy\<close> is the loop with the
  plain assignment.\<close>

fun rangeCopy :: "('l, 'e) kind \<Rightarrow> ('e \<Rightarrow> ('l, 'e) mprog) \<Rightarrow> go_slice \<Rightarrow> addr \<Rightarrow> nat list \<Rightarrow> ('l, unit) mprog" where
  "rangeCopy K into s out [] = State_Monad.return ()"
| "rangeCopy K into s out (i # is) = do {
     x \<leftarrow> load K (sl_Array s, sl_Offset s + i);
     y \<leftarrow> into x;
     _ \<leftarrow> store K (out, i) y;
     rangeCopy K into s out is
   }"

definition copySlice :: "('l, 'e) kind \<Rightarrow> ('e \<Rightarrow> ('l, 'e) mprog) \<Rightarrow> go_slice option \<Rightarrow> ('l, go_slice option) mprog" where
  "copySlice K into s = (case s of
     None \<Rightarrow> State_Monad.return None
   | Some sl \<Rightarrow> do {
       out \<leftarrow> allocate (k_put K (replicate (sl_Len sl) (k_zero K)));
       _ \<leftarrow> rangeCopy K into sl out [0..<sl_Len sl];
       State_Monad.return (Some \<lparr>sl_Array = out, sl_Offset = 0, sl_Len = sl_Len sl\<rparr>)
     })"

text \<open>\<open>out := new(T); in.DeepCopyInto(out); return out\<close>, and nil for nil.\<close>

definition copyPointer :: "('l, 'e) kind \<Rightarrow> ('e \<Rightarrow> ('l, 'e) mprog) \<Rightarrow> pointer option \<Rightarrow> ('l, pointer option) mprog" where
  "copyPointer K into p = (case p of
     None \<Rightarrow> State_Monad.return None
   | Some q \<Rightarrow> do {
       out \<leftarrow> allocate (k_put K [k_zero K]);
       x \<leftarrow> load K q;
       y \<leftarrow> into x;
       _ \<leftarrow> store K (out, 0) y;
       State_Monad.return (Some (out, 0))
     })"

text \<open>\<open>for key, val := range *in { (*out)[key] = val }\<close>; the order of the entries is that of the list.\<close>

definition setEntry :: "addr \<Rightarrow> string \<Rightarrow> string \<Rightarrow> ('l, unit) mprog" where
  "setEntry a k v = State (\<lambda>h. ((), h[a := Entries (DAList.update k v (entries (h ! a)))]))"

fun rangeEntries :: "addr \<Rightarrow> (string \<times> string) list \<Rightarrow> ('l, unit) mprog" where
  "rangeEntries out [] = State_Monad.return ()"
| "rangeEntries out ((k, v) # es) = do {
     _ \<leftarrow> setEntry out k v;
     rangeEntries out es
   }"

definition copyEntries :: "addr option \<Rightarrow> ('l, addr option) mprog" where
  "copyEntries m = (case m of
     None \<Rightarrow> State_Monad.return None
   | Some a \<Rightarrow> do {
       out \<leftarrow> allocate (Entries DAList.empty);
       es \<leftarrow> State (\<lambda>h. (DAList.impl_of (entries (h ! a)), h));
       _ \<leftarrow> rangeEntries out es;
       State_Monad.return (Some out)
     })"

subsection \<open>The contract of a deep copy\<close>

locale deep_copier =
  fixes refs :: "'l memory \<Rightarrow> 'a \<Rightarrow> addr set"
    and view :: "'l memory \<Rightarrow> 'a \<Rightarrow> 'v"
    and into :: "'a \<Rightarrow> ('l, 'a) mprog"
  assumes frame: "refs h x \<subseteq> {..<length h} \<Longrightarrow> length h \<le> length h' \<Longrightarrow> (\<And>a. a \<in> refs h x \<Longrightarrow> h' ! a = h ! a) \<Longrightarrow>
      refs h' x = refs h x \<and> view h' x = view h x"
    and copies: "refs h x \<subseteq> {..<length h} \<Longrightarrow> run_state (into x) h = (y, h') \<Longrightarrow>
      prefix h h' \<and> refs h' y \<subseteq> {length h..<length h'} \<and> view h' y = view h x"
begin

lemma grows:
  assumes "refs h x \<subseteq> {..<length h}" and "prefix h h'"
  shows "refs h' x = refs h x \<and> view h' x = view h x"
proof (rule frame [OF assms(1)])
  show "length h \<le> length h'" by (rule prefix_length_le [OF assms(2)])
  show "h' ! a = h ! a" if "a \<in> refs h x" for a
    using that assms by (auto simp: prefix_def nth_append)
qed

text \<open>Whatever is written later into the cells that the original reaches, the copy keeps its content, and
  the other way round.\<close>

lemma copy_kept:
  assumes "refs h x \<subseteq> {..<length h}" and "run_state (into x) h = (y, h')" and "length h' \<le> length h''"
    and "\<And>a. a < length h' \<Longrightarrow> a \<notin> refs h x \<Longrightarrow> h'' ! a = h' ! a"
  shows "view h'' y = view h x"
proof -
  note c = copies [OF assms(1,2)]
  have "refs h'' y = refs h' y \<and> view h'' y = view h' y"
  proof (rule frame [OF _ assms(3)])
    show "refs h' y \<subseteq> {..<length h'}" using c by auto
    show "h'' ! a = h' ! a" if "a \<in> refs h' y" for a
    proof (rule assms(4))
      show "a < length h'" using that c by auto
      have "length h \<le> a" using that c by auto
      then show "a \<notin> refs h x" using assms(1) by auto
    qed
  qed
  with c show ?thesis by simp
qed

lemma original_kept:
  assumes "refs h x \<subseteq> {..<length h}" and "run_state (into x) h = (y, h')" and "length h' \<le> length h''"
    and "\<And>a. a < length h' \<Longrightarrow> a \<notin> refs h' y \<Longrightarrow> h'' ! a = h' ! a"
  shows "view h'' x = view h x"
proof -
  note c = copies [OF assms(1,2)]
  have len: "length h \<le> length h'" using c by (simp add: prefix_length_le)
  have "refs h'' x = refs h x \<and> view h'' x = view h x"
  proof (rule frame [OF assms(1)])
    show "length h \<le> length h''" using len assms(3) by simp
    show "h'' ! a = h ! a" if "a \<in> refs h x" for a
    proof -
      have a: "a < length h" using that assms(1) by auto
      then have "a \<notin> refs h' y" using c by auto
      with assms(4) [of a] a len have "h'' ! a = h' ! a" by simp
      also have "h' ! a = h ! a" using c a by (auto simp: prefix_def nth_append)
      finally show ?thesis .
    qed
  qed
  then show ?thesis ..
qed

end

subsection \<open>Slices\<close>

definition slice_refs ::
    "('l, 'e) kind \<Rightarrow> ('l memory \<Rightarrow> 'e \<Rightarrow> addr set) \<Rightarrow> 'l memory \<Rightarrow> go_slice option \<Rightarrow> addr set" where
  "slice_refs K refs h s = (case s of
     None \<Rightarrow> {}
   | Some sl \<Rightarrow> insert (sl_Array sl) (\<Union>i\<in>{..<sl_Len sl}. refs h (element K h (sl_Array sl, sl_Offset sl + i))))"

definition slice_view ::
    "('l, 'e) kind \<Rightarrow> ('l memory \<Rightarrow> 'e \<Rightarrow> 'v) \<Rightarrow> 'l memory \<Rightarrow> go_slice option \<Rightarrow> 'v list option" where
  "slice_view K view h s = (case s of
     None \<Rightarrow> None
   | Some sl \<Rightarrow> Some (map (\<lambda>i. view h (element K h (sl_Array sl, sl_Offset sl + i))) [0..<sl_Len sl]))"

lemma element_frame: "h' ! fst p = h ! fst p \<Longrightarrow> element K h' p = element K h p"
  by (simp add: element_def)

text \<open>The loop after \<open>i\<close> elements: the old memory \<open>h0\<close> is kept, the first elements of the new array are copies,
  and what they reach was allocated after that array.\<close>

definition copied ::
    "('l, 'e) kind \<Rightarrow> ('l memory \<Rightarrow> 'e \<Rightarrow> addr set) \<Rightarrow> ('l memory \<Rightarrow> 'e \<Rightarrow> 'v) \<Rightarrow> go_slice \<Rightarrow> 'l memory \<Rightarrow> nat \<Rightarrow> 'l memory \<Rightarrow> bool" where
  "copied K refs view s h0 i h \<longleftrightarrow> prefix h0 h \<and> length h0 < length h \<and> length (k_get K (h ! length h0)) = sl_Len s \<and>
     (\<forall>j<i. refs h (element K h (length h0, j)) \<subseteq> {Suc (length h0)..<length h} \<and>
       view h (element K h (length h0, j)) = view h0 (element K h0 (sl_Array s, sl_Offset s + j)))"

context deep_copier
begin

lemma copied_step:
  assumes K: "kind_ok K" and c: "copied K refs view s h0 i h" and i: "i < sl_Len s"
    and x: "refs h0 x \<subseteq> {..<length h0}" "x = element K h0 (sl_Array s, sl_Offset s + i)"
    and r: "run_state (into x) h = (y, h1)"
  shows "copied K refs view s h0 (Suc i) (h1[length h0 := k_put K ((k_get K (h1 ! length h0))[i := y])])"
proof -
  let ?a = "length h0" and ?h = "h1[length h0 := k_put K ((k_get K (h1 ! length h0))[i := y])]"
  have h: "prefix h0 h" "?a < length h" "length (k_get K (h ! ?a)) = sl_Len s" using c by (auto simp: copied_def)
  have old: "refs h x = refs h0 x" "view h x = view h0 x" using grows [OF x(1) h(1)] by auto
  have "refs h x \<subseteq> {..<length h}" using old x(1) h(2) by auto
  note y = copies [OF this r]
  have h1: "h1 ! a = h ! a" if "a < length h" for a using y that by (auto simp: prefix_def nth_append)
  have len: "length h \<le> length h1" using y by (simp add: prefix_length_le)
  have get: "k_get K (?h ! ?a) = (k_get K (h ! ?a))[i := y]" using K h len h1 by (simp add: kind_ok_def)
  have frame_a: "refs ?h z = refs h2 z \<and> view ?h z = view h2 z"
    if z: "refs h2 z \<subseteq> {Suc ?a..<length h2}" and h2: "prefix h2 h1" for z h2
  proof (rule frame)
    show "refs h2 z \<subseteq> {..<length h2}" using z by auto
    show "length h2 \<le> length ?h" using h2 by (simp add: prefix_length_le)
    show "?h ! a = h2 ! a" if "a \<in> refs h2 z" for a
    proof -
      have "a \<in> {Suc ?a..<length h2}" using that z by blast
      then show ?thesis using h2 by (auto simp: prefix_def nth_append)
    qed
  qed
  have new: "refs h1 y \<subseteq> {Suc ?a..<length h1}" using y h(2) by auto
  have "refs ?h (element K ?h (?a, j)) \<subseteq> {Suc ?a..<length ?h} \<and>
      view ?h (element K ?h (?a, j)) = view h0 (element K h0 (sl_Array s, sl_Offset s + j))" if j: "j < Suc i" for j
  proof (cases "j = i")
    case True
    then have "element K ?h (?a, j) = y" using get h(3) i by (simp add: element_def nth_default_def)
    then show ?thesis using frame_a [OF new prefix_order.refl] new y old x(2) True by simp
  next
    case False
    then have e: "element K ?h (?a, j) = element K h (?a, j)" using get by (simp add: element_def nth_default_def)
    have o: "refs h (element K h (?a, j)) \<subseteq> {Suc ?a..<length h} \<and>
        view h (element K h (?a, j)) = view h0 (element K h0 (sl_Array s, sl_Offset s + j))"
      using c j False by (auto simp: copied_def)
    then show ?thesis using frame_a [of h "element K h (?a, j)"] y len e by auto
  qed
  moreover have "prefix h0 ?h"
  proof -
    have "prefix h0 h1" using h(1) y by (meson prefix_order.trans)
    then show ?thesis by (auto simp: prefix_def list_update_append)
  qed
  ultimately show ?thesis using h len get by (simp add: copied_def)
qed

lemma rangeCopy_copied:
  assumes K: "kind_ok K"
    and s: "sl_Array s < length h0" "\<And>i. i < sl_Len s \<Longrightarrow> refs h0 (element K h0 (sl_Array s, sl_Offset s + i)) \<subseteq> {..<length h0}"
  shows "copied K refs view s h0 i h \<Longrightarrow> i \<le> sl_Len s \<Longrightarrow>
    run_state (rangeCopy K into s (length h0) [i..<sl_Len s]) h = ((), h') \<Longrightarrow> copied K refs view s h0 (sl_Len s) h'"
proof (induction "sl_Len s - i" arbitrary: i h)
  case 0
  then show ?case by simp
next
  case (Suc n)
  then have i: "i < sl_Len s" by simp
  have "element K h (sl_Array s, sl_Offset s + i) = element K h0 (sl_Array s, sl_Offset s + i)"
    using Suc.prems(1) s(1) by (auto simp: copied_def prefix_def nth_append intro: element_frame)
  with Suc.prems(3) i obtain y h1
    where r: "run_state (into (element K h0 (sl_Array s, sl_Offset s + i))) h = (y, h1)"
      and rest: "run_state (rangeCopy K into s (length h0) [Suc i..<sl_Len s])
        (h1[length h0 := k_put K ((k_get K (h1 ! length h0))[i := y])]) = ((), h')"
    by (auto simp: upt_conv_Cons memory_ops run_state_bind split: prod.splits)
  from copied_step [OF K Suc.prems(1) i s(2) [OF i] refl r] Suc.hyps(1) [OF _ _ _ rest] Suc.hyps(2) i show ?case by simp
qed

lemma slice_frame:
  assumes "slice_refs K refs h s \<subseteq> {..<length h}" "length h \<le> length h'" "\<And>a. a \<in> slice_refs K refs h s \<Longrightarrow> h' ! a = h ! a"
  shows "slice_refs K refs h' s = slice_refs K refs h s \<and> slice_view K view h' s = slice_view K view h s"
proof (cases s)
  case None
  then show ?thesis by (simp add: slice_refs_def slice_view_def)
next
  case (Some sl)
  let ?p = "\<lambda>i. (sl_Array sl, sl_Offset sl + i)"
  have e: "element K h' (?p i) = element K h (?p i)" for i
    by (rule element_frame, rule assms(3)) (simp add: slice_refs_def Some)
  have "refs h' (element K h (?p i)) = refs h (element K h (?p i)) \<and> view h' (element K h (?p i)) = view h (element K h (?p i))"
    if "i < sl_Len sl" for i
  proof (rule frame [OF _ assms(2)])
    have sub: "refs h (element K h (?p i)) \<subseteq> slice_refs K refs h s" using that Some by (auto simp: slice_refs_def)
    then show "refs h (element K h (?p i)) \<subseteq> {..<length h}" using assms(1) by (rule order_trans)
    show "h' ! a = h ! a" if "a \<in> refs h (element K h (?p i))" for a
      by (rule assms(3) [OF subsetD [OF sub that]])
  qed
  then have "(\<Union>i\<in>{..<sl_Len sl}. refs h' (element K h' (?p i))) = (\<Union>i\<in>{..<sl_Len sl}. refs h (element K h (?p i)))"
    and "map (\<lambda>i. view h' (element K h' (?p i))) [0..<sl_Len sl] = map (\<lambda>i. view h (element K h (?p i))) [0..<sl_Len sl]"
    unfolding e by (auto intro!: SUP_cong map_cong)
  then show ?thesis unfolding Some slice_refs_def slice_view_def by simp
qed

lemma slice_copies:
  assumes K: "kind_ok K" and s: "slice_refs K refs h s \<subseteq> {..<length h}" and r: "run_state (copySlice K into s) h = (t, h')"
  shows "prefix h h' \<and> slice_refs K refs h' t \<subseteq> {length h..<length h'} \<and> slice_view K view h' t = slice_view K view h s"
proof (cases s)
  case None
  with r show ?thesis by (simp add: copySlice_def slice_refs_def slice_view_def)
next
  case (Some sl)
  let ?h = "h @ [k_put K (replicate (sl_Len sl) (k_zero K))]"
  have start: "copied K refs view sl h 0 ?h" using K by (simp add: copied_def kind_ok_def)
  obtain h1 where r1: "run_state (rangeCopy K into sl (length h) [0..<sl_Len sl]) ?h = ((), h1)" by (cases "run_state (rangeCopy K into sl (length h) [0..<sl_Len sl]) ?h") simp
  with r Some have t: "t = Some \<lparr>sl_Array = length h, sl_Offset = 0, sl_Len = sl_Len sl\<rparr>" "h' = h1"
    by (auto simp: copySlice_def memory_ops run_state_bind)
  have "refs h (element K h (sl_Array sl, sl_Offset sl + i)) \<subseteq> {..<length h}" if "i < sl_Len sl" for i
    using s Some that by (auto simp: slice_refs_def)
  moreover have "sl_Array sl < length h" using s Some by (auto simp: slice_refs_def)
  ultimately have "copied K refs view sl h (sl_Len sl) h'"
    using rangeCopy_copied [OF K _ _ start _ r1] t(2) by blast
  then show ?thesis unfolding t(1) Some by (fastforce simp: copied_def slice_refs_def slice_view_def)
qed

lemma deep_copier_slice: "kind_ok K \<Longrightarrow> deep_copier (slice_refs K refs) (slice_view K view) (copySlice K into)"
  by (intro deep_copier.intro slice_frame slice_copies)

end

subsection \<open>Values, pointers, maps and structs\<close>

lemma deep_copier_value: "deep_copier (\<lambda>_ _. {}) (\<lambda>_ x. x) State_Monad.return"
  by unfold_locales auto

text \<open>A struct is copied by copying a part of it and putting the copy in its place; the rest is plain.\<close>

lemma deep_copier_part:
  assumes "deep_copier refs view into" and "\<And>s x. part (put s x) = x" and "\<And>s x. plain (put s x) = plain s"
  shows "deep_copier (\<lambda>h s. refs h (part s)) (\<lambda>h s. (plain s, view h (part s)))
    (\<lambda>s. do { x \<leftarrow> into (part s); State_Monad.return (put s x) })"
proof (rule deep_copier.intro, goal_cases)
  case (1 h s h')
  from deep_copier.frame [OF assms(1) 1] show ?case by simp
next
  case (2 h s t h')
  then obtain x where "run_state (into (part s)) h = (x, h')" "t = put s x"
    by (auto simp: run_state_bind split: prod.splits)
  with deep_copier.copies [OF assms(1) 2(1)] assms(2,3) show ?case by simp
qed

lemma deep_copier_pair:
  assumes "deep_copier refs1 view1 into1" and "deep_copier refs2 view2 into2"
  shows "deep_copier (\<lambda>h (x, y). refs1 h x \<union> refs2 h y) (\<lambda>h (x, y). (view1 h x, view2 h y))
    (\<lambda>(x, y). do { x' \<leftarrow> into1 x; y' \<leftarrow> into2 y; State_Monad.return (x', y') })"
proof (rule deep_copier.intro, goal_cases)
  case (1 h p h')
  obtain x y where p: "p = (x, y)" by (cases p)
  have sub: "refs1 h x \<subseteq> {..<length h}" "refs2 h y \<subseteq> {..<length h}" using 1(1) p by auto
  have same: "a \<in> refs1 h x \<Longrightarrow> h' ! a = h ! a" "a \<in> refs2 h y \<Longrightarrow> h' ! a = h ! a" for a
    by (rule 1(3), simp add: p)+
  from deep_copier.frame [OF assms(1) sub(1) 1(2) same(1)] deep_copier.frame [OF assms(2) sub(2) 1(2) same(2)]
  show ?case by (simp add: p)
next
  case (2 h p q h')
  obtain x y where p: "p = (x, y)" by (cases p)
  obtain x' y' h1 where r: "run_state (into1 x) h = (x', h1)" "run_state (into2 y) h1 = (y', h')" and q: "q = (x', y')"
    using 2 p by (auto simp: run_state_bind split: prod.splits)
  have in_h: "refs1 h x \<subseteq> {..<length h}" "refs2 h y \<subseteq> {..<length h}" using 2(1) p by auto
  note c1 = deep_copier.copies [OF assms(1) in_h(1) r(1)]
  have g: "refs2 h1 y = refs2 h y" "view2 h1 y = view2 h y"
    using deep_copier.grows [OF assms(2) in_h(2)] c1 by blast+
  have len: "length h \<le> length h1" using c1 by (simp add: prefix_length_le)
  have "refs2 h1 y \<subseteq> {..<length h1}" using g in_h(2) len by auto
  note c2 = deep_copier.copies [OF assms(2) this r(2)]
  have "refs1 h1 x' \<subseteq> {..<length h1}" using c1 by auto
  then have k: "refs1 h' x' = refs1 h1 x'" "view1 h' x' = view1 h1 x'" using deep_copier.grows [OF assms(1)] c2 by blast+
  have len': "length h1 \<le> length h'" using c2 by (simp add: prefix_length_le)
  have "prefix h h'" using c1 c2 by (meson prefix_order.trans)
  moreover have "refs1 h' x' \<subseteq> {length h..<length h'}" "refs2 h' y' \<subseteq> {length h..<length h'}"
    using c1 c2 k len len' by auto
  moreover have "view1 h' x' = view1 h x" "view2 h' y' = view2 h y" using c1 c2 k g by simp_all
  ultimately show ?case by (simp add: p q)
qed

definition pointer_refs ::
    "('l, 'e) kind \<Rightarrow> ('l memory \<Rightarrow> 'e \<Rightarrow> addr set) \<Rightarrow> 'l memory \<Rightarrow> pointer option \<Rightarrow> addr set" where
  "pointer_refs K refs h p = (case p of None \<Rightarrow> {} | Some q \<Rightarrow> insert (fst q) (refs h (element K h q)))"

definition pointer_view ::
    "('l, 'e) kind \<Rightarrow> ('l memory \<Rightarrow> 'e \<Rightarrow> 'v) \<Rightarrow> 'l memory \<Rightarrow> pointer option \<Rightarrow> 'v option" where
  "pointer_view K view h p = (case p of None \<Rightarrow> None | Some q \<Rightarrow> Some (view h (element K h q)))"

text \<open>A pointer is copied as the slice of its one element.\<close>

definition one_slice :: "pointer option \<Rightarrow> go_slice option" where
  "one_slice p = map_option (\<lambda>(a, i). \<lparr>sl_Array = a, sl_Offset = i, sl_Len = 1\<rparr>) p"

lemma one_slice_refs: "slice_refs K refs h (one_slice p) = pointer_refs K refs h p"
  by (auto simp: slice_refs_def pointer_refs_def one_slice_def split: option.splits prod.splits)

lemma one_slice_view: "slice_view K view h (one_slice p) = map_option (\<lambda>v. [v]) (pointer_view K view h p)"
  by (auto simp: slice_view_def pointer_view_def one_slice_def split: option.splits prod.splits)

lemma one_view_inj: "map_option (\<lambda>v. [v]) a = map_option (\<lambda>v. [v]) b \<longleftrightarrow> a = b"
  by (cases a; cases b) auto

lemma one_slice_copy:
  "run_state (copySlice K into (one_slice p)) h = map_prod one_slice id (run_state (copyPointer K into p) h)"
  by (auto simp: copySlice_def copyPointer_def one_slice_def memory_ops run_state_bind split: option.splits prod.splits)

lemma deep_copier_pointer:
  assumes "deep_copier refs view into" and "kind_ok K"
  shows "deep_copier (pointer_refs K refs) (pointer_view K view) (copyPointer K into)"
proof (rule deep_copier.intro, goal_cases)
  case (1 h p h')
  from deep_copier.frame [OF deep_copier.deep_copier_slice [OF assms], of h "one_slice p" h',
      unfolded one_slice_refs one_slice_view one_view_inj, OF 1]
  show ?case .
next
  case (2 h p q h')
  then have "run_state (copySlice K into (one_slice p)) h = (one_slice q, h')" by (simp add: one_slice_copy)
  from deep_copier.copies [OF deep_copier.deep_copier_slice [OF assms], unfolded one_slice_refs, OF _ this,
      unfolded one_slice_refs one_slice_view one_view_inj, OF 2(1)]
  show ?case .
qed

definition entries_refs :: "'l memory \<Rightarrow> addr option \<Rightarrow> addr set" where
  "entries_refs h m = set_option m"

definition entries_view :: "'l memory \<Rightarrow> addr option \<Rightarrow> string_map option" where
  "entries_view h m = map_option (\<lambda>a. DAList.lookup (entries (h ! a))) m"

lemma rangeEntries_run:
  "a < length h \<Longrightarrow> h ! a = Entries d \<Longrightarrow>
   run_state (rangeEntries a es) h = ((), h[a := Entries (fold (\<lambda>(k, v). DAList.update k v) es d)])"
proof (induction es arbitrary: h d)
  case Nil
  then show ?case by (metis fold_simps(1) list_update_id rangeEntries.simps(1) run_state_return)
next
  case (Cons e es)
  then show ?case by (cases e) (simp add: setEntry_def run_state_bind)
qed

lemma lookup_fold:
  "DAList.lookup (fold (\<lambda>(k, v). DAList.update k v) es d) k =
   (case map_of (rev es) k of None \<Rightarrow> DAList.lookup d k | Some v \<Rightarrow> Some v)"
  by (induction es arbitrary: d) (auto simp: DAList.lookup_update map_add_def split: option.splits)

lemma lookup_copy: "DAList.lookup (fold (\<lambda>(k, v). DAList.update k v) (DAList.impl_of d) DAList.empty) = DAList.lookup d"
proof -
  have "map_of (rev (DAList.impl_of d)) = DAList.lookup d"
    by (simp add: DAList.lookup.rep_eq map_of_inject_set rev_map [symmetric])
  then show ?thesis by (auto simp: lookup_fold split: option.split)
qed

interpretation entries: deep_copier entries_refs entries_view copyEntries
proof (unfold_locales, goal_cases)
  case (1 h m h')
  then show ?case by (cases m) (auto simp: entries_refs_def entries_view_def)
next
  case (2 h m n h')
  show ?case
  proof (cases m)
    case None
    with 2 show ?thesis by (simp add: copyEntries_def entries_refs_def entries_view_def)
  next
    case (Some a)
    with 2(1) have "a < length h" by (simp add: entries_refs_def)
    with 2(2) Some show ?thesis
      by (auto simp: copyEntries_def memory_ops run_state_bind rangeEntries_run nth_append entries_refs_def entries_view_def
          lookup_copy)
  qed
qed

end
