(* ===== verification/Deep_Copy.thy ===== *)
theory Deep_Copy
  imports Go_Memory
begin

text \<open>
  The generated deep copies (\<open>api/v1alpha1/zz_generated.deepcopy.go\<close>) in Go's memory. \<open>T_DeepCopyInto\<close>
  takes the struct \<open>*in\<close> and returns what \<open>*out\<close> holds in the end; \<open>in\<close> and \<open>out\<close> are different objects in every
  call. The methods of the API machinery that it calls are the fields \<open>st_copy\<close> of a parameter, with the
  contract \<open>deep_copier\<close> of theory \<open>Go_Memory\<close> as hypothesis \<open>machinery_ok\<close>. The lemmas show that all
  the generated methods have that contract too.
\<close>

subsection \<open>The API machinery\<close>

record ('l, 'v) struct_type =
  st_zero :: 'l
  st_copy :: "'l \<Rightarrow> ('l, 'l) mprog"
  st_refs :: "'l memory \<Rightarrow> 'l \<Rightarrow> addr set"
  st_view :: "'l memory \<Rightarrow> 'l \<Rightarrow> 'v"

record ('l, 'm) machinery =
  am_ObjectMeta :: "('l, ObjectMeta) struct_type"
  am_ListMeta :: "('l, 'm) struct_type"
  am_Condition :: "('l, Condition) struct_type"
  am_Toleration :: "('l, Toleration) struct_type"

definition struct_ok :: "('l, 'v) struct_type \<Rightarrow> bool" where
  "struct_ok T \<longleftrightarrow> deep_copier (st_refs T) (st_view T) (st_copy T)"

definition machinery_ok :: "('l, 'm) machinery \<Rightarrow> bool" where
  "machinery_ok A \<longleftrightarrow> struct_ok (am_ObjectMeta A) \<and> struct_ok (am_ListMeta A) \<and> struct_ok (am_Condition A) \<and>
     struct_ok (am_Toleration A)"

subsection \<open>Zero values and arrays\<close>

abbreviation no_TypeMeta :: TypeMeta where "no_TypeMeta \<equiv> \<lparr>tm_Kind = [], tm_APIVersion = []\<rparr>"

definition zero_WorkloadReference :: WorkloadReference where
  "zero_WorkloadReference = \<lparr>wr_Namespace = [], wr_Name = [], wr_UID = []\<rparr>"

definition zero_PodSandboxSpec :: PodSandboxSpec where
  "zero_PodSandboxSpec = \<lparr>spec_WorkloadRef = zero_WorkloadReference, spec_SandboxID = [],
     spec_UserDataSecretRef = \<lparr>lor_Name = []\<rparr>, spec_ClassName = [], spec_VCPUs = 0, spec_MemoryMiB = 0, spec_Arch = []\<rparr>"

definition zero_Status_mem :: PodSandboxStatus_mem where
  "zero_Status_mem = \<lparr>sm_ObservedGeneration = 0, sm_RunnerRef = None, sm_NodeName = [], sm_IPs = None, sm_Conditions = None\<rparr>"

definition zero_ClassSpec_mem :: PodSandboxClassSpec_mem where
  "zero_ClassSpec_mem = \<lparr>km_RunnerImage = [], km_PodVMImage = [], km_NetworkMTU = 0, km_Annotations = None, km_Labels = None,
     km_NodeSelector = None, km_Tolerations = None, km_RuntimeAssetsDir = [], km_MemoryOverheadMiB = 0\<rparr>"

definition string_kind :: "('l, string) kind" where
  "string_kind = \<lparr>k_put = Strings, k_get = strings, k_zero = []\<rparr>"

definition reference_kind :: "('l, LocalObjectReference) kind" where
  "reference_kind = \<lparr>k_put = References, k_get = references, k_zero = \<lparr>lor_Name = []\<rparr>\<rparr>"

definition library_kind :: "('l, 'v) struct_type \<Rightarrow> ('l, 'l) kind" where
  "library_kind T = \<lparr>k_put = Library, k_get = library, k_zero = st_zero T\<rparr>"

definition workload_kind :: "('l, WorkloadReference) kind" where
  "workload_kind = \<lparr>k_put = Workloads, k_get = workloads, k_zero = zero_WorkloadReference\<rparr>"

definition spec_kind :: "('l, PodSandboxSpec) kind" where
  "spec_kind = \<lparr>k_put = Specs, k_get = specs, k_zero = zero_PodSandboxSpec\<rparr>"

definition status_kind :: "('l, PodSandboxStatus_mem) kind" where
  "status_kind = \<lparr>k_put = Statuses, k_get = statuses, k_zero = zero_Status_mem\<rparr>"

definition sandbox_kind :: "('l, 'm) machinery \<Rightarrow> ('l, 'l PodSandbox_mem) kind" where
  "sandbox_kind A = \<lparr>k_put = Sandboxes, k_get = sandboxes, k_zero = \<lparr>pm_TypeMeta = no_TypeMeta,
     pm_ObjectMeta = st_zero (am_ObjectMeta A), pm_Spec = zero_PodSandboxSpec, pm_Status = zero_Status_mem\<rparr>\<rparr>"

definition sandboxList_kind :: "('l, 'm) machinery \<Rightarrow> ('l, 'l PodSandboxList_mem) kind" where
  "sandboxList_kind A = \<lparr>k_put = SandboxLists, k_get = sandboxLists, k_zero = \<lparr>pl_TypeMeta = no_TypeMeta,
     pl_ListMeta = st_zero (am_ListMeta A), pl_Items = None\<rparr>\<rparr>"

definition classSpec_kind :: "('l, PodSandboxClassSpec_mem) kind" where
  "classSpec_kind = \<lparr>k_put = ClassSpecs, k_get = classSpecs, k_zero = zero_ClassSpec_mem\<rparr>"

definition class_kind :: "('l, 'm) machinery \<Rightarrow> ('l, 'l PodSandboxClass_mem) kind" where
  "class_kind A = \<lparr>k_put = Classes, k_get = classes, k_zero = \<lparr>cm_TypeMeta = no_TypeMeta,
     cm_ObjectMeta = st_zero (am_ObjectMeta A), cm_Spec = zero_ClassSpec_mem\<rparr>\<rparr>"

definition classList_kind :: "('l, 'm) machinery \<Rightarrow> ('l, 'l PodSandboxClassList_mem) kind" where
  "classList_kind A = \<lparr>k_put = ClassLists, k_get = classLists, k_zero = \<lparr>cll_TypeMeta = no_TypeMeta,
     cll_ListMeta = st_zero (am_ListMeta A), cll_Items = None\<rparr>\<rparr>"

lemmas kind_defs = string_kind_def reference_kind_def library_kind_def workload_kind_def spec_kind_def status_kind_def
  sandbox_kind_def sandboxList_kind_def classSpec_kind_def class_kind_def classList_kind_def

lemma kinds_ok:
  "kind_ok string_kind" "kind_ok reference_kind" "kind_ok (library_kind T)" "kind_ok workload_kind" "kind_ok spec_kind"
  "kind_ok status_kind" "kind_ok (sandbox_kind A)" "kind_ok (sandboxList_kind A)" "kind_ok classSpec_kind"
  "kind_ok (class_kind A)" "kind_ok (classList_kind A)"
  by (simp_all add: kind_ok_def kind_defs)

subsection \<open>DeepCopyInto\<close>

definition WorkloadReference_DeepCopyInto :: "WorkloadReference \<Rightarrow> ('l, WorkloadReference) mprog" where
  "WorkloadReference_DeepCopyInto s = State_Monad.return s"

definition PodSandboxSpec_DeepCopyInto :: "PodSandboxSpec \<Rightarrow> ('l, PodSandboxSpec) mprog" where
  "PodSandboxSpec_DeepCopyInto s =
     State_Monad.return (s\<lparr>spec_WorkloadRef := spec_WorkloadRef s, spec_UserDataSecretRef := spec_UserDataSecretRef s\<rparr>)"

definition PodSandboxStatus_DeepCopyInto ::
    "('l, 'm) machinery \<Rightarrow> PodSandboxStatus_mem \<Rightarrow> ('l, PodSandboxStatus_mem) mprog" where
  "PodSandboxStatus_DeepCopyInto A s = do {
     runnerRef \<leftarrow> copyPointer reference_kind State_Monad.return (sm_RunnerRef s);
     ips \<leftarrow> copySlice string_kind State_Monad.return (sm_IPs s);
     conditions \<leftarrow> copySlice (library_kind (am_Condition A)) (st_copy (am_Condition A)) (sm_Conditions s);
     State_Monad.return (s\<lparr>sm_RunnerRef := runnerRef, sm_IPs := ips, sm_Conditions := conditions\<rparr>)
   }"

definition PodSandbox_DeepCopyInto :: "('l, 'm) machinery \<Rightarrow> 'l PodSandbox_mem \<Rightarrow> ('l, 'l PodSandbox_mem) mprog" where
  "PodSandbox_DeepCopyInto A s = do {
     objectMeta \<leftarrow> st_copy (am_ObjectMeta A) (pm_ObjectMeta s);
     status \<leftarrow> PodSandboxStatus_DeepCopyInto A (pm_Status s);
     State_Monad.return (s\<lparr>pm_TypeMeta := pm_TypeMeta s, pm_ObjectMeta := objectMeta, pm_Spec := pm_Spec s, pm_Status := status\<rparr>)
   }"

definition PodSandboxList_DeepCopyInto ::
    "('l, 'm) machinery \<Rightarrow> 'l PodSandboxList_mem \<Rightarrow> ('l, 'l PodSandboxList_mem) mprog" where
  "PodSandboxList_DeepCopyInto A s = do {
     listMeta \<leftarrow> st_copy (am_ListMeta A) (pl_ListMeta s);
     items \<leftarrow> copySlice (sandbox_kind A) (PodSandbox_DeepCopyInto A) (pl_Items s);
     State_Monad.return (s\<lparr>pl_TypeMeta := pl_TypeMeta s, pl_ListMeta := listMeta, pl_Items := items\<rparr>)
   }"

definition PodSandboxClassSpec_DeepCopyInto ::
    "('l, 'm) machinery \<Rightarrow> PodSandboxClassSpec_mem \<Rightarrow> ('l, PodSandboxClassSpec_mem) mprog" where
  "PodSandboxClassSpec_DeepCopyInto A s = do {
     annotations \<leftarrow> copyEntries (km_Annotations s);
     labels \<leftarrow> copyEntries (km_Labels s);
     nodeSelector \<leftarrow> copyEntries (km_NodeSelector s);
     tolerations \<leftarrow> copySlice (library_kind (am_Toleration A)) (st_copy (am_Toleration A)) (km_Tolerations s);
     State_Monad.return (s\<lparr>km_Annotations := annotations, km_Labels := labels, km_NodeSelector := nodeSelector,
       km_Tolerations := tolerations\<rparr>)
   }"

definition PodSandboxClass_DeepCopyInto ::
    "('l, 'm) machinery \<Rightarrow> 'l PodSandboxClass_mem \<Rightarrow> ('l, 'l PodSandboxClass_mem) mprog" where
  "PodSandboxClass_DeepCopyInto A s = do {
     objectMeta \<leftarrow> st_copy (am_ObjectMeta A) (cm_ObjectMeta s);
     spec \<leftarrow> PodSandboxClassSpec_DeepCopyInto A (cm_Spec s);
     State_Monad.return (s\<lparr>cm_TypeMeta := cm_TypeMeta s, cm_ObjectMeta := objectMeta, cm_Spec := spec\<rparr>)
   }"

definition PodSandboxClassList_DeepCopyInto ::
    "('l, 'm) machinery \<Rightarrow> 'l PodSandboxClassList_mem \<Rightarrow> ('l, 'l PodSandboxClassList_mem) mprog" where
  "PodSandboxClassList_DeepCopyInto A s = do {
     listMeta \<leftarrow> st_copy (am_ListMeta A) (cll_ListMeta s);
     items \<leftarrow> copySlice (class_kind A) (PodSandboxClass_DeepCopyInto A) (cll_Items s);
     State_Monad.return (s\<lparr>cll_TypeMeta := cll_TypeMeta s, cll_ListMeta := listMeta, cll_Items := items\<rparr>)
   }"

subsection \<open>DeepCopy and DeepCopyObject\<close>

definition WorkloadReference_DeepCopy :: "pointer option \<Rightarrow> ('l, pointer option) mprog" where
  "WorkloadReference_DeepCopy = copyPointer workload_kind WorkloadReference_DeepCopyInto"

definition PodSandboxSpec_DeepCopy :: "pointer option \<Rightarrow> ('l, pointer option) mprog" where
  "PodSandboxSpec_DeepCopy = copyPointer spec_kind PodSandboxSpec_DeepCopyInto"

definition PodSandboxStatus_DeepCopy :: "('l, 'm) machinery \<Rightarrow> pointer option \<Rightarrow> ('l, pointer option) mprog" where
  "PodSandboxStatus_DeepCopy A = copyPointer status_kind (PodSandboxStatus_DeepCopyInto A)"

definition PodSandbox_DeepCopy :: "('l, 'm) machinery \<Rightarrow> pointer option \<Rightarrow> ('l, pointer option) mprog" where
  "PodSandbox_DeepCopy A = copyPointer (sandbox_kind A) (PodSandbox_DeepCopyInto A)"

definition PodSandboxList_DeepCopy :: "('l, 'm) machinery \<Rightarrow> pointer option \<Rightarrow> ('l, pointer option) mprog" where
  "PodSandboxList_DeepCopy A = copyPointer (sandboxList_kind A) (PodSandboxList_DeepCopyInto A)"

definition PodSandboxClassSpec_DeepCopy :: "('l, 'm) machinery \<Rightarrow> pointer option \<Rightarrow> ('l, pointer option) mprog" where
  "PodSandboxClassSpec_DeepCopy A = copyPointer classSpec_kind (PodSandboxClassSpec_DeepCopyInto A)"

definition PodSandboxClass_DeepCopy :: "('l, 'm) machinery \<Rightarrow> pointer option \<Rightarrow> ('l, pointer option) mprog" where
  "PodSandboxClass_DeepCopy A = copyPointer (class_kind A) (PodSandboxClass_DeepCopyInto A)"

definition PodSandboxClassList_DeepCopy :: "('l, 'm) machinery \<Rightarrow> pointer option \<Rightarrow> ('l, pointer option) mprog" where
  "PodSandboxClassList_DeepCopy A = copyPointer (classList_kind A) (PodSandboxClassList_DeepCopyInto A)"

text \<open>A \<open>runtime.Object\<close> is nil, or a dynamic type with a pointer that may itself be nil.\<close>

datatype dynamic_type = PodSandboxType | PodSandboxListType | PodSandboxClassType | PodSandboxClassListType

datatype runtime_Object = NilObject | Object dynamic_type "pointer option"

definition asObject :: "dynamic_type \<Rightarrow> ('l, pointer option) mprog \<Rightarrow> ('l, runtime_Object) mprog" where
  "asObject d copy = do {
     c \<leftarrow> copy;
     State_Monad.return (if c \<noteq> None then Object d c else NilObject)
   }"

definition PodSandbox_DeepCopyObject :: "('l, 'm) machinery \<Rightarrow> pointer option \<Rightarrow> ('l, runtime_Object) mprog" where
  "PodSandbox_DeepCopyObject A p = asObject PodSandboxType (PodSandbox_DeepCopy A p)"

definition PodSandboxList_DeepCopyObject :: "('l, 'm) machinery \<Rightarrow> pointer option \<Rightarrow> ('l, runtime_Object) mprog" where
  "PodSandboxList_DeepCopyObject A p = asObject PodSandboxListType (PodSandboxList_DeepCopy A p)"

definition PodSandboxClass_DeepCopyObject :: "('l, 'm) machinery \<Rightarrow> pointer option \<Rightarrow> ('l, runtime_Object) mprog" where
  "PodSandboxClass_DeepCopyObject A p = asObject PodSandboxClassType (PodSandboxClass_DeepCopy A p)"

definition PodSandboxClassList_DeepCopyObject :: "('l, 'm) machinery \<Rightarrow> pointer option \<Rightarrow> ('l, runtime_Object) mprog" where
  "PodSandboxClassList_DeepCopyObject A p = asObject PodSandboxClassListType (PodSandboxClassList_DeepCopy A p)"

subsection \<open>What is reachable, and the content\<close>

abbreviation plain_refs :: "'l memory \<Rightarrow> 'a \<Rightarrow> addr set" where "plain_refs \<equiv> \<lambda>_ _. {}"
abbreviation plain_view :: "'l memory \<Rightarrow> 'a \<Rightarrow> 'a" where "plain_view \<equiv> \<lambda>_ x. x"

definition conditions_refs :: "('l, 'm) machinery \<Rightarrow> 'l memory \<Rightarrow> go_slice option \<Rightarrow> addr set" where
  "conditions_refs A = slice_refs (library_kind (am_Condition A)) (st_refs (am_Condition A))"

definition conditions_view :: "('l, 'm) machinery \<Rightarrow> 'l memory \<Rightarrow> go_slice option \<Rightarrow> Condition list option" where
  "conditions_view A = slice_view (library_kind (am_Condition A)) (st_view (am_Condition A))"

definition status_refs :: "('l, 'm) machinery \<Rightarrow> 'l memory \<Rightarrow> PodSandboxStatus_mem \<Rightarrow> addr set" where
  "status_refs A h s = pointer_refs reference_kind plain_refs h (sm_RunnerRef s) \<union>
     (slice_refs string_kind plain_refs h (sm_IPs s) \<union> conditions_refs A h (sm_Conditions s))"

definition status_view where
  "status_view A h s = ((sm_ObservedGeneration s, sm_NodeName s), pointer_view reference_kind plain_view h (sm_RunnerRef s),
     slice_view string_kind plain_view h (sm_IPs s), conditions_view A h (sm_Conditions s))"

definition sandbox_refs :: "('l, 'm) machinery \<Rightarrow> 'l memory \<Rightarrow> 'l PodSandbox_mem \<Rightarrow> addr set" where
  "sandbox_refs A h s = st_refs (am_ObjectMeta A) h (pm_ObjectMeta s) \<union> status_refs A h (pm_Status s)"

definition sandbox_view where
  "sandbox_view A h s = ((pm_TypeMeta s, pm_Spec s), st_view (am_ObjectMeta A) h (pm_ObjectMeta s),
     status_view A h (pm_Status s))"

definition sandboxList_refs :: "('l, 'm) machinery \<Rightarrow> 'l memory \<Rightarrow> 'l PodSandboxList_mem \<Rightarrow> addr set" where
  "sandboxList_refs A h s = st_refs (am_ListMeta A) h (pl_ListMeta s) \<union>
     slice_refs (sandbox_kind A) (sandbox_refs A) h (pl_Items s)"

definition sandboxList_view where
  "sandboxList_view A h s = (pl_TypeMeta s, st_view (am_ListMeta A) h (pl_ListMeta s),
     slice_view (sandbox_kind A) (sandbox_view A) h (pl_Items s))"

definition classSpec_refs :: "('l, 'm) machinery \<Rightarrow> 'l memory \<Rightarrow> PodSandboxClassSpec_mem \<Rightarrow> addr set" where
  "classSpec_refs A h s = entries_refs h (km_Annotations s) \<union> (entries_refs h (km_Labels s) \<union>
     (entries_refs h (km_NodeSelector s) \<union>
      slice_refs (library_kind (am_Toleration A)) (st_refs (am_Toleration A)) h (km_Tolerations s)))"

definition classSpec_view where
  "classSpec_view A h s = ((km_RunnerImage s, km_PodVMImage s, km_NetworkMTU s, km_RuntimeAssetsDir s, km_MemoryOverheadMiB s),
     entries_view h (km_Annotations s), entries_view h (km_Labels s), entries_view h (km_NodeSelector s),
     slice_view (library_kind (am_Toleration A)) (st_view (am_Toleration A)) h (km_Tolerations s))"

definition class_refs :: "('l, 'm) machinery \<Rightarrow> 'l memory \<Rightarrow> 'l PodSandboxClass_mem \<Rightarrow> addr set" where
  "class_refs A h s = st_refs (am_ObjectMeta A) h (cm_ObjectMeta s) \<union> classSpec_refs A h (cm_Spec s)"

definition class_view where
  "class_view A h s = (cm_TypeMeta s, st_view (am_ObjectMeta A) h (cm_ObjectMeta s), classSpec_view A h (cm_Spec s))"

definition classList_refs :: "('l, 'm) machinery \<Rightarrow> 'l memory \<Rightarrow> 'l PodSandboxClassList_mem \<Rightarrow> addr set" where
  "classList_refs A h s = st_refs (am_ListMeta A) h (cll_ListMeta s) \<union>
     slice_refs (class_kind A) (class_refs A) h (cll_Items s)"

definition classList_view where
  "classList_view A h s = (cll_TypeMeta s, st_view (am_ListMeta A) h (cll_ListMeta s),
     slice_view (class_kind A) (class_view A) h (cll_Items s))"

subsection \<open>The generated copies have the contract\<close>

interpretation workload: deep_copier plain_refs plain_view WorkloadReference_DeepCopyInto
  by unfold_locales (auto simp: WorkloadReference_DeepCopyInto_def)

interpretation spec: deep_copier plain_refs plain_view PodSandboxSpec_DeepCopyInto
  by unfold_locales (auto simp: PodSandboxSpec_DeepCopyInto_def)

text \<open>A struct with two parts that are copied one after the other.\<close>

lemma deep_copier_struct:
  assumes "deep_copier refs1 view1 into1" and "deep_copier refs2 view2 into2"
    and "\<And>s x y. (partA (put s x y), partB (put s x y), plain (put s x y)) = (x, y, plain s)"
  shows "deep_copier (\<lambda>h s. refs1 h (partA s) \<union> refs2 h (partB s)) (\<lambda>h s. (plain s, view1 h (partA s), view2 h (partB s)))
    (\<lambda>s. do { x \<leftarrow> into1 (partA s); y \<leftarrow> into2 (partB s); State_Monad.return (put s x y) })"
proof -
  let ?part = "\<lambda>s. (partA s, partB s)" and ?put = "\<lambda>s p. put s (fst p) (snd p)"
  have "?part (?put s p) = p" and "plain (?put s p) = plain s" for s p
    using assms(3) [of s "fst p" "snd p"] by auto
  from deep_copier_part [where part = ?part and put = ?put and plain = plain, OF deep_copier_pair [OF assms(1,2)] this]
  show ?thesis by simp
qed

lemma status_copier:
  assumes "struct_ok (am_Condition A)"
  shows "deep_copier (status_refs A) (status_view A) (PodSandboxStatus_DeepCopyInto A)"
proof -
  have c: "deep_copier (conditions_refs A) (conditions_view A)
      (copySlice (library_kind (am_Condition A)) (st_copy (am_Condition A)))"
    using assms deep_copier.deep_copier_slice kinds_ok(3)
    unfolding struct_ok_def conditions_refs_def conditions_view_def by blast
  note ips = deep_copier.deep_copier_slice [OF deep_copier_value kinds_ok(1)]
  note ref = deep_copier_pointer [OF deep_copier_value kinds_ok(2)]
  show ?thesis
    using deep_copier_struct [OF ref deep_copier_pair [OF ips c], where partA = sm_RunnerRef
        and partB = "\<lambda>s. (sm_IPs s, sm_Conditions s)"
        and put = "\<lambda>s r p. s\<lparr>sm_RunnerRef := r, sm_IPs := fst p, sm_Conditions := snd p\<rparr>"
        and plain = "\<lambda>s. (sm_ObservedGeneration s, sm_NodeName s)"]
    by (simp add: status_refs_def [abs_def] status_view_def [abs_def] PodSandboxStatus_DeepCopyInto_def [abs_def])
qed

lemma sandbox_copier:
  assumes "machinery_ok A"
  shows "deep_copier (sandbox_refs A) (sandbox_view A) (PodSandbox_DeepCopyInto A)"
proof -
  have m: "deep_copier (st_refs (am_ObjectMeta A)) (st_view (am_ObjectMeta A)) (st_copy (am_ObjectMeta A))"
    and c: "struct_ok (am_Condition A)"
    using assms by (simp_all add: machinery_ok_def struct_ok_def)
  show ?thesis
    using deep_copier_struct [OF m status_copier [OF c], where partA = pm_ObjectMeta and partB = pm_Status
        and put = "\<lambda>s m t. s\<lparr>pm_ObjectMeta := m, pm_Status := t\<rparr>" and plain = "\<lambda>s. (pm_TypeMeta s, pm_Spec s)"]
    by (simp add: sandbox_refs_def [abs_def] sandbox_view_def [abs_def] PodSandbox_DeepCopyInto_def [abs_def])
qed

lemma sandboxList_copier:
  assumes "machinery_ok A"
  shows "deep_copier (sandboxList_refs A) (sandboxList_view A) (PodSandboxList_DeepCopyInto A)"
proof -
  have m: "deep_copier (st_refs (am_ListMeta A)) (st_view (am_ListMeta A)) (st_copy (am_ListMeta A))"
    using assms by (simp add: machinery_ok_def struct_ok_def)
  note items = deep_copier.deep_copier_slice [OF sandbox_copier [OF assms] kinds_ok(7)]
  show ?thesis
    using deep_copier_struct [OF m items, where partA = pl_ListMeta and partB = pl_Items
        and put = "\<lambda>s m i. s\<lparr>pl_ListMeta := m, pl_Items := i\<rparr>" and plain = pl_TypeMeta]
    by (simp add: sandboxList_refs_def [abs_def] sandboxList_view_def [abs_def] PodSandboxList_DeepCopyInto_def [abs_def])
qed

lemma classSpec_copier:
  assumes "struct_ok (am_Toleration A)"
  shows "deep_copier (classSpec_refs A) (classSpec_view A) (PodSandboxClassSpec_DeepCopyInto A)"
proof -
  note tolerations = deep_copier.deep_copier_slice [OF assms [unfolded struct_ok_def] kinds_ok(3)]
  note parts = deep_copier_pair [OF entries.deep_copier_axioms deep_copier_pair [OF entries.deep_copier_axioms tolerations]]
  show ?thesis
    using deep_copier_struct [OF entries.deep_copier_axioms parts, where partA = km_Annotations
        and partB = "\<lambda>s. (km_Labels s, km_NodeSelector s, km_Tolerations s)"
        and put = "\<lambda>s a p. s\<lparr>km_Annotations := a, km_Labels := fst p, km_NodeSelector := fst (snd p), km_Tolerations := snd (snd p)\<rparr>"
        and plain = "\<lambda>s. (km_RunnerImage s, km_PodVMImage s, km_NetworkMTU s, km_RuntimeAssetsDir s, km_MemoryOverheadMiB s)"]
    by (simp add: classSpec_refs_def [abs_def] classSpec_view_def [abs_def] PodSandboxClassSpec_DeepCopyInto_def [abs_def])
qed

lemma class_copier:
  assumes "machinery_ok A"
  shows "deep_copier (class_refs A) (class_view A) (PodSandboxClass_DeepCopyInto A)"
proof -
  have m: "deep_copier (st_refs (am_ObjectMeta A)) (st_view (am_ObjectMeta A)) (st_copy (am_ObjectMeta A))"
    and t: "struct_ok (am_Toleration A)"
    using assms by (simp_all add: machinery_ok_def struct_ok_def)
  show ?thesis
    using deep_copier_struct [OF m classSpec_copier [OF t], where partA = cm_ObjectMeta and partB = cm_Spec
        and put = "\<lambda>s m p. s\<lparr>cm_ObjectMeta := m, cm_Spec := p\<rparr>" and plain = cm_TypeMeta]
    by (simp add: class_refs_def [abs_def] class_view_def [abs_def] PodSandboxClass_DeepCopyInto_def [abs_def])
qed

lemma classList_copier:
  assumes "machinery_ok A"
  shows "deep_copier (classList_refs A) (classList_view A) (PodSandboxClassList_DeepCopyInto A)"
proof -
  have m: "deep_copier (st_refs (am_ListMeta A)) (st_view (am_ListMeta A)) (st_copy (am_ListMeta A))"
    using assms by (simp add: machinery_ok_def struct_ok_def)
  note items = deep_copier.deep_copier_slice [OF class_copier [OF assms] kinds_ok(10)]
  show ?thesis
    using deep_copier_struct [OF m items, where partA = cll_ListMeta and partB = cll_Items
        and put = "\<lambda>s m i. s\<lparr>cll_ListMeta := m, cll_Items := i\<rparr>" and plain = cll_TypeMeta]
    by (simp add: classList_refs_def [abs_def] classList_view_def [abs_def] PodSandboxClassList_DeepCopyInto_def [abs_def])
qed

text \<open>A copy is isolated: it has the content of the original, the old memory is untouched, and whatever is
  written later through one of the two does not show through the other.\<close>

definition isolated_copy ::
    "('l memory \<Rightarrow> 'a \<Rightarrow> addr set) \<Rightarrow> ('l memory \<Rightarrow> 'a \<Rightarrow> 'v) \<Rightarrow> ('a \<Rightarrow> ('l, 'a) mprog) \<Rightarrow> bool" where
  "isolated_copy refs view copy \<longleftrightarrow> (\<forall>h x y h'. refs h x \<subseteq> {..<length h} \<longrightarrow> run_state (copy x) h = (y, h') \<longrightarrow>
     prefix h h' \<and> view h' y = view h x \<and> refs h' y \<inter> refs h' x = {} \<and>
     (\<forall>h''. length h' \<le> length h'' \<longrightarrow> (\<forall>a<length h'. a \<notin> refs h x \<longrightarrow> h'' ! a = h' ! a) \<longrightarrow> view h'' y = view h x) \<and>
     (\<forall>h''. length h' \<le> length h'' \<longrightarrow> (\<forall>a<length h'. a \<notin> refs h' y \<longrightarrow> h'' ! a = h' ! a) \<longrightarrow> view h'' x = view h x))"

lemma copier_isolated:
  assumes "deep_copier refs view copy"
  shows "isolated_copy refs view copy"
  unfolding isolated_copy_def
proof (intro allI impI)
  fix h x y h'
  assume x: "refs h x \<subseteq> {..<length h}" and r: "run_state (copy x) h = (y, h')"
  note c = deep_copier.copies [OF assms x r]
  have "refs h' x = refs h x" using deep_copier.grows [OF assms x] c by blast
  then have "refs h' y \<inter> refs h' x = {}" using c x by fastforce
  with c deep_copier.copy_kept [OF assms x r] deep_copier.original_kept [OF assms x r]
  show "prefix h h' \<and> view h' y = view h x \<and> refs h' y \<inter> refs h' x = {} \<and>
     (\<forall>h''. length h' \<le> length h'' \<longrightarrow> (\<forall>a<length h'. a \<notin> refs h x \<longrightarrow> h'' ! a = h' ! a) \<longrightarrow> view h'' y = view h x) \<and>
     (\<forall>h''. length h' \<le> length h'' \<longrightarrow> (\<forall>a<length h'. a \<notin> refs h' y \<longrightarrow> h'' ! a = h' ! a) \<longrightarrow> view h'' x = view h x)"
    by blast
qed

lemmas pointer_isolated = copier_isolated [OF deep_copier_pointer]

subsection \<open>A concrete memory\<close>

text \<open>An API machinery whose metadata has a name and a map of labels, and a memory with one sandbox.\<close>

datatype lib_value = LibMeta string "addr option" | LibList string | LibCondition Condition | LibToleration Toleration

definition no_Condition :: Condition where
  "no_Condition = \<lparr>cond_Type = [], cond_Status = [], cond_ObservedGeneration = 0, cond_LastTransitionTime = 0,
     cond_Reason = [], cond_Message = []\<rparr>"

definition no_Toleration :: Toleration where
  "no_Toleration = \<lparr>tol_Key = [], tol_Operator = [], tol_Value = [], tol_Effect = [], tol_TolerationSeconds = None\<rparr>"

fun libMeta_copy :: "lib_value \<Rightarrow> (lib_value, lib_value) mprog" where
  "libMeta_copy (LibMeta n l) = do { l' \<leftarrow> copyEntries l; State_Monad.return (LibMeta n l') }"
| "libMeta_copy x = State_Monad.return x"

fun libMeta_refs :: "lib_value memory \<Rightarrow> lib_value \<Rightarrow> addr set" where
  "libMeta_refs h (LibMeta n l) = entries_refs h l"
| "libMeta_refs h x = {}"

fun libMeta_view :: "lib_value memory \<Rightarrow> lib_value \<Rightarrow> ObjectMeta" where
  "libMeta_view h (LibMeta n l) = zero_ObjectMeta\<lparr>om_Name := n, om_Labels := (case entries_view h l of None \<Rightarrow> Map.empty | Some m \<Rightarrow> m)\<rparr>"
| "libMeta_view h x = zero_ObjectMeta"

definition lib_machinery :: "(lib_value, string) machinery" where
  "lib_machinery = \<lparr>
     am_ObjectMeta = \<lparr>st_zero = LibMeta [] None, st_copy = libMeta_copy, st_refs = libMeta_refs, st_view = libMeta_view\<rparr>,
     am_ListMeta = \<lparr>st_zero = LibList [], st_copy = State_Monad.return, st_refs = plain_refs,
       st_view = (\<lambda>_ x. case x of LibList v \<Rightarrow> v | _ \<Rightarrow> [])\<rparr>,
     am_Condition = \<lparr>st_zero = LibCondition no_Condition, st_copy = State_Monad.return, st_refs = plain_refs,
       st_view = (\<lambda>_ x. case x of LibCondition c \<Rightarrow> c | _ \<Rightarrow> no_Condition)\<rparr>,
     am_Toleration = \<lparr>st_zero = LibToleration no_Toleration, st_copy = State_Monad.return, st_refs = plain_refs,
       st_view = (\<lambda>_ x. case x of LibToleration t \<Rightarrow> t | _ \<Rightarrow> no_Toleration)\<rparr>\<rparr>"

definition ready_false :: Condition where
  "ready_false = no_Condition\<lparr>cond_Type := ConditionReady, cond_Status := ConditionFalse\<rparr>"

definition lib_memory :: "lib_value memory" where
  "lib_memory =
     [Sandboxes [\<lparr>pm_TypeMeta = no_TypeMeta, pm_ObjectMeta = LibMeta ''psb-1'' (Some 1), pm_Spec = zero_PodSandboxSpec,
        pm_Status = zero_Status_mem\<lparr>sm_IPs := Some \<lparr>sl_Array = 2, sl_Offset = 0, sl_Len = 1\<rparr>,
          sm_Conditions := Some \<lparr>sl_Array = 3, sl_Offset = 0, sl_Len = 1\<rparr>\<rparr>\<rparr>],
      Entries (DAList.update ''app'' ''web'' DAList.empty), Strings [''10.0.0.7''], Library [LibCondition ready_false]]"

lemma lib_meta_copier: "deep_copier libMeta_refs libMeta_view libMeta_copy"
proof (rule deep_copier.intro, goal_cases)
  case (1 h x h')
  show ?case
  proof (cases x)
    case (LibMeta n l)
    then have "refs = entries_refs h l \<Longrightarrow> refs \<subseteq> {..<length h}" for refs using 1(1) by simp
    from entries.frame [OF this 1(2)] 1(3) LibMeta show ?thesis by simp
  qed simp_all
next
  case (2 h x y h')
  show ?case
  proof (cases x)
    case (LibMeta n l)
    with 2(2) obtain l' where r: "run_state (copyEntries l) h = (l', h')" and y: "y = LibMeta n l'"
      by (auto simp: run_state_bind split: prod.splits)
    have "entries_refs h l \<subseteq> {..<length h}" using 2(1) LibMeta by simp
    from entries.copies [OF this r] LibMeta y show ?thesis by simp
  qed (use 2 in auto)
qed

lemma deep_copier_flat: "deep_copier plain_refs (\<lambda>_. f) State_Monad.return"
  by unfold_locales auto

lemma lib_machinery_ok: "machinery_ok lib_machinery"
  using lib_meta_copier by (simp add: machinery_ok_def struct_ok_def lib_machinery_def deep_copier_flat)

subsection \<open>The properties\<close>

text \<open>C21: The generated deep copies are deep. For each of the eight types, a copy through a pointer has the
  content of the original and shares no memory with it, so that no later write through one of the two is
  seen through the other; and the copy of a nil pointer is nil.\<close>

theorem DeepCopy_isolated:
  assumes "machinery_ok A"
  shows "isolated_copy (pointer_refs (sandbox_kind A) (sandbox_refs A)) (pointer_view (sandbox_kind A) (sandbox_view A))
      (PodSandbox_DeepCopy A) \<and>
    isolated_copy (pointer_refs (sandboxList_kind A) (sandboxList_refs A)) (pointer_view (sandboxList_kind A) (sandboxList_view A))
      (PodSandboxList_DeepCopy A) \<and>
    isolated_copy (pointer_refs (class_kind A) (class_refs A)) (pointer_view (class_kind A) (class_view A))
      (PodSandboxClass_DeepCopy A) \<and>
    isolated_copy (pointer_refs (classList_kind A) (classList_refs A)) (pointer_view (classList_kind A) (classList_view A))
      (PodSandboxClassList_DeepCopy A) \<and>
    isolated_copy (pointer_refs status_kind (status_refs A)) (pointer_view status_kind (status_view A))
      (PodSandboxStatus_DeepCopy A) \<and>
    isolated_copy (pointer_refs classSpec_kind (classSpec_refs A)) (pointer_view classSpec_kind (classSpec_view A))
      (PodSandboxClassSpec_DeepCopy A) \<and>
    isolated_copy (pointer_refs spec_kind plain_refs) (pointer_view spec_kind plain_view)
      (PodSandboxSpec_DeepCopy :: pointer option \<Rightarrow> ('l, pointer option) mprog) \<and>
    isolated_copy (pointer_refs workload_kind plain_refs) (pointer_view workload_kind plain_view)
      (WorkloadReference_DeepCopy :: pointer option \<Rightarrow> ('l, pointer option) mprog)"
proof (intro conjI)
  have ok: "struct_ok (am_Condition A)" "struct_ok (am_Toleration A)" using assms by (simp_all add: machinery_ok_def)
  show "isolated_copy (pointer_refs (sandbox_kind A) (sandbox_refs A)) (pointer_view (sandbox_kind A) (sandbox_view A))
      (PodSandbox_DeepCopy A)"
    unfolding PodSandbox_DeepCopy_def by (rule pointer_isolated [OF sandbox_copier [OF assms] kinds_ok(7)])
  show "isolated_copy (pointer_refs (sandboxList_kind A) (sandboxList_refs A)) (pointer_view (sandboxList_kind A) (sandboxList_view A))
      (PodSandboxList_DeepCopy A)"
    unfolding PodSandboxList_DeepCopy_def by (rule pointer_isolated [OF sandboxList_copier [OF assms] kinds_ok(8)])
  show "isolated_copy (pointer_refs (class_kind A) (class_refs A)) (pointer_view (class_kind A) (class_view A))
      (PodSandboxClass_DeepCopy A)"
    unfolding PodSandboxClass_DeepCopy_def by (rule pointer_isolated [OF class_copier [OF assms] kinds_ok(10)])
  show "isolated_copy (pointer_refs (classList_kind A) (classList_refs A)) (pointer_view (classList_kind A) (classList_view A))
      (PodSandboxClassList_DeepCopy A)"
    unfolding PodSandboxClassList_DeepCopy_def by (rule pointer_isolated [OF classList_copier [OF assms] kinds_ok(11)])
  show "isolated_copy (pointer_refs status_kind (status_refs A)) (pointer_view status_kind (status_view A))
      (PodSandboxStatus_DeepCopy A)"
    unfolding PodSandboxStatus_DeepCopy_def by (rule pointer_isolated [OF status_copier [OF ok(1)] kinds_ok(6)])
  show "isolated_copy (pointer_refs classSpec_kind (classSpec_refs A)) (pointer_view classSpec_kind (classSpec_view A))
      (PodSandboxClassSpec_DeepCopy A)"
    unfolding PodSandboxClassSpec_DeepCopy_def by (rule pointer_isolated [OF classSpec_copier [OF ok(2)] kinds_ok(9)])
  show "isolated_copy (pointer_refs spec_kind plain_refs) (pointer_view spec_kind plain_view)
      (PodSandboxSpec_DeepCopy :: pointer option \<Rightarrow> ('l, pointer option) mprog)"
    unfolding PodSandboxSpec_DeepCopy_def by (rule pointer_isolated [OF spec.deep_copier_axioms kinds_ok(5)])
  show "isolated_copy (pointer_refs workload_kind plain_refs) (pointer_view workload_kind plain_view)
      (WorkloadReference_DeepCopy :: pointer option \<Rightarrow> ('l, pointer option) mprog)"
    unfolding WorkloadReference_DeepCopy_def by (rule pointer_isolated [OF workload.deep_copier_axioms kinds_ok(4)])
qed

theorem DeepCopy_isolated_witness:
  "isolated_copy (pointer_refs (sandbox_kind lib_machinery) (sandbox_refs lib_machinery))
     (pointer_view (sandbox_kind lib_machinery) (sandbox_view lib_machinery)) (PodSandbox_DeepCopy lib_machinery) \<and>
   pointer_refs (sandbox_kind lib_machinery) (sandbox_refs lib_machinery) lib_memory (Some (0, 0)) \<subseteq> {..<length lib_memory} \<and>
   fst (run_state (PodSandbox_DeepCopy lib_machinery (Some (0, 0))) lib_memory) = Some (4, 0)"
proof (intro conjI)
  show "isolated_copy (pointer_refs (sandbox_kind lib_machinery) (sandbox_refs lib_machinery))
     (pointer_view (sandbox_kind lib_machinery) (sandbox_view lib_machinery)) (PodSandbox_DeepCopy lib_machinery)"
    using DeepCopy_isolated [OF lib_machinery_ok] by blast
  show "pointer_refs (sandbox_kind lib_machinery) (sandbox_refs lib_machinery) lib_memory (Some (0, 0)) \<subseteq> {..<length lib_memory}"
    by (simp add: pointer_refs_def sandbox_refs_def status_refs_def conditions_refs_def slice_refs_def entries_refs_def
        element_def nth_default_def kind_defs lib_memory_def lib_machinery_def zero_Status_mem_def)
  show "fst (run_state (PodSandbox_DeepCopy lib_machinery (Some (0, 0))) lib_memory) = Some (4, 0)"
    by (simp add: PodSandbox_DeepCopy_def copyPointer_def memory_ops run_state_bind lib_memory_def split_beta)
qed

text \<open>A nil pointer is copied to the nil interface, never to an interface that holds a nil pointer.\<close>

lemma asObject_nil: "copy = State_Monad.return None \<Longrightarrow> asObject d copy = State_Monad.return NilObject"
  by (simp add: asObject_def)

lemma DeepCopyObject_nil:
  "PodSandbox_DeepCopyObject A None = State_Monad.return NilObject"
  "PodSandboxList_DeepCopyObject A None = State_Monad.return NilObject"
  "PodSandboxClass_DeepCopyObject A None = State_Monad.return NilObject"
  "PodSandboxClassList_DeepCopyObject A None = State_Monad.return NilObject"
  by (simp_all add: asObject_nil PodSandbox_DeepCopyObject_def PodSandboxList_DeepCopyObject_def PodSandboxClass_DeepCopyObject_def
      PodSandboxClassList_DeepCopyObject_def PodSandbox_DeepCopy_def PodSandboxList_DeepCopy_def PodSandboxClass_DeepCopy_def
      PodSandboxClassList_DeepCopy_def copyPointer_def)

end
