(* ===== verification/Status_Memory.thy ===== *)
theory Status_Memory
  imports Deep_Copy Controller_Properties
begin

text \<open>
  The status updates of the controller in Go's memory. \<open>base := sandbox.DeepCopy()\<close> is followed by writes
  into \<open>sandbox\<close>, one of them (\<open>meta.SetStatusCondition\<close>) into the array of its conditions, and then the patch
  is computed from both objects. Theory \<open>Sandbox_Controller\<close> treats the two as values; the refinement shows
  that this is right: at the patch, \<open>base\<close> still has the content that was read, and \<open>sandbox\<close> the updated one.
  \<open>SetStatusCondition\<close> is a parameter that may write into the array it is given or allocate a new one.
\<close>

subsection \<open>Definitions\<close>

definition list_of :: "'a list option \<Rightarrow> 'a list" where
  "list_of x = (case x of None \<Rightarrow> [] | Some xs \<Rightarrow> xs)"

text \<open>The value that the rest of the model works with: a nil slice and an empty one are the same list.\<close>

definition sandbox_value :: "('l, 'm) machinery \<Rightarrow> 'l memory \<Rightarrow> 'l PodSandbox_mem \<Rightarrow> PodSandbox" where
  "sandbox_value A h s = \<lparr>psb_ObjectMeta = st_view (am_ObjectMeta A) h (pm_ObjectMeta s), psb_Spec = pm_Spec s,
     psb_Status = \<lparr>status_ObservedGeneration = sm_ObservedGeneration (pm_Status s),
       status_RunnerRef = pointer_view reference_kind plain_view h (sm_RunnerRef (pm_Status s)),
       status_NodeName = sm_NodeName (pm_Status s),
       status_IPs = list_of (slice_view string_kind plain_view h (sm_IPs (pm_Status s))),
       status_Conditions = list_of (conditions_view A h (sm_Conditions (pm_Status s)))\<rparr>\<rparr>"

abbreviation value_at :: "('l, 'm) machinery \<Rightarrow> 'l memory \<Rightarrow> pointer \<Rightarrow> PodSandbox" where
  "value_at A h p \<equiv> sandbox_value A h (element (sandbox_kind A) h p)"

type_synonym 'l setCondition = "go_slice option \<Rightarrow> Condition \<Rightarrow> ('l, go_slice option) mprog"

definition setStatus :: "('l, 'm) machinery \<Rightarrow> pointer \<Rightarrow> (PodSandboxStatus_mem \<Rightarrow> PodSandboxStatus_mem) \<Rightarrow> ('l, unit) mprog" where
  "setStatus A p f = do {
     s \<leftarrow> load (sandbox_kind A) p;
     store (sandbox_kind A) p (s\<lparr>pm_Status := f (pm_Status s)\<rparr>)
   }"

definition generation :: "('l, 'm) machinery \<Rightarrow> pointer \<Rightarrow> ('l, int64) mprog" where
  "generation A p = State (\<lambda>h. (om_Generation (psb_ObjectMeta (value_at A h p)), h))"

text \<open>\<open>meta.SetStatusCondition(&sandbox.Status.Conditions, c)\<close>\<close>

definition setReady :: "('l, 'm) machinery \<Rightarrow> 'l setCondition \<Rightarrow> pointer \<Rightarrow> string \<Rightarrow> string \<Rightarrow> string \<Rightarrow> ('l, unit) mprog" where
  "setReady A setCondition p status reason message = do {
     gen \<leftarrow> generation A p;
     s \<leftarrow> load (sandbox_kind A) p;
     conditions \<leftarrow> setCondition (sm_Conditions (pm_Status s))
       \<lparr>cond_Type = ConditionReady, cond_Status = status, cond_ObservedGeneration = gen, cond_LastTransitionTime = 0,
        cond_Reason = reason, cond_Message = message\<rparr>;
     setStatus A p (\<lambda>st. st\<lparr>sm_Conditions := conditions\<rparr>)
   }"

text \<open>\<open>progressing\<close>, \<open>fail\<close> and \<open>stopped\<close> up to the patch: the copy that it is computed from.\<close>

definition progressing_mem ::
    "('l, 'm) machinery \<Rightarrow> 'l setCondition \<Rightarrow> pointer \<Rightarrow> string \<Rightarrow> string \<Rightarrow> ('l, pointer option) mprog" where
  "progressing_mem A setCondition p reason message = do {
     base \<leftarrow> PodSandbox_DeepCopy A (Some p);
     gen \<leftarrow> generation A p;
     _ \<leftarrow> setStatus A p (\<lambda>st. st\<lparr>sm_ObservedGeneration := gen\<rparr>);
     _ \<leftarrow> setReady A setCondition p ConditionFalse reason message;
     State_Monad.return base
   }"

text \<open>The end of \<open>Reconcile\<close> up to the patch: the fields that follow from the runner, and the condition.\<close>

definition reportFields :: "('l, 'm) machinery \<Rightarrow> pointer \<Rightarrow> Pod \<Rightarrow> ('l, unit) mprog" where
  "reportFields A p runner = do {
     gen \<leftarrow> generation A p;
     _ \<leftarrow> setStatus A p (\<lambda>st. st\<lparr>sm_ObservedGeneration := gen\<rparr>);
     ref \<leftarrow> allocate (References [\<lparr>lor_Name = pod_Name runner\<rparr>]);
     _ \<leftarrow> setStatus A p (\<lambda>st. st\<lparr>sm_RunnerRef := Some (ref, 0)\<rparr>);
     _ \<leftarrow> setStatus A p (\<lambda>st. st\<lparr>sm_NodeName := ps_NodeName (pod_Spec runner)\<rparr>);
     if pst_PodIP (pod_Status runner) = [] then setStatus A p (\<lambda>st. st\<lparr>sm_IPs := None\<rparr>)
     else do {
       a \<leftarrow> allocate (Strings [pst_PodIP (pod_Status runner)]);
       setStatus A p (\<lambda>st. st\<lparr>sm_IPs := Some \<lparr>sl_Array = a, sl_Offset = 0, sl_Len = 1\<rparr>\<rparr>)
     }
   }"

definition reportRunner_mem ::
    "('l, 'm) machinery \<Rightarrow> 'l setCondition \<Rightarrow> pointer \<Rightarrow> Pod \<Rightarrow> ('l, pointer option) mprog" where
  "reportRunner_mem A setCondition p runner =
     (let ready = (podReady runner \<and> pst_PodIP (pod_Status runner) \<noteq> []) in do {
        base \<leftarrow> PodSandbox_DeepCopy A (Some p);
        _ \<leftarrow> reportFields A p runner;
        _ \<leftarrow> setReady A setCondition p (boolCondition ready) (if ready then ''PodVMReady'' else ''PodVMStarting'')
          (if ready then ''The PodVM is ready'' else ''Waiting for the PodVM runtime'');
        State_Monad.return base
      })"

subsection \<open>What the updates rely on\<close>

text \<open>\<open>SetStatusCondition\<close> changes the conditions as the function \<open>f\<close> does, and writes only into what the
  conditions reach or into new memory.\<close>

definition set_condition_ok :: "('l, 'm) machinery \<Rightarrow> 'l setCondition \<Rightarrow> (Condition list \<Rightarrow> Condition \<Rightarrow> Condition list) \<Rightarrow> bool" where
  "set_condition_ok A setCondition f \<longleftrightarrow> (\<forall>h s c s' h'. conditions_refs A h s \<subseteq> {..<length h} \<longrightarrow>
     run_state (setCondition s c) h = (s', h') \<longrightarrow>
     length h \<le> length h' \<and> (\<forall>a<length h. a \<notin> conditions_refs A h s \<longrightarrow> h' ! a = h ! a) \<and>
     conditions_refs A h' s' \<subseteq> conditions_refs A h s \<union> {length h..<length h'} \<and>
     list_of (conditions_view A h' s') = f (list_of (conditions_view A h s)) c)"

text \<open>The memory of a sandbox that was just read: \<open>p\<close> points to an element of an array, nothing dangles, and
  neither that array nor the conditions are shared with another part of the sandbox.\<close>

definition own_memory :: "('l, 'm) machinery \<Rightarrow> 'l memory \<Rightarrow> pointer \<Rightarrow> bool" where
  "own_memory A h p \<longleftrightarrow> (let s = element (sandbox_kind A) h p; st = pm_Status s in
     fst p < length h \<and> snd p < length (k_get (sandbox_kind A) (h ! fst p)) \<and>
     sandbox_refs A h s \<subseteq> {..<length h} - {fst p} \<and>
     conditions_refs A h (sm_Conditions st) \<inter> (st_refs (am_ObjectMeta A) h (pm_ObjectMeta s) \<union>
       pointer_refs reference_kind plain_refs h (sm_RunnerRef st) \<union> slice_refs string_kind plain_refs h (sm_IPs st)) = {})"

subsection \<open>Writes\<close>

text \<open>Only cells of \<open>P\<close> and new ones are written.\<close>

definition writes :: "addr set \<Rightarrow> 'l memory \<Rightarrow> 'l memory \<Rightarrow> bool" where
  "writes P h h' \<longleftrightarrow> length h \<le> length h' \<and> (\<forall>a<length h. a \<notin> P \<longrightarrow> h' ! a = h ! a)"

lemma writes_trans: "writes P h h' \<Longrightarrow> writes P h' h'' \<Longrightarrow> writes P h h''"
  by (auto simp: writes_def)

lemma writes_mono: "writes P h h' \<Longrightarrow> P \<subseteq> Q \<Longrightarrow> writes Q h h'"
  by (auto simp: writes_def)

lemma copier_writes:
  assumes "deep_copier refs view into" and "refs h x \<subseteq> {..<length h}" and "writes P h h'" and "refs h x \<inter> P = {}"
  shows "refs h' x = refs h x \<and> view h' x = view h x"
proof (rule deep_copier.frame [OF assms(1,2)])
  show "length h \<le> length h'" using assms(3) by (simp add: writes_def)
  show "h' ! a = h ! a" if "a \<in> refs h x" for a using that assms(2-4) by (auto simp: writes_def)
qed

text \<open>The sandbox at \<open>p\<close> is \<open>s\<close>.\<close>

definition holds :: "('l, 'm) machinery \<Rightarrow> 'l memory \<Rightarrow> pointer \<Rightarrow> 'l PodSandbox_mem \<Rightarrow> bool" where
  "holds A h p s \<longleftrightarrow> fst p < length h \<and> snd p < length (k_get (sandbox_kind A) (h ! fst p)) \<and>
     element (sandbox_kind A) h p = s"

lemma setStatus_run:
  assumes "holds A h p s"
  shows "\<exists>h'. run_state (setStatus A p f) h = ((), h') \<and> writes {fst p} h h' \<and> length h' = length h \<and>
    holds A h' p (s\<lparr>pm_Status := f (pm_Status s)\<rparr>)"
  using assms kinds_ok(7) [of A]
  by (auto simp: setStatus_def memory_ops run_state_bind writes_def holds_def kind_ok_def element_def nth_default_def)

lemma holds_writes: "holds A h p s \<Longrightarrow> writes P h h' \<Longrightarrow> fst p \<notin> P \<Longrightarrow> holds A h' p s"
  by (auto simp: holds_def writes_def element_def)

text \<open>What a sandbox reaches besides its conditions.\<close>

definition other_refs :: "('l, 'm) machinery \<Rightarrow> 'l memory \<Rightarrow> 'l PodSandbox_mem \<Rightarrow> addr set" where
  "other_refs A h s = st_refs (am_ObjectMeta A) h (pm_ObjectMeta s) \<union>
     (pointer_refs reference_kind plain_refs h (sm_RunnerRef (pm_Status s)) \<union>
      slice_refs string_kind plain_refs h (sm_IPs (pm_Status s)))"

definition other_view where
  "other_view A h s = (st_view (am_ObjectMeta A) h (pm_ObjectMeta s),
     pointer_view reference_kind plain_view h (sm_RunnerRef (pm_Status s)),
     slice_view string_kind plain_view h (sm_IPs (pm_Status s)))"

lemma reference_copier: "deep_copier (pointer_refs reference_kind plain_refs) (pointer_view reference_kind plain_view)
    (copyPointer reference_kind State_Monad.return)"
  by (rule deep_copier_pointer [OF deep_copier_value kinds_ok(2)])

lemma strings_copier: "deep_copier (slice_refs string_kind plain_refs) (slice_view string_kind plain_view)
    (copySlice string_kind State_Monad.return)"
  by (rule deep_copier.deep_copier_slice [OF deep_copier_value kinds_ok(1)])

lemma conditions_copier:
  "machinery_ok A \<Longrightarrow> deep_copier (conditions_refs A) (conditions_view A)
    (copySlice (library_kind (am_Condition A)) (st_copy (am_Condition A)))"
  unfolding conditions_refs_def conditions_view_def machinery_ok_def struct_ok_def
  by (blast intro: deep_copier.deep_copier_slice kinds_ok(3))

lemma other_writes:
  assumes "machinery_ok A" and "other_refs A h s \<subseteq> {..<length h}" and "writes P h h'" and "other_refs A h s \<inter> P = {}"
  shows "other_refs A h' s = other_refs A h s \<and> other_view A h' s = other_view A h s"
proof -
  have m: "deep_copier (st_refs (am_ObjectMeta A)) (st_view (am_ObjectMeta A)) (st_copy (am_ObjectMeta A))"
    using assms(1) by (simp add: machinery_ok_def struct_ok_def)
  have sub: "st_refs (am_ObjectMeta A) h (pm_ObjectMeta s) \<subseteq> other_refs A h s"
    "pointer_refs reference_kind plain_refs h (sm_RunnerRef (pm_Status s)) \<subseteq> other_refs A h s"
    "slice_refs string_kind plain_refs h (sm_IPs (pm_Status s)) \<subseteq> other_refs A h s"
    by (auto simp: other_refs_def)
  have dis: "X \<subseteq> {..<length h}" "X \<inter> P = {}" if "X \<subseteq> other_refs A h s" for X using that assms(2,4) by auto
  from copier_writes [OF m dis(1) [OF sub(1)] assms(3) dis(2) [OF sub(1)]]
    copier_writes [OF reference_copier dis(1) [OF sub(2)] assms(3) dis(2) [OF sub(2)]]
    copier_writes [OF strings_copier dis(1) [OF sub(3)] assms(3) dis(2) [OF sub(3)]]
  show ?thesis by (simp add: other_refs_def other_view_def)
qed

lemma setReady_run:
  assumes A: "machinery_ok A" and sc: "set_condition_ok A setCondition f" and s: "holds A g p s"
    and C: "conditions_refs A g (sm_Conditions (pm_Status s)) \<subseteq> {..<length g} - {fst p}"
    and R: "other_refs A g s \<subseteq> {..<length g} - {fst p}"
      "other_refs A g s \<inter> conditions_refs A g (sm_Conditions (pm_Status s)) = {}"
  shows "\<exists>h'. run_state (setReady A setCondition p status reason message) g = ((), h') \<and>
    writes (insert (fst p) (conditions_refs A g (sm_Conditions (pm_Status s)))) g h' \<and>
    value_at A h' p = (let v = sandbox_value A g s in v\<lparr>psb_Status := (psb_Status v)\<lparr>status_Conditions :=
      f (status_Conditions (psb_Status v)) (readyCondition v status reason message)\<rparr>\<rparr>)"
proof -
  let ?C = "conditions_refs A g (sm_Conditions (pm_Status s))" and ?v = "sandbox_value A g s"
  let ?c = "readyCondition ?v status reason message"
  obtain c' g1 where r: "run_state (setCondition (sm_Conditions (pm_Status s)) ?c) g = (c', g1)"
    by (cases "run_state (setCondition (sm_Conditions (pm_Status s)) ?c) g") blast
  have "?C \<subseteq> {..<length g}" using C by auto
  with r sc have c: "writes ?C g g1" "conditions_refs A g1 c' \<subseteq> ?C \<union> {length g..<length g1}"
    "list_of (conditions_view A g1 c') = f (list_of (conditions_view A g (sm_Conditions (pm_Status s)))) ?c"
    unfolding set_condition_ok_def writes_def by blast+
  have "holds A g1 p s" using holds_writes [OF s c(1)] C by blast
  from setStatus_run [OF this, of "\<lambda>st. st\<lparr>sm_Conditions := c'\<rparr>"] obtain h'
    where h': "run_state (setStatus A p (\<lambda>st. st\<lparr>sm_Conditions := c'\<rparr>)) g1 = ((), h')" "writes {fst p} g1 h'"
      "holds A h' p (s\<lparr>pm_Status := (pm_Status s)\<lparr>sm_Conditions := c'\<rparr>\<rparr>)" by blast
  have w: "writes (insert (fst p) ?C) g h'"
    by (rule writes_trans [OF writes_mono [OF c(1)] writes_mono [OF h'(2)]]) auto
  have o: "other_view A h' s = other_view A g s"
    using other_writes [OF A _ w] R by blast
  have "fst p < length g" using s by (simp add: holds_def)
  then have "conditions_refs A g1 c' \<inter> {fst p} = {}" "conditions_refs A g1 c' \<subseteq> {..<length g1}"
    using c(1,2) C by (auto simp: writes_def dest!: subsetD)
  then have v: "conditions_view A h' c' = conditions_view A g1 c'"
    using copier_writes [OF conditions_copier [OF A] _ h'(2)] by blast
  have "run_state (setReady A setCondition p status reason message) g = ((), h')"
    using s r h'(1) by (simp add: setReady_def generation_def load_def run_state_bind holds_def readyCondition_def)
  moreover have "value_at A h' p = ?v\<lparr>psb_Status := (psb_Status ?v)\<lparr>status_Conditions :=
      f (status_Conditions (psb_Status ?v)) ?c\<rparr>\<rparr>"
    using h'(3) o v c(3) by (simp add: holds_def sandbox_value_def other_view_def)
  ultimately show ?thesis using w by (simp add: Let_def)
qed

lemma value_of_view: "sandbox_view A h s = sandbox_view A h' s' \<Longrightarrow> sandbox_value A h s = sandbox_value A h' s'"
  by (simp add: sandbox_value_def sandbox_view_def status_view_def)

text \<open>The copy keeps its value while only memory of the original and new memory is written.\<close>

lemma base_kept:
  assumes A: "machinery_ok A" and p: "own_memory A h p"
  shows "\<exists>b h1. run_state (PodSandbox_DeepCopy A (Some p)) h = (Some b, h1) \<and> prefix h h1 \<and>
    (\<forall>h'. writes (insert (fst p) (sandbox_refs A h (element (sandbox_kind A) h p))) h1 h' \<longrightarrow> value_at A h' b = value_at A h p)"
proof -
  let ?K = "sandbox_kind A"
  have copier: "deep_copier (pointer_refs ?K (sandbox_refs A)) (pointer_view ?K (sandbox_view A)) (PodSandbox_DeepCopy A)"
    unfolding PodSandbox_DeepCopy_def by (rule deep_copier_pointer [OF sandbox_copier [OF A] kinds_ok(7)])
  have refs: "pointer_refs ?K (sandbox_refs A) h (Some p) = insert (fst p) (sandbox_refs A h (element ?K h p))"
    by (simp add: pointer_refs_def)
  then have x: "pointer_refs ?K (sandbox_refs A) h (Some p) \<subseteq> {..<length h}"
    using p by (auto simp: own_memory_def Let_def)
  obtain y h1 where r: "run_state (PodSandbox_DeepCopy A (Some p)) h = (y, h1)"
    by (cases "run_state (PodSandbox_DeepCopy A (Some p)) h") blast
  note c = deep_copier.copies [OF copier x r]
  then obtain b where b: "y = Some b" by (auto simp: pointer_view_def split: option.splits)
  have "value_at A h' b = value_at A h p"
    if "writes (insert (fst p) (sandbox_refs A h (element ?K h p))) h1 h'" for h'
  proof (rule value_of_view)
    have "pointer_view ?K (sandbox_view A) h' y = pointer_view ?K (sandbox_view A) h (Some p)"
      by (rule deep_copier.copy_kept [OF copier x r]) (use that refs in \<open>auto simp: writes_def\<close>)
    then show "sandbox_view A h' (element ?K h' b) = sandbox_view A h (element ?K h p)"
      by (simp add: pointer_view_def b)
  qed
  with r b c show ?thesis by blast
qed

text \<open>The sandbox in the memory after the copy.\<close>

lemma own_after_copy:
  assumes A: "machinery_ok A" and p: "own_memory A h p" and h1: "prefix h h1" and s: "s = element (sandbox_kind A) h p"
  shows "holds A h1 p s" "other_refs A h1 s = other_refs A h s" "other_view A h1 s = other_view A h s"
    "conditions_refs A h1 (sm_Conditions (pm_Status s)) = conditions_refs A h (sm_Conditions (pm_Status s))"
    "sandbox_value A h1 s = value_at A h p"
    "other_refs A h s \<subseteq> {..<length h} - {fst p}" "conditions_refs A h (sm_Conditions (pm_Status s)) \<subseteq> {..<length h} - {fst p}"
    "other_refs A h s \<inter> conditions_refs A h (sm_Conditions (pm_Status s)) = {}"
    "sandbox_refs A h s = other_refs A h s \<union> conditions_refs A h (sm_Conditions (pm_Status s))"
proof -
  show refs: "sandbox_refs A h s = other_refs A h s \<union> conditions_refs A h (sm_Conditions (pm_Status s))"
    by (auto simp: sandbox_refs_def other_refs_def status_refs_def)
  have own: "sandbox_refs A h s \<subseteq> {..<length h} - {fst p}"
    using p s by (simp add: own_memory_def Let_def)
  show o: "other_refs A h s \<subseteq> {..<length h} - {fst p}"
    and c: "conditions_refs A h (sm_Conditions (pm_Status s)) \<subseteq> {..<length h} - {fst p}"
    using own refs by auto
  show "other_refs A h s \<inter> conditions_refs A h (sm_Conditions (pm_Status s)) = {}"
    using p s by (auto simp: own_memory_def Let_def other_refs_def)
  have w: "writes {} h h1" using h1 by (auto simp: writes_def prefix_def nth_append)
  have "holds A h p s" using p s by (simp add: holds_def own_memory_def Let_def)
  then show "holds A h1 p s" by (rule holds_writes [OF _ w]) simp
  have "other_refs A h s \<subseteq> {..<length h}" using o by auto
  from other_writes [OF A this w] show o1: "other_refs A h1 s = other_refs A h s" "other_view A h1 s = other_view A h s"
    by simp_all
  have "conditions_refs A h (sm_Conditions (pm_Status s)) \<subseteq> {..<length h}" using c by auto
  from copier_writes [OF conditions_copier [OF A] this w]
  have c1: "conditions_refs A h1 (sm_Conditions (pm_Status s)) = conditions_refs A h (sm_Conditions (pm_Status s))"
    "conditions_view A h1 (sm_Conditions (pm_Status s)) = conditions_view A h (sm_Conditions (pm_Status s))" by simp_all
  show "conditions_refs A h1 (sm_Conditions (pm_Status s)) = conditions_refs A h (sm_Conditions (pm_Status s))" by (rule c1)
  show "sandbox_value A h1 s = value_at A h p" using o1 c1 by (simp add: sandbox_value_def other_view_def s)
qed

lemma own_after_write:
  assumes A: "machinery_ok A" and p: "own_memory A h p" and h1: "prefix h h1" and s: "s = element (sandbox_kind A) h p"
    and g: "writes {fst p} h1 g"
  shows "other_refs A g s = other_refs A h s" "other_view A g s = other_view A h s"
    "conditions_refs A g (sm_Conditions (pm_Status s)) = conditions_refs A h (sm_Conditions (pm_Status s))"
    "conditions_view A g (sm_Conditions (pm_Status s)) = conditions_view A h (sm_Conditions (pm_Status s))"
proof -
  note own = own_after_copy [OF A p h1 s]
  have len: "length h \<le> length h1" using h1 by (simp add: prefix_length_le)
  have "other_refs A h1 s \<subseteq> {..<length h1}" "other_refs A h1 s \<inter> {fst p} = {}" using own(2,6) len by auto
  from other_writes [OF A this(1) g this(2)] own(2,3)
  show "other_refs A g s = other_refs A h s" "other_view A g s = other_view A h s" by simp_all
  let ?c = "sm_Conditions (pm_Status s)"
  have w: "writes {fst p} h g"
    using writes_trans [of "{fst p}" h h1 g] g h1 by (auto simp: writes_def prefix_def nth_append)
  have "conditions_refs A h ?c \<subseteq> {..<length h}" "conditions_refs A h ?c \<inter> {fst p} = {}" using own(7) by auto
  from copier_writes [OF conditions_copier [OF A] this(1) w this(2)]
  show "conditions_refs A g ?c = conditions_refs A h ?c" "conditions_view A g ?c = conditions_view A h ?c" by simp_all
qed

text \<open>The fields are written first: in memory \<open>g\<close> the sandbox is \<open>s\<close>, with its old conditions.\<close>

lemma patched:
  assumes A: "machinery_ok A" and sc: "set_condition_ok A setCondition f" and p: "own_memory A h p"
    and h1: "prefix h h1" and s: "s = element (sandbox_kind A) h p"
    and g: "writes {fst p} h1 g" "holds A g p (s\<lparr>pm_Status := st\<rparr>)" "sm_Conditions st = sm_Conditions (pm_Status s)"
    and R: "other_refs A g (s\<lparr>pm_Status := st\<rparr>) \<subseteq> other_refs A h s \<union> {length h1..<length g}"
  shows "\<exists>h'. run_state (setReady A setCondition p status reason message) g = ((), h') \<and>
    writes (insert (fst p) (sandbox_refs A h s)) h1 h' \<and>
    value_at A h' p = (let v = sandbox_value A g (s\<lparr>pm_Status := st\<rparr>) in v\<lparr>psb_Status := (psb_Status v)\<lparr>status_Conditions :=
      f (status_Conditions (psb_Status v)) (readyCondition v status reason message)\<rparr>\<rparr>)"
proof -
  note own = own_after_copy [OF A p h1 s]
  let ?s = "s\<lparr>pm_Status := st\<rparr>" and ?C = "conditions_refs A h (sm_Conditions (pm_Status s))"
  have len: "length h \<le> length h1" "length h1 \<le> length g" using h1 g(1) by (auto simp: writes_def prefix_length_le)
  have C: "conditions_refs A g (sm_Conditions (pm_Status ?s)) = ?C"
    using g(3) own_after_write(3) [OF A p h1 s g(1)] by simp
  have "?C \<subseteq> {..<length g} - {fst p}" using own(7) len by auto
  moreover have "fst p < length h" using p by (simp add: own_memory_def Let_def)
  then have "other_refs A g ?s \<subseteq> {..<length g} - {fst p}" using R own(6) len by fastforce
  moreover have "other_refs A g ?s \<inter> ?C = {}" using R own(7,8) len by fastforce
  ultimately obtain h' where h': "run_state (setReady A setCondition p status reason message) g = ((), h')"
      "writes (insert (fst p) ?C) g h'"
      "value_at A h' p = (let v = sandbox_value A g ?s in v\<lparr>psb_Status := (psb_Status v)\<lparr>status_Conditions :=
        f (status_Conditions (psb_Status v)) (readyCondition v status reason message)\<rparr>\<rparr>)"
    using setReady_run [OF A sc g(2), of status reason message] unfolding C by blast
  have "writes (insert (fst p) (sandbox_refs A h s)) h1 h'"
    by (rule writes_trans [OF writes_mono [OF g(1)] writes_mono [OF h'(2)]]) (auto simp: own(9))
  with h'(1,3) show ?thesis by blast
qed

subsection \<open>The refinement\<close>

lemma progressing_mem_refines:
  assumes A: "machinery_ok A" and sc: "set_condition_ok A setCondition (\<lambda>cs c. kl_SetStatusCondition k cs c (world s0))"
    and p: "own_memory A h p"
  shows "\<exists>b h'. run_state (progressing_mem A setCondition p reason message) h = (Some b, h') \<and>
    trace (snd (run_state (progressing k (value_at A h p) reason message) s0)) =
      trace s0 @ [PatchStatus (value_at A h' b) (value_at A h' p)]"
proof -
  define s where s: "s = element (sandbox_kind A) h p"
  let ?gen = "om_Generation (psb_ObjectMeta (value_at A h p))"
  let ?st = "(pm_Status s)\<lparr>sm_ObservedGeneration := ?gen\<rparr>"
  obtain b h1 where b: "run_state (PodSandbox_DeepCopy A (Some p)) h = (Some b, h1)" and h1: "prefix h h1"
    and kept: "\<And>h'. writes (insert (fst p) (sandbox_refs A h s)) h1 h' \<Longrightarrow> value_at A h' b = value_at A h p"
    using base_kept [OF A p] unfolding s by blast
  note own = own_after_copy [OF A p h1 s]
  obtain g where g: "run_state (setStatus A p (\<lambda>st. st\<lparr>sm_ObservedGeneration := ?gen\<rparr>)) h1 = ((), g)"
    "writes {fst p} h1 g" "holds A g p (s\<lparr>pm_Status := ?st\<rparr>)"
    using setStatus_run [OF own(1)] by blast
  note w = own_after_write [OF A p h1 s g(2)]
  have "other_refs A g (s\<lparr>pm_Status := ?st\<rparr>) = other_refs A g s" by (simp add: other_refs_def)
  then obtain h' where h': "run_state (setReady A setCondition p ConditionFalse reason message) g = ((), h')"
      "writes (insert (fst p) (sandbox_refs A h s)) h1 h'"
      "value_at A h' p = (let v = sandbox_value A g (s\<lparr>pm_Status := ?st\<rparr>) in v\<lparr>psb_Status := (psb_Status v)\<lparr>status_Conditions :=
        kl_SetStatusCondition k (status_Conditions (psb_Status v)) (readyCondition v ConditionFalse reason message) (world s0)\<rparr>\<rparr>)"
    using patched [OF A sc p h1 s g(2,3), of ConditionFalse reason message] w(1) by auto
  have v: "sandbox_value A g (s\<lparr>pm_Status := ?st\<rparr>) = (let v = value_at A h p in
      v\<lparr>psb_Status := (psb_Status v)\<lparr>status_ObservedGeneration := ?gen\<rparr>\<rparr>)"
    using w(2,4) by (simp add: sandbox_value_def other_view_def flip: s)
  have "run_state (generation A p) h1 = (?gen, h1)"
    using own(1,5) by (simp add: generation_def holds_def)
  then have "run_state (progressing_mem A setCondition p reason message) h = (Some b, h')"
    using b g(1) h'(1) by (simp add: progressing_mem_def run_state_bind)
  moreover have "trace (snd (run_state (progressing k (value_at A h p) reason message) s0)) =
      trace s0 @ [PatchStatus (value_at A h' b) (value_at A h' p)]"
    using kept [OF h'(2)] h'(3)
    by (simp add: v progressing_def Let_def go_ops run_state_bind readyCondition_def split: prod.splits)
  ultimately show ?thesis by blast
qed

text \<open>The two objects that the fields refer to are new.\<close>

lemma reportFields_run:
  assumes s: "holds A h p s"
  shows "\<exists>g st. run_state (reportFields A p runner) h = ((), g) \<and> writes {fst p} h g \<and> holds A g p (s\<lparr>pm_Status := st\<rparr>) \<and>
    sm_Conditions st = sm_Conditions (pm_Status s) \<and>
    sm_ObservedGeneration st = om_Generation (psb_ObjectMeta (sandbox_value A h s)) \<and> sm_NodeName st = ps_NodeName (pod_Spec runner) \<and>
    pointer_refs reference_kind plain_refs g (sm_RunnerRef st) \<union> slice_refs string_kind plain_refs g (sm_IPs st)
      \<subseteq> {length h..<length g} \<and>
    pointer_view reference_kind plain_view g (sm_RunnerRef st) = Some \<lparr>lor_Name = pod_Name runner\<rparr> \<and>
    list_of (slice_view string_kind plain_view g (sm_IPs st)) =
      (if pst_PodIP (pod_Status runner) = [] then [] else [pst_PodIP (pod_Status runner)])"
proof -
  let ?ip = "pst_PodIP (pod_Status runner)" and ?gen = "om_Generation (psb_ObjectMeta (sandbox_value A h s))"
  have p: "fst p < length h" using s by (simp add: holds_def)
  have add: "holds A g p x \<Longrightarrow> holds A (g @ [c]) p x" for g x c
    by (auto simp: holds_def element_def nth_append)
  obtain h1 where h1: "run_state (setStatus A p (\<lambda>st. st\<lparr>sm_ObservedGeneration := ?gen\<rparr>)) h = ((), h1)" "writes {fst p} h h1"
    "length h1 = length h" "holds A h1 p (s\<lparr>pm_Status := (pm_Status s)\<lparr>sm_ObservedGeneration := ?gen\<rparr>\<rparr>)"
    using setStatus_run [OF s] by blast
  let ?h2 = "h1 @ [References [\<lparr>lor_Name = pod_Name runner\<rparr>]]"
  obtain h3 where h3: "run_state (setStatus A p (\<lambda>st. st\<lparr>sm_RunnerRef := Some (length h, 0)\<rparr>)) ?h2 = ((), h3)"
    "writes {fst p} ?h2 h3" "length h3 = length ?h2"
    "holds A h3 p (s\<lparr>pm_Status := (pm_Status s)\<lparr>sm_ObservedGeneration := ?gen, sm_RunnerRef := Some (length h, 0)\<rparr>\<rparr>)"
    using setStatus_run [OF add [OF h1(4)]] by force
  let ?node = "\<lambda>st. st\<lparr>sm_NodeName := ps_NodeName (pod_Spec runner)\<rparr>"
  let ?st = "(pm_Status s)\<lparr>sm_ObservedGeneration := ?gen, sm_RunnerRef := Some (length h, 0), sm_NodeName := ps_NodeName (pod_Spec runner)\<rparr>"
  obtain h4 where h4: "run_state (setStatus A p ?node) h3 = ((), h4)" "writes {fst p} h3 h4" "length h4 = length h3"
    "holds A h4 p (s\<lparr>pm_Status := ?st\<rparr>)"
    using setStatus_run [OF h3(4), of ?node] by force
  have ref: "h4 ! length h = References [\<lparr>lor_Name = pod_Name runner\<rparr>]" and w4: "writes {fst p} h h4" "length h4 = Suc (length h)"
    using h1(2,3) h3(2,3) h4(2,3) p by (auto simp: writes_def nth_append)
  have run: "run_state (reportFields A p runner) h = run_state
      (if ?ip = [] then setStatus A p (\<lambda>st. st\<lparr>sm_IPs := None\<rparr>)
       else do { a \<leftarrow> allocate (Strings [?ip]); setStatus A p (\<lambda>st. st\<lparr>sm_IPs := Some \<lparr>sl_Array = a, sl_Offset = 0, sl_Len = 1\<rparr>\<rparr>) }) h4"
    using s h1 h3(1) h4(1) by (simp add: reportFields_def generation_def holds_def memory_ops run_state_bind)
  show ?thesis
  proof (cases "?ip = []")
    case True
    obtain g where g: "run_state (setStatus A p (\<lambda>st. st\<lparr>sm_IPs := None\<rparr>)) h4 = ((), g)" "writes {fst p} h4 g" "length g = length h4"
      "holds A g p (s\<lparr>pm_Status := ?st\<lparr>sm_IPs := None\<rparr>\<rparr>)"
      using setStatus_run [OF h4(4), of "\<lambda>st. st\<lparr>sm_IPs := None\<rparr>"] by force
    have "g ! length h = References [\<lparr>lor_Name = pod_Name runner\<rparr>]" using ref g(2) w4(2) p by (simp add: writes_def)
    with g run w4 True writes_trans [OF w4(1) g(2)] show ?thesis
      by (intro exI [of _ g] exI [of _ "?st\<lparr>sm_IPs := None\<rparr>"])
         (simp add: pointer_refs_def pointer_view_def slice_refs_def slice_view_def list_of_def element_def reference_kind_def nth_default_def)
  next
    case False
    let ?h5 = "h4 @ [Strings [?ip]]" and ?ips = "Some \<lparr>sl_Array = Suc (length h), sl_Offset = 0, sl_Len = 1\<rparr>"
    obtain g where g: "run_state (setStatus A p (\<lambda>st. st\<lparr>sm_IPs := ?ips\<rparr>)) ?h5 = ((), g)" "writes {fst p} ?h5 g" "length g = length ?h5"
      "holds A g p (s\<lparr>pm_Status := ?st\<lparr>sm_IPs := ?ips\<rparr>\<rparr>)"
      using setStatus_run [OF add [OF h4(4)], of "\<lambda>st. st\<lparr>sm_IPs := ?ips\<rparr>"] by force
    have "g ! length h = References [\<lparr>lor_Name = pod_Name runner\<rparr>]" "g ! Suc (length h) = Strings [?ip]"
      using ref g(2) w4(2) p by (auto simp: writes_def nth_append)
    moreover have "writes {fst p} h g" using w4 g(2) by (auto simp: writes_def nth_append)
    ultimately show ?thesis using g run w4 False
      by (intro exI [of _ g] exI [of _ "?st\<lparr>sm_IPs := ?ips\<rparr>"])
         (simp add: memory_ops run_state_bind pointer_refs_def pointer_view_def slice_refs_def slice_view_def list_of_def
           element_def reference_kind_def string_kind_def nth_default_def)
  qed
qed

lemma reportRunner_mem_refines:
  assumes A: "machinery_ok A" and sc: "set_condition_ok A setCondition (\<lambda>cs c. kl_SetStatusCondition k cs c (world s0))"
    and p: "own_memory A h p"
  shows "\<exists>b h'. run_state (reportRunner_mem A setCondition p runner) h = (Some b, h') \<and>
    trace (snd (run_state (reportRunner k (value_at A h p) runner) s0)) =
      trace s0 @ [PatchStatus (value_at A h' b) (value_at A h' p)]"
proof -
  define s where s: "s = element (sandbox_kind A) h p"
  let ?ip = "pst_PodIP (pod_Status runner)"
  let ?ready = "podReady runner \<and> ?ip \<noteq> []"
  let ?status = "boolCondition ?ready" and ?reason = "if ?ready then ''PodVMReady'' else ''PodVMStarting''"
    and ?message = "if ?ready then ''The PodVM is ready'' else ''Waiting for the PodVM runtime''"
  obtain b h1 where b: "run_state (PodSandbox_DeepCopy A (Some p)) h = (Some b, h1)" and h1: "prefix h h1"
    and kept: "\<And>h'. writes (insert (fst p) (sandbox_refs A h s)) h1 h' \<Longrightarrow> value_at A h' b = value_at A h p"
    using base_kept [OF A p] unfolding s by blast
  note own = own_after_copy [OF A p h1 s]
  obtain g st where g: "run_state (reportFields A p runner) h1 = ((), g)" "writes {fst p} h1 g" "holds A g p (s\<lparr>pm_Status := st\<rparr>)"
    and st: "sm_Conditions st = sm_Conditions (pm_Status s)"
      "sm_ObservedGeneration st = om_Generation (psb_ObjectMeta (value_at A h p))" "sm_NodeName st = ps_NodeName (pod_Spec runner)"
      "pointer_refs reference_kind plain_refs g (sm_RunnerRef st) \<union> slice_refs string_kind plain_refs g (sm_IPs st)
        \<subseteq> {length h1..<length g}"
      "pointer_view reference_kind plain_view g (sm_RunnerRef st) = Some \<lparr>lor_Name = pod_Name runner\<rparr>"
      "list_of (slice_view string_kind plain_view g (sm_IPs st)) = (if ?ip = [] then [] else [?ip])"
    using reportFields_run [OF own(1), of runner] unfolding own(5) by auto
  note w = own_after_write [OF A p h1 s g(2)]
  have "other_refs A g (s\<lparr>pm_Status := st\<rparr>) \<subseteq> other_refs A h s \<union> {length h1..<length g}"
    using st(4) w(1) by (auto simp: other_refs_def)
  then obtain h' where h': "run_state (setReady A setCondition p ?status ?reason ?message) g = ((), h')"
      "writes (insert (fst p) (sandbox_refs A h s)) h1 h'"
      "value_at A h' p = (let v = sandbox_value A g (s\<lparr>pm_Status := st\<rparr>) in v\<lparr>psb_Status := (psb_Status v)\<lparr>status_Conditions :=
        kl_SetStatusCondition k (status_Conditions (psb_Status v)) (readyCondition v ?status ?reason ?message) (world s0)\<rparr>\<rparr>)"
    using patched [OF A sc p h1 s g(2,3) st(1), of ?status ?reason ?message] by blast
  have v: "sandbox_value A g (s\<lparr>pm_Status := st\<rparr>) = (let v = value_at A h p in
      v\<lparr>psb_Status := (psb_Status v)\<lparr>status_ObservedGeneration := om_Generation (psb_ObjectMeta v),
        status_RunnerRef := Some \<lparr>lor_Name = pod_Name runner\<rparr>, status_NodeName := ps_NodeName (pod_Spec runner),
        status_IPs := (if ?ip = [] then [] else [?ip])\<rparr>\<rparr>)"
    using w(2,4) st by (simp add: sandbox_value_def other_view_def Let_def flip: s)
  have "run_state (reportRunner_mem A setCondition p runner) h = (Some b, h')"
    using b g(1) h'(1) by (simp add: reportRunner_mem_def Let_def run_state_bind)
  moreover have "trace (snd (run_state (reportRunner k (value_at A h p) runner) s0)) =
      trace s0 @ [PatchStatus (value_at A h' b) (value_at A h' p)]"
    unfolding kept [OF h'(2)] h'(3) v
    by (simp add: reportRunner_def Let_def go_ops run_state_bind readyCondition_def split: prod.splits)
  ultimately show ?thesis by blast
qed

subsection \<open>A concrete update\<close>

text \<open>\<open>SetStatusCondition\<close> on the concrete API machinery: in place where the number of conditions stays, and in
  a new array where one is added.\<close>

definition lib_setCondition :: "lib_value setCondition" where
  "lib_setCondition s c = State (\<lambda>h.
     let cs = list_of (conditions_view lib_machinery h s); cs' = mem_set_condition cs c;
         new = (Some \<lparr>sl_Array = length h, sl_Offset = 0, sl_Len = length cs'\<rparr>, h @ [Library (map LibCondition cs')])
     in case s of
          None \<Rightarrow> new
        | Some sl \<Rightarrow>
            let xs = library (h ! sl_Array sl) in
            if length cs' = sl_Len sl \<and> sl_Offset sl + sl_Len sl \<le> length xs
            then (s, h[sl_Array sl := Library (take (sl_Offset sl) xs @ map LibCondition cs' @ drop (sl_Offset sl + sl_Len sl) xs)])
            else new)"

definition lib_condition :: "lib_value \<Rightarrow> Condition" where
  "lib_condition x = (case x of LibCondition c \<Rightarrow> c | _ \<Rightarrow> no_Condition)"

lemma lib_conditions:
  "conditions_refs lib_machinery h s = sl_Array ` set_option s"
  "conditions_view lib_machinery h s = map_option (\<lambda>sl. map (\<lambda>i. lib_condition
     (nth_default (LibCondition no_Condition) (library (h ! sl_Array sl)) (sl_Offset sl + i))) [0..<sl_Len sl]) s"
  by (cases s; simp add: conditions_refs_def conditions_view_def slice_refs_def slice_view_def lib_machinery_def library_kind_def
      element_def lib_condition_def)+

lemma lib_new_conditions:
  "conditions_view lib_machinery (h @ [Library (map LibCondition cs)]) (Some \<lparr>sl_Array = length h, sl_Offset = 0, sl_Len = length cs\<rparr>) =
     Some cs"
  by (auto simp: lib_conditions lib_condition_def nth_default_def intro!: nth_equalityI)

lemma lib_set_condition_ok: "set_condition_ok lib_machinery lib_setCondition mem_set_condition"
  unfolding set_condition_ok_def
proof (intro allI impI)
  fix h s c s' h'
  assume h: "conditions_refs lib_machinery h s \<subseteq> {..<length h}" and r: "run_state (lib_setCondition s c) h = (s', h')"
  define cs where "cs = mem_set_condition (list_of (conditions_view lib_machinery h s)) c"
  show "length h \<le> length h' \<and> (\<forall>a<length h. a \<notin> conditions_refs lib_machinery h s \<longrightarrow> h' ! a = h ! a) \<and>
     conditions_refs lib_machinery h' s' \<subseteq> conditions_refs lib_machinery h s \<union> {length h..<length h'} \<and>
     list_of (conditions_view lib_machinery h' s') = mem_set_condition (list_of (conditions_view lib_machinery h s)) c"
  proof (cases "(s', h') = (Some \<lparr>sl_Array = length h, sl_Offset = 0, sl_Len = length cs\<rparr>, h @ [Library (map LibCondition cs)])")
    case True
    then show ?thesis unfolding cs_def [symmetric]
      by (auto simp: lib_new_conditions nth_append) (auto simp: list_of_def lib_conditions(1) lib_new_conditions)
  next
    case False
    with r obtain sl where sl: "s = Some sl" "length cs = sl_Len sl" "sl_Offset sl + sl_Len sl \<le> length (library (h ! sl_Array sl))"
      and s': "s' = s" "h' = h[sl_Array sl := Library (take (sl_Offset sl) (library (h ! sl_Array sl)) @ map LibCondition cs @
        drop (sl_Offset sl + sl_Len sl) (library (h ! sl_Array sl)))]"
      by (auto simp: lib_setCondition_def Let_def cs_def split: option.splits if_splits)
    have "sl_Array sl < length h" using h sl(1) by (simp add: lib_conditions)
    then have "conditions_view lib_machinery h' s' = Some cs"
      using sl s' by (auto simp: lib_conditions nth_default_def nth_append lib_condition_def intro!: nth_equalityI)
    then show ?thesis unfolding cs_def [symmetric] using sl s' by (auto simp: list_of_def lib_conditions(1))
  qed
qed

subsection \<open>The property\<close>

text \<open>C20: Treating sandboxes as values is right. In Go's memory the status updates of the controller copy the
  sandbox, write into the original and compute a patch from both. The patch that the model of the
  controller sends is the one from the contents of the copy and of the sandbox in that memory at that
  time: the writes, also those of SetStatusCondition into the array of conditions, do not reach the copy.\<close>

theorem status_patch_refines:
  assumes "machinery_ok A" and "set_condition_ok A setCondition (\<lambda>cs c. kl_SetStatusCondition k cs c (world s0))"
    and "own_memory A h p"
  shows "(\<exists>b h'. run_state (reportRunner_mem A setCondition p runner) h = (Some b, h') \<and>
      trace (snd (run_state (reportRunner k (value_at A h p) runner) s0)) =
        trace s0 @ [PatchStatus (value_at A h' b) (value_at A h' p)]) \<and>
    (\<exists>b h'. run_state (progressing_mem A setCondition p reason message) h = (Some b, h') \<and>
      trace (snd (run_state (progressing k (value_at A h p) reason message) s0)) =
        trace s0 @ [PatchStatus (value_at A h' b) (value_at A h' p)] \<and>
      trace (snd (run_state (stopped k (value_at A h p) reason message) s0)) =
        trace s0 @ [PatchStatus (value_at A h' b) (value_at A h' p)]) \<and>
    (\<exists>b h'. run_state (progressing_mem A setCondition p reason (Error err)) h = (Some b, h') \<and>
      trace (snd (run_state (fail k (value_at A h p) reason err) s0)) =
        trace s0 @ [PatchStatus (value_at A h' b) (value_at A h' p)])"
proof -
  have "trace (snd (run_state (stopped k sb reason m) s0)) = trace (snd (run_state (progressing k sb reason m) s0))"
    and "trace (snd (run_state (fail k sb reason err) s0)) = trace (snd (run_state (progressing k sb reason (Error err)) s0))" for sb m
    by (simp_all add: stopped_def fail_def progressing_def Let_def go_ops run_state_bind split: prod.splits)
  then show ?thesis
    using reportRunner_mem_refines [OF assms, of runner] progressing_mem_refines [OF assms] by metis
qed

definition demo_runner :: Pod where
  "demo_runner = (desiredRunner demo_psb demo_class)\<lparr>pod_Status := zero_PodStatus\<lparr>pst_PodIP := ''10.0.0.9''\<rparr>\<rparr>"

lemma lib_own_memory: "own_memory lib_machinery lib_memory (0, 0)"
  by (simp add: own_memory_def Let_def sandbox_refs_def status_refs_def lib_conditions slice_refs_def pointer_refs_def entries_refs_def
      element_def nth_default_def sandbox_kind_def lib_memory_def zero_Status_mem_def) (simp add: lib_machinery_def entries_refs_def)

theorem status_patch_refines_witness:
  "\<exists>b h'. run_state (reportRunner_mem lib_machinery lib_setCondition (0, 0) demo_runner) lib_memory = (Some b, h') \<and>
     trace (snd (run_state (reportRunner mem_kube (value_at lib_machinery lib_memory (0, 0)) demo_runner) (at_start demo_cluster))) =
       [PatchStatus (value_at lib_machinery h' b) (value_at lib_machinery h' (0, 0))]"
proof -
  have "set_condition_ok lib_machinery lib_setCondition
      (\<lambda>cs c. kl_SetStatusCondition mem_kube cs c (world (at_start demo_cluster)))"
    using lib_set_condition_ok by (simp add: mem_kube_simps)
  from conjunct1 [OF status_patch_refines [OF lib_machinery_ok this lib_own_memory], of demo_runner] show ?thesis
    by (simp add: at_start_def)
qed

end
