(* ===== verification/Plugin_Main.thy ===== *)
theory Plugin_Main
  imports Kube_Provider Go_Flag
begin

text \<open>
  The registration of the plugin (\<open>manager.go\<close>) and the command that loads it once
  (\<open>cmd/plugin-smoke/main.go\<close>). The adaptor's registry of providers and its flag registrar are the parameter
  \<open>'w adaptor\<close>: whether a provider is registered, and the value that a variable gets when its flag is
  registered. The registrar takes it from the environment variable, and from the default when that is
  empty (\<open>registrar_law\<close>).
\<close>

subsection \<open>Definitions\<close>

datatype registrar_option = Required | SecretValue

record registration =
  fr_Name :: string
  fr_Default :: string
  fr_Env :: string
  fr_Usage :: string
  fr_Options :: "registrar_option list"

datatype plugin_call = GetProvider string | StringWithEnv registration | Println string | Errorln string

record 'w adaptor =
  ad_Get :: "string \<Rightarrow> 'w \<Rightarrow> bool \<times> 'w"
  ad_StringWithEnv :: "registration \<Rightarrow> 'w \<Rightarrow> string \<times> 'w"

type_synonym ('w, 'a) pprog = "('w, plugin_call, 'a) prog"

definition endpointFlag :: registration where
  "endpointFlag = \<lparr>fr_Name = ''kubernetes-endpoint'', fr_Default = [], fr_Env = ''KUBERNETES_POD_SANDBOX_ENDPOINT'',
     fr_Usage = ''Kubernetes Pod Sandbox API endpoint'', fr_Options = [Required]\<rparr>"

definition tokenFlag :: registration where
  "tokenFlag = \<lparr>fr_Name = ''kubernetes-token'', fr_Default = [], fr_Env = ''KUBERNETES_POD_SANDBOX_TOKEN'',
     fr_Usage = ''Kubernetes Pod Sandbox API bearer token'', fr_Options = [SecretValue]\<rparr>"

definition timeoutFlag :: registration where
  "timeoutFlag = \<lparr>fr_Name = ''kubernetes-timeout'', fr_Default = ''2m'', fr_Env = ''KUBERNETES_POD_SANDBOX_TIMEOUT'',
     fr_Usage = ''Kubernetes Pod Sandbox API request timeout'', fr_Options = []\<rparr>"

text \<open>The flags that are registered, over the variable \<open>providerConfig\<close>.\<close>

definition pluginFlags :: "config flagset" where
  "pluginFlags =
     [(fr_Name endpointFlag, StringVar (\<lambda>v. pcfg_Endpoint_update (\<lambda>_. v))),
      (fr_Name tokenFlag, StringVar (\<lambda>v. pcfg_Token_update (\<lambda>_. v))),
      (fr_Name timeoutFlag, StringVar (\<lambda>v. pcfg_Timeout_update (\<lambda>_. v)))]"

definition register :: "'w adaptor \<Rightarrow> registration \<Rightarrow> ('w, string) pprog" where
  "register A r = perform (StringWithEnv r) (ad_StringWithEnv A r)"

definition ParseCmd :: "'w adaptor \<Rightarrow> config \<Rightarrow> ('w, config) pprog" where
  "ParseCmd A providerConfig = do {
     endpoint \<leftarrow> register A endpointFlag;
     tok \<leftarrow> register A tokenFlag;
     timeout \<leftarrow> register A timeoutFlag;
     State_Monad.return (providerConfig\<lparr>pcfg_Endpoint := endpoint, pcfg_Token := tok, pcfg_Timeout := timeout\<rparr>)
   }"

definition LoadEnv :: "('w, unit) pprog" where
  "LoadEnv = State_Monad.return ()"

definition println :: "plugin_call \<Rightarrow> ('w, unit) pprog" where
  "println c = perform c (\<lambda>w. ((), w))"

definition exitError :: "string \<Rightarrow> ('w, nat) pprog" where
  "exitError message = do { _ \<leftarrow> println (Errorln message); State_Monad.return 1 }"

text \<open>The exit code. Parsing no arguments cannot fail.\<close>

definition plugin_smoke :: "'w adaptor \<Rightarrow> (string \<Rightarrow> go_error + url) \<Rightarrow> (int \<Rightarrow> 'v transport) \<Rightarrow> ('w, nat) pprog" where
  "plugin_smoke A url_Parse net = do {
     registered \<leftarrow> perform (GetProvider ''kubernetes'') (ad_Get A ''kubernetes'');
     if \<not> registered then exitError ''kubernetes provider was not registered''
     else do {
       cfg \<leftarrow> ParseCmd A \<lparr>pcfg_Endpoint = [], pcfg_Token = [], pcfg_Timeout = []\<rparr>;
       case FlagParse pluginFlags [] cfg of
         Inl _ \<Rightarrow> State_Monad.return 1
       | Inr (providerConfig, _) \<Rightarrow>
           (case NewProvider url_Parse net providerConfig of
              Inl err \<Rightarrow> exitError (Error err)
            | Inr provider \<Rightarrow>
                (case ConfigVerifier provider of
                   Inl err \<Rightarrow> exitError (Error err)
                 | Inr _ \<Rightarrow> do {
                     _ \<leftarrow> println (Println ''kubernetes provider plugin loaded'');
                     State_Monad.return 0
                   }))
     }
   }"

subsection \<open>The environment\<close>

definition registrar_law :: "'w adaptor \<Rightarrow> (string \<Rightarrow> string) \<Rightarrow> bool" where
  "registrar_law A env \<longleftrightarrow> (\<forall>r w. ad_StringWithEnv A r w = (if env (fr_Env r) = [] then fr_Default r else env (fr_Env r), w))"

text \<open>What makes a configuration usable: an endpoint that is a URL with a host for http or https, and a
  timeout that is empty or a duration.\<close>

definition usable :: "(string \<Rightarrow> go_error + url) \<Rightarrow> string \<Rightarrow> string \<Rightarrow> bool" where
  "usable url_Parse endpoint timeout \<longleftrightarrow> endpoint \<noteq> [] \<and>
     (case url_Parse endpoint of Inl _ \<Rightarrow> False | Inr u \<Rightarrow> url_Scheme u \<in> {''http'', ''https''} \<and> url_Host u \<noteq> []) \<and>
     (timeout = [] \<or> \<not> isl (ParseDuration timeout))"

lemma provider_usable:
  "(case NewProvider url_Parse net cfg of Inl _ \<Rightarrow> False | Inr p \<Rightarrow> \<not> isl (ConfigVerifier p)) \<longleftrightarrow>
     usable url_Parse (pcfg_Endpoint cfg) (pcfg_Timeout cfg)"
  by (auto simp: NewProvider_def newKubernetesProvider_def newHTTPSandboxClient_def ConfigVerifier_def usable_def split: sum.splits)

text \<open>The configuration that the environment gives.\<close>

definition env_config :: "(string \<Rightarrow> string) \<Rightarrow> config" where
  "env_config env = \<lparr>pcfg_Endpoint = env ''KUBERNETES_POD_SANDBOX_ENDPOINT'', pcfg_Token = env ''KUBERNETES_POD_SANDBOX_TOKEN'',
     pcfg_Timeout = (if env ''KUBERNETES_POD_SANDBOX_TIMEOUT'' = [] then ''2m'' else env ''KUBERNETES_POD_SANDBOX_TIMEOUT'')\<rparr>"

lemma ParseCmd_env:
  assumes "registrar_law A env"
  shows "run_state (ParseCmd A c) s =
    (env_config env, \<lparr>world = world s, trace = trace s @ [StringWithEnv endpointFlag, StringWithEnv tokenFlag, StringWithEnv timeoutFlag]\<rparr>)"
  using assms
  by (simp add: ParseCmd_def register_def registrar_law_def run_state_bind env_config_def endpointFlag_def tokenFlag_def timeoutFlag_def)

lemma default_timeout: "ParseDuration ''2m'' = Inr (2 * 60 * 1000000000)"
  by (simp add: ParseDuration_def durationTerms.simps durationTerm_def unit_end_def is_digit_def unitMap_def)

subsection \<open>The property\<close>

text \<open>C40: The smoke test accepts the plugin exactly when it is usable. The command ends with code 0, after
  one line on the standard output, when the provider is registered and the environment has an endpoint
  that is a URL with a host for http or https and a timeout that is unset or a duration. Otherwise it ends
  with code 1 after one line on the standard error.\<close>

theorem plugin_smoke_verdict:
  assumes "registrar_law A env"
  shows "wp (plugin_smoke A url_Parse net) (\<lambda>code t.
    if fst (ad_Get A ''kubernetes'' (world s)) \<and>
       usable url_Parse (env ''KUBERNETES_POD_SANDBOX_ENDPOINT'') (env ''KUBERNETES_POD_SANDBOX_TIMEOUT'')
    then code = 0 \<and> last (trace t) = Println ''kubernetes provider plugin loaded''
    else code = 1 \<and> (\<exists>m. last (trace t) = Errorln m)) s"
proof -
  let ?cfg = "env_config env"
  obtain found w where get: "ad_Get A ''kubernetes'' (world s) = (found, w)" by (cases "ad_Get A ''kubernetes'' (world s)")
  have u: "usable url_Parse (pcfg_Endpoint ?cfg) (pcfg_Timeout ?cfg) \<longleftrightarrow>
      usable url_Parse (env ''KUBERNETES_POD_SANDBOX_ENDPOINT'') (env ''KUBERNETES_POD_SANDBOX_TIMEOUT'')"
    by (simp add: usable_def env_config_def default_timeout)
  show ?thesis
  proof (cases found)
    case False
    with get show ?thesis by (simp add: wp_def plugin_smoke_def run_state_bind exitError_def println_def)
  next
    case True
    show ?thesis
    proof (cases "NewProvider url_Parse net ?cfg")
      case (Inl err)
      with provider_usable [of url_Parse net ?cfg] True get u show ?thesis
        by (simp add: wp_def plugin_smoke_def run_state_bind exitError_def println_def ParseCmd_env [OF assms])
    next
      case (Inr p)
      with provider_usable [of url_Parse net ?cfg] True get u show ?thesis
        by (cases "ConfigVerifier p")
           (simp_all add: wp_def plugin_smoke_def run_state_bind exitError_def println_def ParseCmd_env [OF assms])
    qed
  qed
qed

definition smoke_env :: "string \<Rightarrow> string" where
  "smoke_env name = (if name = ''KUBERNETES_POD_SANDBOX_ENDPOINT'' then ''http://api:8080'' else [])"

definition smoke_adaptor :: "unit adaptor" where
  "smoke_adaptor = \<lparr>ad_Get = (\<lambda>n w. (n = ''kubernetes'', w)),
     ad_StringWithEnv = (\<lambda>r w. (if smoke_env (fr_Env r) = [] then fr_Default r else smoke_env (fr_Env r), w))\<rparr>"

definition smoke_Parse :: "string \<Rightarrow> go_error + url" where
  "smoke_Parse s = Inr \<lparr>url_Scheme = ''http'', url_Host = ''api:8080'', url_Path = []\<rparr>"

definition smoke_net :: "int \<Rightarrow> unit transport" where
  "smoke_net timeout r w = (Inl (CallFailed (errorsNew ''offline'')), w)"

theorem plugin_smoke_verdict_witness:
  "wp (plugin_smoke smoke_adaptor smoke_Parse smoke_net) (\<lambda>code t. code = 0 \<and>
     last (trace t) = Println ''kubernetes provider plugin loaded'') \<lparr>world = (), trace = []\<rparr>"
proof -
  have law: "registrar_law smoke_adaptor smoke_env" by (simp add: registrar_law_def smoke_adaptor_def)
  have get: "fst (ad_Get smoke_adaptor ''kubernetes'' ())" by (simp add: smoke_adaptor_def)
  have "usable smoke_Parse (smoke_env ''KUBERNETES_POD_SANDBOX_ENDPOINT'') (smoke_env ''KUBERNETES_POD_SANDBOX_TIMEOUT'')"
    by (simp add: usable_def smoke_env_def smoke_Parse_def)
  with plugin_smoke_verdict [OF law, of smoke_Parse smoke_net "\<lparr>world = (), trace = []\<rparr>"] get show ?thesis by simp
qed

end
