(* ===== verification/Spec2Isabelle.thy ===== *)
theory Spec2Isabelle
  imports Server_Properties Controller_Properties Runner_Properties Provider_Properties Node_Properties
    Manager_Main Plugin_Cluster Status_Memory Plugin_Main
begin

text \<open>
  A verification of the Kubernetes provider of the Cloud API Adaptor. The program runs each peer pod as
  a virtual machine inside a runner Pod of a Kubernetes cluster.

  \<^bold>\<open>The program.\<close> It has five commands, which work together as follows.

  \<^item> The \<^emph>\<open>provider plugin\<close> (\<open>provider.go\<close>, \<open>client.go\<close>, \<open>manager.go\<close>, \<open>config.go\<close>) is loaded by the
    adaptor on a node. It asks the API server over HTTP to create and delete sandboxes.
  \<^item> The \<^emph>\<open>manager\<close> (\<open>cmd/main.go\<close>) runs the two parts of the cluster side: the \<^emph>\<open>API server\<close>
    (\<open>internal/server/server.go\<close>), which authorizes a request, creates a \<open>PodSandbox\<close> object with its user
    data secret, and polls it until it is ready; and the \<^emph>\<open>controller\<close>
    (\<open>internal/controller/podsandbox_controller.go\<close>), which creates the runner Pod of a sandbox and
    reports its state in the status of the sandbox.
  \<^item> The \<^emph>\<open>runner\<close> (\<open>cmd/runner/main.go\<close>) runs in that Pod, prepares disks and network, starts Cloud
    Hypervisor, and proxies connections to the guest.
  \<^item> The \<^emph>\<open>node supervisor\<close> (\<open>cmd/peer-pod-node/main.go\<close>) runs containerd, kubelet and the adaptor.
  \<^item> \<open>cmd/plugin-smoke\<close> loads the plugin once.

  \<^bold>\<open>How the program is modelled.\<close> Pure functions of the source are functions of the model. Code with
  effects is a program in the state monad over a world and a trace (theory \<open>Go_Prelude\<close>). Everything that
  is not in the repository is a parameter that answers from a world of arbitrary type: the Kubernetes API
  (\<open>'w kube\<close>), the operating system of the runner (\<open>'w host\<close>) and of the node (\<open>'w node\<close>), the network of
  the HTTP client (\<open>'w transport\<close>), the controller-runtime (\<open>'w ctrl\<close>), and the cloud-init generator. The
  documented behaviour the code relies on is stated as named laws of a parameter (\<open>sandbox_read_law\<close>,
  \<open>set_condition_law\<close> and the others of \<open>Kube_Client\<close>); \<open>Mem_Cluster\<close> is a cluster in memory that satisfies
  all of them, so that they are consistent and the scenarios run. Since the world is arbitrary, another
  client of the cluster may act between any two calls. Integers are words of the width of the source.
  Errors are values, and every early return is a branch.

  \<^bold>\<open>The theories.\<close>

  \<^item> \<open>Go_Prelude\<close>: errors, programs, and the predicates on programs that the proofs use: \<open>wp\<close> (weakest
    precondition), \<open>emits\<close> (every call satisfies a predicate), \<open>yields\<close> (result and calls together).
  \<^item> \<open>Go_Strings\<close>, \<open>Go_Utf8\<close>, \<open>Go_Json\<close>, \<open>Go_Float\<close>, \<open>Go_Time\<close>, \<open>Go_Sha256\<close>, \<open>Go_Flag\<close>, \<open>Go_Net\<close>: what the program uses
    of Go's library. \<open>Json_Roundtrip\<close> proves that the decoder inverts the encoder.
  \<^item> \<open>Sandbox_Api\<close>: the resource types of \<open>api/v1alpha1\<close> with their validation markers. \<open>Kube_Client\<close>,
    \<open>Mem_Cluster\<close>: the cluster.
  \<^item> \<open>Sandbox_Server\<close>: \<open>server.go\<close>, function by function, with the routes of the multiplexer.
    \<open>Server_Contract\<close> has the scope of each handler, \<open>Create_Protocol\<close> the abstract protocol of a create
    request and the refinement, \<open>Server_Properties\<close> the theorems: authorization is exact and fails closed,
    a tenant never reaches another one's objects, a 201 answer follows a read of a ready sandbox, a failed
    request leaves nothing behind, retries only read.
  \<^item> \<open>Sandbox_Controller\<close>: \<open>Reconcile\<close> and what it calls. \<open>Controller_Contract\<close> and \<open>Controller_Properties\<close>: a
    sandbox is reported ready only when its runner is, only its own runner and status are written, the
    created Pod is the desired one, a current runner is never deleted, and reconciling ends only when the
    sandbox is settled.
  \<^item> \<open>Ready_Store\<close>, \<open>Shared_Cluster\<close>: server and controller on one cluster. The locales \<open>ready_reader\<close> and
    \<open>ready_store\<close> state what each of them relies on and what it guarantees to the other: the addresses of a
    sandbox that is stored as ready were read on its ready runner Pod. They are interpreted on a cluster in
    memory on which reconciliations, requests of other clients and changes by the cluster are carried out,
    each as a whole, between any two calls of a handler. Two requests for one sandbox that overlap can lose
    its user data secret.
  \<^item> \<open>Go_Memory\<close>, \<open>Deep_Copy\<close>, \<open>Status_Memory\<close>: the generated deep copies over an explicit memory with slices,
    pointers and maps. The locale \<open>deep_copier\<close> is their contract; it is closed under slices, pointers and
    structs, and all generated methods have it, given that the methods of the API machinery do. The status
    updates of the controller in that memory refine those of \<open>Sandbox_Controller\<close>, which work on values.
  \<^item> \<open>Host_Os\<close>, \<open>PodVM_Runner\<close>, \<open>Runner_Proxy\<close>: the runner; the two copies of a bridged connection are a
    step relation. \<open>Runner_Contract\<close>, \<open>Runner_Properties\<close>: the Pod that the controller creates boots the
    requested machine on a host where every call succeeds, nothing is started before it is prepared, the
    readiness probe checks the right process, what the proxies deliver, and that a bridge ends.
  \<^item> \<open>Sandbox_Client\<close>, \<open>Kube_Provider\<close>: the plugin; the locale \<open>sandboxClient\<close> is the interface of the client
    that the provider relies on, interpreted on the HTTP client. \<open>Provider_Properties\<close> connects the client
    to the model of the server and proves the end-to-end behaviour of creating and deleting an instance,
    the round trip of the messages, and the limits on the user data. \<open>Plugin_Cluster\<close> puts plugin, server and
    controller together: the addresses of a created instance are those of its ready runner Pod, under every
    interleaving that \<open>Shared_Cluster\<close> admits.
  \<^item> \<open>Peer_Pod_Node\<close>, \<open>Node_Properties\<close>: the node supervisor; which processes it accounts for, in which
    order it ends them, what it removes, and the configuration it gives to kubelet.
  \<^item> \<open>Manager_Main\<close>: the flags and the start of the manager. \<open>Plugin_Main\<close>: the flags of the plugin and the
    command that loads it.

  \<^bold>\<open>Fuel.\<close> Loops that wait have fuel: the number of polls of \<open>createSandbox\<close>, of \<open>waitForPath\<close>, and of the
  attempts of \<open>startCAA\<close>. The result is then an option, \<open>None\<close> while the loop still waits; statements about
  answers hold for every amount of fuel. For \<open>createSandbox\<close> it is proved that the loop returns exactly when
  one of the polls decides, and that more fuel than needed changes nothing. The decimal exponent and the
  digits of a number (\<open>Go_Float\<close>) have fuel beyond the range of binary64. All other recursions terminate.

  \<^bold>\<open>Not modelled.\<close> Log lines of the controller and the manager; the timing of timeouts, which are events
  of a parameter; the HTTP server's handling of malformed requests before a handler runs; the
  capacity of slices; the registration of types and of watches (\<open>groupversion_info.go\<close>,
  \<open>SetupWithManager\<close>), which only calls libraries; and the grammar of \<open>url.Parse\<close>, which depends on the release
  of Go, so that it is an argument of the client's constructor.
\<close>

end
